(* ===== verification/Go_Base.thy ===== *)
theory Go_Base
  imports Main "HOL-Library.Word"
begin

text \<open>
  The prelude of the development: the parts of the Go language and of its standard library
  that the modelled packages use, as executable functions, with the lemmas the component
  theories share.

  \<^item> A Go \<open>string\<close> is a byte sequence; it is a HOL \<open>string\<close> (a list of 8-bit characters), so
    \<open>len(s)\<close> is \<open>length s\<close> and slicing is \<open>take\<close>/\<open>drop\<close>. UTF-8 text is its bytes.
  \<^item> A Go \<open>int\<close> is an \<open>int\<close>; additions that can overflow go through \<open>wrap64\<close>.
  \<^item> A \<open>time.Time\<close> is an \<open>int\<close>, the nanoseconds since the Unix epoch; a \<open>time.Duration\<close> is an
    \<open>int\<close> of nanoseconds, and \<open>Sub\<close> saturates as in Go.
  \<^item> \<open>strings.ToUpper\<close>/\<open>ToLower\<close> are exact on ASCII and on the four runes whose case image is
    ASCII; other non-ASCII bytes are left as they are (Go would map other letters among
    themselves), so a test for an ASCII keyword in the result is exact.
\<close>

named_theorems go_str \<open>evaluation of the string functions of the prelude\<close>
named_theorems handler_defs \<open>definitions of the connection handlers\<close>

section \<open>Bytes and special characters\<close>

type_synonym byte = "8 word"

abbreviation nl :: string where "nl \<equiv> [CHR 0x0A]"
abbreviation crlf :: string where "crlf \<equiv> [CHR 0x0D, CHR 0x0A]"
abbreviation tab :: string where "tab \<equiv> [CHR 0x09]"
abbreviation quot :: string where "quot \<equiv> [CHR 0x22]"
abbreviation bslash :: string where "bslash \<equiv> [CHR 0x5C]"

definition byte_of :: "char \<Rightarrow> byte" where
  "byte_of c = of_nat (of_char c)"

definition char_of_byte :: "byte \<Rightarrow> char" where
  "char_of_byte b = char_of (unat b)"

abbreviation bytes_of :: "string \<Rightarrow> byte list" where
  "bytes_of \<equiv> map byte_of"

abbreviation string_of_bytes :: "byte list \<Rightarrow> string" where
  "string_of_bytes \<equiv> map char_of_byte"

lemma unat_byte_of [simp]: "unat (byte_of c) = of_char c"
proof -
  have "(of_char c :: nat) < 256" by (rule nat_of_char_less_256)
  then show ?thesis by (simp add: byte_of_def unat_of_nat)
qed

lemma char_of_byte_of [simp]: "char_of_byte (byte_of c) = c"
  by (simp add: char_of_byte_def)

lemma byte_of_char_of_byte [simp]: "byte_of (char_of_byte b) = b"
proof -
  have "unat b < 256" using unsigned_less [of b] by simp
  then show ?thesis by (simp add: byte_of_def char_of_byte_def)
qed

lemma string_of_bytes_of [simp]: "string_of_bytes (bytes_of s) = s"
  by (simp add: comp_def)

lemma bytes_of_string_of_bytes [simp]: "bytes_of (string_of_bytes bs) = bs"
  by (simp add: comp_def)

section \<open>Integers and times\<close>

definition wrap64 :: "int \<Rightarrow> int" where
  "wrap64 x = (x + 2 ^ 63) mod 2 ^ 64 - 2 ^ 63"

lemma wrap64_range: "- (2 ^ 63) \<le> wrap64 x \<and> wrap64 x < 2 ^ 63"
proof -
  have "0 \<le> (x + 2 ^ 63) mod 2 ^ 64" "(x + 2 ^ 63) mod 2 ^ 64 < 2 ^ 64"
    by (rule pos_mod_sign pos_mod_bound; simp)+
  then show ?thesis unfolding wrap64_def by simp
qed

lemma wrap64_id: "- (2 ^ 63) \<le> x \<Longrightarrow> x < 2 ^ 63 \<Longrightarrow> wrap64 x = x"
  unfolding wrap64_def by (subst mod_pos_pos_trivial) simp_all

type_synonym time = int
type_synonym duration = int

definition nanosecond :: int where "nanosecond = 1"
definition second :: int where "second = 1000000000"
definition hour :: int where "hour = 3600 * second"

definition zero_time :: time where
  "zero_time = - 62135596800 * second"

definition is_zero_time :: "time \<Rightarrow> bool" where
  "is_zero_time t \<longleftrightarrow> t = zero_time"

definition unix_sec :: "time \<Rightarrow> int" where
  "unix_sec t = t div second"

definition time_sub :: "time \<Rightarrow> time \<Rightarrow> duration" where
  "time_sub t u = max (- (2 ^ 63)) (min (2 ^ 63 - 1) (t - u))"

lemma time_sub_gt:
  assumes "0 \<le> d" "d < 2 ^ 63 - 1"
  shows "time_sub t u > d \<longleftrightarrow> t - u > d"
  using assms by (auto simp: time_sub_def max_def min_def)

section \<open>Decimal and hexadecimal printing\<close>

definition digit :: "nat \<Rightarrow> char" where
  "digit d = char_of (48 + d)"

fun dec_nat :: "nat \<Rightarrow> string" where
  "dec_nat n = (if n < 10 then [digit n] else dec_nat (n div 10) @ [digit (n mod 10)])"

declare dec_nat.simps [simp del]

definition dec :: "int \<Rightarrow> string" where
  "dec i = (if i < 0 then ''-'' @ dec_nat (nat (- i)) else dec_nat (nat i))"

definition hex_digit_upper :: "nat \<Rightarrow> char" where
  "hex_digit_upper d = (if d < 10 then char_of (48 + d) else char_of (55 + d))"

definition hex_digit_lower :: "nat \<Rightarrow> char" where
  "hex_digit_lower d = (if d < 10 then char_of (48 + d) else char_of (87 + d))"

text \<open>The verb \<open>%02X\<close> of a byte, and \<open>hex.EncodeToString\<close>.\<close>

definition hex02 :: "byte \<Rightarrow> string" where
  "hex02 b = [hex_digit_upper (unat b div 16), hex_digit_upper (unat b mod 16)]"

definition hex_encode :: "byte list \<Rightarrow> string" where
  "hex_encode bs = concat (map (\<lambda>b. [hex_digit_lower (unat b div 16), hex_digit_lower (unat b mod 16)]) bs)"

lemma length_hex_encode [simp]: "length (hex_encode bs) = 2 * length bs"
  by (induction bs) (simp_all add: hex_encode_def)

lemma dec_nat_nonempty [simp]: "dec_nat n \<noteq> []"
  by (subst dec_nat.simps) simp

lemma dec_nonempty [simp]: "dec i \<noteq> []"
  by (simp add: dec_def)

lemma of_char_digit: "d < 10 \<Longrightarrow> of_char (digit d) = (48 + d :: nat)"
  by (simp add: digit_def)

lemma dec_nat_digits: "c \<in> set (dec_nat n) \<Longrightarrow> 48 \<le> (of_char c :: nat) \<and> (of_char c :: nat) \<le> 57"
proof (induction n rule: dec_nat.induct)
  case (1 n)
  show ?case
  proof (cases "n < 10")
    case True
    with "1.prems" have "c = digit n" by (simp add: dec_nat.simps [of n])
    with True show ?thesis by (simp add: of_char_digit)
  next
    case False
    with "1.prems" have "c \<in> set (dec_nat (n div 10)) \<or> c = digit (n mod 10)"
      by (auto simp: dec_nat.simps [of n])
    then show ?thesis
    proof
      assume "c \<in> set (dec_nat (n div 10))"
      with "1.IH" False show ?thesis by simp
    qed (simp add: of_char_digit)
  qed
qed

lemma dec_chars: "c \<in> set (dec i) \<Longrightarrow> c = CHR ''-'' \<or> 48 \<le> (of_char c :: nat) \<and> (of_char c :: nat) \<le> 57"
  by (auto simp: dec_def dest: dec_nat_digits split: if_splits)

text \<open>Printing is injective: two numbers with the same decimal text are equal.\<close>

fun undec :: "string \<Rightarrow> nat" where
  "undec s = foldl (\<lambda>n c. 10 * n + (of_char c - 48)) 0 s"

declare undec.simps [simp del]

lemma undec_dec_nat [simp]: "undec (dec_nat n) = n"
proof (induction n rule: dec_nat.induct)
  case (1 n)
  show ?case
  proof (cases "n < 10")
    case True
    then show ?thesis by (simp add: dec_nat.simps [of n] undec.simps of_char_digit)
  next
    case False
    with "1.IH" have "foldl (\<lambda>n c. 10 * n + (of_char c - 48)) 0 (dec_nat (n div 10)) = n div 10"
      by (simp add: undec.simps)
    with False show ?thesis by (simp add: dec_nat.simps [of n] undec.simps of_char_digit)
  qed
qed

lemma dec_nat_inj [simp]: "dec_nat m = dec_nat n \<longleftrightarrow> m = n"
  by (metis undec_dec_nat)

text \<open>The values of a decimal and of a hexadecimal digit.\<close>

definition dec_val :: "char \<Rightarrow> nat option" where
  "dec_val c = (let n = of_char c :: nat in if 48 \<le> n \<and> n \<le> 57 then Some (n - 48) else None)"

definition hex_val :: "char \<Rightarrow> nat option" where
  "hex_val c =
     (let n = of_char c :: nat
      in if 48 \<le> n \<and> n \<le> 57 then Some (n - 48)
         else if 97 \<le> n \<and> n \<le> 102 then Some (n - 87)
         else if 65 \<le> n \<and> n \<le> 70 then Some (n - 55) else None)"

lemma hex_digit_upper_range:
  assumes "d < 16"
  shows "of_char (hex_digit_upper d) = (if d < 10 then 48 + d else 55 + d :: nat)"
  using assms by (simp add: hex_digit_upper_def)

lemma hex_val_hex_digit_upper: "d < 16 \<Longrightarrow> hex_val (hex_digit_upper d) = Some d"
  by (simp add: hex_val_def hex_digit_upper_range Let_def)

lemma char_div_16: "(of_char c :: nat) div 16 < 16"
  by (rule less_mult_imp_div_less) (use nat_of_char_less_256 [of c] in simp)

end
