(* ===== verification/Go_Strings.thy ===== *)
theory Go_Strings
  imports Go_Base
begin

text \<open>
  The package \<open>strings\<close> and the parts of \<open>fmt\<close>, \<open>strconv\<close> and \<open>net\<close> that work on text:
  \<open>HasPrefix\<close>, \<open>HasSuffix\<close>, \<open>Contains\<close>, \<open>Index\<close>, \<open>Split\<close>, \<open>Join\<close>, \<open>Fields\<close>,
  \<open>TrimSpace\<close>, \<open>TrimRight\<close>, \<open>ReplaceAll\<close>, \<open>ToUpper\<close>, \<open>ToLower\<close>, the verb \<open>%q\<close> and
  \<open>net.SplitHostPort\<close>. White space is the Unicode set of \<open>unicode.IsSpace\<close>, recognised by
  its UTF-8 encodings.
\<close>

section \<open>Prefixes, suffixes and substrings\<close>

definition has_prefix :: "string \<Rightarrow> string \<Rightarrow> bool" where
  "has_prefix s p \<longleftrightarrow> take (length p) s = p"

definition has_suffix :: "string \<Rightarrow> string \<Rightarrow> bool" where
  "has_suffix s p \<longleftrightarrow> has_prefix (rev s) (rev p)"

fun str_contains :: "string \<Rightarrow> string \<Rightarrow> bool" where
  "str_contains [] p = (p = [])"
| "str_contains (c # s) p = (has_prefix (c # s) p \<or> str_contains s p)"

lemma has_prefix_Nil [simp, go_str]: "has_prefix s []"
  by (simp add: has_prefix_def)

lemma has_prefix_Nil_Cons [simp, go_str]: "\<not> has_prefix [] (c # p)"
  by (simp add: has_prefix_def)

lemma has_prefix_Cons [simp, go_str]: "has_prefix (c # s) (d # p) \<longleftrightarrow> c = d \<and> has_prefix s p"
  by (auto simp: has_prefix_def)

lemma has_prefix_iff: "has_prefix s p \<longleftrightarrow> (\<exists>t. s = p @ t)"
  unfolding has_prefix_def by (metis append_eq_conv_conj append_take_drop_id)

lemma has_prefix_append [simp]: "has_prefix (p @ t) p"
  by (auto simp: has_prefix_iff)

lemma has_prefixD: "has_prefix s p \<Longrightarrow> s = p @ drop (length p) s"
  by (auto simp: has_prefix_iff)

lemma str_contains_iff: "str_contains s p \<longleftrightarrow> (\<exists>u v. s = u @ p @ v)"
proof (induction s)
  case Nil
  then show ?case by simp
next
  case (Cons c s)
  show ?case
  proof
    assume "str_contains (c # s) p"
    then consider "has_prefix (c # s) p" | "str_contains s p" by auto
    then show "\<exists>u v. c # s = u @ p @ v"
    proof cases
      case 1
      then obtain t where "c # s = [] @ p @ t" by (auto simp: has_prefix_iff)
      then show ?thesis by blast
    next
      case 2
      with Cons.IH obtain u v where "s = u @ p @ v" by blast
      then have "c # s = (c # u) @ p @ v" by simp
      then show ?thesis by blast
    qed
  next
    assume "\<exists>u v. c # s = u @ p @ v"
    then obtain u v where uv: "c # s = u @ p @ v" by blast
    show "str_contains (c # s) p"
    proof (cases u)
      case Nil
      with uv have "has_prefix (c # s) p" by (auto simp: has_prefix_iff)
      then show ?thesis by simp
    next
      case (Cons d u')
      with uv have "s = u' @ p @ v" by simp
      with Cons.IH show ?thesis by auto
    qed
  qed
qed

lemma str_contains_Nil [simp]: "str_contains s []"
  by (cases s) simp_all

lemma str_contains_self_append [simp]: "str_contains (u @ p @ v) p"
  by (auto simp: str_contains_iff)

lemma str_contains_set: "str_contains s p \<Longrightarrow> set p \<subseteq> set s"
  by (auto simp: str_contains_iff)

section \<open>Split, Join, ReplaceAll\<close>

text \<open>\<open>strings.Split(s, sep)\<close> for a separator of one byte.\<close>

fun split_char :: "char \<Rightarrow> string \<Rightarrow> string list" where
  "split_char sep [] = [[]]"
| "split_char sep (c # s) =
     (if c = sep then [] # split_char sep s
      else (case split_char sep s of [] \<Rightarrow> [[c]] | p # ps \<Rightarrow> (c # p) # ps))"

fun join :: "string \<Rightarrow> string list \<Rightarrow> string" where
  "join sep [] = []"
| "join sep [p] = p"
| "join sep (p # q # ps) = p @ sep @ join sep (q # ps)"

lemma split_char_nonempty [simp]: "split_char sep s \<noteq> []"
  by (induction s) (auto split: list.splits)

lemma split_char_no_sep: "p \<in> set (split_char sep s) \<Longrightarrow> sep \<notin> set p"
  by (induction s arbitrary: p) (auto split: list.splits if_splits)

lemma split_char_none: "sep \<notin> set s \<Longrightarrow> split_char sep s = [s]"
  by (induction s) auto

lemma split_char_append: "sep \<notin> set p \<Longrightarrow> split_char sep (p @ sep # s) = p # split_char sep s"
  by (induction p) auto

lemma join_split_char: "join [sep] (split_char sep s) = s"
proof (induction s)
  case Nil
  then show ?case by simp
next
  case (Cons c s)
  obtain p ps where ps: "split_char sep s = p # ps"
    by (cases "split_char sep s") auto
  show ?case
  proof (cases "c = sep")
    case True
    with Cons.IH ps show ?thesis by simp
  next
    case False
    with Cons.IH ps show ?thesis by (cases ps) auto
  qed
qed

lemma split_char_join:
  "ps \<noteq> [] \<Longrightarrow> \<forall>p \<in> set ps. sep \<notin> set p \<Longrightarrow> split_char sep (join [sep] ps) = ps"
  by (induction "[sep]" ps rule: join.induct) (auto simp: split_char_none split_char_append)

lemma set_join: "set (join sep ps) \<subseteq> set sep \<union> \<Union> (set ` set ps)"
  by (induction sep ps rule: join.induct) auto

lemma join_Cons: "ps \<noteq> [] \<Longrightarrow> join sep (p # ps) = p @ sep @ join sep ps"
  by (cases ps) simp_all

text \<open>\<open>strings.ReplaceAll(s, old, new)\<close> for a non-empty \<open>old\<close>: left to right, no overlap.\<close>

function replace_all :: "string \<Rightarrow> string \<Rightarrow> string \<Rightarrow> string" where
  "replace_all old new [] = []"
| "replace_all old new (c # s) =
     (if old \<noteq> [] \<and> has_prefix (c # s) old
      then new @ replace_all old new (drop (length old - 1) s)
      else c # replace_all old new s)"
  by pat_completeness auto
termination
  by (relation "measure (\<lambda>(old, new, s). length s)") auto

lemma replace_all_char:
  "replace_all [a] new s = concat (map (\<lambda>c. if c = a then new else [c]) s)"
  by (induction s) auto

lemma replace_all_set: "set (replace_all old new s) \<subseteq> set s \<union> set new"
proof (induction old new s rule: replace_all.induct)
  case (2 old new c s)
  then show ?case by (auto dest: in_set_dropD)
qed simp

lemma replace_all_hd: "has_prefix (replace_all old new s) old \<Longrightarrow> hd new \<noteq> hd old
  \<Longrightarrow> new \<noteq> [] \<Longrightarrow> old \<noteq> [] \<Longrightarrow> \<not> has_prefix s old"
  by (cases s; cases old; cases new) (auto split: if_splits)

section \<open>White space\<close>

definition space_seqs :: "string list" where
  "space_seqs =
     [[CHR 0x20], [CHR 0x09], [CHR 0x0A], [CHR 0x0B], [CHR 0x0C], [CHR 0x0D],
      [CHR 0xC2, CHR 0x85], [CHR 0xC2, CHR 0xA0], [CHR 0xE1, CHR 0x9A, CHR 0x80],
      [CHR 0xE2, CHR 0x80, CHR 0x80], [CHR 0xE2, CHR 0x80, CHR 0x81], [CHR 0xE2, CHR 0x80, CHR 0x82],
      [CHR 0xE2, CHR 0x80, CHR 0x83], [CHR 0xE2, CHR 0x80, CHR 0x84], [CHR 0xE2, CHR 0x80, CHR 0x85],
      [CHR 0xE2, CHR 0x80, CHR 0x86], [CHR 0xE2, CHR 0x80, CHR 0x87], [CHR 0xE2, CHR 0x80, CHR 0x88],
      [CHR 0xE2, CHR 0x80, CHR 0x89], [CHR 0xE2, CHR 0x80, CHR 0x8A], [CHR 0xE2, CHR 0x80, CHR 0xA8],
      [CHR 0xE2, CHR 0x80, CHR 0xA9], [CHR 0xE2, CHR 0x80, CHR 0xAF], [CHR 0xE2, CHR 0x81, CHR 0x9F],
      [CHR 0xE3, CHR 0x80, CHR 0x80]]"

text \<open>The number of bytes of the white-space rune at the head of a string, 0 if there is none.\<close>

definition space_len :: "string \<Rightarrow> nat" where
  "space_len s = (case find (has_prefix s) space_seqs of None \<Rightarrow> 0 | Some q \<Rightarrow> length q)"

definition space_len_rev :: "string \<Rightarrow> nat" where
  "space_len_rev s = (case find (\<lambda>q. has_prefix s (rev q)) space_seqs of None \<Rightarrow> 0 | Some q \<Rightarrow> length q)"

fun trim_left_space :: "string \<Rightarrow> string" where
  "trim_left_space [] = []"
| "trim_left_space (c # s) =
     (let n = space_len (c # s) in if n = 0 then c # s else trim_left_space (drop (n - 1) s))"

fun trim_rev_space :: "string \<Rightarrow> string" where
  "trim_rev_space [] = []"
| "trim_rev_space (c # s) =
     (let n = space_len_rev (c # s) in if n = 0 then c # s else trim_rev_space (drop (n - 1) s))"

definition trim_space :: "string \<Rightarrow> string" where
  "trim_space s = rev (trim_rev_space (rev (trim_left_space s)))"

fun fields_from :: "string \<Rightarrow> string \<Rightarrow> string list" where
  "fields_from cur [] = (if cur = [] then [] else [rev cur])"
| "fields_from cur (c # s) =
     (let n = space_len (c # s) in
      if n = 0 then fields_from (c # cur) s
      else (if cur = [] then [] else [rev cur]) @ fields_from [] (drop (n - 1) s))"

definition str_fields :: "string \<Rightarrow> string list" where
  "str_fields s = fields_from [] s"

text \<open>A character that is neither white space nor part of a white-space rune.\<close>

definition graphic :: "char \<Rightarrow> bool" where
  "graphic c \<longleftrightarrow> 33 \<le> (of_char c :: nat) \<and> (of_char c :: nat) \<le> 126"

lemma space_seqs_graphic:
  "list_all (\<lambda>q. q \<noteq> [] \<and> \<not> graphic (hd q) \<and> \<not> graphic (last q)) space_seqs"
  by code_simp

lemma space_seqs_heads: "q \<in> set space_seqs \<Longrightarrow> \<exists>c q'. q = c # q' \<and> \<not> graphic c"
  using space_seqs_graphic by (fastforce simp: list_all_iff neq_Nil_conv)

lemma space_seqs_lasts: "q \<in> set space_seqs \<Longrightarrow> \<exists>c q'. rev q = c # q' \<and> \<not> graphic c"
proof -
  assume "q \<in> set space_seqs"
  with space_seqs_graphic have "q \<noteq> []" "\<not> graphic (last q)" by (auto simp: list_all_iff)
  then show ?thesis by (cases q rule: rev_cases) auto
qed

lemma find_None_I: "(\<And>x. x \<in> set xs \<Longrightarrow> \<not> P x) \<Longrightarrow> find P xs = None"
  by (simp add: find_None_iff)

lemma space_len_graphic [simp]: "graphic c \<Longrightarrow> space_len (c # s) = 0"
proof -
  assume c: "graphic c"
  have "find (has_prefix (c # s)) space_seqs = None"
  proof (rule find_None_I)
    fix q assume "q \<in> set space_seqs"
    from space_seqs_heads [OF this] c show "\<not> has_prefix (c # s) q" by auto
  qed
  then show ?thesis by (simp add: space_len_def)
qed

lemma space_len_rev_graphic [simp]: "graphic c \<Longrightarrow> space_len_rev (c # s) = 0"
proof -
  assume c: "graphic c"
  have "find (\<lambda>q. has_prefix (c # s) (rev q)) space_seqs = None"
  proof (rule find_None_I)
    fix q assume "q \<in> set space_seqs"
    from space_seqs_lasts [OF this] c show "\<not> has_prefix (c # s) (rev q)" by auto
  qed
  then show ?thesis by (simp add: space_len_rev_def)
qed

lemma space_len_space [simp]: "space_len (CHR 0x20 # s) = 1"
  by (simp add: space_len_def space_seqs_def)

lemma space_len_newline [simp]: "space_len (CHR 0x0A # s) = 1"
  by (simp add: space_len_def space_seqs_def)

lemma space_len_rev_space [simp]: "space_len_rev (CHR 0x20 # s) = 1"
  by (simp add: space_len_rev_def space_seqs_def)

lemma trim_space_id:
  assumes "s = [] \<or> graphic (hd s) \<and> graphic (last s)"
  shows "trim_space s = s"
proof (cases s rule: rev_cases)
  case Nil
  then show ?thesis by (simp add: trim_space_def)
next
  case (snoc t c)
  then obtain d u where du: "s = d # u" by (cases t) auto
  with assms have "trim_left_space s = s" by simp
  moreover from snoc assms have "trim_rev_space (rev s) = rev s" by simp
  ultimately show ?thesis by (simp add: trim_space_def)
qed

lemma trim_space_graphic: "\<forall>c \<in> set s. graphic c \<Longrightarrow> trim_space s = s"
  by (rule trim_space_id) (cases "s = []"; simp)

lemma fields_from_graphic:
  "\<forall>c \<in> set w. graphic c \<Longrightarrow> fields_from cur (w @ s) = fields_from (rev w @ cur) s"
  by (induction w arbitrary: cur) auto

lemma fields_word:
  assumes "\<forall>c \<in> set w. graphic c" "w \<noteq> []"
  shows "str_fields (w @ CHR 0x20 # s) = w # str_fields s"
  using assms by (simp add: str_fields_def fields_from_graphic)

lemma fields_last_word:
  assumes "\<forall>c \<in> set w. graphic c" "w \<noteq> []"
  shows "str_fields w = [w]"
  using fields_from_graphic [OF assms(1), of "[]" "[]"] assms(2) by (simp add: str_fields_def)

text \<open>A single printable word.\<close>

definition token :: "string \<Rightarrow> bool" where
  "token s \<longleftrightarrow> s \<noteq> [] \<and> (\<forall>c \<in> set s. graphic c)"

lemma token_newline: "token s \<Longrightarrow> CHR 0x0A \<notin> set s"
  by (auto simp: token_def graphic_def)

lemma token_fields:
  "token w \<Longrightarrow> str_fields (w @ CHR 0x20 # s) = w # str_fields s" "token w \<Longrightarrow> str_fields w = [w]"
  by (simp_all add: token_def fields_word fields_last_word)

text \<open>\<open>str_fields\<close> never returns an empty field; it returns no field only for blank text.\<close>

lemma fields_from_nonempty: "f \<in> set (fields_from cur s) \<Longrightarrow> f \<noteq> []"
  by (induction cur s arbitrary: f rule: fields_from.induct) (auto simp: Let_def split: if_splits)

lemma fields_nonempty: "f \<in> set (str_fields s) \<Longrightarrow> f \<noteq> []"
  unfolding str_fields_def by (rule fields_from_nonempty)

lemma fields_from_cur: "cur \<noteq> [] \<Longrightarrow> fields_from cur s \<noteq> []"
  by (induction cur s rule: fields_from.induct) (auto simp: Let_def)

text \<open>What is left after \<open>TrimSpace\<close> has a field: the index \<open>parts[0]\<close> of a trimmed line is safe.\<close>

lemma has_prefix_take: "has_prefix (take n s) p \<Longrightarrow> has_prefix s p"
  by (metis append_assoc append_take_drop_id has_prefix_iff)

lemma space_len_take: "space_len (take n s) \<noteq> 0 \<Longrightarrow> space_len s \<noteq> 0"
proof -
  assume "space_len (take n s) \<noteq> 0"
  then obtain q where "find (has_prefix (take n s)) space_seqs = Some q"
    by (auto simp: space_len_def split: option.splits)
  then have q: "q \<in> set space_seqs" "has_prefix s q"
    by (auto simp: find_Some_iff intro: has_prefix_take)
  then obtain q' where "find (has_prefix s) space_seqs = Some q'"
    by (cases "find (has_prefix s) space_seqs") (auto simp: find_None_iff)
  moreover from this have "q' \<in> set space_seqs" by (auto simp: find_Some_iff)
  ultimately show ?thesis using space_seqs_heads by (force simp: space_len_def)
qed

lemma trim_left_space_stop: "trim_left_space s = c # t \<Longrightarrow> space_len (c # t) = 0"
  by (induction s rule: trim_left_space.induct) (auto simp: Let_def split: if_splits)

lemma trim_rev_space_drop: "\<exists>n. trim_rev_space s = drop n s"
proof (induction s rule: trim_rev_space.induct)
  case 1
  then show ?case by simp
next
  case (2 c s)
  let ?n = "space_len_rev (c # s)"
  show ?case
  proof (cases "?n = 0")
    case True
    then have "trim_rev_space (c # s) = drop 0 (c # s)" by simp
    then show ?thesis by blast
  next
    case False
    with 2 obtain m where "trim_rev_space (drop (?n - 1) s) = drop m (drop (?n - 1) s)" by auto
    with False have "trim_rev_space (c # s) = drop (Suc (m + (?n - 1))) (c # s)" by (simp only: trim_rev_space.simps Let_def if_False drop_drop drop_Suc_Cons)
    then show ?thesis by blast
  qed
qed

lemma trim_space_take: "\<exists>n. trim_space s = take n (trim_left_space s)"
proof -
  obtain n where "trim_rev_space (rev (trim_left_space s)) = drop n (rev (trim_left_space s))"
    using trim_rev_space_drop by blast
  then have "trim_space s = take (length (trim_left_space s) - n) (trim_left_space s)"
    by (simp add: trim_space_def rev_drop)
  then show ?thesis by blast
qed

lemma trim_space_head: "trim_space s = c # t \<Longrightarrow> space_len (c # t) = 0"
proof -
  assume ct: "trim_space s = c # t"
  obtain n where n: "c # t = take n (trim_left_space s)"
    using trim_space_take [of s] ct by auto
  then obtain u where "trim_left_space s = c # u" by (cases "trim_left_space s"; cases n) auto
  then show ?thesis
    using trim_left_space_stop space_len_take n by metis
qed

lemma fields_trim_space:
  assumes "trim_space s \<noteq> []"
  obtains w ws where "str_fields (trim_space s) = w # ws" "w \<noteq> []"
proof -
  obtain c t where ct: "trim_space s = c # t" using assms by (cases "trim_space s") auto
  with trim_space_head have "str_fields (trim_space s) \<noteq> []"
    by (simp add: str_fields_def fields_from_cur)
  then obtain w ws where w: "str_fields (trim_space s) = w # ws" by (cases "str_fields (trim_space s)") auto
  then have "w \<noteq> []" using fields_nonempty [of w "trim_space s"] by simp
  with w show thesis by (rule that)
qed

section \<open>Case\<close>

definition upper_char :: "char \<Rightarrow> char" where
  "upper_char c = (let n = of_char c :: nat in if 97 \<le> n \<and> n \<le> 122 then char_of (n - 32) else c)"

definition lower_char :: "char \<Rightarrow> char" where
  "lower_char c = (let n = of_char c :: nat in if 65 \<le> n \<and> n \<le> 90 then char_of (n + 32) else c)"

fun to_upper :: "string \<Rightarrow> string" where
  "to_upper [] = []"
| "to_upper (c # s) =
     (if has_prefix (c # s) [CHR 0xC4, CHR 0xB1] then CHR ''I'' # to_upper (drop 1 s)
      else if has_prefix (c # s) [CHR 0xC5, CHR 0xBF] then CHR ''S'' # to_upper (drop 1 s)
      else upper_char c # to_upper s)"

fun to_lower :: "string \<Rightarrow> string" where
  "to_lower [] = []"
| "to_lower (c # s) =
     (if has_prefix (c # s) [CHR 0xE2, CHR 0x84, CHR 0xAA] then CHR ''k'' # to_lower (drop 2 s)
      else if has_prefix (c # s) [CHR 0xC4, CHR 0xB0] then CHR ''i'' # to_lower (drop 1 s)
      else lower_char c # to_lower s)"

definition ascii :: "string \<Rightarrow> bool" where
  "ascii s \<longleftrightarrow> (\<forall>c \<in> set s. (of_char c :: nat) < 128)"

lemma ascii_simps [simp]: "ascii []" "ascii (c # s) \<longleftrightarrow> (of_char c :: nat) < 128 \<and> ascii s"
  "ascii (s @ t) \<longleftrightarrow> ascii s \<and> ascii t"
  by (auto simp: ascii_def)

lemma to_upper_ascii: "ascii s \<Longrightarrow> to_upper s = map upper_char s"
  by (induction s) auto

lemma to_lower_ascii: "ascii s \<Longrightarrow> to_lower s = map lower_char s"
  by (induction s) auto

lemma to_upper_append: "ascii s \<Longrightarrow> to_upper (s @ t) = map upper_char s @ to_upper t"
  by (induction s) auto

text \<open>\<open>strings.EqualFold\<close> against an ASCII text without \<open>k\<close> and \<open>s\<close>.\<close>

definition equal_fold_ascii :: "string \<Rightarrow> string \<Rightarrow> bool" where
  "equal_fold_ascii s t \<longleftrightarrow> map lower_char s = map lower_char t"

section \<open>TrimRight, TrimPrefix, Index\<close>

definition trim_right :: "string \<Rightarrow> string \<Rightarrow> string" where
  "trim_right s cutset = rev (dropWhile (\<lambda>c. c \<in> set cutset) (rev s))"

definition trim_prefix :: "string \<Rightarrow> string \<Rightarrow> string" where
  "trim_prefix s p = (if has_prefix s p then drop (length p) s else s)"

fun index_char :: "char \<Rightarrow> string \<Rightarrow> nat option" where
  "index_char c [] = None"
| "index_char c (d # s) = (if c = d then Some 0 else map_option Suc (index_char c s))"

definition last_index_char :: "char \<Rightarrow> string \<Rightarrow> nat option" where
  "last_index_char c s = map_option (\<lambda>i. length s - 1 - i) (index_char c (rev s))"

lemma index_char_None [simp]: "index_char c s = None \<longleftrightarrow> c \<notin> set s"
  by (induction s) auto

lemma index_char_append: "c \<notin> set s \<Longrightarrow> index_char c (s @ c # t) = Some (length s)"
  by (induction s) auto

lemma last_index_char_append: "c \<notin> set t \<Longrightarrow> last_index_char c (s @ c # t) = Some (length s)"
  unfolding last_index_char_def
  using index_char_append [of c "rev t" "rev s"] by simp

lemma last_index_char_None [simp]: "last_index_char c s = None \<longleftrightarrow> c \<notin> set s"
  by (simp add: last_index_char_def)

section \<open>Quoting and addresses\<close>

text \<open>The verb \<open>%q\<close> (\<open>strconv.Quote\<close>) on ASCII text; non-ASCII bytes are kept.\<close>

definition quote_char :: "char \<Rightarrow> string" where
  "quote_char c =
     (let n = of_char c :: nat in
      if n = 34 \<or> n = 92 then [CHR 0x5C, c]
      else if n = 7 then [CHR 0x5C, CHR ''a''] else if n = 8 then [CHR 0x5C, CHR ''b'']
      else if n = 12 then [CHR 0x5C, CHR ''f''] else if n = 10 then [CHR 0x5C, CHR ''n'']
      else if n = 13 then [CHR 0x5C, CHR ''r''] else if n = 9 then [CHR 0x5C, CHR ''t'']
      else if n = 11 then [CHR 0x5C, CHR ''v'']
      else if n < 32 \<or> n = 127
        then [CHR 0x5C, CHR ''x'', hex_digit_lower (n div 16), hex_digit_lower (n mod 16)]
      else [c])"

definition quote_go :: "string \<Rightarrow> string" where
  "quote_go s = quot @ concat (map quote_char s) @ quot"

text \<open>\<open>net.SplitHostPort\<close>: \<open>None\<close> is its error.\<close>

definition SplitHostPort :: "string \<Rightarrow> (string \<times> string) option" where
  "SplitHostPort hostport =
     (case last_index_char CHR '':'' hostport of
        None \<Rightarrow> None
      | Some i \<Rightarrow>
          (if has_prefix hostport ''['' then
             (case index_char CHR '']'' hostport of
                None \<Rightarrow> None
              | Some e \<Rightarrow>
                  (if e + 1 = length hostport then None
                   else if e + 1 \<noteq> i then None
                   else if CHR ''['' \<in> set (drop 1 hostport) then None
                   else if CHR '']'' \<in> set (drop (e + 1) hostport) then None
                   else Some (drop 1 (take e hostport), drop (i + 1) hostport)))
           else
             (let host = take i hostport in
              if CHR '':'' \<in> set host then None
              else if CHR ''['' \<in> set hostport then None
              else if CHR '']'' \<in> set hostport then None
              else Some (host, drop (i + 1) hostport))))"

lemma SplitHostPort_v4:
  assumes "CHR '':'' \<notin> set h" "CHR ''['' \<notin> set h" "CHR '']'' \<notin> set h"
    "CHR '':'' \<notin> set p" "CHR ''['' \<notin> set p" "CHR '']'' \<notin> set p"
  shows "SplitHostPort (h @ CHR '':'' # p) = Some (h, p)"
proof -
  have "\<not> has_prefix (h @ CHR '':'' # p) ''[''"
    using assms(2) by (cases h) auto
  with assms show ?thesis by (simp add: SplitHostPort_def last_index_char_append)
qed

lemma SplitHostPort_v6:
  assumes "CHR ''['' \<notin> set h" "CHR '']'' \<notin> set h"
    "CHR '':'' \<notin> set p" "CHR ''['' \<notin> set p" "CHR '']'' \<notin> set p"
  shows "SplitHostPort (CHR ''['' # h @ CHR '']'' # CHR '':'' # p) = Some (h, p)"
proof -
  let ?s = "CHR ''['' # h @ CHR '']'' # CHR '':'' # p"
  have i: "last_index_char CHR '':'' ?s = Some (length h + 2)"
    using last_index_char_append [OF assms(3), of "CHR ''['' # h @ ['']'' ! 0]"] by simp
  have e: "index_char CHR '']'' ?s = Some (length h + 1)"
    using index_char_append [OF assms(2), of "CHR '':'' # p"] by simp
  have "has_prefix ?s ''[''" by simp
  then show ?thesis using assms unfolding SplitHostPort_def i e option.case by simp
qed

end
