(* ===== verification/Intel_Event.thy ===== *)
theory Intel_Event
  imports Go_Strings
begin

text \<open>
  The telemetry event of \<open>internal/intel/event.go\<close> and the ATT&CK mapper of
  \<open>internal/intel/mitre.go\<close>. The struct fields keep their names. A nil \<open>Metadata\<close> map and an
  empty one are not distinguished: reading a nil map gives the zero value, and every write of
  the modelled code is to a map it has made or checked. \<open>zero_event\<close> is the zero value of the
  struct; a Go composite literal is \<open>zero_event\<close> with the named fields updated.
\<close>

type_synonym Severity = string

definition SeverityInfo :: Severity where "SeverityInfo = ''INFO''"
definition SeverityLow :: Severity where "SeverityLow = ''LOW''"
definition SeverityMedium :: Severity where "SeverityMedium = ''MEDIUM''"
definition SeverityHigh :: Severity where "SeverityHigh = ''HIGH''"
definition SeverityCritical :: Severity where "SeverityCritical = ''CRITICAL''"

lemmas severity_defs =
  SeverityInfo_def SeverityLow_def SeverityMedium_def SeverityHigh_def SeverityCritical_def

lemma severity_distinct [simp]:
  "SeverityLow \<noteq> SeverityMedium" "SeverityLow \<noteq> SeverityHigh" "SeverityLow \<noteq> SeverityCritical"
  "SeverityMedium \<noteq> SeverityLow" "SeverityMedium \<noteq> SeverityHigh" "SeverityMedium \<noteq> SeverityCritical"
  "SeverityHigh \<noteq> SeverityLow" "SeverityHigh \<noteq> SeverityMedium" "SeverityHigh \<noteq> SeverityCritical"
  "SeverityCritical \<noteq> SeverityLow" "SeverityCritical \<noteq> SeverityMedium" "SeverityCritical \<noteq> SeverityHigh"
  by (simp_all add: severity_defs)

record MitreAttack =
  TacticID :: string
  TacticName :: string
  TechniqueID :: string
  TechniqueName :: string
  Reference :: string

record Event =
  ID :: string
  Timestamp :: time
  DecoyName :: string
  RemoteAddr :: string
  RemoteIP :: string
  RemotePort :: int
  LocalPort :: int
  Severity :: Severity
  ThreatScore :: int
  Action :: string
  Username :: string
  Password :: string
  Command :: string
  PayloadHashes :: "string list"
  Mitre :: "MitreAttack option"
  Metadata :: "string \<rightharpoonup> string"

definition zero_event :: Event where
  "zero_event =
     \<lparr>ID = [], Timestamp = zero_time, DecoyName = [], RemoteAddr = [], RemoteIP = [],
      RemotePort = 0, LocalPort = 0, Severity = [], ThreatScore = 0, Action = [],
      Username = [], Password = [], Command = [], PayloadHashes = [], Mitre = None,
      Metadata = Map.empty\<rparr>"

lemma zero_event_simps [simp]:
  "ID zero_event = []" "DecoyName zero_event = []" "RemoteIP zero_event = []"
  "RemoteAddr zero_event = []" "RemotePort zero_event = 0" "LocalPort zero_event = 0"
  "Severity zero_event = []" "ThreatScore zero_event = 0" "Action zero_event = []"
  "Username zero_event = []" "Password zero_event = []" "Command zero_event = []"
  "PayloadHashes zero_event = []" "Mitre zero_event = None" "Metadata zero_event = Map.empty"
  by (simp_all add: zero_event_def)

text \<open>A read of a string map: the zero value where the key is missing.\<close>

definition map_get :: "(string \<rightharpoonup> string) \<Rightarrow> string \<Rightarrow> string" where
  "map_get m k = (case m k of None \<Rightarrow> [] | Some v \<Rightarrow> v)"

section \<open>MapToMitre\<close>

definition mitre_brute_force :: MitreAttack where
  "mitre_brute_force =
     \<lparr>TacticID = ''TA0006'', TacticName = ''Credential Access'', TechniqueID = ''T1110'',
      TechniqueName = ''Brute Force'', Reference = ''https://attack.mitre.org/techniques/T1110/''\<rparr>"

definition mitre_execution :: MitreAttack where
  "mitre_execution =
     \<lparr>TacticID = ''TA0002'', TacticName = ''Execution'', TechniqueID = ''T1059'',
      TechniqueName = ''Command and Scripting Interpreter'',
      Reference = ''https://attack.mitre.org/techniques/T1059/''\<rparr>"

definition mitre_lateral :: MitreAttack where
  "mitre_lateral =
     \<lparr>TacticID = ''TA0008'', TacticName = ''Lateral Movement'', TechniqueID = ''T1021'',
      TechniqueName = ''Remote Services'', Reference = ''https://attack.mitre.org/techniques/T1021/''\<rparr>"

definition mitre_exploit :: MitreAttack where
  "mitre_exploit =
     \<lparr>TacticID = ''TA0001'', TacticName = ''Initial Access'', TechniqueID = ''T1190'',
      TechniqueName = ''Exploit Public-Facing Application'',
      Reference = ''https://attack.mitre.org/techniques/T1190/''\<rparr>"

definition mitre_scanning :: MitreAttack where
  "mitre_scanning =
     \<lparr>TacticID = ''TA0043'', TacticName = ''Reconnaissance'', TechniqueID = ''T1595'',
      TechniqueName = ''Active Scanning'', Reference = ''https://attack.mitre.org/techniques/T1595/''\<rparr>"

lemmas mitre_record_defs =
  mitre_brute_force_def mitre_execution_def mitre_lateral_def mitre_exploit_def mitre_scanning_def

definition MapToMitre :: "string \<Rightarrow> string \<Rightarrow> string \<Rightarrow> MitreAttack" where
  "MapToMitre decoy action command =
     (let actUpper = to_upper action; cmdUpper = to_upper command in
      if str_contains actUpper ''AUTH'' \<or> str_contains actUpper ''LOGIN''
         \<or> str_contains actUpper ''PASSWORD'' then mitre_brute_force
      else if cmdUpper \<noteq> [] \<or> str_contains actUpper ''EXEC'' \<or> str_contains actUpper ''EVAL''
         \<or> str_contains actUpper ''SHELL'' then mitre_execution
      else if decoy = ''ssh'' \<or> decoy = ''smb'' \<or> decoy = ''telnet'' then mitre_lateral
      else if decoy = ''docker'' \<or> decoy = ''k8s'' \<or> decoy = ''aws'' then mitre_exploit
      else mitre_scanning)"

text \<open>What the branches test, as two named predicates.\<close>

definition credential_action :: "string \<Rightarrow> bool" where
  "credential_action action \<longleftrightarrow>
     (\<exists>k \<in> {''AUTH'', ''LOGIN'', ''PASSWORD''}. str_contains (to_upper action) k)"

definition execution_action :: "string \<Rightarrow> string \<Rightarrow> bool" where
  "execution_action action command \<longleftrightarrow>
     command \<noteq> [] \<or> (\<exists>k \<in> {''EXEC'', ''EVAL'', ''SHELL''}. str_contains (to_upper action) k)"

lemma to_upper_Nil_iff [simp]: "to_upper s = [] \<longleftrightarrow> s = []"
  by (cases s) auto

lemma MapToMitre_alt:
  "MapToMitre decoy action command =
     (if credential_action action then mitre_brute_force
      else if execution_action action command then mitre_execution
      else if decoy \<in> {''ssh'', ''smb'', ''telnet''} then mitre_lateral
      else if decoy \<in> {''docker'', ''k8s'', ''aws''} then mitre_exploit
      else mitre_scanning)"
  by (simp add: MapToMitre_def credential_action_def execution_action_def Let_def)

lemma MapToMitre_range:
  "MapToMitre decoy action command
     \<in> {mitre_brute_force, mitre_execution, mitre_lateral, mitre_exploit, mitre_scanning}"
  by (simp add: MapToMitre_alt)

text \<open>The mapper is insensitive to the case of an ASCII action.\<close>

lemma upper_char_idem [simp]: "upper_char (upper_char c) = upper_char c"
  by (auto simp: upper_char_def Let_def)

lemma upper_char_ascii: "(of_char c :: nat) < 128 \<Longrightarrow> (of_char (upper_char c) :: nat) < 128"
  by (auto simp: upper_char_def Let_def)

lemma to_upper_idem: "ascii s \<Longrightarrow> to_upper (to_upper s) = to_upper s"
  by (simp add: to_upper_ascii ascii_def upper_char_ascii)

end
