(* ===== verification/Go_Collections.thy ===== *)
theory Go_Collections
  imports Go_Strings "HOL-Library.Multiset"
begin

text \<open>
  Maps, sorting and text columns. A Go map is a partial map; a loop over it visits the keys in an
  unspecified order, which is a parameter \<open>ks\<close> with \<open>map_order m ks\<close>, so every result about
  such a loop holds for every order. \<open>sort.SliceStable\<close> is insertion of each element before
  the first one that is not smaller.
\<close>

section \<open>Iteration orders\<close>

definition map_order :: "('k \<rightharpoonup> 'v) \<Rightarrow> 'k list \<Rightarrow> bool" where
  "map_order m ks \<longleftrightarrow> distinct ks \<and> set ks = dom m"

definition map_values :: "('k \<rightharpoonup> 'v) \<Rightarrow> 'k list \<Rightarrow> 'v list" where
  "map_values m ks = map (\<lambda>k. the (m k)) ks"

lemma map_order_finite: "map_order m ks \<Longrightarrow> finite (dom m)"
  by (metis List.finite_set map_order_def)

lemma set_map_values: "map_order m ks \<Longrightarrow> set (map_values m ks) = ran m"
  by (auto simp: map_order_def map_values_def ran_def) (metis domI image_eqI option.sel)

lemma mset_map_values_unique:
  "map_order m ks \<Longrightarrow> map_order m ks' \<Longrightarrow> mset (map_values m ks) = mset (map_values m ks')"
  unfolding map_order_def map_values_def
  by (metis mset_map set_eq_iff_mset_eq_distinct)

section \<open>Stable sorting by a strict order\<close>

fun insert_by :: "('a \<Rightarrow> 'a \<Rightarrow> bool) \<Rightarrow> 'a \<Rightarrow> 'a list \<Rightarrow> 'a list" where
  "insert_by lt x [] = [x]"
| "insert_by lt x (y # ys) = (if lt y x then y # insert_by lt x ys else x # y # ys)"

definition SliceStable :: "('a \<Rightarrow> 'a \<Rightarrow> bool) \<Rightarrow> 'a list \<Rightarrow> 'a list" where
  "SliceStable lt xs = foldr (insert_by lt) xs []"

lemma mset_insert_by [simp]: "mset (insert_by lt x ys) = add_mset x (mset ys)"
  by (induction ys) auto

lemma mset_SliceStable [simp]: "mset (SliceStable lt xs) = mset xs"
  by (induction xs) (simp_all add: SliceStable_def)

lemma set_SliceStable [simp]: "set (SliceStable lt xs) = set xs"
  by (metis mset_SliceStable set_mset_mset)

lemma length_SliceStable [simp]: "length (SliceStable lt xs) = length xs"
  by (metis mset_SliceStable size_mset)

text \<open>
  A comparison function as the sort functions expect it: \<open>lt\<close> is a strict weak order. The
  locale states that contract; the clients of the sort give their comparison.
\<close>

locale sort_less =
  fixes lt :: "'a \<Rightarrow> 'a \<Rightarrow> bool"
  assumes less_asym: "lt x y \<Longrightarrow> \<not> lt y x"
    and not_less_trans: "\<not> lt y x \<Longrightarrow> \<not> lt z y \<Longrightarrow> \<not> lt z x"
begin

lemma sorted_insert_by:
  "sorted_wrt (\<lambda>a b. \<not> lt b a) ys \<Longrightarrow> sorted_wrt (\<lambda>a b. \<not> lt b a) (insert_by lt x ys)"
proof (induction ys)
  case (Cons y ys)
  have "set (insert_by lt x ys) = insert x (set ys)"
    by (metis mset_insert_by set_mset_add_mset_insert set_mset_mset)
  with Cons show ?case
    by (auto dest: less_asym not_less_trans)
qed simp

lemma sorted_SliceStable: "sorted_wrt (\<lambda>a b. \<not> lt b a) (SliceStable lt xs)"
  unfolding SliceStable_def by (induction xs) (simp_all add: sorted_insert_by)

lemma filter_insert_by:
  assumes "\<And>y. Q y \<Longrightarrow> \<not> lt y x"
  shows "filter Q (insert_by lt x ys) = (if Q x then x # filter Q ys else filter Q ys)"
  using assms by (induction ys) auto

text \<open>Elements that are equivalent to a given one keep their relative order.\<close>

lemma stable_SliceStable:
  "filter (\<lambda>y. \<not> lt y x \<and> \<not> lt x y) (SliceStable lt xs)
     = filter (\<lambda>y. \<not> lt y x \<and> \<not> lt x y) xs"
proof (induction xs)
  case (Cons z zs)
  let ?Q = "\<lambda>y. \<not> lt y x \<and> \<not> lt x y"
  have step: "filter ?Q (insert_by lt z ys) = (if ?Q z then z # filter ?Q ys else filter ?Q ys)" for ys
  proof (cases "?Q z")
    case True
    then show ?thesis by (intro filter_insert_by) (blast dest: not_less_trans)
  next
    case False
    then show ?thesis by (induction ys) auto
  qed
  show ?case using Cons.IH step [of "SliceStable lt zs"] by (simp add: SliceStable_def)
qed (simp add: SliceStable_def)

end

section \<open>Sets kept as slices\<close>

text \<open>First occurrences, in order; the result of appending each new value once.\<close>

definition first_occs :: "'a list \<Rightarrow> 'a list" where
  "first_occs xs = rev (remdups (rev xs))"

lemma first_occs_Nil [simp]: "first_occs [] = []"
  by (simp add: first_occs_def)

lemma first_occs_snoc [simp]:
  "first_occs (xs @ [x]) = (if x \<in> set xs then first_occs xs else first_occs xs @ [x])"
  by (simp add: first_occs_def)

lemma set_first_occs [simp]: "set (first_occs xs) = set xs"
  by (simp add: first_occs_def)

lemma distinct_first_occs [simp]: "distinct (first_occs xs)"
  by (simp add: first_occs_def)

lemma first_occs_nonempty [simp]: "first_occs xs = [] \<longleftrightarrow> xs = []"
  by (simp add: first_occs_def)

text \<open>Collapsing equal neighbours, one element at a time.\<close>

lemma remdups_adj_last: "xs \<noteq> [] \<Longrightarrow> last (remdups_adj xs) = last xs"
  by (induction xs rule: remdups_adj.induct) auto

lemma remdups_adj_snoc:
  "remdups_adj (xs @ [x]) =
     (if xs \<noteq> [] \<and> last xs = x then remdups_adj xs else remdups_adj xs @ [x])"
  by (induction xs rule: remdups_adj.induct) auto

section \<open>Columns and durations\<close>

text \<open>\<open>%-ns\<close>: pad on the right to \<open>n\<close> runes (a rune is a byte that continues no other).\<close>

definition rune_count :: "string \<Rightarrow> nat" where
  "rune_count s = length (filter (\<lambda>c. \<not> (128 \<le> (of_char c :: nat) \<and> (of_char c :: nat) < 192)) s)"

definition pad_right :: "nat \<Rightarrow> string \<Rightarrow> string" where
  "pad_right n s = s @ replicate (n - rune_count s) CHR '' ''"

text \<open>\<open>%0nd\<close>-style digits and \<open>time.Duration.String\<close>.\<close>

fun digits_fixed :: "nat \<Rightarrow> nat \<Rightarrow> string" where
  "digits_fixed 0 v = []"
| "digits_fixed (Suc n) v = digits_fixed n (v div 10) @ [digit (v mod 10)]"

definition frac_string :: "nat \<Rightarrow> nat \<Rightarrow> string" where
  "frac_string prec v =
     (let ds = trim_right (digits_fixed prec v) ''0'' in if ds = [] then [] else ''.'' @ ds)"

definition duration_string :: "duration \<Rightarrow> string" where
  "duration_string d =
     (let u = nat \<bar>d\<bar>; sign = (if d < 0 then ''-'' else [])
      in if u = 0 then ''0s''
         else if u < 1000 then sign @ dec_nat u @ ''ns''
         else if u < 1000000 then sign @ dec_nat (u div 1000) @ frac_string 3 u @ [CHR 0xC2, CHR 0xB5, CHR ''s'']
         else if u < 1000000000 then sign @ dec_nat (u div 1000000) @ frac_string 6 u @ ''ms''
         else (let s = u div 1000000000; m = s div 60; h = m div 60
               in sign @ (if h > 0 then dec_nat h @ ''h'' else [])
                  @ (if m > 0 then dec_nat (m mod 60) @ ''m'' else [])
                  @ dec_nat (s mod 60) @ frac_string 9 u @ ''s''))"

end
