(* ===== verification/Correlator.thy ===== *)
theory Correlator
  imports Intel_Event Go_Collections
begin

text \<open>
  The campaign correlator of \<open>internal/intel/correlator.go\<close>: campaigns keyed by source IP, a
  sliding session window, hop paths and pruning. \<open>Ingest\<close> is split where the code is: the
  lookup with expiry (lines 57-79), and the update of the campaign (lines 81-131).

  The specification is \<open>session_of\<close>: the events of one IP since the last gap longer than the
  window. \<open>campaign_refines\<close> says that the stored campaign is the summary of that list.
\<close>

record Campaign =
  CampID :: string
  AttackerIP :: string
  FirstSeen :: time
  LastSeen :: time
  DecoysTargeted :: "string list"
  HopPath :: "string list"
  EventIDs :: "string list"
  Actions :: "string list"
  TotalEvents :: int
  MaxThreatScore :: int
  MitreTacticIDs :: "string list"
  TechniqueIDs :: "string list"
  UsernamesUsed :: "string list"
  CommandsRun :: "string list"
  Grouping :: "string list"
  CampMetadata :: "string \<rightharpoonup> string"

record Correlator =
  campaigns :: "string \<rightharpoonup> Campaign"
  sessionWindow :: duration

definition NewCorrelator :: "duration \<Rightarrow> Correlator" where
  "NewCorrelator window =
     \<lparr>campaigns = Map.empty, sessionWindow = (if window \<le> 0 then 2 * hour else window)\<rparr>"

fun slice_contains :: "string list \<Rightarrow> string \<Rightarrow> bool" where
  "slice_contains [] val = False"
| "slice_contains (item # items) val = (item = val \<or> slice_contains items val)"

lemma slice_contains_set [simp]: "slice_contains xs v \<longleftrightarrow> v \<in> set xs"
  by (induction xs) auto

definition append_new :: "string list \<Rightarrow> string \<Rightarrow> string list" where
  "append_new xs v = (if v \<noteq> [] \<and> \<not> slice_contains xs v then xs @ [v] else xs)"

section \<open>Ingest\<close>

definition new_campaign :: "Event \<Rightarrow> Campaign" where
  "new_campaign ev =
     \<lparr>CampID = ''camp-'' @ RemoteIP ev @ ''-'' @ dec (unix_sec (Timestamp ev)),
      AttackerIP = RemoteIP ev, FirstSeen = Timestamp ev, LastSeen = Timestamp ev,
      DecoysTargeted = [], HopPath = [], EventIDs = [], Actions = [], TotalEvents = 0,
      MaxThreatScore = 0, MitreTacticIDs = [], TechniqueIDs = [], UsernamesUsed = [],
      CommandsRun = [], Grouping = [''same_src_ip'', ''session_window''], CampMetadata = Map.empty\<rparr>"

definition camp_expired :: "duration \<Rightarrow> Campaign \<Rightarrow> Event \<Rightarrow> bool" where
  "camp_expired window camp ev \<longleftrightarrow>
     \<not> is_zero_time (LastSeen camp) \<and> time_sub (Timestamp ev) (LastSeen camp) > window"

definition camp_touch :: "Campaign \<Rightarrow> Event \<Rightarrow> Campaign" where
  "camp_touch camp ev =
     camp\<lparr>LastSeen := Timestamp ev, TotalEvents := wrap64 (TotalEvents camp + 1),
          MaxThreatScore := (if ThreatScore ev > MaxThreatScore camp then ThreatScore ev
                             else MaxThreatScore camp)\<rparr>"

definition camp_decoy :: "Campaign \<Rightarrow> string \<Rightarrow> Campaign" where
  "camp_decoy camp d =
     (if d \<noteq> [] then
        (let camp =
           (if \<not> slice_contains (DecoysTargeted camp) d then
              (let camp = camp\<lparr>DecoysTargeted := DecoysTargeted camp @ [d]\<rparr>
               in if length (DecoysTargeted camp) > 1 \<and> \<not> slice_contains (Grouping camp) ''decoy_hop''
                  then camp\<lparr>Grouping := Grouping camp @ [''decoy_hop'']\<rparr> else camp)
            else camp)
         in if HopPath camp = [] \<or> last (HopPath camp) \<noteq> d
            then camp\<lparr>HopPath := HopPath camp @ [d]\<rparr> else camp)
      else camp)"

definition camp_rolls :: "Campaign \<Rightarrow> Event \<Rightarrow> Campaign" where
  "camp_rolls camp ev =
     camp\<lparr>EventIDs := append_new (EventIDs camp) (ID ev),
          Actions := append_new (Actions camp) (Action ev),
          MitreTacticIDs :=
            (case Mitre ev of None \<Rightarrow> MitreTacticIDs camp
             | Some m \<Rightarrow> append_new (MitreTacticIDs camp) (TacticID m)),
          TechniqueIDs :=
            (case Mitre ev of None \<Rightarrow> TechniqueIDs camp
             | Some m \<Rightarrow> append_new (TechniqueIDs camp) (TechniqueID m)),
          UsernamesUsed := append_new (UsernamesUsed camp) (Username ev),
          CommandsRun := append_new (CommandsRun camp) (Command ev)\<rparr>"

definition grouping_note :: string where
  "grouping_note = ''rule-based: same src IP + sliding time window + decoy hop path (not ML)''"

definition camp_meta :: "duration \<Rightarrow> Campaign \<Rightarrow> Event \<Rightarrow> Campaign" where
  "camp_meta window camp ev =
     camp\<lparr>CampMetadata :=
       (CampMetadata camp ++ Metadata ev)
         (''session_window'' \<mapsto> duration_string window,
          ''hop_count'' \<mapsto> dec (int (length (HopPath camp))),
          ''unique_decoys'' \<mapsto> dec (int (length (DecoysTargeted camp))),
          ''grouping_note'' \<mapsto> grouping_note)\<rparr>"

definition camp_update :: "duration \<Rightarrow> Campaign \<Rightarrow> Event \<Rightarrow> Campaign" where
  "camp_update window camp ev =
     camp_meta window (camp_rolls (camp_decoy (camp_touch camp ev) (DecoyName ev)) ev) ev"

definition Ingest :: "Correlator \<Rightarrow> Event \<Rightarrow> Correlator \<times> Campaign" where
  "Ingest c ev =
     (let camp =
        (case campaigns c (RemoteIP ev) of
           None \<Rightarrow> new_campaign ev
         | Some camp \<Rightarrow> if camp_expired (sessionWindow c) camp ev then new_campaign ev else camp);
          camp = camp_update (sessionWindow c) camp ev
      in (c\<lparr>campaigns := (campaigns c)(RemoteIP ev \<mapsto> camp)\<rparr>, camp))"

fun ingest_all :: "Correlator \<Rightarrow> Event list \<Rightarrow> Correlator" where
  "ingest_all c [] = c"
| "ingest_all c (ev # evs) = ingest_all (fst (Ingest c ev)) evs"

section \<open>Queries and pruning\<close>

definition CampaignByIP :: "Correlator \<Rightarrow> string \<Rightarrow> Campaign option" where
  "CampaignByIP c ip = campaigns c ip"

definition ActiveCampaigns :: "Correlator \<Rightarrow> string list \<Rightarrow> Campaign list" where
  "ActiveCampaigns c ks = map_values (campaigns c) ks"

definition camp_before :: "Campaign \<Rightarrow> Campaign \<Rightarrow> bool" where
  "camp_before a b \<longleftrightarrow>
     (if MaxThreatScore a = MaxThreatScore b then LastSeen a > LastSeen b
      else MaxThreatScore a > MaxThreatScore b)"

definition ActiveCampaignsSorted :: "Correlator \<Rightarrow> string list \<Rightarrow> Campaign list" where
  "ActiveCampaignsSorted c ks = SliceStable camp_before (ActiveCampaigns c ks)"

fun prune_from :: "Correlator \<Rightarrow> time \<Rightarrow> string list \<Rightarrow> nat \<Rightarrow> Correlator \<times> nat" where
  "prune_from c now [] removed = (c, removed)"
| "prune_from c now (ip # ks) removed =
     (case campaigns c ip of
        None \<Rightarrow> prune_from c now ks removed
      | Some camp \<Rightarrow>
          (if time_sub now (LastSeen camp) > sessionWindow c
           then prune_from (c\<lparr>campaigns := (campaigns c)(ip := None)\<rparr>) now ks (Suc removed)
           else prune_from c now ks removed))"

definition PruneExpired :: "Correlator \<Rightarrow> time \<Rightarrow> string list \<Rightarrow> Correlator \<times> nat" where
  "PruneExpired c now ks = prune_from c now ks 0"

definition truncate_str :: "string \<Rightarrow> int \<Rightarrow> string" where
  "truncate_str s n =
     (if n \<le> 0 \<or> int (length s) \<le> n then s
      else if n \<le> 3 then take (nat n) s
      else take (nat (n - 3)) s @ ''...'')"

definition camp_hops :: "Campaign \<Rightarrow> string" where
  "camp_hops camp =
     (let hops = join ''->'' (HopPath camp)
      in if hops = [] then join '','' (DecoysTargeted camp) else hops)"

definition camp_tech :: "Campaign \<Rightarrow> string" where
  "camp_tech camp = (let tech = join '','' (TechniqueIDs camp) in if tech = [] then ''-'' else tech)"

definition SummaryLine :: "Campaign \<Rightarrow> string" where
  "SummaryLine camp =
     pad_right 18 (AttackerIP camp) @ '' evts='' @ pad_right 4 (dec (TotalEvents camp))
     @ '' max='' @ pad_right 3 (dec (MaxThreatScore camp))
     @ '' decoys='' @ pad_right 2 (dec (int (length (DecoysTargeted camp))))
     @ '' hops='' @ pad_right 24 (truncate_str (camp_hops camp) 24)
     @ '' tech='' @ camp_tech camp @ '' id='' @ CampID camp"

definition camp_row :: "Campaign \<Rightarrow> string" where
  "camp_row c =
     pad_right 18 (AttackerIP c) @ '' '' @ pad_right 5 (dec (TotalEvents c)) @ '' ''
     @ pad_right 6 (dec (MaxThreatScore c)) @ '' ''
     @ pad_right 7 (dec (int (length (DecoysTargeted c)))) @ '' ''
     @ pad_right 24 (truncate_str (camp_hops c) 24) @ '' ''
     @ pad_right 20 (truncate_str (camp_tech c) 20) @ '' '' @ CampID c @ nl"

definition FormatCampaignsTable :: "Campaign list \<Rightarrow> string" where
  "FormatCampaignsTable camps =
     pad_right 18 ''ATTACKER_IP'' @ '' '' @ pad_right 5 ''EVTS'' @ '' '' @ pad_right 6 ''MAXSCR''
     @ '' '' @ pad_right 7 ''DECOYS'' @ '' '' @ pad_right 24 ''HOP_PATH'' @ '' ''
     @ pad_right 20 ''TECHNIQUES'' @ '' '' @ ''CAMPAIGN_ID'' @ nl
     @ replicate 110 CHR ''-'' @ nl
     @ (if camps = [] then ''(no active campaigns - ingest events via the mesh / pipeline)'' @ nl
        else concat (map camp_row camps) @ nl
          @ ''# Grouping: same source IP + sliding session window + decoy hop path (rule-based, not ML).'' @ nl)"

section \<open>The invariant of a campaign\<close>

definition camp_inv :: "Campaign \<Rightarrow> bool" where
  "camp_inv camp \<longleftrightarrow>
     distinct (DecoysTargeted camp) \<and> [] \<notin> set (DecoysTargeted camp)
   \<and> set (HopPath camp) = set (DecoysTargeted camp) \<and> successively (\<noteq>) (HopPath camp)
   \<and> (''decoy_hop'' \<in> set (Grouping camp) \<longleftrightarrow> 1 < length (DecoysTargeted camp))
   \<and> distinct (Grouping camp) \<and> {''same_src_ip'', ''session_window''} \<subseteq> set (Grouping camp)
   \<and> distinct (EventIDs camp) \<and> distinct (Actions camp) \<and> distinct (MitreTacticIDs camp)
   \<and> distinct (TechniqueIDs camp) \<and> distinct (UsernamesUsed camp) \<and> distinct (CommandsRun camp)
   \<and> 0 \<le> MaxThreatScore camp"

definition corr_inv :: "Correlator \<Rightarrow> bool" where
  "corr_inv c \<longleftrightarrow>
     0 < sessionWindow c
   \<and> (\<forall>ip camp. campaigns c ip = Some camp \<longrightarrow> AttackerIP camp = ip \<and> camp_inv camp)"

named_theorems camp_defs \<open>the stages of the campaign update\<close>

lemmas camp_stage_defs [camp_defs] =
  camp_update_def camp_touch_def camp_decoy_def camp_rolls_def camp_meta_def append_new_def

lemma successively_snoc:
  "successively P (xs @ [x]) \<longleftrightarrow> successively P xs \<and> (xs = [] \<or> P (last xs) x)"
  by (induction xs rule: induct_list012) auto

lemma camp_inv_new: "camp_inv (new_campaign ev)"
  by (simp add: camp_inv_def new_campaign_def)

lemma camp_inv_touch: "camp_inv camp \<Longrightarrow> camp_inv (camp_touch camp ev)"
  by (simp add: camp_inv_def camp_touch_def)

lemma distinct_append_new: "distinct xs \<Longrightarrow> distinct (append_new xs v)"
  by (simp add: append_new_def)

lemma camp_inv_rolls: "camp_inv camp \<Longrightarrow> camp_inv (camp_rolls camp ev)"
  by (auto simp: camp_inv_def camp_rolls_def distinct_append_new split: option.splits)

lemma camp_inv_meta: "camp_inv camp \<Longrightarrow> camp_inv (camp_meta w camp ev)"
  by (simp add: camp_inv_def camp_meta_def)

lemma camp_decoy_frame [simp]:
  "AttackerIP (camp_decoy c d) = AttackerIP c" "CampID (camp_decoy c d) = CampID c"
  "FirstSeen (camp_decoy c d) = FirstSeen c" "LastSeen (camp_decoy c d) = LastSeen c"
  "TotalEvents (camp_decoy c d) = TotalEvents c" "MaxThreatScore (camp_decoy c d) = MaxThreatScore c"
  "EventIDs (camp_decoy c d) = EventIDs c" "Actions (camp_decoy c d) = Actions c"
  "MitreTacticIDs (camp_decoy c d) = MitreTacticIDs c" "TechniqueIDs (camp_decoy c d) = TechniqueIDs c"
  "UsernamesUsed (camp_decoy c d) = UsernamesUsed c" "CommandsRun (camp_decoy c d) = CommandsRun c"
  "CampMetadata (camp_decoy c d) = CampMetadata c"
  by (simp_all add: camp_decoy_def Let_def)

lemma camp_decoy_lists [simp]:
  "DecoysTargeted (camp_decoy c d) = append_new (DecoysTargeted c) d"
  "HopPath (camp_decoy c d) =
     (if d \<noteq> [] \<and> (HopPath c = [] \<or> last (HopPath c) \<noteq> d) then HopPath c @ [d] else HopPath c)"
  by (simp_all add: camp_decoy_def Let_def append_new_def)

lemma camp_decoy_grouping:
  "Grouping (camp_decoy c d) =
     (if d \<noteq> [] \<and> d \<notin> set (DecoysTargeted c) \<and> DecoysTargeted c \<noteq> [] \<and> ''decoy_hop'' \<notin> set (Grouping c)
      then Grouping c @ [''decoy_hop''] else Grouping c)"
  by (simp add: camp_decoy_def Let_def)

lemma camp_inv_decoy:
  assumes inv: "camp_inv camp"
  shows "camp_inv (camp_decoy camp d)"
proof (cases "d = [] \<or> d \<in> set (DecoysTargeted camp)")
  case True
  then have "Grouping (camp_decoy camp d) = Grouping camp"
    "DecoysTargeted (camp_decoy camp d) = DecoysTargeted camp"
    by (auto simp: camp_decoy_grouping append_new_def)
  moreover from True inv have "set (HopPath (camp_decoy camp d)) = set (DecoysTargeted camp)"
    by (auto simp: camp_inv_def)
  moreover from inv have "successively (\<noteq>) (HopPath (camp_decoy camp d))"
    by (auto simp: camp_inv_def successively_snoc)
  ultimately show ?thesis using inv by (simp add: camp_inv_def)
next
  case False
  then have dec: "DecoysTargeted (camp_decoy camp d) = DecoysTargeted camp @ [d]"
    by (simp add: append_new_def)
  from False inv have "d \<notin> set (HopPath camp)" by (simp add: camp_inv_def)
  then have "HopPath camp = [] \<or> last (HopPath camp) \<noteq> d" by (cases "HopPath camp = []") auto
  with False have hop: "HopPath (camp_decoy camp d) = HopPath camp @ [d]" by simp
  from inv have hops: "successively (\<noteq>) (HopPath camp @ [d])"
    using \<open>HopPath camp = [] \<or> last (HopPath camp) \<noteq> d\<close> by (simp add: camp_inv_def successively_snoc)
  have grp: "(''decoy_hop'' \<in> set (Grouping (camp_decoy camp d)) \<longleftrightarrow> 1 < length (DecoysTargeted camp @ [d]))
      \<and> distinct (Grouping (camp_decoy camp d)) \<and> set (Grouping camp) \<subseteq> set (Grouping (camp_decoy camp d))"
    using False inv by (cases "DecoysTargeted camp") (auto simp: camp_decoy_grouping camp_inv_def)
  show ?thesis using inv False hops grp unfolding camp_inv_def dec hop camp_decoy_frame by auto
qed

lemma camp_inv_update: "camp_inv camp \<Longrightarrow> camp_inv (camp_update w camp ev)"
  by (simp add: camp_update_def camp_inv_touch camp_inv_decoy camp_inv_rolls camp_inv_meta)

lemma camp_update_simps [simp]:
  "AttackerIP (camp_update w c ev) = AttackerIP c"
  "CampID (camp_update w c ev) = CampID c"
  "FirstSeen (camp_update w c ev) = FirstSeen c"
  "LastSeen (camp_update w c ev) = Timestamp ev"
  "TotalEvents (camp_update w c ev) = wrap64 (TotalEvents c + 1)"
  "MaxThreatScore (camp_update w c ev) = max (MaxThreatScore c) (ThreatScore ev)"
  "DecoysTargeted (camp_update w c ev) = append_new (DecoysTargeted c) (DecoyName ev)"
  "HopPath (camp_update w c ev) =
     (if DecoyName ev \<noteq> [] \<and> (HopPath c = [] \<or> last (HopPath c) \<noteq> DecoyName ev)
      then HopPath c @ [DecoyName ev] else HopPath c)"
  "EventIDs (camp_update w c ev) = append_new (EventIDs c) (ID ev)"
  "Actions (camp_update w c ev) = append_new (Actions c) (Action ev)"
  "UsernamesUsed (camp_update w c ev) = append_new (UsernamesUsed c) (Username ev)"
  "CommandsRun (camp_update w c ev) = append_new (CommandsRun c) (Command ev)"
  by (simp_all add: camp_update_def camp_touch_def camp_rolls_def camp_meta_def)

text \<open>The camp an event goes to: a fresh one, or the stored one if its window is still open.\<close>

lemma Ingest_campaigns:
  "campaigns (fst (Ingest c ev)) =
     (campaigns c)(RemoteIP ev \<mapsto> camp_update (sessionWindow c)
        (case campaigns c (RemoteIP ev) of
           None \<Rightarrow> new_campaign ev
         | Some camp \<Rightarrow> if camp_expired (sessionWindow c) camp ev then new_campaign ev else camp) ev)"
  by (simp add: Ingest_def Let_def)

lemma Ingest_window [simp]: "sessionWindow (fst (Ingest c ev)) = sessionWindow c"
  by (simp add: Ingest_def Let_def)

lemma ingest_all_window [simp]: "sessionWindow (ingest_all c evs) = sessionWindow c"
  by (induction evs arbitrary: c) simp_all

lemma ingest_all_append: "ingest_all c (xs @ ys) = ingest_all (ingest_all c xs) ys"
  by (induction xs arbitrary: c) simp_all

lemma new_campaign_ip [simp]: "AttackerIP (new_campaign ev) = RemoteIP ev"
  by (simp add: new_campaign_def)

lemma corr_inv_new: "corr_inv (NewCorrelator w)"
  by (simp add: corr_inv_def NewCorrelator_def hour_def second_def)

lemma corr_inv_Ingest: "corr_inv c \<Longrightarrow> corr_inv (fst (Ingest c ev))"
  unfolding corr_inv_def Ingest_campaigns
  by (auto simp: camp_inv_update camp_inv_new split: option.splits)

lemma corr_inv_ingest_all: "corr_inv c \<Longrightarrow> corr_inv (ingest_all c evs)"
  by (induction evs arbitrary: c) (simp_all add: corr_inv_Ingest)

section \<open>The specification: sessions\<close>

text \<open>
  The open session of an IP after a sequence of events: an event that comes more than a window
  after the previous one of the same IP starts a new session.
\<close>

definition session_gap :: "duration \<Rightarrow> Event list \<Rightarrow> Event \<Rightarrow> bool" where
  "session_gap w sess ev \<longleftrightarrow>
     sess = [] \<or> (\<not> is_zero_time (Timestamp (last sess))
                  \<and> time_sub (Timestamp ev) (Timestamp (last sess)) > w)"

definition session_step :: "duration \<Rightarrow> string \<Rightarrow> Event list \<Rightarrow> Event \<Rightarrow> Event list" where
  "session_step w ip sess ev =
     (if RemoteIP ev \<noteq> ip then sess else if session_gap w sess ev then [ev] else sess @ [ev])"

definition session_of :: "duration \<Rightarrow> string \<Rightarrow> Event list \<Rightarrow> Event list" where
  "session_of w ip evs = foldl (session_step w ip) [] evs"

lemma session_of_snoc: "session_of w ip (evs @ [ev]) = session_step w ip (session_of w ip evs) ev"
  by (simp add: session_of_def)

definition nonempty_of :: "(Event \<Rightarrow> string) \<Rightarrow> Event list \<Rightarrow> string list" where
  "nonempty_of f evs = filter (\<lambda>v. v \<noteq> []) (map f evs)"

lemma nonempty_of_snoc [simp]:
  "nonempty_of f (evs @ [ev]) = nonempty_of f evs @ (if f ev = [] then [] else [f ev])"
  "nonempty_of f [] = []"
  by (simp_all add: nonempty_of_def)

definition summarises :: "Campaign \<Rightarrow> Event list \<Rightarrow> bool" where
  "summarises camp sess \<longleftrightarrow> sess \<noteq> []
   \<and> CampID camp = ''camp-'' @ RemoteIP (hd sess) @ ''-'' @ dec (unix_sec (Timestamp (hd sess)))
   \<and> AttackerIP camp = RemoteIP (hd sess)
   \<and> FirstSeen camp = Timestamp (hd sess) \<and> LastSeen camp = Timestamp (last sess)
   \<and> TotalEvents camp = wrap64 (int (length sess))
   \<and> MaxThreatScore camp = foldl max 0 (map ThreatScore sess)
   \<and> DecoysTargeted camp = first_occs (nonempty_of DecoyName sess)
   \<and> HopPath camp = remdups_adj (nonempty_of DecoyName sess)
   \<and> EventIDs camp = first_occs (nonempty_of ID sess)
   \<and> Actions camp = first_occs (nonempty_of Action sess)
   \<and> UsernamesUsed camp = first_occs (nonempty_of Username sess)
   \<and> CommandsRun camp = first_occs (nonempty_of Command sess)"

lemma append_new_first_occs:
  "append_new (first_occs (nonempty_of f evs)) (f ev) = first_occs (nonempty_of f (evs @ [ev]))"
  by (simp add: append_new_def)

lemma wrap64_Suc: "wrap64 (wrap64 x + 1) = wrap64 (x + 1)"
  unfolding wrap64_def by (simp add: mod_simps algebra_simps)

lemma summarises_new: "summarises (camp_update w (new_campaign ev) ev) [ev]"
  by (simp add: summarises_def new_campaign_def append_new_def nonempty_of_def first_occs_def)

lemma summarises_snoc:
  assumes "summarises camp sess"
  shows "summarises (camp_update w camp ev) (sess @ [ev])"
proof -
  have "wrap64 (wrap64 (int (length sess)) + 1) = wrap64 (int (length (sess @ [ev])))"
    using wrap64_Suc [of "int (length sess)"] by (simp add: add.commute)
  moreover have "(if DecoyName ev \<noteq> [] \<and> (nonempty_of DecoyName sess = []
        \<or> last (nonempty_of DecoyName sess) \<noteq> DecoyName ev)
      then remdups_adj (nonempty_of DecoyName sess) @ [DecoyName ev]
      else remdups_adj (nonempty_of DecoyName sess))
    = remdups_adj (nonempty_of DecoyName (sess @ [ev]))"
    by (simp add: remdups_adj_snoc)
  ultimately show ?thesis
    using assms unfolding summarises_def camp_update_simps
    by (auto simp: append_new_first_occs remdups_adj_last remdups_adj_snoc simp del: nonempty_of_snoc(1))
qed

lemma expired_iff_gap:
  "summarises camp sess \<Longrightarrow> camp_expired w camp ev \<longleftrightarrow> session_gap w sess ev"
  by (simp add: summarises_def camp_expired_def session_gap_def)

lemma session_of_ip: "ev \<in> set (session_of w ip evs) \<Longrightarrow> RemoteIP ev = ip"
  by (induction evs arbitrary: ev rule: rev_induct)
     (auto simp: session_of_snoc session_step_def session_of_def split: if_splits)

text \<open>
  C5: The correlator refines its specification. After any sequence of events the campaign stored
  for an IP is exactly the summary of that IP's open session (the events since the last gap longer
  than the window): same start and end, same count and maximal score, every roll in order of first
  occurrence, and the hop path with consecutive repeats collapsed. An IP without events has none.
\<close>

theorem correlator_refines_sessions:
  "case campaigns (ingest_all (NewCorrelator w) evs) ip of
     None \<Rightarrow> session_of (sessionWindow (NewCorrelator w)) ip evs = []
   | Some camp \<Rightarrow> summarises camp (session_of (sessionWindow (NewCorrelator w)) ip evs)"
proof (induction evs rule: rev_induct)
  case Nil
  then show ?case by (simp add: NewCorrelator_def session_of_def)
next
  case (snoc ev evs)
  let ?c = "ingest_all (NewCorrelator w) evs" and ?w = "sessionWindow (NewCorrelator w)"
  show ?case
  proof (cases "RemoteIP ev = ip")
    case False
    with snoc show ?thesis
      by (simp add: ingest_all_append Ingest_campaigns session_of_snoc session_step_def split: option.splits)
  next
    case True
    show ?thesis
    proof (cases "campaigns ?c ip")
      case None
      with snoc have "session_of ?w ip evs = []" by simp
      with None True show ?thesis
        by (simp add: ingest_all_append Ingest_campaigns session_of_snoc session_step_def
            session_gap_def summarises_new)
    next
      case (Some camp)
      with snoc have sum: "summarises camp (session_of ?w ip evs)" by simp
      show ?thesis using Some True expired_iff_gap [OF sum] summarises_snoc [OF sum]
        by (simp add: ingest_all_append Ingest_campaigns session_of_snoc session_step_def summarises_new)
    qed
  qed
qed

text \<open>
  Every reachable correlator keeps its invariant: each campaign is filed under its own IP, its
  rolls have no duplicates, the hop path visits exactly the targeted decoys without two equal
  neighbours, and the reason \<open>decoy_hop\<close> is given if and only if more than one decoy was hit.
\<close>

theorem correlator_invariant: "corr_inv (ingest_all (NewCorrelator w) evs)"
  by (rule corr_inv_ingest_all [OF corr_inv_new])

section \<open>Pruning and ranking\<close>

definition camp_stale :: "Correlator \<Rightarrow> time \<Rightarrow> Campaign \<Rightarrow> bool" where
  "camp_stale c now camp \<longleftrightarrow> time_sub now (LastSeen camp) > sessionWindow c"

lemma prune_from_spec:
  assumes "distinct ks" "set ks \<subseteq> dom (campaigns c)"
  shows "campaigns (fst (prune_from c now ks r)) =
           (\<lambda>ip. case campaigns c ip of None \<Rightarrow> None
                 | Some camp \<Rightarrow> if ip \<in> set ks \<and> camp_stale c now camp then None else Some camp)
       \<and> snd (prune_from c now ks r) = r + length (filter (\<lambda>ip. camp_stale c now (the (campaigns c ip))) ks)
       \<and> sessionWindow (fst (prune_from c now ks r)) = sessionWindow c"
  using assms
proof (induction ks arbitrary: c r)
  case Nil
  then show ?case by (auto split: option.splits)
next
  case (Cons k ks)
  then obtain camp where camp: "campaigns c k = Some camp" by auto
  show ?case
  proof (cases "camp_stale c now camp")
    case True
    let ?c = "c\<lparr>campaigns := (campaigns c)(k := None)\<rparr>"
    have step: "prune_from c now (k # ks) r = prune_from ?c now ks (Suc r)"
      using True camp by (simp add: camp_stale_def)
    have same: "filter (\<lambda>ip. camp_stale ?c now (the (campaigns ?c ip))) ks
        = filter (\<lambda>ip. camp_stale c now (the (campaigns c ip))) ks"
      using Cons.prems by (intro filter_cong) (auto simp: camp_stale_def)
    have "set ks \<subseteq> dom (campaigns ?c)" using Cons.prems by auto
    from Cons.IH [OF _ this, of "Suc r"] Cons.prems(1) True camp show ?thesis
      unfolding step same
      by (auto simp: camp_stale_def fun_eq_iff split: option.splits)
  next
    case False
    with camp have step: "prune_from c now (k # ks) r = prune_from c now ks r"
      by (simp add: camp_stale_def)
    from Cons.IH [of c r] Cons.prems False camp show ?thesis
      unfolding step by (auto simp: fun_eq_iff split: option.splits)
  qed
qed

text \<open>
  C35: \<open>PruneExpired\<close> removes exactly the campaigns last seen more than a window ago, whatever the
  iteration order of the map, keeps all others, and returns the number it removed.
\<close>

theorem prune_expired_exact:
  assumes "map_order (campaigns c) ks"
  shows "campaigns (fst (PruneExpired c now ks)) =
           (\<lambda>ip. case campaigns c ip of None \<Rightarrow> None
                 | Some camp \<Rightarrow> if camp_stale c now camp then None else Some camp)
       \<and> snd (PruneExpired c now ks) = card {ip \<in> dom (campaigns c). camp_stale c now (the (campaigns c ip))}"
proof -
  have ks: "distinct ks" "set ks = dom (campaigns c)" using assms by (simp_all add: map_order_def)
  then have "card {ip \<in> dom (campaigns c). camp_stale c now (the (campaigns c ip))}
      = length (filter (\<lambda>ip. camp_stale c now (the (campaigns c ip))) ks)"
    by (simp add: distinct_length_filter Int_def conj_commute)
  with ks show ?thesis
    unfolding PruneExpired_def
    by (simp add: prune_from_spec) (auto simp: fun_eq_iff dom_def split: option.splits)
qed

text \<open>Ranking by score, then by recency, is a strict weak order.\<close>

interpretation camp_sort: sort_less camp_before
  by unfold_locales (auto simp: camp_before_def split: if_splits)

text \<open>
  The sorted view lists every tracked campaign exactly once, in non-increasing order of maximal
  threat score and, among equal scores, most recently seen first.
\<close>

theorem campaigns_sorted:
  assumes "map_order (campaigns c) ks"
  shows "set (ActiveCampaignsSorted c ks) = ran (campaigns c)
       \<and> length (ActiveCampaignsSorted c ks) = card (dom (campaigns c))
       \<and> sorted_wrt (\<lambda>a b. MaxThreatScore a > MaxThreatScore b
            \<or> MaxThreatScore a = MaxThreatScore b \<and> LastSeen a \<ge> LastSeen b) (ActiveCampaignsSorted c ks)"
proof (intro conjI)
  show "set (ActiveCampaignsSorted c ks) = ran (campaigns c)"
    using assms by (simp add: ActiveCampaignsSorted_def ActiveCampaigns_def set_map_values)
  show "length (ActiveCampaignsSorted c ks) = card (dom (campaigns c))"
    using assms distinct_card [of ks]
    by (simp add: ActiveCampaignsSorted_def ActiveCampaigns_def map_values_def map_order_def)
  show "sorted_wrt (\<lambda>a b. MaxThreatScore a > MaxThreatScore b
            \<or> MaxThreatScore a = MaxThreatScore b \<and> LastSeen a \<ge> LastSeen b) (ActiveCampaignsSorted c ks)"
    unfolding ActiveCampaignsSorted_def
    by (rule sorted_wrt_mono_rel [OF _ camp_sort.sorted_SliceStable]) (auto simp: camp_before_def split: if_splits)
qed

text \<open>A concrete correlator for the witnesses: two IPs, the second long silent.\<close>

definition demo_event :: "string \<Rightarrow> string \<Rightarrow> int \<Rightarrow> time \<Rightarrow> Event" where
  "demo_event ip decoy score t =
     zero_event\<lparr>ID := decoy @ dec t, Timestamp := t, DecoyName := decoy, RemoteIP := ip,
                ThreatScore := score, Action := ''PROBE''\<rparr>"

definition demo_correlator :: Correlator where
  "demo_correlator =
     ingest_all (NewCorrelator 0)
       [demo_event ''a'' ''ssh'' 75 (9000 * second), demo_event ''b'' ''redis'' 40 (100 * second)]"

lemma demo_order: "map_order (campaigns demo_correlator) [''a'', ''b'']"
  by (simp add: map_order_def demo_correlator_def demo_event_def Ingest_campaigns NewCorrelator_def
      dom_def insert_commute) auto

theorem prune_expired_exact_witness:
  "map_order (campaigns demo_correlator) [''a'', ''b'']
   \<and> snd (PruneExpired demo_correlator (9001 * second) [''a'', ''b'']) = 1"
proof -
  have "{ip \<in> dom (campaigns demo_correlator).
          camp_stale demo_correlator (9001 * second) (the (campaigns demo_correlator ip))} = {''b''}"
    by (auto simp: demo_correlator_def demo_event_def Ingest_campaigns NewCorrelator_def
        camp_stale_def time_sub_def hour_def second_def new_campaign_def split: if_splits)
  then show ?thesis
    using demo_order prune_expired_exact [OF demo_order, of "9001 * second"] by simp
qed

theorem campaigns_sorted_witness:
  "map_order (campaigns demo_correlator) [''a'', ''b'']
   \<and> length (ActiveCampaignsSorted demo_correlator [''a'', ''b'']) = 2"
proof -
  have "dom (campaigns demo_correlator) = {''a'', ''b''}"
    using demo_order by (simp add: map_order_def)
  then show ?thesis using demo_order campaigns_sorted [OF demo_order] by simp
qed

end
