(* ===== verification/Intel_Engine.thy ===== *)
theory Intel_Engine
  imports Correlator
begin

text \<open>
  The intel store of \<open>internal/intel/engine.go\<close>: cumulative scores per IP, the correlator and the
  JSONL audit log. \<open>encoding/json\<close> is a pair of parameters, \<open>marshal\<close> (\<open>None\<close> on an error)
  and \<open>unmarshal\<close>; the file system answers each append with an \<open>append_outcome\<close>. The log is
  the content of the file, \<open>None\<close> while it does not exist.
\<close>

datatype append_outcome = OpenError | WriteError nat | AppendOk

record IntelEngine =
  eventsFile :: "string option"
  blocklist :: "string \<rightharpoonup> int"
  EngCorrelator :: Correlator

definition NewIntelEngine :: IntelEngine where
  "NewIntelEngine =
     \<lparr>eventsFile = None, blocklist = Map.empty, EngCorrelator = NewCorrelator (2 * hour)\<rparr>"

definition score_of :: "IntelEngine \<Rightarrow> string \<Rightarrow> int" where
  "score_of e ip = (case blocklist e ip of None \<Rightarrow> 0 | Some n \<Rightarrow> n)"

text \<open>\<open>persistLocked\<close>: the new state and whether it returned an error.\<close>

definition persistLocked ::
    "(Event \<Rightarrow> string option) \<Rightarrow> append_outcome \<Rightarrow> IntelEngine \<Rightarrow> Event \<Rightarrow> IntelEngine \<times> bool" where
  "persistLocked marshal out e ev =
     (let e = e\<lparr>blocklist := (blocklist e)(RemoteIP ev \<mapsto> wrap64 (score_of e (RemoteIP ev) + ThreatScore ev))\<rparr>
      in case marshal ev of
           None \<Rightarrow> (e, True)
         | Some data \<Rightarrow>
             (let old = (case eventsFile e of None \<Rightarrow> [] | Some s \<Rightarrow> s); line = data @ nl
              in case out of
                   OpenError \<Rightarrow> (e, True)
                 | WriteError n \<Rightarrow> (e\<lparr>eventsFile := Some (old @ take n line)\<rparr>, True)
                 | AppendOk \<Rightarrow> (e\<lparr>eventsFile := Some (old @ line)\<rparr>, False)))"

definition Persist ::
    "(Event \<Rightarrow> string option) \<Rightarrow> append_outcome \<Rightarrow> IntelEngine \<Rightarrow> Event \<Rightarrow> IntelEngine \<times> bool" where
  "Persist marshal out e ev = persistLocked marshal out e ev"

definition fill_mitre :: "Event \<Rightarrow> Event" where
  "fill_mitre ev =
     (case Mitre ev of
        None \<Rightarrow> ev\<lparr>Mitre := Some (MapToMitre (DecoyName ev) (Action ev) (Command ev))\<rparr>
      | Some _ \<Rightarrow> ev)"

definition Record ::
    "(Event \<Rightarrow> string option) \<Rightarrow> append_outcome \<Rightarrow> IntelEngine \<Rightarrow> Event \<Rightarrow> IntelEngine \<times> bool" where
  "Record marshal out e ev =
     (let ev = fill_mitre ev;
          e = e\<lparr>EngCorrelator := fst (Ingest (EngCorrelator e) ev)\<rparr>
      in persistLocked marshal out e ev)"

definition MaliciousIPs :: "IntelEngine \<Rightarrow> int \<Rightarrow> string list \<Rightarrow> string list" where
  "MaliciousIPs e threshold ks = filter (\<lambda>ip. score_of e ip \<ge> threshold) ks"

fun split_lines_from :: "string \<Rightarrow> string \<Rightarrow> string list" where
  "split_lines_from cur [] = (if cur = [] then [] else [cur])"
| "split_lines_from cur (r # s) =
     (if r = CHR 0x0A then cur # split_lines_from [] s else split_lines_from (cur @ [r]) s)"

definition splitLines :: "string \<Rightarrow> string list" where
  "splitLines s = split_lines_from [] s"

definition RecentEvents :: "(string \<Rightarrow> Event option) \<Rightarrow> IntelEngine \<Rightarrow> int \<Rightarrow> Event list" where
  "RecentEvents unmarshal e limit =
     (case eventsFile e of
        None \<Rightarrow> []
      | Some data \<Rightarrow>
          (let events = List.map_filter unmarshal (filter (\<lambda>l. l \<noteq> []) (splitLines data))
           in if limit > 0 \<and> int (length events) > limit
              then drop (length events - nat limit) events else events))"

fun persist_all :: "(Event \<Rightarrow> string option) \<Rightarrow> IntelEngine \<Rightarrow> (Event \<times> append_outcome) list \<Rightarrow> IntelEngine" where
  "persist_all marshal e [] = e"
| "persist_all marshal e ((ev, out) # xs) = persist_all marshal (fst (Persist marshal out e ev)) xs"

section \<open>Cumulative scores\<close>

lemma persist_blocklist:
  "blocklist (fst (Persist marshal out e ev)) =
     (blocklist e)(RemoteIP ev \<mapsto> wrap64 (score_of e (RemoteIP ev) + ThreatScore ev))"
  by (simp add: Persist_def persistLocked_def Let_def split: option.splits append_outcome.splits)

lemma wrap64_add: "wrap64 (wrap64 a + b) = wrap64 (a + b)"
  unfolding wrap64_def by (simp add: mod_simps algebra_simps)

definition scores_from :: "string \<Rightarrow> (Event \<times> append_outcome) list \<Rightarrow> int" where
  "scores_from ip xs = sum_list (map (\<lambda>(ev, out). if RemoteIP ev = ip then ThreatScore ev else 0) xs)"

lemma scores_from_simps [simp]:
  "scores_from ip [] = 0"
  "scores_from ip ((ev, out) # xs) = (if RemoteIP ev = ip then ThreatScore ev else 0) + scores_from ip xs"
  by (simp_all add: scores_from_def)

definition scores_in_range :: "IntelEngine \<Rightarrow> bool" where
  "scores_in_range e \<longleftrightarrow> (\<forall>ip. wrap64 (score_of e ip) = score_of e ip)"

lemma wrap64_idem [simp]: "wrap64 (wrap64 x) = wrap64 x"
  using wrap64_range [of x] by (simp add: wrap64_id)

lemma score_of_persist:
  "score_of (fst (Persist marshal out e ev)) ip =
     (if RemoteIP ev = ip then wrap64 (score_of e ip + ThreatScore ev) else score_of e ip)"
  by (simp add: score_of_def persist_blocklist)

lemma persist_all_scores:
  "scores_in_range e \<Longrightarrow> score_of (persist_all marshal e xs) ip = wrap64 (score_of e ip + scores_from ip xs)"
proof (induction xs arbitrary: e)
  case Nil
  then show ?case by (simp add: scores_in_range_def)
next
  case (Cons x xs)
  obtain ev out where x: "x = (ev, out)" by (cases x)
  let ?e = "fst (Persist marshal out e ev)"
  have "scores_in_range ?e"
    using Cons.prems by (simp add: scores_in_range_def score_of_persist)
  from Cons.IH [OF this] show ?case
    by (simp add: x score_of_persist wrap64_add add.assoc)
qed

text \<open>
  The engine's reputation score of an IP is the sum of the threat scores of all its events
  (modulo the 64-bit wrap-around of Go), whatever the JSON encoder does and however the appends
  to the log fail: a failed write loses the log line, never the score.
\<close>

theorem cumulative_score:
  "score_of (persist_all marshal NewIntelEngine xs) ip = wrap64 (scores_from ip xs)"
proof -
  have zero: "score_of NewIntelEngine k = 0" for k by (simp add: NewIntelEngine_def score_of_def)
  then have "scores_in_range NewIntelEngine" by (simp add: scores_in_range_def wrap64_id)
  from persist_all_scores [OF this] show ?thesis by (simp add: zero)
qed

section \<open>The audit log\<close>

lemma split_lines_append:
  "CHR 0x0A \<notin> set l \<Longrightarrow> split_lines_from cur (l @ CHR 0x0A # s) = (cur @ l) # split_lines_from [] s"
  by (induction l arbitrary: cur) auto

lemma splitLines_lines:
  "\<forall>l \<in> set ls. CHR 0x0A \<notin> set l \<Longrightarrow> splitLines (concat (map (\<lambda>l. l @ nl) ls)) = ls"
  unfolding splitLines_def by (induction ls) (simp_all add: split_lines_append)

definition json_faithful :: "(Event \<Rightarrow> string option) \<Rightarrow> (string \<Rightarrow> Event option) \<Rightarrow> Event \<Rightarrow> bool" where
  "json_faithful marshal unmarshal ev \<longleftrightarrow>
     (\<exists>s. marshal ev = Some s \<and> s \<noteq> [] \<and> CHR 0x0A \<notin> set s \<and> unmarshal s = Some ev)"

definition log_of :: "(Event \<Rightarrow> string option) \<Rightarrow> Event list \<Rightarrow> string" where
  "log_of marshal evs = concat (map (\<lambda>ev. the (marshal ev) @ nl) evs)"

definition log_text :: "IntelEngine \<Rightarrow> string" where
  "log_text e = (case eventsFile e of None \<Rightarrow> [] | Some s \<Rightarrow> s)"

text \<open>Reading a log that faithful lines make up gives back the events.\<close>

lemma parse_log_of:
  assumes "\<forall>ev \<in> set evs. json_faithful marshal unmarshal ev"
  shows "List.map_filter unmarshal (filter (\<lambda>l. l \<noteq> []) (splitLines (log_of marshal evs))) = evs"
proof -
  let ?ls = "map (\<lambda>ev. the (marshal ev)) evs"
  have log: "log_of marshal evs = concat (map (\<lambda>l. l @ nl) ?ls)" by (simp add: log_of_def comp_def)
  have "\<forall>l \<in> set ?ls. CHR 0x0A \<notin> set l"
    using assms by (auto simp: json_faithful_def)
  then have "splitLines (log_of marshal evs) = ?ls" unfolding log by (rule splitLines_lines)
  moreover have "filter (\<lambda>l. l \<noteq> []) ?ls = ?ls"
    using assms by (auto simp: json_faithful_def filter_id_conv)
  moreover have "List.map_filter unmarshal ?ls = evs"
    using assms by (induction evs) (auto simp: json_faithful_def map_filter_simps)
  ultimately show ?thesis by simp
qed

lemma RecentEvents_unlimited:
  "limit \<le> 0 \<Longrightarrow> RecentEvents unmarshal e limit =
     List.map_filter unmarshal (filter (\<lambda>l. l \<noteq> []) (splitLines (log_text e)))"
  by (simp add: RecentEvents_def log_text_def splitLines_def List.map_filter_def split: option.splits)

lemma persist_all_file:
  assumes "\<forall>ev \<in> set evs. marshal ev \<noteq> None"
  shows "evs \<noteq> [] \<Longrightarrow> eventsFile (persist_all marshal e (map (\<lambda>ev. (ev, AppendOk)) evs)) =
     Some ((case eventsFile e of None \<Rightarrow> [] | Some s \<Rightarrow> s) @ log_of marshal evs)"
  using assms
proof (induction evs arbitrary: e)
  case (Cons ev evs)
  then obtain s where s: "marshal ev = Some s" by auto
  show ?case
  proof (cases "evs = []")
    case True
    with s show ?thesis by (simp add: Persist_def persistLocked_def log_of_def Let_def)
  next
    case False
    with Cons s show ?thesis by (simp add: Persist_def persistLocked_def log_of_def Let_def)
  qed
qed simp

text \<open>
  C21: The audit log round-trips. When the JSON codec reads back what it wrote, on one line, reading
  the recent events after appending a sequence of events gives back exactly the last \<open>limit\<close> of
  them, in order (all of them when the limit is not positive).
\<close>

theorem recent_events_roundtrip:
  assumes "\<forall>ev \<in> set evs. json_faithful marshal unmarshal ev"
  shows "RecentEvents unmarshal (persist_all marshal NewIntelEngine (map (\<lambda>ev. (ev, AppendOk)) evs)) limit
     = (if limit > 0 then drop (length evs - nat limit) evs else evs)"
proof (cases "evs = []")
  case True
  then show ?thesis by (simp add: RecentEvents_def NewIntelEngine_def)
next
  case False
  from assms have some: "\<forall>ev \<in> set evs. marshal ev \<noteq> None" by (auto simp: json_faithful_def)
  with False parse_log_of [OF assms] show ?thesis
    by (simp add: RecentEvents_def persist_all_file NewIntelEngine_def Let_def)
qed

theorem recent_events_roundtrip_witness:
  "RecentEvents (\<lambda>s. if s = ''{}'' then Some zero_event else None)
     (persist_all (\<lambda>ev. Some ''{}'') NewIntelEngine (map (\<lambda>ev. (ev, AppendOk)) [zero_event, zero_event])) 1
   = [zero_event]"
  by (subst recent_events_roundtrip) (simp_all add: json_faithful_def)

text \<open>
  Every event that \<open>Record\<close> or the pipeline's score stage lets through carries an ATT&CK
  mapping: an existing one is kept, a missing one is filled by \<open>MapToMitre\<close> with one of its five
  techniques, and nothing else of the event changes.
\<close>

theorem fill_mitre_total:
  "(\<exists>m. Mitre (fill_mitre ev) = Some m
        \<and> (Mitre ev = Some m
           \<or> Mitre ev = None \<and> TechniqueID m \<in> {''T1110'', ''T1059'', ''T1021'', ''T1190'', ''T1595''}))
   \<and> (fill_mitre ev)\<lparr>Mitre := Mitre ev\<rparr> = ev"
proof (cases "Mitre ev")
  case None
  have "TechniqueID (MapToMitre (DecoyName ev) (Action ev) (Command ev))
      \<in> {''T1110'', ''T1059'', ''T1021'', ''T1190'', ''T1595''}"
    using MapToMitre_range [of "DecoyName ev" "Action ev" "Command ev"]
    by (elim insertE) (simp_all add: mitre_record_defs)
  with None show ?thesis by (simp add: fill_mitre_def)
next
  case (Some m)
  then show ?thesis by (simp add: fill_mitre_def)
qed

end
