(* ===== verification/Pipeline.thy ===== *)
theory Pipeline
  imports Intel_Event
begin

text \<open>
  The in-process bus of \<open>internal/pipeline/pipeline.go\<close>. A handler gets a pointer to the event and
  shares state with the rest of the program: here it maps the shared state \<open>'w\<close> and the event to
  their new values and an error (\<open>None\<close> for nil). \<open>Process\<close> runs the registered handlers stage by
  stage and stops at the first error. A send of \<open>RunChannel\<close>'s \<open>select\<close> is one \<open>selection\<close>: which
  branch is taken is the scheduler's choice, so the sequence of choices is an argument.

  The locale \<open>bus_contract\<close> states what every handler of a bus keeps; its lemma is that a whole run
  of \<open>Process\<close> keeps it.
\<close>

type_synonym Stage = string

definition StageScore :: Stage where "StageScore = ''score''"
definition StageCorrelate :: Stage where "StageCorrelate = ''correlate''"
definition StagePlaybook :: Stage where "StagePlaybook = ''playbook''"
definition StageSink :: Stage where "StageSink = ''sink''"

lemmas stage_defs = StageScore_def StageCorrelate_def StagePlaybook_def StageSink_def

definition stageOrder :: "Stage list" where
  "stageOrder = [StageScore, StageCorrelate, StagePlaybook, StageSink]"

type_synonym 'w Handler = "'w \<Rightarrow> Event \<Rightarrow> 'w \<times> Event \<times> string option"

record Result =
  ResEvent :: Event
  StagesRun :: "Stage list"
  PlaybookActions :: "string list"
  PCAPPath :: string
  PCAPTriggered :: bool
  Errors :: "string list"

record 'w Bus =
  handlers :: "Stage \<Rightarrow> 'w Handler list"
  onAfter :: "(Result \<Rightarrow> 'w \<Rightarrow> 'w) list"

definition NewBus :: "'w Bus" where
  "NewBus = \<lparr>handlers = (\<lambda>_. []), onAfter = []\<rparr>"

text \<open>A nil handler or callback (\<open>None\<close>) is ignored.\<close>

definition On :: "Stage \<Rightarrow> 'w Handler option \<Rightarrow> 'w Bus \<Rightarrow> 'w Bus" where
  "On stage h b =
     (case h of None \<Rightarrow> b
      | Some h \<Rightarrow> b\<lparr>handlers := (handlers b)(stage := handlers b stage @ [h])\<rparr>)"

definition AfterProcess :: "(Result \<Rightarrow> 'w \<Rightarrow> 'w) option \<Rightarrow> 'w Bus \<Rightarrow> 'w Bus" where
  "AfterProcess fn b = (case fn of None \<Rightarrow> b | Some fn \<Rightarrow> b\<lparr>onAfter := onAfter b @ [fn]\<rparr>)"

text \<open>The inner loop: the handlers of one stage, up to the first error.\<close>

fun run_handlers :: "'w Handler list \<Rightarrow> 'w \<Rightarrow> Event \<Rightarrow> 'w \<times> Event \<times> string option" where
  "run_handlers [] w ev = (w, ev, None)"
| "run_handlers (h # hs) w ev =
     (case h w ev of
        (w', ev', Some err) \<Rightarrow> (w', ev', Some err)
      | (w', ev', None) \<Rightarrow> run_handlers hs w' ev')"

text \<open>The outer loop. The accumulator is the \<open>Result\<close> under construction.\<close>

fun run_stages :: "'w Bus \<Rightarrow> Stage list \<Rightarrow> 'w \<Rightarrow> Event \<Rightarrow> Result \<Rightarrow> 'w \<times> Result" where
  "run_stages b [] w ev res = (w, res\<lparr>ResEvent := ev\<rparr>)"
| "run_stages b (stage # stages) w ev res =
     (let res = res\<lparr>StagesRun := StagesRun res @ [stage]\<rparr>
      in case run_handlers (handlers b stage) w ev of
           (w', ev', Some err) \<Rightarrow>
             (w', res\<lparr>Errors := Errors res @ [stage @ '': '' @ err], ResEvent := ev'\<rparr>)
         | (w', ev', None) \<Rightarrow> run_stages b stages w' ev' res)"

fun run_after :: "(Result \<Rightarrow> 'w \<Rightarrow> 'w) list \<Rightarrow> Result \<Rightarrow> 'w \<Rightarrow> 'w" where
  "run_after [] res w = w"
| "run_after (fn # fns) res w = run_after fns res (fn res w)"

definition Process :: "'w Bus \<Rightarrow> 'w \<Rightarrow> Event \<Rightarrow> 'w \<times> Result" where
  "Process b w ev =
     (let res = \<lparr>ResEvent = ev, StagesRun = [], PlaybookActions = [], PCAPPath = [],
                 PCAPTriggered = False, Errors = []\<rparr>;
          (w', res') = run_stages b stageOrder w ev res
      in (run_after (onAfter b) res' w', res'))"

datatype selection = CtxDone | Closed | Received Event

fun RunChannel :: "'w Bus \<Rightarrow> selection list \<Rightarrow> 'w \<Rightarrow> 'w" where
  "RunChannel b [] w = w"
| "RunChannel b (CtxDone # _) w = w"
| "RunChannel b (Closed # _) w = w"
| "RunChannel b (Received ev # sels) w = RunChannel b sels (fst (Process b w ev))"

definition Stages :: "Stage list" where
  "Stages = stageOrder"

section \<open>The order of the stages\<close>

text \<open>
  The specification: one flat list of handlers, tagged with their stages, run until one fails.
\<close>

definition flat_handlers :: "'w Bus \<Rightarrow> Stage list \<Rightarrow> (Stage \<times> 'w Handler) list" where
  "flat_handlers b stages = concat (map (\<lambda>s. map (Pair s) (handlers b s)) stages)"

fun run_flat :: "(Stage \<times> 'w Handler) list \<Rightarrow> 'w \<Rightarrow> Event \<Rightarrow> 'w \<times> Event \<times> (Stage \<times> string) option" where
  "run_flat [] w ev = (w, ev, None)"
| "run_flat ((s, h) # hs) w ev =
     (case h w ev of
        (w', ev', Some err) \<Rightarrow> (w', ev', Some (s, err))
      | (w', ev', None) \<Rightarrow> run_flat hs w' ev')"

lemma run_flat_append:
  "run_flat (map (Pair s) hs @ rest) w ev =
     (case run_handlers hs w ev of
        (w', ev', Some err) \<Rightarrow> (w', ev', Some (s, err))
      | (w', ev', None) \<Rightarrow> run_flat rest w' ev')"
  by (induction hs arbitrary: w ev) (auto split: prod.splits option.splits)

definition outcome :: "Stage list \<Rightarrow> Result \<Rightarrow> Event \<Rightarrow> (Stage \<times> string) option \<Rightarrow> Result" where
  "outcome stages res ev fail =
     (case fail of
        None \<Rightarrow> res\<lparr>StagesRun := StagesRun res @ stages, ResEvent := ev\<rparr>
      | Some (s, err) \<Rightarrow>
          res\<lparr>StagesRun := StagesRun res @ takeWhile (\<lambda>x. x \<noteq> s) stages @ [s],
              Errors := Errors res @ [s @ '': '' @ err], ResEvent := ev\<rparr>)"

lemma run_flat_stage:
  "run_flat hs w ev = (w', ev', Some (s, err)) \<Longrightarrow> s \<in> fst ` set hs"
  by (induction hs w ev rule: run_flat.induct) (auto split: prod.splits option.splits)

lemma run_stages_flat:
  "distinct stages \<Longrightarrow>
   run_stages b stages w ev res =
     (case run_flat (flat_handlers b stages) w ev of
        (w', ev', fail) \<Rightarrow> (w', outcome stages res ev' fail))"
proof (induction stages arbitrary: w ev res)
  case Nil
  then show ?case by (simp add: flat_handlers_def outcome_def)
next
  case (Cons s stages)
  have flat: "flat_handlers b (s # stages) = map (Pair s) (handlers b s) @ flat_handlers b stages"
    by (simp add: flat_handlers_def)
  obtain w1 ev1 e1 where r: "run_handlers (handlers b s) w ev = (w1, ev1, e1)"
    by (cases "run_handlers (handlers b s) w ev") auto
  show ?case
  proof (cases e1)
    case (Some err)
    with r show ?thesis by (simp add: flat run_flat_append outcome_def)
  next
    case None
    obtain w2 ev2 fail where f: "run_flat (flat_handlers b stages) w1 ev1 = (w2, ev2, fail)"
      by (cases "run_flat (flat_handlers b stages) w1 ev1") auto
    have "s' \<noteq> s" if "fail = Some (s', err)" for s' err
      using run_flat_stage [OF f [unfolded that]] Cons.prems by (auto simp: flat_handlers_def)
    with Cons None r f show ?thesis
      by (auto simp: flat run_flat_append outcome_def Let_def split: option.splits)
  qed
qed

text \<open>
  C26: The bus runs the handlers of score, correlate, playbook and sink in exactly that order (and in
  registration order within a stage) until one returns an error; no handler after it runs. The
  result names the stages up to and including the failing one, its one error, and the event as the
  last handler left it; the callbacks run afterwards in both cases.
\<close>

theorem process_stage_order:
  "Process b w ev =
     (case run_flat (flat_handlers b [''score'', ''correlate'', ''playbook'', ''sink'']) w ev of
        (w', ev', fail) \<Rightarrow>
          let res = \<lparr>ResEvent = ev',
                     StagesRun = (case fail of None \<Rightarrow> stageOrder
                                  | Some (s, _) \<Rightarrow> takeWhile (\<lambda>x. x \<noteq> s) stageOrder @ [s]),
                     PlaybookActions = [], PCAPPath = [], PCAPTriggered = False,
                     Errors = (case fail of None \<Rightarrow> [] | Some (s, err) \<Rightarrow> [s @ '': '' @ err])\<rparr>
          in (run_after (onAfter b) res w', res))"
proof -
  have ord: "[''score'', ''correlate'', ''playbook'', ''sink''] = stageOrder"
    by (simp add: stageOrder_def stage_defs)
  have "distinct stageOrder" by (simp add: stageOrder_def stage_defs)
  note run = run_stages_flat [OF this]
  show ?thesis
    unfolding ord Process_def run
    by (auto simp: outcome_def Let_def split: prod.splits option.splits)
qed

section \<open>What the handlers keep\<close>

locale bus_contract =
  fixes b :: "'w Bus" and Inv :: "'w \<Rightarrow> bool" and frame :: "Event \<Rightarrow> Event \<Rightarrow> bool"
  assumes frame_refl: "frame ev ev"
    and frame_trans: "frame x y \<Longrightarrow> frame y z \<Longrightarrow> frame x z"
    and handler_keeps: "s \<in> set stageOrder \<Longrightarrow> h \<in> set (handlers b s) \<Longrightarrow> Inv w \<Longrightarrow>
      h w ev = (w', ev', err) \<Longrightarrow> Inv w' \<and> frame ev ev'"
    and after_keeps: "fn \<in> set (onAfter b) \<Longrightarrow> Inv w \<Longrightarrow> Inv (fn res w)"
begin

lemma run_flat_keeps:
  "(\<forall>(s, h) \<in> set hs. s \<in> set stageOrder \<and> h \<in> set (handlers b s)) \<Longrightarrow> Inv w \<Longrightarrow>
   run_flat hs w ev = (w', ev', fail) \<Longrightarrow> Inv w' \<and> frame ev ev'"
proof (induction hs w ev rule: run_flat.induct)
  case (1 w ev)
  then show ?case by (auto intro: frame_refl)
next
  case (2 s h hs w ev)
  obtain w1 ev1 e1 where h: "h w ev = (w1, ev1, e1)" by (cases "h w ev") auto
  with 2 have step: "Inv w1" "frame ev ev1" using handler_keeps [of s h] by force+
  show ?case
  proof (cases e1)
    case (Some err)
    with h 2 step show ?thesis by auto
  next
    case None
    with 2 h step show ?thesis by (auto intro: frame_trans)
  qed
qed

lemma after_all_keep: "set fns \<subseteq> set (onAfter b) \<Longrightarrow> Inv w \<Longrightarrow> Inv (run_after fns res w)"
  by (induction fns arbitrary: w) (auto intro: after_keeps)

lemma process_keeps:
  assumes "Inv w" "Process b w ev = (w', res)"
  shows "Inv w' \<and> frame ev (ResEvent res)"
proof -
  obtain w1 ev1 fail where r: "run_flat (flat_handlers b stageOrder) w ev = (w1, ev1, fail)"
    by (cases "run_flat (flat_handlers b stageOrder) w ev") auto
  have "Inv w1 \<and> frame ev ev1"
    using run_flat_keeps [OF _ assms(1) r] by (auto simp: flat_handlers_def)
  moreover have "distinct stageOrder" by (simp add: stageOrder_def stage_defs)
  note run_stages_flat [OF this, of b w ev]
  ultimately show ?thesis
    using assms(2) r after_all_keep
    by (auto simp: Process_def Let_def outcome_def split: option.splits)
qed

lemma run_channel_keeps: "Inv w \<Longrightarrow> Inv (RunChannel b sels w)"
proof (induction sels arbitrary: w)
  case (Cons x sels)
  show ?case
  proof (cases x)
    case (Received ev)
    obtain w' res where p: "Process b w ev = (w', res)" by (cases "Process b w ev") auto
    from process_keeps [OF Cons.prems p] Cons.IH p Received show ?thesis by simp
  qed (use Cons.prems in auto)
qed auto

end

end
