(* ===== verification/Soar.thy ===== *)
theory Soar
  imports Intel_Event Go_Collections
begin

text \<open>
  The playbook engine of \<open>internal/soar/playbook.go\<close>. The two hooks are external callbacks: each
  maps an external state \<open>'h\<close> to its new value and an error, which the engine discards. The parse
  of the YAML file is a parameter of \<open>LoadYAML\<close>; the clock is an argument of \<open>Process\<close>, which reads
  it once.
\<close>

record Condition =
  Decoy :: string
  MinScore :: int
  MinSeverity :: string
  ActionMatch :: string
  Threshold :: int
  WindowSec :: int

record SoarAction =
  ActType :: string
  ActTarget :: string
  ActParams :: "string \<rightharpoonup> string"

record Rule =
  RuleName :: string
  RuleEnabled :: bool
  RuleIf :: Condition
  RuleThen :: "SoarAction list"

record 'h SoarEngine =
  rules :: "Rule list"
  history :: "string \<rightharpoonup> time list"
  blockedIPs :: "string \<rightharpoonup> bool"
  blockHook :: "(string \<Rightarrow> string \<Rightarrow> 'h \<Rightarrow> 'h \<times> string option) option"
  alertHook :: "(string \<Rightarrow> 'h \<Rightarrow> 'h \<times> string option) option"

definition NewSoarEngine :: "'h SoarEngine" where
  "NewSoarEngine =
     \<lparr>rules = [], history = Map.empty, blockedIPs = Map.empty, blockHook = None, alertHook = None\<rparr>"

definition SetBlockHook ::
    "(string \<Rightarrow> string \<Rightarrow> 'h \<Rightarrow> 'h \<times> string option) option \<Rightarrow> 'h SoarEngine \<Rightarrow> 'h SoarEngine" where
  "SetBlockHook hook e = e\<lparr>blockHook := hook\<rparr>"

definition SetAlertHook ::
    "(string \<Rightarrow> 'h \<Rightarrow> 'h \<times> string option) option \<Rightarrow> 'h SoarEngine \<Rightarrow> 'h SoarEngine" where
  "SetAlertHook hook e = e\<lparr>alertHook := hook\<rparr>"

text \<open>\<open>LoadYAML\<close>: the content of the file (\<open>Inl\<close> a read error) and the parser are parameters.\<close>

definition LoadYAML ::
    "(string \<Rightarrow> string + Rule list) \<Rightarrow> string + string \<Rightarrow> 'h SoarEngine \<Rightarrow> 'h SoarEngine \<times> string option" where
  "LoadYAML unmarshal file e =
     (case file of
        Inl err \<Rightarrow> (e, Some err)
      | Inr data \<Rightarrow>
          (case unmarshal data of
             Inl err \<Rightarrow> (e, Some err)
           | Inr rs \<Rightarrow> (e\<lparr>rules := rs\<rparr>, None)))"

definition AddRule :: "Rule \<Rightarrow> 'h SoarEngine \<Rightarrow> 'h SoarEngine" where
  "AddRule r e = e\<lparr>rules := rules e @ [r]\<rparr>"

definition matchesCondition :: "Condition \<Rightarrow> Event \<Rightarrow> bool" where
  "matchesCondition c ev =
     (if Decoy c \<noteq> [] \<and> Decoy c \<noteq> ''*'' \<and> Decoy c \<noteq> DecoyName ev then False
      else if MinScore c > 0 \<and> ThreatScore ev < MinScore c then False
      else if ActionMatch c \<noteq> [] \<and> \<not> str_contains (to_upper (Action ev)) (to_upper (ActionMatch c)) then False
      else True)"

definition executeAction ::
    "SoarAction \<Rightarrow> Event \<Rightarrow> string \<Rightarrow> 'h SoarEngine \<Rightarrow> 'h \<Rightarrow> 'h SoarEngine \<times> 'h \<times> string" where
  "executeAction act ev ruleName e h =
     (if ActType act = ''block_ip'' then
        (e\<lparr>blockedIPs := (blockedIPs e)(RemoteIP ev \<mapsto> True)\<rparr>,
         (case blockHook e of
            None \<Rightarrow> h
          | Some hook \<Rightarrow> fst (hook (RemoteIP ev) (''Triggered by SOAR rule '' @ quote_go ruleName) h)),
         ''BLOCK_IP '' @ RemoteIP ev @ '' ('' @ ruleName @ '')'')
      else if ActType act = ''alert'' \<or> ActType act = ''notify'' then
        (let msg = ''[SOAR] Rule '' @ ruleName @ '' triggered for '' @ RemoteIP ev @ '' (Decoy: ''
                   @ DecoyName ev @ '', Score: '' @ dec (ThreatScore ev) @ '')''
         in (e, (case alertHook e of None \<Rightarrow> h | Some hook \<Rightarrow> fst (hook msg h)), ''ALERT '' @ msg))
      else if ActType act = ''tag'' then
        (e, h, ''TAG '' @ RemoteIP ev @ '' -> '' @ ActTarget act)
      else (e, h, []))"

text \<open>The loop over the actions of a rule; empty results are not reported.\<close>

fun run_actions ::
    "SoarAction list \<Rightarrow> Event \<Rightarrow> string \<Rightarrow> 'h SoarEngine \<Rightarrow> 'h \<Rightarrow> 'h SoarEngine \<times> 'h \<times> string list" where
  "run_actions [] ev ruleName e h = (e, h, [])"
| "run_actions (act # acts) ev ruleName e h =
     (let (e, h, res) = executeAction act ev ruleName e h;
          (e, h, out) = run_actions acts ev ruleName e h
      in (e, h, (if res \<noteq> [] then res # out else out)))"

definition history_key :: "string \<Rightarrow> string \<Rightarrow> string" where
  "history_key ruleName ip = ruleName @ '':'' @ ip"

definition history_of :: "'h SoarEngine \<Rightarrow> string \<Rightarrow> time list" where
  "history_of e key = (case history e key of None \<Rightarrow> [] | Some ts \<Rightarrow> ts)"

definition rule_cutoff :: "Condition \<Rightarrow> time \<Rightarrow> time" where
  "rule_cutoff c now = now + wrap64 (- wrap64 (WindowSec c * second))"

definition rate_limited :: "Condition \<Rightarrow> bool" where
  "rate_limited c \<longleftrightarrow> Threshold c > 1 \<and> WindowSec c > 0"

text \<open>
  The rate window: whether the rule goes on to its actions. A rule without a window always does.
\<close>

definition rate_check :: "Rule \<Rightarrow> time \<Rightarrow> Event \<Rightarrow> 'h SoarEngine \<Rightarrow> 'h SoarEngine \<times> bool" where
  "rate_check rule now ev e =
     (if rate_limited (RuleIf rule) then
        (let key = history_key (RuleName rule) (RemoteIP ev);
             cutoff = rule_cutoff (RuleIf rule) now;
             recent = filter (\<lambda>t. t > cutoff) (history_of e key) @ [now];
             e = e\<lparr>history := (history e)(key \<mapsto> recent)\<rparr>
         in (e, \<not> int (length recent) < Threshold (RuleIf rule)))
      else (e, True))"

text \<open>One turn of the loop over the rules.\<close>

definition process_rule ::
    "Rule \<Rightarrow> time \<Rightarrow> Event \<Rightarrow> 'h SoarEngine \<Rightarrow> 'h \<Rightarrow> 'h SoarEngine \<times> 'h \<times> string list" where
  "process_rule rule now ev e h =
     (if \<not> RuleEnabled rule then (e, h, [])
      else if \<not> matchesCondition (RuleIf rule) ev then (e, h, [])
      else (case rate_check rule now ev e of
              (e, False) \<Rightarrow> (e, h, [])
            | (e, True) \<Rightarrow> run_actions (RuleThen rule) ev (RuleName rule) e h))"

fun process_rules ::
    "Rule list \<Rightarrow> time \<Rightarrow> Event \<Rightarrow> 'h SoarEngine \<Rightarrow> 'h \<Rightarrow> 'h SoarEngine \<times> 'h \<times> string list" where
  "process_rules [] now ev e h = (e, h, [])"
| "process_rules (r # rs) now ev e h =
     (let (e, h, out) = process_rule r now ev e h;
          (e, h, out') = process_rules rs now ev e h
      in (e, h, out @ out'))"

definition SoarProcess ::
    "'h SoarEngine \<Rightarrow> time \<Rightarrow> Event \<Rightarrow> 'h \<Rightarrow> 'h SoarEngine \<times> 'h \<times> string list" where
  "SoarProcess e now ev h = process_rules (rules e) now ev e h"

definition BlockedIPs :: "'h SoarEngine \<Rightarrow> string list \<Rightarrow> string list" where
  "BlockedIPs e ks = ks"

fun soar_run :: "'h SoarEngine \<Rightarrow> (time \<times> Event) list \<Rightarrow> 'h \<Rightarrow> 'h SoarEngine \<times> 'h" where
  "soar_run e [] h = (e, h)"
| "soar_run e ((now, ev) # xs) h =
     (let (e, h, _) = SoarProcess e now ev h in soar_run e xs h)"

lemma soar_run_append: "soar_run e (xs @ ys) h = (case soar_run e xs h of (e', h') \<Rightarrow> soar_run e' ys h')"
  by (induction e xs h rule: soar_run.induct) (simp_all split: prod.splits)

section \<open>Frames\<close>

lemma executeAction_frame:
  "executeAction act ev n e h = (e', h', out) \<Longrightarrow>
     history e' = history e \<and> rules e' = rules e \<and> blockHook e' = blockHook e \<and> alertHook e' = alertHook e"
  by (auto simp: executeAction_def Let_def split: if_splits)

lemma run_actions_frame:
  "run_actions acts ev n e h = (e', h', out) \<Longrightarrow>
     history e' = history e \<and> rules e' = rules e \<and> blockHook e' = blockHook e \<and> alertHook e' = alertHook e"
proof (induction acts arbitrary: e h e' h' out)
  case (Cons a acts)
  then show ?case
    by (auto simp: Let_def split: prod.splits dest!: executeAction_frame)
qed simp

lemma rate_check_frame:
  "rate_check r now ev e = (e', b) \<Longrightarrow>
     blockedIPs e' = blockedIPs e \<and> rules e' = rules e \<and> blockHook e' = blockHook e \<and> alertHook e' = alertHook e"
  by (auto simp: rate_check_def Let_def split: if_splits)

lemma rate_check_other:
  "rate_check r now ev e = (e', b) \<Longrightarrow> key \<noteq> history_key (RuleName r) (RemoteIP ev) \<Longrightarrow>
     history e' key = history e key"
  by (auto simp: rate_check_def Let_def split: if_splits)

lemma process_rule_frame:
  "process_rule r now ev e h = (e', h', out) \<Longrightarrow>
     rules e' = rules e \<and> blockHook e' = blockHook e \<and> alertHook e' = alertHook e"
  by (auto simp: process_rule_def split: if_splits prod.splits bool.splits
      dest!: rate_check_frame run_actions_frame)

lemma process_rule_history:
  "process_rule r now ev e h = (e', h', out) \<Longrightarrow> key \<noteq> history_key (RuleName r) (RemoteIP ev) \<Longrightarrow>
     history e' key = history e key"
  by (auto simp: process_rule_def split: if_splits prod.splits bool.splits
      dest!: rate_check_other run_actions_frame)

lemma process_rules_rules: "process_rules rs now ev e h = (e', h', out) \<Longrightarrow> rules e' = rules e"
proof (induction rs arbitrary: e h e' h' out)
  case (Cons r rs)
  then show ?case by (auto simp: Let_def split: prod.splits dest!: process_rule_frame)
qed simp

lemma soar_run_rules [simp]: "rules (fst (soar_run e xs h)) = rules e"
proof (induction e xs h rule: soar_run.induct)
  case (2 e now ev xs h)
  obtain e1 h1 out where "SoarProcess e now ev h = (e1, h1, out)" by (cases "SoarProcess e now ev h") auto
  with 2 show ?case by (auto simp: SoarProcess_def dest: process_rules_rules)
qed simp

section \<open>Which addresses are blocked\<close>

text \<open>When a rule fires at a state, and whether firing blocks the peer.\<close>

definition rule_fires :: "Rule \<Rightarrow> time \<Rightarrow> Event \<Rightarrow> 'h SoarEngine \<Rightarrow> bool" where
  "rule_fires r now ev e \<longleftrightarrow>
     RuleEnabled r \<and> matchesCondition (RuleIf r) ev \<and> snd (rate_check r now ev e)"

definition rule_blocks :: "Rule \<Rightarrow> bool" where
  "rule_blocks r \<longleftrightarrow> (\<exists>act \<in> set (RuleThen r). ActType act = ''block_ip'')"

lemma executeAction_blocked:
  "executeAction act ev n e h = (e', h', out) \<Longrightarrow>
     blockedIPs e' = (if ActType act = ''block_ip'' then (blockedIPs e)(RemoteIP ev \<mapsto> True) else blockedIPs e)"
  by (auto simp: executeAction_def Let_def split: if_splits)

lemma run_actions_blocked:
  "run_actions acts ev n e h = (e', h', out) \<Longrightarrow>
     blockedIPs e' = (if \<exists>act \<in> set acts. ActType act = ''block_ip''
                      then (blockedIPs e)(RemoteIP ev \<mapsto> True) else blockedIPs e)"
proof (induction acts arbitrary: e h e' h' out)
  case (Cons a acts)
  obtain e1 h1 o1 where 1: "executeAction a ev n e h = (e1, h1, o1)" by (cases "executeAction a ev n e h") auto
  obtain e2 h2 o2 where 2: "run_actions acts ev n e1 h1 = (e2, h2, o2)" by (cases "run_actions acts ev n e1 h1") auto
  from Cons.prems 1 2 have "e' = e2" by simp
  with Cons.IH [OF 2] executeAction_blocked [OF 1] show ?case by auto
qed simp

lemma process_rule_blocked:
  assumes "process_rule r now ev e h = (e', h', out)"
  shows "blockedIPs e' = (if rule_fires r now ev e \<and> rule_blocks r
                          then (blockedIPs e)(RemoteIP ev \<mapsto> True) else blockedIPs e)"
proof -
  obtain e1 b where rc: "rate_check r now ev e = (e1, b)" by (cases "rate_check r now ev e") auto
  show ?thesis
  proof (cases "RuleEnabled r \<and> matchesCondition (RuleIf r) ev \<and> b")
    case True
    with rc assms have "run_actions (RuleThen r) ev (RuleName r) e1 h = (e', h', out)"
      by (auto simp: process_rule_def)
    from run_actions_blocked [OF this] rate_check_frame [OF rc] rc True show ?thesis
      by (simp add: rule_fires_def rule_blocks_def)
  next
    case False
    with rc assms rate_check_frame [OF rc] show ?thesis
      by (auto simp: process_rule_def rule_fires_def split: if_splits bool.splits)
  qed
qed

text \<open>Rules with other names do not see what a rule records during the same event.\<close>

lemma rule_fires_cong:
  assumes "history e (history_key (RuleName r) (RemoteIP ev)) = history e' (history_key (RuleName r) (RemoteIP ev))"
  shows "rule_fires r now ev e = rule_fires r now ev e'"
  using assms by (simp add: rule_fires_def rate_check_def history_of_def Let_def)

lemma history_key_same_ip: "history_key n ip = history_key n' ip \<longleftrightarrow> n = n'"
  by (simp add: history_key_def)

lemma process_rules_blocked:
  assumes "process_rules rs now ev e h = (e', h', out)" "distinct (map RuleName rs)"
  shows "blockedIPs e' = (if \<exists>r \<in> set rs. rule_fires r now ev e \<and> rule_blocks r
                          then (blockedIPs e)(RemoteIP ev \<mapsto> True) else blockedIPs e)"
  using assms
proof (induction rs arbitrary: e h e' h' out)
  case (Cons r rs)
  obtain e1 h1 o1 where 1: "process_rule r now ev e h = (e1, h1, o1)" by (cases "process_rule r now ev e h") auto
  obtain e2 h2 o2 where 2: "process_rules rs now ev e1 h1 = (e2, h2, o2)" by (cases "process_rules rs now ev e1 h1") auto
  from Cons.prems 1 2 have e': "e' = e2" by simp
  have same: "rule_fires r' now ev e1 = rule_fires r' now ev e" if "r' \<in> set rs" for r'
  proof (rule rule_fires_cong)
    from Cons.prems(2) have "RuleName r \<notin> RuleName ` set rs" by simp
    with that have "RuleName r' \<noteq> RuleName r" by (metis imageI)
    then show "history e1 (history_key (RuleName r') (RemoteIP ev)) = history e (history_key (RuleName r') (RemoteIP ev))"
      by (intro process_rule_history [OF 1]) (simp add: history_key_same_ip)
  qed
  from Cons.IH [OF 2] Cons.prems(2) same process_rule_blocked [OF 1] show ?case
    unfolding e' by auto
qed simp

section \<open>The rate window\<close>

text \<open>The hits of a rule: the times of the matching events from one address.\<close>

definition hits :: "Rule \<Rightarrow> string \<Rightarrow> (time \<times> Event) list \<Rightarrow> time list" where
  "hits r ip xs = map fst (filter (\<lambda>(t, ev). RemoteIP ev = ip \<and> matchesCondition (RuleIf r) ev) xs)"

lemma hits_simps [simp]:
  "hits r ip [] = []"
  "hits r ip (xs @ [(t, ev)]) =
     hits r ip xs @ (if RemoteIP ev = ip \<and> matchesCondition (RuleIf r) ev then [t] else [])"
  by (simp_all add: hits_def)

lemma history_key_inj:
  assumes "CHR '':'' \<notin> set n" "CHR '':'' \<notin> set n'" "history_key n ip = history_key n' ip'"
  shows "n = n' \<and> ip = ip'"
proof -
  have "takeWhile (\<lambda>c. c \<noteq> CHR '':'') (history_key m i) = m" if "CHR '':'' \<notin> set m" for m i
    using that unfolding history_key_def by (subst takeWhile_append2) auto
  with assms have "n = n'" by metis
  with assms(3) show ?thesis by (simp add: history_key_def)
qed

text \<open>What one event does to the history of one rule and one address.\<close>

definition next_history :: "Rule \<Rightarrow> string \<Rightarrow> time \<Rightarrow> Event \<Rightarrow> time list \<Rightarrow> time list" where
  "next_history r ip now ev ts =
     (if RuleEnabled r \<and> rate_limited (RuleIf r) \<and> RemoteIP ev = ip \<and> matchesCondition (RuleIf r) ev
      then filter (\<lambda>t. t > rule_cutoff (RuleIf r) now) ts @ [now] else ts)"

lemma process_rule_own_history:
  assumes "process_rule r now ev e h = (e', h', out)"
  shows "history_of e' (history_key (RuleName r) (RemoteIP ev)) =
     next_history r (RemoteIP ev) now ev (history_of e (history_key (RuleName r) (RemoteIP ev)))"
  using assms
  by (auto simp: process_rule_def rate_check_def next_history_def history_of_def Let_def
      split: if_splits bool.splits dest!: run_actions_frame)

definition colon_free :: "Rule list \<Rightarrow> bool" where
  "colon_free rs \<longleftrightarrow> distinct (map RuleName rs) \<and> (\<forall>r \<in> set rs. CHR '':'' \<notin> set (RuleName r))"

lemma colon_free_Cons [simp]:
  "colon_free (r # rs) \<longleftrightarrow> RuleName r \<notin> RuleName ` set rs \<and> CHR '':'' \<notin> set (RuleName r) \<and> colon_free rs"
  by (auto simp: colon_free_def)

lemma process_rules_other_history:
  assumes "process_rules rs now ev e h = (e', h', out)"
    "\<forall>r \<in> set rs. key \<noteq> history_key (RuleName r) (RemoteIP ev)"
  shows "history e' key = history e key"
  using assms
proof (induction rs arbitrary: e h e' h' out)
  case (Cons r rs)
  obtain e1 h1 o1 where 1: "process_rule r now ev e h = (e1, h1, o1)" by (cases "process_rule r now ev e h") auto
  obtain e2 h2 o2 where 2: "process_rules rs now ev e1 h1 = (e2, h2, o2)" by (cases "process_rules rs now ev e1 h1") auto
  from Cons.prems 1 2 Cons.IH [OF 2] process_rule_history [OF 1] show ?case by simp
qed simp

lemma process_rules_history:
  assumes "process_rules rs now ev e h = (e', h', out)" "colon_free rs" "r \<in> set rs"
  shows "history_of e' (history_key (RuleName r) ip) =
     next_history r ip now ev (history_of e (history_key (RuleName r) ip))"
  using assms
proof (induction rs arbitrary: e h e' h' out)
  case (Cons q rs)
  obtain e1 h1 o1 where 1: "process_rule q now ev e h = (e1, h1, o1)" by (cases "process_rule q now ev e h") auto
  obtain e2 h2 o2 where 2: "process_rules rs now ev e1 h1 = (e2, h2, o2)" by (cases "process_rules rs now ev e1 h1") auto
  let ?k = "history_key (RuleName r) ip"
  from Cons.prems 1 2 have e': "e' = e2" by simp
  from Cons.prems(2,3) have rfree: "CHR '':'' \<notin> set (RuleName r)" by (auto simp: colon_free_def)
  have other: "?k \<noteq> history_key (RuleName q') (RemoteIP ev)"
    if "q' \<in> set (q # rs)" "RemoteIP ev \<noteq> ip \<or> RuleName q' \<noteq> RuleName r" for q'
    using that Cons.prems(2) rfree history_key_inj [of "RuleName r" "RuleName q'" ip "RemoteIP ev"]
    by (auto simp: colon_free_def)
  show ?case
  proof (cases "RemoteIP ev = ip")
    case False
    then have "history e1 ?k = history e ?k" by (intro process_rule_history [OF 1] other) auto
    moreover have "history e2 ?k = history e1 ?k" using False by (intro process_rules_other_history [OF 2] ballI other) auto
    ultimately show ?thesis using False by (simp add: e' history_of_def next_history_def)
  next
    case True
    show ?thesis
    proof (cases "r = q")
      case True
      from Cons.prems(2) have "RuleName q \<notin> RuleName ` set rs" by simp
      then have "history e2 ?k = history e1 ?k" unfolding True
        by (intro process_rules_other_history [OF 2] ballI) (metis history_key_same_ip imageI \<open>RemoteIP ev = ip\<close>)
      with True \<open>RemoteIP ev = ip\<close> process_rule_own_history [OF 1] show ?thesis
        by (simp add: e' history_of_def)
    next
      case False
      with Cons.prems have mem: "r \<in> set rs" "colon_free rs" by auto
      from Cons.prems(2) have "RuleName q \<notin> RuleName ` set rs" by simp
      with mem have "RuleName q \<noteq> RuleName r" by (metis imageI)
      then have "history e1 ?k = history e ?k" by (intro process_rule_history [OF 1] other) auto
      with Cons.IH [OF 2 mem(2,1)] show ?thesis by (simp add: e' history_of_def)
    qed
  qed
qed simp

lemma rule_cutoff_mono: "t \<le> now \<Longrightarrow> rule_cutoff c t \<le> rule_cutoff c now"
  by (simp add: rule_cutoff_def)

lemma filter_window: "c \<le> (d::int) \<Longrightarrow> filter (\<lambda>t. c < t \<and> d < t) ts = filter ((<) d) ts"
  by (rule filter_cong) auto

definition fresh_engine ::
    "Rule list \<Rightarrow> (string \<Rightarrow> string \<Rightarrow> 'h \<Rightarrow> 'h \<times> string option) option \<Rightarrow>
     (string \<Rightarrow> 'h \<Rightarrow> 'h \<times> string option) option \<Rightarrow> 'h SoarEngine" where
  "fresh_engine rs bh ah = SetAlertHook ah (SetBlockHook bh (NewSoarEngine\<lparr>rules := rs\<rparr>))"

lemma fresh_engine_simps [simp]:
  "rules (fresh_engine rs bh ah) = rs" "history (fresh_engine rs bh ah) = Map.empty"
  "blockedIPs (fresh_engine rs bh ah) = Map.empty"
  by (simp_all add: fresh_engine_def SetAlertHook_def SetBlockHook_def NewSoarEngine_def)

text \<open>The pruned history and the full list of hits agree on every window that is still open.\<close>

lemma history_window:
  assumes "colon_free rs" "r \<in> set rs" "RuleEnabled r" "rate_limited (RuleIf r)"
    and "sorted (map fst xs)" "\<forall>t \<in> fst ` set xs. t \<le> now"
  shows "filter (\<lambda>t. t > rule_cutoff (RuleIf r) now)
           (history_of (fst (soar_run (fresh_engine rs bh ah) xs h)) (history_key (RuleName r) ip))
       = filter (\<lambda>t. t > rule_cutoff (RuleIf r) now) (hits r ip xs)"
  using assms(5,6)
proof (induction xs arbitrary: now rule: rev_induct)
  case Nil
  then show ?case by (simp add: history_of_def)
next
  case (snoc x xs)
  obtain t ev where x: "x = (t, ev)" by (cases x)
  let ?run = "soar_run (fresh_engine rs bh ah) xs h"
  obtain e1 h1 where 1: "?run = (e1, h1)" by (cases ?run)
  obtain e2 h2 out where 2: "SoarProcess e1 t ev h1 = (e2, h2, out)" by (cases "SoarProcess e1 t ev h1") auto
  have "rules e1 = rs" using soar_run_rules [of "fresh_engine rs bh ah" xs h] 1 by simp
  with 2 have step: "history_of e2 (history_key (RuleName r) ip) =
      next_history r ip t ev (history_of e1 (history_key (RuleName r) ip))"
    using process_rules_history [of rs t ev e1 h1 e2 h2 out r ip] assms(1,2) by (simp add: SoarProcess_def)
  from snoc.prems x have le: "t \<le> now" "\<forall>u \<in> fst ` set xs. u \<le> t" "sorted (map fst xs)"
    "\<forall>u \<in> fst ` set xs. u \<le> now"
    by (auto simp: sorted_append)
  have IH: "filter (\<lambda>t. t > rule_cutoff (RuleIf r) now) (history_of e1 (history_key (RuleName r) ip))
      = filter (\<lambda>t. t > rule_cutoff (RuleIf r) now) (hits r ip xs)"
    using snoc.IH [OF le(3,4)] 1 by simp
  have run: "soar_run (fresh_engine rs bh ah) (xs @ [(t, ev)]) h = (e2, h2)"
    by (simp add: soar_run_append 1 2)
  show ?case
    unfolding run fst_conv step x hits_simps next_history_def
    using IH assms(3,4) rule_cutoff_mono [OF le(1), of "RuleIf r"]
    by (simp add: filter_window)
qed

text \<open>The rule's specification, over the whole past: enough matching events inside the window.\<close>

definition fires_spec :: "Rule \<Rightarrow> (time \<times> Event) list \<Rightarrow> time \<Rightarrow> Event \<Rightarrow> bool" where
  "fires_spec r past now ev \<longleftrightarrow>
     RuleEnabled r \<and> matchesCondition (RuleIf r) ev
   \<and> (rate_limited (RuleIf r) \<longrightarrow>
        Threshold (RuleIf r) \<le> 1 + int (length (filter (\<lambda>t. t > rule_cutoff (RuleIf r) now) (hits r (RemoteIP ev) past))))"

lemma rule_fires_spec:
  assumes "colon_free rs" "r \<in> set rs" "sorted (map fst past)" "\<forall>t \<in> fst ` set past. t \<le> now"
  shows "rule_fires r now ev (fst (soar_run (fresh_engine rs bh ah) past h)) \<longleftrightarrow> fires_spec r past now ev"
proof (cases "RuleEnabled r \<and> rate_limited (RuleIf r)")
  case True
  with history_window [OF assms(1,2) _ _ assms(3,4), where bh = bh and ah = ah and h = h and ip = "RemoteIP ev"]
  show ?thesis
    by (auto simp: rule_fires_def fires_spec_def rate_check_def Let_def)
next
  case False
  then show ?thesis by (auto simp: rule_fires_def fires_spec_def rate_check_def)
qed

text \<open>
  C6: The playbook engine implements sliding-window rate rules exactly. With rule names that are
  distinct and free of colons and a clock that does not go back, an enabled rule with a window
  fires on a matching event if and only if, counting this event, at least \<open>Threshold\<close> matching
  events of the same address lie inside the window that ends now, over the whole past: pruning the
  stored timestamps never loses one that still counts, and no other rule or address interferes.
\<close>

theorem soar_rate_window:
  assumes "colon_free rs" "r \<in> set rs" "sorted (map fst past)" "\<forall>t \<in> fst ` set past. t \<le> now"
    and "RuleEnabled r" "rate_limited (RuleIf r)" "matchesCondition (RuleIf r) ev"
  shows "snd (rate_check r now ev (fst (soar_run (fresh_engine rs bh ah) past h))) \<longleftrightarrow>
     Threshold (RuleIf r) \<le> 1 + int (length (filter (\<lambda>(t, ev'). RemoteIP ev' = RemoteIP ev
        \<and> matchesCondition (RuleIf r) ev' \<and> t > rule_cutoff (RuleIf r) now) past))"
proof -
  have "length (filter (\<lambda>t. t > rule_cutoff (RuleIf r) now) (hits r (RemoteIP ev) past))
      = length (filter (\<lambda>(t, ev'). RemoteIP ev' = RemoteIP ev
        \<and> matchesCondition (RuleIf r) ev' \<and> t > rule_cutoff (RuleIf r) now) past)"
    by (simp add: hits_def filter_map comp_def case_prod_unfold conj_commute conj_left_commute)
  with rule_fires_spec [OF assms(1-4), where ev = ev and bh = bh and ah = ah and h = h] assms(5-7) show ?thesis
    by (simp add: rule_fires_def fires_spec_def)
qed

section \<open>Blocking over a whole run\<close>

text \<open>The specification of the block list: some past event of the address fired a blocking rule.\<close>

definition blocked_spec :: "Rule list \<Rightarrow> (time \<times> Event) list \<Rightarrow> string \<Rightarrow> bool" where
  "blocked_spec rs xs ip \<longleftrightarrow>
     (\<exists>k < length xs. case xs ! k of (now, ev) \<Rightarrow>
        RemoteIP ev = ip \<and> (\<exists>r \<in> set rs. rule_blocks r \<and> fires_spec r (take k xs) now ev))"

lemma blocked_spec_snoc:
  "blocked_spec rs (xs @ [(now, ev)]) ip \<longleftrightarrow>
     blocked_spec rs xs ip \<or> RemoteIP ev = ip \<and> (\<exists>r \<in> set rs. rule_blocks r \<and> fires_spec r xs now ev)"
proof -
  let ?P = "\<lambda>past now ev. RemoteIP ev = ip \<and> (\<exists>r \<in> set rs. rule_blocks r \<and> fires_spec r past now ev)"
  have "blocked_spec rs (xs @ [(now, ev)]) ip
      \<longleftrightarrow> (\<exists>k < Suc (length xs). case (xs @ [(now, ev)]) ! k of (t, e) \<Rightarrow> ?P (take k (xs @ [(now, ev)])) t e)"
    by (simp add: blocked_spec_def)
  also have "\<dots> \<longleftrightarrow> (\<exists>k < length xs. case (xs @ [(now, ev)]) ! k of (t, e) \<Rightarrow> ?P (take k (xs @ [(now, ev)])) t e)
      \<or> ?P xs now ev"
    unfolding less_Suc_eq by (simp only: ex_disj_distrib conj_disj_distribR) simp
  also have "(\<exists>k < length xs. case (xs @ [(now, ev)]) ! k of (t, e) \<Rightarrow> ?P (take k (xs @ [(now, ev)])) t e)
      \<longleftrightarrow> blocked_spec rs xs ip"
    unfolding blocked_spec_def by (simp add: nth_append cong: conj_cong)
  finally show ?thesis .
qed

text \<open>
  C7: The block list of the engine refines its specification: after any run of events with a clock
  that does not go back, an address is blocked if and only if one of its events fired an enabled
  rule with a \<open>block_ip\<close> action, judged by the rules' conditions and sliding windows over the past
  at that moment. What the hooks do or return has no influence, and nothing is ever unblocked.
\<close>

theorem soar_blocks_exactly:
  assumes "colon_free rs" "sorted (map fst xs)"
  shows "blockedIPs (fst (soar_run (fresh_engine rs bh ah) xs h)) ip =
           (if blocked_spec rs xs ip then Some True else None)"
  using assms(2)
proof (induction xs rule: rev_induct)
  case Nil
  then show ?case by (simp add: blocked_spec_def)
next
  case (snoc x xs)
  obtain t ev where x: "x = (t, ev)" by (cases x)
  let ?e0 = "fresh_engine rs bh ah"
  obtain e1 h1 where 1: "soar_run ?e0 xs h = (e1, h1)" by (cases "soar_run ?e0 xs h")
  obtain e2 h2 out where 2: "SoarProcess e1 t ev h1 = (e2, h2, out)" by (cases "SoarProcess e1 t ev h1") auto
  have "rules e1 = rs" using soar_run_rules [of ?e0 xs h] 1 by simp
  with 2 assms(1) have blk: "blockedIPs e2 = (if \<exists>r \<in> set rs. rule_fires r t ev e1 \<and> rule_blocks r
      then (blockedIPs e1)(RemoteIP ev \<mapsto> True) else blockedIPs e1)"
    by (intro process_rules_blocked [of rs t ev e1 h1 e2 h2 out]) (simp_all add: SoarProcess_def colon_free_def)
  from snoc.prems x have past: "sorted (map fst xs)" "\<forall>u \<in> fst ` set xs. u \<le> t"
    by (auto simp: sorted_append)
  have fires: "rule_fires r t ev e1 = fires_spec r xs t ev" if "r \<in> set rs" for r
    using rule_fires_spec [OF assms(1) that past, where ev = ev and bh = bh and ah = ah and h = h] 1 by simp
  have run: "soar_run ?e0 (xs @ [(t, ev)]) h = (e2, h2)" by (simp add: soar_run_append 1 2)
  from snoc.IH [OF past(1)] 1 have IH: "blockedIPs e1 ip = (if blocked_spec rs xs ip then Some True else None)" by simp
  have "(\<exists>r \<in> set rs. rule_fires r t ev e1 \<and> rule_blocks r)
      \<longleftrightarrow> (\<exists>r \<in> set rs. rule_blocks r \<and> fires_spec r xs t ev)"
    using fires by blast
  with IH blk show ?case by (simp add: x run blocked_spec_snoc)
qed

text \<open>A concrete rule set and run for the witnesses.\<close>

definition demo_rule :: Rule where
  "demo_rule =
     \<lparr>RuleName = ''brute'', RuleEnabled = True,
      RuleIf = \<lparr>Decoy = ''ssh'', MinScore = 50, MinSeverity = [], ActionMatch = ''login'',
                Threshold = 2, WindowSec = 60\<rparr>,
      RuleThen = [\<lparr>ActType = ''block_ip'', ActTarget = [], ActParams = Map.empty\<rparr>]\<rparr>"

definition demo_login :: "string \<Rightarrow> Event" where
  "demo_login ip = zero_event\<lparr>DecoyName := ''ssh'', RemoteIP := ip, ThreatScore := 75, Action := ''SSH_LOGIN''\<rparr>"

definition demo_past :: "(time \<times> Event) list" where
  "demo_past = [(1 * second, demo_login ''a''), (2 * second, demo_login ''b''), (30 * second, demo_login ''a'')]"

lemma demo_rule_colon_free: "colon_free [demo_rule]"
  by (simp add: colon_free_def demo_rule_def)

lemma demo_rule_matches: "matchesCondition (RuleIf demo_rule) (demo_login ip)"
proof -
  have "str_contains (to_upper ''SSH_LOGIN'') (to_upper ''login'')" by code_simp
  then show ?thesis by (simp add: matchesCondition_def demo_rule_def demo_login_def)
qed

lemma demo_cutoff: "rule_cutoff (RuleIf demo_rule) now = now - 60 * second"
  by (simp add: rule_cutoff_def demo_rule_def second_def wrap64_def)

theorem soar_rate_window_witness:
  "snd (rate_check demo_rule (61 * second + 5) (demo_login ''a'')
     (fst (soar_run (fresh_engine [demo_rule] None (None :: (string \<Rightarrow> unit \<Rightarrow> unit \<times> string option) option)) demo_past ())))
   \<and> \<not> snd (rate_check demo_rule (63 * second) (demo_login ''b'')
     (fst (soar_run (fresh_engine [demo_rule] None (None :: (string \<Rightarrow> unit \<Rightarrow> unit \<times> string option) option)) demo_past ())))"
proof -
  have lim: "rate_limited (RuleIf demo_rule)" "RuleEnabled demo_rule" "Threshold (RuleIf demo_rule) = 2"
    by (simp_all add: rate_limited_def demo_rule_def)
  have ips: "RemoteIP (demo_login ip) = ip" for ip by (simp add: demo_login_def)
  have past: "sorted (map fst demo_past)" "\<forall>t \<in> fst ` set demo_past. t \<le> 61 * second + 5"
    "\<forall>t \<in> fst ` set demo_past. t \<le> 63 * second"
    by (simp_all add: demo_past_def second_def)
  show ?thesis
    using soar_rate_window [OF demo_rule_colon_free _ past(1,2) lim(2,1) demo_rule_matches [of "''a''"],
        where bh = None and ah = None and h = "()"]
      soar_rate_window [OF demo_rule_colon_free _ past(1,3) lim(2,1) demo_rule_matches [of "''b''"],
        where bh = None and ah = None and h = "()"]
    by (simp add: ips lim demo_cutoff demo_rule_matches) (simp add: demo_past_def demo_cutoff demo_rule_matches ips second_def)
qed

theorem soar_blocks_exactly_witness:
  "blockedIPs (fst (soar_run (fresh_engine [demo_rule] None (None :: (string \<Rightarrow> unit \<Rightarrow> unit \<times> string option) option)) demo_past ())) ''a'' = Some True
   \<and> blockedIPs (fst (soar_run (fresh_engine [demo_rule] None (None :: (string \<Rightarrow> unit \<Rightarrow> unit \<times> string option) option)) demo_past ())) ''b'' = None"
proof -
  have past: "sorted (map fst demo_past)" by (simp add: demo_past_def second_def)
  have ips: "RemoteIP (demo_login ip) = ip" for ip by (simp add: demo_login_def)
  have lim: "rate_limited (RuleIf demo_rule)" "RuleEnabled demo_rule" "Threshold (RuleIf demo_rule) = 2" "rule_blocks demo_rule"
    by (simp_all add: rate_limited_def demo_rule_def rule_blocks_def)
  have past_snoc: "demo_past = (([] @ [(1 * second, demo_login ''a'')]) @ [(2 * second, demo_login ''b'')])
      @ [(30 * second, demo_login ''a'')]"
    by (simp add: demo_past_def)
  have nil: "\<not> blocked_spec [demo_rule] [] ip" for ip by (simp add: blocked_spec_def)
  have "blocked_spec [demo_rule] demo_past ''a''" "\<not> blocked_spec [demo_rule] demo_past ''b''"
    unfolding past_snoc blocked_spec_snoc
    by (simp_all add: nil fires_spec_def demo_rule_matches lim demo_cutoff hits_def ips second_def)
  then show ?thesis
    using soar_blocks_exactly [OF demo_rule_colon_free past, where bh = None and ah = None and h = "()"] by simp
qed

section \<open>Where the code falls short of its fields\<close>

definition with_min_severity :: "string \<Rightarrow> Rule \<Rightarrow> Rule" where
  "with_min_severity sev r = r\<lparr>RuleIf := (RuleIf r)\<lparr>MinSeverity := sev\<rparr>\<rparr>"

lemma process_rule_min_severity:
  "process_rule (with_min_severity sev r) now ev e h = process_rule r now ev e h"
  by (simp add: process_rule_def with_min_severity_def matchesCondition_def rate_check_def
      rate_limited_def rule_cutoff_def)

text \<open>
  The field \<open>MinSeverity\<close> of a condition is never read: changing it in every rule changes
  neither the actions an event triggers, nor the engine's new state, nor what the hooks see.
\<close>

theorem min_severity_ignored:
  "process_rules (map (with_min_severity sev) rs) now ev e h = process_rules rs now ev e h"
  by (induction rs arbitrary: e h) (simp_all add: process_rule_min_severity)

definition collision_rules :: "Rule list" where
  "collision_rules =
     [demo_rule\<lparr>RuleName := ''ssh''\<rparr>, demo_rule\<lparr>RuleName := ''ssh:1''\<rparr>]"

text \<open>
  The history key joins rule name and address with a colon, which IPv6 addresses also contain.
  With two rate rules named \<open>ssh\<close> and \<open>ssh:1\<close> that each need two events a minute, one event from
  \<open>1:2::3\<close> followed by one event from \<open>2::3\<close> blocks \<open>2::3\<close>, although each address sent a single event.
\<close>

theorem history_key_collision:
  "let e = fst (soar_run (fresh_engine collision_rules None (None :: (string \<Rightarrow> unit \<Rightarrow> unit \<times> string option) option))
             [(1 * second, demo_login ''1:2::3''), (2 * second, demo_login ''2::3'')] ())
   in blockedIPs e ''2::3'' = Some True \<and> blockedIPs e ''1:2::3'' = None"
  by code_simp

end
