(* ===== verification/Block_Applier.thy ===== *)
theory Block_Applier
  imports Go_Strings
begin

text \<open>
  Firewall rules (\<open>internal/defense/blocklist.go\<close>) and the applier behind the \<open>block_ip\<close> action
  (\<open>internal/soar/apply.go\<close>). What an applier does to the outside is a list of effects, in order: a
  command run, a webhook POST or a log line. The outcome of a command (an error or \<open>None\<close>) and of
  a POST are parameters, which may depend on all effects so far. \<open>json.Marshal\<close> of a \<open>BlockResult\<close>,
  a struct of strings and booleans, does not fail.
\<close>

section \<open>Firewall rules\<close>

type_synonym Format = string

definition FormatIPTables :: Format where "FormatIPTables = ''iptables''"
definition FormatNFTables :: Format where "FormatNFTables = ''nftables''"
definition FormatCIDR :: Format where "FormatCIDR = ''cidr''"

lemmas format_defs = FormatIPTables_def FormatNFTables_def FormatCIDR_def

definition iptables_line :: "string \<Rightarrow> string" where
  "iptables_line ip = ''iptables -A INPUT -s '' @ ip @ '' -j DROP'' @ nl"

definition GenerateRules :: "string list \<Rightarrow> Format \<Rightarrow> string" where
  "GenerateRules ips format =
     (if format = FormatIPTables then
        ''# Generated by Shinkiro (Active Defense Engine)'' @ nl @ concat (map iptables_line ips)
      else if format = FormatNFTables then
        ''add table inet shinkiro_filter'' @ nl
        @ ''add set inet shinkiro_filter blackhole { type ipv4_addr; }'' @ nl
        @ concat (map (\<lambda>ip. ''add element inet shinkiro_filter blackhole { '' @ ip @ '' }'' @ nl) ips)
        @ ''add rule inet shinkiro_filter input ip saddr @blackhole drop'' @ nl
      else if format = FormatCIDR then concat (map (\<lambda>ip. ip @ ''/32'' @ nl) ips)
      else concat (map (\<lambda>ip. ip @ nl) ips))"

section \<open>The applier\<close>

type_synonym ApplyMode = string

definition ApplyDryRun :: ApplyMode where "ApplyDryRun = ''dry-run''"
definition ApplyLive :: ApplyMode where "ApplyLive = ''apply''"

record BlockResult =
  BlockedIP :: string
  Reason :: string
  Mode :: ApplyMode
  BlockFormat :: string
  Commands :: string
  Applied :: bool
  WebhookOK :: bool
  Message :: string

datatype effect = Run string "string list" string | Post string BlockResult | LogLine string

datatype post_outcome = PostError string | Status int

record BlockEnv =
  runner :: "effect list \<Rightarrow> string \<Rightarrow> string list \<Rightarrow> string \<Rightarrow> string option"
  client_post :: "effect list \<Rightarrow> string \<Rightarrow> BlockResult \<Rightarrow> post_outcome"

text \<open>
  The runner used when none is configured, over \<open>exec.Command\<close>: the combined output and an error, which is
  reported with the trimmed output.
\<close>

definition defaultRunner ::
    "(string \<Rightarrow> string list \<Rightarrow> string \<Rightarrow> string \<times> string option) \<Rightarrow>
     string \<Rightarrow> string list \<Rightarrow> string \<Rightarrow> string option" where
  "defaultRunner exec name args stdin =
     (case exec name args stdin of
        (out, Some err) \<Rightarrow> Some (err @ '': '' @ trim_space out)
      | (_, None) \<Rightarrow> None)"

record BlockApplier =
  ApMode :: ApplyMode
  ApFormat :: Format
  webhookURL :: string
  last_results :: "BlockResult list"
  effects :: "effect list"

definition NewBlockApplier :: "ApplyMode \<Rightarrow> Format \<Rightarrow> string \<Rightarrow> BlockApplier" where
  "NewBlockApplier mode format url =
     \<lparr>ApMode = (if mode = [] then ApplyDryRun else mode),
      ApFormat = (if format = [] then FormatNFTables else format),
      webhookURL = url, last_results = [], effects = []\<rparr>"

text \<open>The environment variables are arguments; an unset variable is the empty string.\<close>

definition ModeFromEnv :: "string \<Rightarrow> ApplyMode" where
  "ModeFromEnv v = (if v = ''1'' then ApplyLive else ApplyDryRun)"

definition FormatFromEnv :: "string \<Rightarrow> Format" where
  "FormatFromEnv v =
     (let s = to_lower (trim_space v)
      in if s = ''iptables'' then FormatIPTables
         else if s = ''cidr'' then FormatCIDR
         else FormatNFTables)"

definition WebhookFromEnv :: "string \<Rightarrow> string" where
  "WebhookFromEnv v = trim_space v"

definition logf :: "string \<Rightarrow> BlockApplier \<Rightarrow> BlockApplier" where
  "logf msg a = a\<lparr>effects := effects a @ [LogLine msg]\<rparr>"

definition record_result :: "BlockResult \<Rightarrow> BlockApplier \<Rightarrow> BlockApplier" where
  "record_result res a = a\<lparr>last_results := last_results a @ [res]\<rparr>"

definition run_command ::
    "BlockEnv \<Rightarrow> string \<Rightarrow> string list \<Rightarrow> string \<Rightarrow> BlockApplier \<Rightarrow> BlockApplier \<times> string option" where
  "run_command env name args stdin a =
     (a\<lparr>effects := effects a @ [Run name args stdin]\<rparr>, runner env (effects a) name args stdin)"

fun exec_lines :: "BlockEnv \<Rightarrow> string list \<Rightarrow> BlockApplier \<Rightarrow> BlockApplier \<times> string option" where
  "exec_lines env [] a = (a, None)"
| "exec_lines env (line # lines) a =
     (let line = trim_space line
      in if line = [] \<or> has_prefix line ''#'' then exec_lines env lines a
         else (case str_fields line of
                 [] \<Rightarrow> exec_lines env lines a
               | name # args \<Rightarrow>
                   (case run_command env name args [] a of
                      (a, Some err) \<Rightarrow> (a, Some (line @ '': '' @ err))
                    | (a, None) \<Rightarrow> exec_lines env lines a)))"

definition execCommands :: "BlockEnv \<Rightarrow> string \<Rightarrow> BlockApplier \<Rightarrow> BlockApplier \<times> string option" where
  "execCommands env script a =
     (if ApFormat a = FormatIPTables then exec_lines env (split_char (CHR 0x0A) script) a
      else if ApFormat a = FormatNFTables then
        (case run_command env ''nft'' [''-f'', ''-''] script a of
           (a, Some err) \<Rightarrow> (a, Some (''nft -f -: '' @ err))
         | (a, None) \<Rightarrow> (a, None))
      else (logf (''[SOAR block_ip apply] format '' @ ApFormat a
                  @ '' has no local exec path; commands emitted only'') a, None))"

definition postWebhook :: "BlockEnv \<Rightarrow> BlockResult \<Rightarrow> BlockApplier \<Rightarrow> BlockApplier \<times> string option" where
  "postWebhook env res a =
     (a\<lparr>effects := effects a @ [Post (webhookURL a) res]\<rparr>,
      (case client_post env (effects a) (webhookURL a) res of
         PostError err \<Rightarrow> Some err
       | Status code \<Rightarrow>
           (if code < 200 \<or> code \<ge> 300 then Some (''webhook status '' @ dec code) else None)))"

definition block_result :: "BlockApplier \<Rightarrow> string \<Rightarrow> string \<Rightarrow> BlockResult" where
  "block_result a ip reason =
     \<lparr>BlockedIP = ip, Reason = reason, Mode = ApMode a, BlockFormat = ApFormat a,
      Commands = GenerateRules [ip] (ApFormat a), Applied = False, WebhookOK = False, Message = []\<rparr>"

definition zero_result :: BlockResult where
  "zero_result =
     \<lparr>BlockedIP = [], Reason = [], Mode = [], BlockFormat = [], Commands = [], Applied = False,
      WebhookOK = False, Message = []\<rparr>"

text \<open>\<open>BlockIP\<close>: the applier afterwards, the result, and the error.\<close>

definition BlockIP ::
    "BlockEnv \<Rightarrow> string \<Rightarrow> string \<Rightarrow> BlockApplier \<Rightarrow> BlockApplier \<times> BlockResult \<times> string option" where
  "BlockIP env ip reason a =
     (if ip = [] then (a, zero_result, Some ''block_ip: empty IP'')
      else
        (let res = block_result a ip reason; cmds = Commands res
         in if ApMode a \<noteq> ApplyLive then
              (let res = res\<lparr>Message := ''dry-run: would block '' @ ip @ '' via '' @ ApFormat a
                     @ '' (set SHINKIRO_SOAR_APPLY=1 or pass --apply to execute)''\<rparr>;
                   a = logf (''[SOAR block_ip dry-run] '' @ Message res @ nl @ cmds) a;
                   a = (if webhookURL a \<noteq> [] then
                          logf (''[SOAR block_ip dry-run] webhook POST skipped (target='' @ webhookURL a @ '')'') a
                        else a)
               in (record_result res a, res, None))
            else
              (case execCommands env cmds a of
                 (a, Some err) \<Rightarrow>
                   (let res = res\<lparr>Message := ''apply failed for '' @ ip @ '': '' @ err\<rparr>;
                        a = logf (''[SOAR block_ip apply] '' @ Message res) a
                    in (record_result res a, res, Some err))
               | (a, None) \<Rightarrow>
                   (let res = res\<lparr>Applied := True, Message := ''applied '' @ ApFormat a @ '' block for '' @ ip\<rparr>;
                        a = logf (''[SOAR block_ip apply] '' @ Message res @ nl @ cmds) a;
                        (a, res) =
                          (if webhookURL a \<noteq> [] then
                             (case postWebhook env res a of
                                (a, Some err) \<Rightarrow>
                                  (logf (''[SOAR block_ip apply] webhook error: '' @ err) a,
                                   res\<lparr>Message := Message res @ ''; webhook error: '' @ err\<rparr>)
                              | (a, None) \<Rightarrow> (a, res\<lparr>WebhookOK := True\<rparr>))
                           else (a, res))
                    in (record_result res a, res, None)))))"

definition Hook :: "BlockEnv \<Rightarrow> string \<Rightarrow> string \<Rightarrow> BlockApplier \<Rightarrow> BlockApplier \<times> string option" where
  "Hook env ip reason a = (case BlockIP env ip reason a of (a, _, err) \<Rightarrow> (a, err))"

definition LastResults :: "BlockApplier \<Rightarrow> BlockResult list" where
  "LastResults a = last_results a"

section \<open>Dry run\<close>

definition commands_run :: "effect list \<Rightarrow> (string \<times> string list \<times> string) list" where
  "commands_run xs = List.map_filter (\<lambda>x. case x of Run n args inp \<Rightarrow> Some (n, args, inp) | _ \<Rightarrow> None) xs"

definition posts :: "effect list \<Rightarrow> BlockResult list" where
  "posts xs = List.map_filter (\<lambda>x. case x of Post _ r \<Rightarrow> Some r | _ \<Rightarrow> None) xs"

lemma commands_run_simps [simp]:
  "commands_run [] = []" "commands_run (xs @ ys) = commands_run xs @ commands_run ys"
  "commands_run (Run n args inp # xs) = (n, args, inp) # commands_run xs"
  "commands_run (LogLine s # xs) = commands_run xs" "commands_run (Post u r # xs) = commands_run xs"
  by (simp_all add: commands_run_def map_filter_def)

lemma posts_simps [simp]:
  "posts [] = []" "posts (xs @ ys) = posts xs @ posts ys" "posts (Run n args inp # xs) = posts xs"
  "posts (LogLine s # xs) = posts xs" "posts (Post u r # xs) = r # posts xs"
  by (simp_all add: posts_def map_filter_def)

text \<open>A run of the hook over a list of (address, reason) pairs.\<close>

fun hook_all :: "BlockEnv \<Rightarrow> (string \<times> string) list \<Rightarrow> BlockApplier \<Rightarrow> BlockApplier" where
  "hook_all env [] a = a"
| "hook_all env ((ip, reason) # xs) a = hook_all env xs (fst (Hook env ip reason a))"

lemma dry_run_step:
  assumes "ApMode a \<noteq> ApplyLive" "BlockIP env ip reason a = (a', res, err)"
  shows "ApMode a' = ApMode a \<and> commands_run (effects a') = commands_run (effects a)
    \<and> posts (effects a') = posts (effects a)
    \<and> (if ip = [] then last_results a' = last_results a \<and> err \<noteq> None
       else last_results a' = last_results a @ [res] \<and> err = None \<and> \<not> Applied res \<and> \<not> WebhookOK res)"
  using assms by (auto simp: BlockIP_def Let_def logf_def record_result_def block_result_def split: if_splits)

text \<open>
  Dry run is honest. An applier configured with any mode other than \<open>apply\<close> (the empty mode
  included) never runs a command and never posts to the webhook, however often the hook is called,
  whatever the addresses and whatever the environment; every result it records says not applied.
\<close>

theorem dry_run_has_no_effect:
  assumes "mode \<noteq> ApplyLive"
  shows "commands_run (effects (hook_all env xs (NewBlockApplier mode format url))) = []
       \<and> posts (effects (hook_all env xs (NewBlockApplier mode format url))) = []
       \<and> (\<forall>res \<in> set (LastResults (hook_all env xs (NewBlockApplier mode format url))). \<not> Applied res)
       \<and> map BlockedIP (LastResults (hook_all env xs (NewBlockApplier mode format url)))
           = filter (\<lambda>ip. ip \<noteq> []) (map fst xs)"
proof -
  have "commands_run (effects (hook_all env xs a)) = commands_run (effects a)
      \<and> posts (effects (hook_all env xs a)) = posts (effects a)
      \<and> (\<forall>res \<in> set (last_results (hook_all env xs a)). res \<in> set (last_results a) \<or> \<not> Applied res)
      \<and> map BlockedIP (last_results (hook_all env xs a))
          = map BlockedIP (last_results a) @ filter (\<lambda>ip. ip \<noteq> []) (map fst xs)"
    if "ApMode a \<noteq> ApplyLive" for a
    using that
  proof (induction env xs a rule: hook_all.induct)
    case (2 env ip reason xs a)
    obtain a' res err where b: "BlockIP env ip reason a = (a', res, err)" by (cases "BlockIP env ip reason a") auto
    have ip: "BlockedIP res = ip" if "ip \<noteq> []"
      using b that "2.prems" by (auto simp: BlockIP_def Let_def block_result_def)
    from dry_run_step [OF "2.prems" b] "2.IH" b "2.prems" ip show ?case
      by (auto simp: Hook_def split: if_splits)
  qed simp
  from this [of "NewBlockApplier mode format url"] assms show ?thesis
    by (simp add: NewBlockApplier_def LastResults_def ApplyLive_def ApplyDryRun_def)
qed

definition demo_env :: BlockEnv where
  "demo_env = \<lparr>runner = (\<lambda>_ _ _ _. None), client_post = (\<lambda>_ _ _. Status 200)\<rparr>"

theorem dry_run_has_no_effect_witness:
  "ApplyDryRun \<noteq> ApplyLive
   \<and> commands_run (effects (hook_all demo_env [(''192.0.2.7'', ''r'')] (NewBlockApplier ApplyDryRun FormatIPTables ''u''))) = []"
  using dry_run_has_no_effect [of ApplyDryRun demo_env "[(''192.0.2.7'', ''r'')]" FormatIPTables "''u''"]
  by (simp add: ApplyDryRun_def ApplyLive_def)

section \<open>The iptables script\<close>

definition iptables_call :: "string \<Rightarrow> string \<times> string list \<times> string" where
  "iptables_call ip = (''iptables'', [''-A'', ''INPUT'', ''-s'', ip, ''-j'', ''DROP''], [])"

lemma iptables_line_parse:
  assumes "token ip"
  shows "trim_space (''iptables -A INPUT -s '' @ ip @ '' -j DROP'') = ''iptables -A INPUT -s '' @ ip @ '' -j DROP''"
    and "str_fields (''iptables -A INPUT -s '' @ ip @ '' -j DROP'') =
      [''iptables'', ''-A'', ''INPUT'', ''-s'', ip, ''-j'', ''DROP'']"
proof -
  show "trim_space (''iptables -A INPUT -s '' @ ip @ '' -j DROP'') = ''iptables -A INPUT -s '' @ ip @ '' -j DROP''"
    by (rule trim_space_id) (simp add: graphic_def)
  have words: "token ''iptables''" "token ''-A''" "token ''INPUT''" "token ''-s''" "token ''-j''" "token ''DROP''"
    by (simp_all add: token_def graphic_def)
  have "''iptables -A INPUT -s '' @ ip @ '' -j DROP'' =
      ''iptables'' @ CHR 0x20 # ''-A'' @ CHR 0x20 # ''INPUT'' @ CHR 0x20 # ''-s'' @ CHR 0x20 # ip @ CHR 0x20 # ''-j'' @ CHR 0x20 # ''DROP''"
    by simp
  then show "str_fields (''iptables -A INPUT -s '' @ ip @ '' -j DROP'') =
      [''iptables'', ''-A'', ''INPUT'', ''-s'', ip, ''-j'', ''DROP'']"
    by (simp only: token_fields words assms)
qed

lemma exec_lines_iptables:
  assumes "\<forall>ip \<in> set ips. token ip" "exec_lines env (split_char (CHR 0x0A) (concat (map iptables_line ips))) a = (a', err)"
  shows "\<exists>k \<le> length ips. commands_run (effects a') = commands_run (effects a) @ map iptables_call (take k ips)
       \<and> (err = None \<longrightarrow> k = length ips) \<and> last_results a' = last_results a \<and> webhookURL a' = webhookURL a
       \<and> ApMode a' = ApMode a \<and> ApFormat a' = ApFormat a \<and> posts (effects a') = posts (effects a)"
  using assms
proof (induction ips arbitrary: a)
  case Nil
  then show ?case by (simp add: trim_space_def)
next
  case (Cons ip ips)
  let ?line = "''iptables -A INPUT -s '' @ ip @ '' -j DROP''"
  let ?rest = "split_char (CHR 0x0A) (concat (map iptables_line ips))"
  from Cons.prems(1) have tok: "token ip" by simp
  have "split_char (CHR 0x0A) (concat (map iptables_line (ip # ips))) =
      split_char (CHR 0x0A) (?line @ CHR 0x0A # concat (map iptables_line ips))"
    by (simp add: iptables_line_def)
  also have "\<dots> = ?line # ?rest"
    using token_newline [OF tok] by (intro split_char_append) simp
  finally have split: "split_char (CHR 0x0A) (concat (map iptables_line (ip # ips))) = ?line # ?rest" .
  let ?a = "a\<lparr>effects := effects a @ [Run ''iptables'' [''-A'', ''INPUT'', ''-s'', ip, ''-j'', ''DROP''] []]\<rparr>"
  have step: "exec_lines env (?line # ?rest) a =
      (case runner env (effects a) ''iptables'' [''-A'', ''INPUT'', ''-s'', ip, ''-j'', ''DROP''] [] of
         Some e \<Rightarrow> (?a, Some (?line @ '': '' @ e)) | None \<Rightarrow> exec_lines env ?rest ?a)"
    unfolding exec_lines.simps Let_def iptables_line_parse [OF tok] run_command_def
    by (simp split: option.splits)
  show ?case
  proof (cases "runner env (effects a) ''iptables'' [''-A'', ''INPUT'', ''-s'', ip, ''-j'', ''DROP''] []")
    case (Some e)
    with Cons.prems(2) step split have "a' = ?a" "err \<noteq> None" by auto
    then show ?thesis by (intro exI [of _ 1]) (auto simp: iptables_call_def)
  next
    case None
    with Cons.prems(2) step split have "exec_lines env ?rest ?a = (a', err)" by simp
    with Cons.IH [of ?a] Cons.prems(1) obtain k where "k \<le> length ips"
      "commands_run (effects a') = commands_run (effects ?a) @ map iptables_call (take k ips)"
      "err = None \<longrightarrow> k = length ips" "last_results a' = last_results ?a" "webhookURL a' = webhookURL ?a"
      "ApMode a' = ApMode ?a" "ApFormat a' = ApFormat ?a" "posts (effects a') = posts (effects ?a)" by auto
    then show ?thesis by (intro exI [of _ "Suc k"]) (auto simp: iptables_call_def)
  qed
qed



section \<open>Live mode\<close>

lemma exec_lines_frame:
  "exec_lines env lines a = (a', err) \<Longrightarrow> last_results a' = last_results a \<and> webhookURL a' = webhookURL a
     \<and> posts (effects a') = posts (effects a)"
  by (induction env lines a rule: exec_lines.induct)
     (auto simp: Let_def run_command_def split: if_splits list.splits option.splits)

lemma execCommands_frame:
  "execCommands env script a = (a', err) \<Longrightarrow> last_results a' = last_results a \<and> webhookURL a' = webhookURL a
     \<and> posts (effects a') = posts (effects a)"
  by (auto simp: execCommands_def run_command_def logf_def dest: exec_lines_frame split: if_splits option.splits)



text \<open>
  Nothing checks that the address is an address. A string with a newline passes through the
  generator into the iptables script, and the part after it runs as a command of its own.
\<close>

theorem iptables_injection:
  "commands_run (effects (fst (BlockIP demo_env (''203.0.113.9 -j ACCEPT'' @ nl @ ''reboot now #'') ''r''
     (NewBlockApplier ApplyLive FormatIPTables [])))) =
   [(''iptables'', [''-A'', ''INPUT'', ''-s'', ''203.0.113.9'', ''-j'', ''ACCEPT''], []),
    (''reboot'', [''now'', ''#'', ''-j'', ''DROP''], [])]"
  by code_simp

end
