(* ===== verification/Go_Hash.thy ===== *)
theory Go_Hash
  imports Go_Strings
begin

unbundle bit_operations_syntax

text \<open>
  \<open>crypto/sha256\<close> and \<open>crypto/hmac\<close> of the Go standard library (FIPS 180-4, RFC 2104) on
  byte lists, as executable functions on 32-bit words. The decoys fingerprint payloads with
  \<open>hex.EncodeToString(sha256.Sum256(x))\<close>, here \<open>sha256_hex\<close>; the canary generator signs with
  HMAC-SHA256.
\<close>

type_synonym u32 = "32 word"

text \<open>
  The round constants are derived, as FIPS 180-4 defines them: the first 32 bits of the fractional
  parts of the cube roots of the first 64 primes. \<open>root_floor\<close> finds a root bit by bit; \<open>cbrt(p * 2^96)\<close>
  is \<open>2^32 * cbrt(p)\<close>.
\<close>

definition root_floor :: "nat \<Rightarrow> int \<Rightarrow> int" where
  "root_floor k n = foldl (\<lambda>r i. if (r + 2 ^ i) ^ k \<le> n then r + 2 ^ i else r) 0 (rev [0..<40])"

definition sha_primes :: "int list" where
  "sha_primes = filter (\<lambda>n. list_all (\<lambda>d. n mod d \<noteq> 0) [2..n - 1]) [2..311]"

definition sha_k :: "u32 list" where
  "sha_k = map (\<lambda>p. word_of_int (root_floor 3 (p * 2 ^ 96))) sha_primes"

definition sha_init :: "u32 list" where
  "sha_init =
    [0x6a09e667, 0xbb67ae85, 0x3c6ef372, 0xa54ff53a, 0x510e527f, 0x9b05688c, 0x1f83d9ab, 0x5be0cd19]"

definition rotr32 :: "nat \<Rightarrow> u32 \<Rightarrow> u32" where
  "rotr32 n x = drop_bit n x OR push_bit (32 - n) x"

definition sha_s0 :: "u32 \<Rightarrow> u32" where
  "sha_s0 x = rotr32 7 x XOR rotr32 18 x XOR drop_bit 3 x"

definition sha_s1 :: "u32 \<Rightarrow> u32" where
  "sha_s1 x = rotr32 17 x XOR rotr32 19 x XOR drop_bit 10 x"

definition sha_S0 :: "u32 \<Rightarrow> u32" where
  "sha_S0 x = rotr32 2 x XOR rotr32 13 x XOR rotr32 22 x"

definition sha_S1 :: "u32 \<Rightarrow> u32" where
  "sha_S1 x = rotr32 6 x XOR rotr32 11 x XOR rotr32 25 x"

text \<open>Padding to a multiple of 64 bytes, with the bit length in the last eight bytes.\<close>

definition be_bytes :: "nat \<Rightarrow> nat \<Rightarrow> byte list" where
  "be_bytes k n = map (\<lambda>i. of_nat (n div 256 ^ (k - 1 - i))) [0..<k]"

definition sha_pad :: "byte list \<Rightarrow> byte list" where
  "sha_pad bs =
     (let z = (119 - length bs mod 64) mod 64
      in bs @ [0x80] @ replicate z 0 @ be_bytes 8 (8 * length bs))"

definition be32 :: "byte list \<Rightarrow> u32" where
  "be32 bs = foldl (\<lambda>acc b. push_bit 8 acc OR ucast b) 0 bs"

fun chunks :: "nat \<Rightarrow> 'a list \<Rightarrow> 'a list list" where
  "chunks k xs = (if k = 0 \<or> xs = [] then [] else take k xs # chunks k (drop k xs))"

declare chunks.simps [simp del]

definition sha_next_w :: "u32 list \<Rightarrow> u32 list" where
  "sha_next_w ws =
     (let t = length ws
      in ws @ [sha_s1 (ws ! (t - 2)) + ws ! (t - 7) + sha_s0 (ws ! (t - 15)) + ws ! (t - 16)])"

definition sha_schedule :: "byte list \<Rightarrow> u32 list" where
  "sha_schedule block = (sha_next_w ^^ 48) (map be32 (chunks 4 block))"

fun sha_round :: "u32 list \<Rightarrow> u32 \<times> u32 \<Rightarrow> u32 list" where
  "sha_round [a, b, c, d, e, f, g, h] (k, w) =
     (let t1 = h + sha_S1 e + ((e AND f) XOR (NOT e AND g)) + k + w;
          t2 = sha_S0 a + ((a AND b) XOR (a AND c) XOR (b AND c))
      in [t1 + t2, a, b, c, d + t1, e, f, g])"
| "sha_round st kw = st"

definition sha_block :: "u32 list \<Rightarrow> byte list \<Rightarrow> u32 list" where
  "sha_block st block = map2 (+) st (foldl sha_round st (zip sha_k (sha_schedule block)))"

definition sha256 :: "byte list \<Rightarrow> byte list" where
  "sha256 bs = concat (map (\<lambda>w. be_bytes 4 (unat w)) (foldl sha_block sha_init (chunks 64 (sha_pad bs))))"

definition sha256_hex :: "string \<Rightarrow> string" where
  "sha256_hex s = hex_encode (sha256 (bytes_of s))"

definition hmac_sha256 :: "byte list \<Rightarrow> byte list \<Rightarrow> byte list" where
  "hmac_sha256 key msg =
     (let k0 = (if length key > 64 then sha256 key else key);
          k = k0 @ replicate (64 - length k0) 0
      in sha256 (map (\<lambda>b. b XOR 0x5c) k @ sha256 (map (\<lambda>b. b XOR 0x36) k @ msg)))"

text \<open>Every digest has 32 bytes, so its hexadecimal text has 64 characters.\<close>

lemma length_be_bytes [simp]: "length (be_bytes k n) = k"
  by (simp add: be_bytes_def)

lemma length_sha_round: "length st = 8 \<Longrightarrow> length (sha_round st kw) = 8"
  by (cases "(st, kw)" rule: sha_round.cases) (auto simp: Let_def)

lemma length_foldl_sha_round: "length st = 8 \<Longrightarrow> length (foldl sha_round st kws) = 8"
  by (induction kws arbitrary: st) (simp_all add: length_sha_round)

lemma length_sha_block: "length st = 8 \<Longrightarrow> length (sha_block st block) = 8"
  by (simp add: sha_block_def length_foldl_sha_round)

lemma length_foldl_sha_block: "length st = 8 \<Longrightarrow> length (foldl sha_block st blocks) = 8"
  by (induction blocks arbitrary: st) (simp_all add: length_sha_block)

lemma length_concat_be_bytes: "length (concat (map (\<lambda>w. be_bytes k (f w)) ws)) = k * length ws"
  by (induction ws) simp_all

lemma length_sha256 [simp]: "length (sha256 bs) = 32"
proof -
  have "length sha_init = 8" by (simp add: sha_init_def)
  then show ?thesis
    by (simp add: sha256_def length_concat_be_bytes length_foldl_sha_block)
qed

lemma length_sha256_hex [simp]: "length (sha256_hex s) = 64"
  by (simp add: sha256_hex_def)

lemma length_hmac_sha256 [simp]: "length (hmac_sha256 key msg) = 32"
  by (simp add: hmac_sha256_def Let_def)

end
