(* ===== verification/Decoy_Iface.thy ===== *)
theory Decoy_Iface
  imports Intel_Event Go_Hash
begin

text \<open>
  The contract of \<open>internal/decoys/decoy.go\<close>: a decoy has a name, a default port and a
  connection handler. A handler is a function from a connection to the sequence of its visible
  actions, in order: \<open>Write\<close> for a \<open>conn.Write\<close> and \<open>Emit\<close> for the non-blocking send
  \<open>select { case events <- ev: default: }\<close> of an event. No handler looks at the outcome of
  a send, so the sequence does not depend on how full the channel is. \<open>Panic\<close> marks a runtime
  error (an index out of range), which would take the whole process down; it is the last action.

  A connection is its remote address, the segments the peer sends before it closes or the
  deadline expires, and the readings of the wall clock. Event number \<open>k\<close> of a connection reads
  the clock twice, at \<open>2 * k\<close> for its ID and at \<open>2 * k + 1\<close> for its time stamp.

  The locale \<open>decoy\<close> states what the rest of the program relies on: a handler never panics, and
  every event it emits carries the decoy's name, the peer's address and a score in the band of its
  severity.
\<close>

datatype io = Write string | Emit Event | Panic

record conn =
  conn_addr :: string
  conn_segs :: "string list"
  conn_clock :: "nat \<Rightarrow> time"

definition conn_in :: "conn \<Rightarrow> string" where
  "conn_in c = concat (conn_segs c)"

text \<open>The prologue of every handler: the remote IP, or the whole address if it has no port.\<close>

definition remote_ip :: "string \<Rightarrow> string" where
  "remote_ip addr = (case SplitHostPort addr of None \<Rightarrow> addr | Some (host, _) \<Rightarrow> host)"

text \<open>\<open>bufio.Reader.ReadString('\n')\<close>, \<open>io.ReadFull\<close> and one \<open>conn.Read\<close> into a buffer.\<close>

fun ReadString :: "string \<Rightarrow> (string \<times> string) option" where
  "ReadString [] = None"
| "ReadString (c # s) =
     (if c = CHR 0x0A then Some ([c], s)
      else (case ReadString s of None \<Rightarrow> None | Some (l, r) \<Rightarrow> Some (c # l, r)))"

definition ReadFull :: "nat \<Rightarrow> string \<Rightarrow> (string \<times> string) option" where
  "ReadFull n s = (if n \<le> length s then Some (take n s, drop n s) else None)"

definition conn_read :: "nat \<Rightarrow> conn \<Rightarrow> string option" where
  "conn_read n c = (case conn_segs c of [] \<Rightarrow> None | seg # _ \<Rightarrow> Some (take n seg))"

lemma ReadString_SomeD: "ReadString s = Some (l, r) \<Longrightarrow> s = l @ r \<and> l \<noteq> []"
proof (induction s arbitrary: l r)
  case (Cons c s)
  show ?case
  proof (cases "c = CHR 0x0A")
    case False
    with Cons.prems obtain l' where "ReadString s = Some (l', r)" "l = c # l'"
      by (auto split: option.splits)
    with Cons.IH show ?thesis by simp
  qed (use Cons.prems in auto)
qed simp

lemma ReadString_length [termination_simp]: "ReadString s = Some (l, r) \<Longrightarrow> length r < length s"
proof -
  assume "ReadString s = Some (l, r)"
  from ReadString_SomeD [OF this] show ?thesis by (cases l) auto
qed

lemma ReadString_line: "CHR 0x0A \<notin> set l \<Longrightarrow> ReadString (l @ CHR 0x0A # r) = Some (l @ nl, r)"
  by (induction l) auto

lemma ReadFull_SomeD: "ReadFull n s = Some (a, r) \<Longrightarrow> s = a @ r \<and> length a = n"
  by (auto simp: ReadFull_def split: if_splits)

lemma ReadFull_length: "ReadFull n s = Some (a, r) \<Longrightarrow> length a = n"
  by (auto simp: ReadFull_def split: if_splits)

lemma ReadFull_append: "length a = n \<Longrightarrow> ReadFull n (a @ r) = Some (a, r)"
  by (auto simp: ReadFull_def)

text \<open>The fields every event literal of a handler starts with.\<close>

definition base_event :: "conn \<Rightarrow> string \<Rightarrow> nat \<Rightarrow> string \<Rightarrow> int \<Rightarrow> Severity \<Rightarrow> int \<Rightarrow> string \<Rightarrow> Event" where
  "base_event c prefix k name port sev score action =
     zero_event\<lparr>ID := prefix @ dec (conn_clock c (2 * k)),
       Timestamp := conn_clock c (2 * k + 1), DecoyName := name, RemoteAddr := conn_addr c,
       RemoteIP := remote_ip (conn_addr c), LocalPort := port, Severity := sev,
       ThreatScore := score, Action := action\<rparr>"

lemma base_event_simps [simp]:
  "ID (base_event c p k n lp sev sc a) = p @ dec (conn_clock c (2 * k))"
  "Timestamp (base_event c p k n lp sev sc a) = conn_clock c (2 * k + 1)"
  "DecoyName (base_event c p k n lp sev sc a) = n"
  "RemoteAddr (base_event c p k n lp sev sc a) = conn_addr c"
  "RemoteIP (base_event c p k n lp sev sc a) = remote_ip (conn_addr c)"
  "RemotePort (base_event c p k n lp sev sc a) = 0"
  "LocalPort (base_event c p k n lp sev sc a) = lp"
  "Severity (base_event c p k n lp sev sc a) = sev"
  "ThreatScore (base_event c p k n lp sev sc a) = sc"
  "Action (base_event c p k n lp sev sc a) = a"
  "Username (base_event c p k n lp sev sc a) = []"
  "Password (base_event c p k n lp sev sc a) = []"
  "Command (base_event c p k n lp sev sc a) = []"
  "PayloadHashes (base_event c p k n lp sev sc a) = []"
  "Mitre (base_event c p k n lp sev sc a) = None"
  "Metadata (base_event c p k n lp sev sc a) = Map.empty"
  by (simp_all add: base_event_def)

section \<open>Observations on a sequence of actions\<close>

fun emitted :: "io list \<Rightarrow> Event list" where
  "emitted [] = []"
| "emitted (Emit ev # xs) = ev # emitted xs"
| "emitted (Write _ # xs) = emitted xs"
| "emitted (Panic # xs) = emitted xs"

fun written :: "io list \<Rightarrow> string list" where
  "written [] = []"
| "written (Write w # xs) = w # written xs"
| "written (Emit _ # xs) = written xs"
| "written (Panic # xs) = written xs"

lemma emitted_append [simp]: "emitted (xs @ ys) = emitted xs @ emitted ys"
  by (induction xs rule: emitted.induct) auto

lemma written_append [simp]: "written (xs @ ys) = written xs @ written ys"
  by (induction xs rule: written.induct) auto

lemma set_emitted: "ev \<in> set (emitted xs) \<longleftrightarrow> Emit ev \<in> set xs"
  by (induction xs rule: emitted.induct) auto

lemma set_written: "w \<in> set (written xs) \<longleftrightarrow> Write w \<in> set xs"
  by (induction xs rule: written.induct) auto

section \<open>The score bands\<close>

text \<open>
  How severity and score go together in the events of the fifteen decoys. \<open>CRITICAL\<close> starts at
  85, so every critical event is above the score 80 at which the sink counts a probe as blocked
  and the default on-demand capture fires.
\<close>

definition score_band :: "Severity \<Rightarrow> int \<Rightarrow> bool" where
  "score_band sev score \<longleftrightarrow>
     (sev = SeverityLow \<and> 20 \<le> score \<and> score \<le> 30)
   \<or> (sev = SeverityMedium \<and> 40 \<le> score \<and> score \<le> 70)
   \<or> (sev = SeverityHigh \<and> 65 \<le> score \<and> score \<le> 85)
   \<or> (sev = SeverityCritical \<and> 85 \<le> score \<and> score \<le> 100)"

lemma score_band_range: "score_band sev score \<Longrightarrow> 20 \<le> score \<and> score \<le> 100"
  by (auto simp: score_band_def)

lemma score_band_critical: "score_band SeverityCritical score \<Longrightarrow> 85 \<le> score"
  by (auto simp: score_band_def)

definition good_event :: "conn \<Rightarrow> string \<Rightarrow> Event \<Rightarrow> bool" where
  "good_event c name ev \<longleftrightarrow>
     DecoyName ev = name \<and> RemoteAddr ev = conn_addr c \<and> RemoteIP ev = remote_ip (conn_addr c)
   \<and> score_band (Severity ev) (ThreatScore ev)"

definition good_io :: "conn \<Rightarrow> string \<Rightarrow> io \<Rightarrow> bool" where
  "good_io c name x \<longleftrightarrow> (case x of Write _ \<Rightarrow> True | Emit ev \<Rightarrow> good_event c name ev | Panic \<Rightarrow> False)"

lemma good_io_simps [simp]: "good_io c name (Write w)" "good_io c name (Emit ev) = good_event c name ev"
  "\<not> good_io c name Panic"
  by (simp_all add: good_io_def)

locale decoy =
  fixes name :: string and port :: int and handle :: "conn \<Rightarrow> io list"
  assumes handle_good: "list_all (good_io c name) (handle c)"
    and name_nonempty: "name \<noteq> []"
    and port_range: "0 < port \<and> port < 65536"
begin

lemma emitted_good: "ev \<in> set (emitted (handle c)) \<Longrightarrow> good_event c name ev"
  using handle_good [of c] by (auto simp: set_emitted list_all_iff)

lemma no_panic: "Panic \<notin> set (handle c)"
  using handle_good [of c] by (auto simp: list_all_iff)

lemma emitted_name: "ev \<in> set (emitted (handle c)) \<Longrightarrow> DecoyName ev = name"
  using emitted_good by (simp add: good_event_def)

lemma emitted_ip: "ev \<in> set (emitted (handle c)) \<Longrightarrow> RemoteIP ev = remote_ip (conn_addr c)"
  using emitted_good by (simp add: good_event_def)

lemma emitted_score: "ev \<in> set (emitted (handle c)) \<Longrightarrow> 20 \<le> ThreatScore ev \<and> ThreatScore ev \<le> 100"
  using emitted_good score_band_range by (metis good_event_def)

lemma emitted_critical:
  "ev \<in> set (emitted (handle c)) \<Longrightarrow> Severity ev = SeverityCritical \<Longrightarrow> 85 \<le> ThreatScore ev"
  using emitted_good score_band_critical by (metis good_event_def)

end

end
