(* ===== verification/Decoys_Text.thy ===== *)
theory Decoys_Text
  imports Decoy_Iface
begin

text \<open>
  The line-oriented decoys: Redis (\<open>internal/decoys/redis/redis.go\<close>), SMTP
  (\<open>internal/decoys/smtp/smtp.go\<close>) and Telnet (\<open>internal/decoys/telnet/telnet.go\<close>). Each loop of
  \<open>ReadString\<close> is a recursion on the bytes still to be read; \<open>k\<close> counts the events built so far.
\<close>

section \<open>Redis\<close>

definition redis_info :: string where
  "redis_info = ''# Server'' @ crlf @ ''redis_version:7.2.4'' @ crlf @ ''os:Linux 6.6.137-amd64'' @ crlf
     @ ''tcp_port:6379'' @ crlf @ ''uptime_in_seconds:364210'' @ crlf"

definition redis_step :: "conn \<Rightarrow> nat \<Rightarrow> string \<Rightarrow> io list" where
  "redis_step c k line =
     (case str_fields line of
        [] \<Rightarrow> [Panic]
      | p # _ \<Rightarrow>
          (let cmd = to_upper p;
               event = (base_event c ''redis-'' k ''redis'' 6379 SeverityMedium 40 cmd)\<lparr>Command := line\<rparr>
           in if cmd = ''PING'' then [Write (''+PONG'' @ crlf), Emit event]
              else if cmd = ''INFO'' then
                [Write (''$'' @ dec (int (length redis_info)) @ crlf @ redis_info @ crlf),
                 Emit (event\<lparr>Severity := SeverityHigh, ThreatScore := 65\<rparr>)]
              else if cmd = ''CONFIG'' then
                [Write (''-ERR unknown command or insufficient permissions'' @ crlf),
                 Emit (event\<lparr>Severity := SeverityCritical, ThreatScore := 85\<rparr>)]
              else if cmd = ''EVAL'' \<or> cmd = ''EVALSHA'' then
                [Write (''-ERR Error running script: sandbox evaluation blocked'' @ crlf),
                 Emit (event\<lparr>Severity := SeverityCritical, ThreatScore := 95,
                             PayloadHashes := [sha256_hex line]\<rparr>)]
              else [Write (''+OK'' @ crlf), Emit event]))"

function redis_loop :: "conn \<Rightarrow> nat \<Rightarrow> string \<Rightarrow> io list" where
  "redis_loop c k s =
     (case ReadString s of
        None \<Rightarrow> []
      | Some (l, r) \<Rightarrow>
          (let line = trim_space l
           in if line = [] then redis_loop c k r
              else redis_step c k line @ redis_loop c (Suc k) r))"
  by pat_completeness auto
termination
  by (relation "measure (\<lambda>(c, k, s). length s)") (auto simp: ReadString_length)

declare redis_loop.simps [simp del]

definition redis_HandleConnection :: "conn \<Rightarrow> io list" where
  "redis_HandleConnection c = redis_loop c 0 (conn_in c)"

lemma redis_step_good: "trim_space l = line \<Longrightarrow> line \<noteq> [] \<Longrightarrow> list_all (good_io c ''redis'') (redis_step c k line)"
proof -
  assume "trim_space l = line" "line \<noteq> []"
  then obtain w ws where "str_fields line = w # ws" by (metis fields_trim_space)
  then show ?thesis by (simp add: redis_step_def Let_def good_event_def score_band_def)
qed

lemma redis_loop_good: "list_all (good_io c ''redis'') (redis_loop c k s)"
proof (induction c k s rule: redis_loop.induct)
  case (1 c k s)
  then show ?case
    by (subst redis_loop.simps) (auto simp: Let_def redis_step_good split: option.splits)
qed

interpretation redis: decoy "''redis''" 6379 redis_HandleConnection
  by unfold_locales (simp_all add: redis_HandleConnection_def redis_loop_good)

section \<open>SMTP\<close>

text \<open>
  The mail body after \<open>DATA\<close>: lines up to a line that trims to a single dot. A read error ends
  the body, and the next read of the main loop fails too.
\<close>

function smtp_body :: "string \<Rightarrow> string \<times> string" where
  "smtp_body s =
     (case ReadString s of
        None \<Rightarrow> ([], [])
      | Some (l, r) \<Rightarrow>
          (if trim_space l = ''.'' then ([], r)
           else (case smtp_body r of (b, r') \<Rightarrow> (l @ b, r'))))"
  by pat_completeness auto
termination
  by (relation "measure length") (auto simp: ReadString_length)

declare smtp_body.simps [simp del]

lemma smtp_body_length: "length (snd (smtp_body s)) \<le> length s"
proof (induction s rule: smtp_body.induct)
  case (1 s)
  show ?case
  proof (cases "ReadString s")
    case None
    then show ?thesis by (simp add: smtp_body.simps [of s])
  next
    case (Some lr)
    obtain l r where lr: "lr = (l, r)" by (cases lr)
    with Some have "length r < length s" by (simp add: ReadString_length)
    moreover have "trim_space l \<noteq> ''.'' \<Longrightarrow> length (snd (smtp_body r)) \<le> length r"
      using "1.IH" [OF Some lr [symmetric]] by blast
    ultimately show ?thesis
      using Some lr by (auto simp: smtp_body.simps [of s] split: prod.splits)
  qed
qed

text \<open>One command: what is sent and emitted, and the bytes left, or \<open>None\<close> after \<open>QUIT\<close>.\<close>

definition smtp_step :: "conn \<Rightarrow> nat \<Rightarrow> string \<Rightarrow> string \<Rightarrow> string \<Rightarrow> io list \<times> string option" where
  "smtp_step c k p line r =
     (let cmd = to_upper p;
          event = (base_event c ''smtp-'' k ''smtp'' 2525 SeverityLow 30 cmd)\<lparr>Command := line\<rparr>
      in if cmd = ''EHLO'' \<or> cmd = ''HELO'' then
           ([Write (''250-mail.shinkiro-sec.net'' @ crlf @ ''250-PIPELINING'' @ crlf
               @ ''250-SIZE 10240000'' @ crlf @ ''250-VRFY'' @ crlf @ ''250-ETRN'' @ crlf
               @ ''250-AUTH PLAIN LOGIN'' @ crlf @ ''250 8BITMIME'' @ crlf),
             Emit event], Some r)
         else if cmd = ''MAIL'' then
           ([Write (''250 2.1.0 Ok'' @ crlf),
             Emit (event\<lparr>Severity := SeverityMedium, ThreatScore := 50\<rparr>)], Some r)
         else if cmd = ''RCPT'' then
           ([Write (''250 2.1.5 Ok'' @ crlf),
             Emit (event\<lparr>Severity := SeverityHigh, ThreatScore := 75\<rparr>)], Some r)
         else if cmd = ''DATA'' then
           ([Write (''354 End data with <CR><LF>.<CR><LF>'' @ crlf),
             Write (''250 2.0.0 Ok: queued as 4A8B9C1D2'' @ crlf),
             Emit (event\<lparr>Severity := SeverityCritical, ThreatScore := 90,
                         PayloadHashes := [sha256_hex (fst (smtp_body r))]\<rparr>)],
            Some (snd (smtp_body r)))
         else if cmd = ''QUIT'' then ([Write (''221 2.0.0 Bye'' @ crlf)], None)
         else ([Write (''502 5.5.2 Error: command not recognized'' @ crlf), Emit event], Some r))"

lemma smtp_step_length: "smtp_step c k p line r = (out, Some r') \<Longrightarrow> length r' \<le> length r"
  using smtp_body_length [of r] by (auto simp: smtp_step_def Let_def split: if_splits)

lemma smtp_step_shorter:
  "(out, Some r') = smtp_step c k p line r \<Longrightarrow> ReadString s = Some (l, r) \<Longrightarrow> length r' < length s"
  "smtp_step c k p line r = (out, Some r') \<Longrightarrow> ReadString s = Some (l, r) \<Longrightarrow> length r' < length s"
  using smtp_step_length ReadString_length by (metis le_less_trans)+

function smtp_loop :: "conn \<Rightarrow> nat \<Rightarrow> string \<Rightarrow> io list" where
  "smtp_loop c k s =
     (case ReadString s of
        None \<Rightarrow> []
      | Some (l, r) \<Rightarrow>
          (let line = trim_space l
           in case str_fields line of
                [] \<Rightarrow> smtp_loop c k r
              | p # _ \<Rightarrow>
                  (case smtp_step c k p line r of
                     (out, None) \<Rightarrow> out
                   | (out, Some r') \<Rightarrow> out @ smtp_loop c (Suc k) r')))"
  by pat_completeness auto
termination
  by (relation "measure (\<lambda>(c, k, s). length s)")
     (auto simp: ReadString_length intro: smtp_step_shorter)

declare smtp_loop.simps [simp del]

definition smtp_HandleConnection :: "conn \<Rightarrow> io list" where
  "smtp_HandleConnection c =
     Write (''220 mail.shinkiro-sec.net ESMTP Postfix (Debian/GNU)'' @ crlf) # smtp_loop c 0 (conn_in c)"

lemma smtp_step_good: "list_all (good_io c ''smtp'') (fst (smtp_step c k p line r))"
  by (simp add: smtp_step_def Let_def good_event_def score_band_def)

lemma smtp_loop_good: "list_all (good_io c ''smtp'') (smtp_loop c k s)"
proof (induction c k s rule: smtp_loop.induct)
  case (1 c k s)
  have good: "smtp_step c k p line r = (out, nxt) \<Longrightarrow> list_all (good_io c ''smtp'') out" for p line r out nxt
    using smtp_step_good [of c k p line r] by simp
  show ?case
    by (subst smtp_loop.simps)
       (auto simp: Let_def good 1 split: option.splits list.splits prod.splits)
qed

interpretation smtp: decoy "''smtp''" 2525 smtp_HandleConnection
  by unfold_locales (simp_all add: smtp_HandleConnection_def smtp_loop_good)

section \<open>Telnet\<close>

definition cleanIAC :: "string \<Rightarrow> string" where
  "cleanIAC s = filter (\<lambda>b. 32 \<le> (of_char b :: nat) \<and> (of_char b :: nat) \<le> 126) s"

definition telnet_reply :: "string \<Rightarrow> string" where
  "telnet_reply cmd =
     (if cmd = ''/bin/busybox MIRAI'' \<or> cmd = ''cat /bin/busybox''
        then ''MIRAI: applet not found'' @ crlf @ ''# ''
      else if cmd = ''sh'' \<or> cmd = ''shell'' then ''# ''
      else ''/bin/sh: '' @ cmd @ '': not found'' @ crlf @ ''# '')"

definition telnet_cmd_event :: "conn \<Rightarrow> nat \<Rightarrow> string \<Rightarrow> string \<Rightarrow> Event" where
  "telnet_cmd_event c k user cmd =
     (base_event c ''telnet-cmd-'' k ''telnet'' 2323 SeverityCritical 100 ''TELNET_EXEC'')
       \<lparr>Username := user, Command := cmd, PayloadHashes := [sha256_hex cmd]\<rparr>"

function telnet_shell :: "conn \<Rightarrow> nat \<Rightarrow> string \<Rightarrow> string \<Rightarrow> io list" where
  "telnet_shell c k user s =
     (case ReadString s of
        None \<Rightarrow> []
      | Some (l, r) \<Rightarrow>
          (let cmd = trim_space (cleanIAC l)
           in if cmd \<noteq> [] then
                Emit (telnet_cmd_event c k user cmd) #
                (if cmd = ''exit'' \<or> cmd = ''quit'' then []
                 else Write (telnet_reply cmd) # telnet_shell c (Suc k) user r)
              else Write ''# '' # telnet_shell c k user r))"
  by pat_completeness auto
termination
  by (relation "measure (\<lambda>(c, k, user, s). length s)") (auto simp: ReadString_length)

declare telnet_shell.simps [simp del]

definition telnet_login_event :: "conn \<Rightarrow> string \<Rightarrow> string \<Rightarrow> Event" where
  "telnet_login_event c user pass =
     (base_event c ''telnet-'' 0 ''telnet'' 2323 SeverityCritical 90 ''TELNET_MIRAI_BOTNET_LOGIN'')
       \<lparr>Username := user, Password := pass, PayloadHashes := [sha256_hex (user @ '':'' @ pass)]\<rparr>"

definition telnet_HandleConnection :: "conn \<Rightarrow> io list" where
  "telnet_HandleConnection c =
     [Write [CHR 0xFF, CHR 0xFD, CHR 0x01, CHR 0xFF, CHR 0xFD, CHR 0x03],
      Write (crlf @ ''Embedded Linux Router (Busybox v1.31.1)'' @ crlf @ ''login: '')] @
     (case ReadString (conn_in c) of
        None \<Rightarrow> []
      | Some (userLine, r1) \<Rightarrow>
          (let user = trim_space (cleanIAC userLine)
           in Write ''Password: '' #
              (case ReadString r1 of
                 None \<Rightarrow> []
               | Some (passLine, r2) \<Rightarrow>
                   (let pass = trim_space (cleanIAC passLine)
                    in [Emit (telnet_login_event c user pass),
                        Write (crlf @ crlf @ ''BusyBox v1.31.1 multi-call binary.'' @ crlf @ ''# '')]
                       @ telnet_shell c 1 user r2))))"

lemma telnet_shell_good: "list_all (good_io c ''telnet'') (telnet_shell c k user s)"
proof (induction c k user s rule: telnet_shell.induct)
  case (1 c k user s)
  then show ?case
    by (subst telnet_shell.simps)
       (auto simp: Let_def telnet_cmd_event_def good_event_def score_band_def split: option.splits)
qed

interpretation telnet: decoy "''telnet''" 2323 telnet_HandleConnection
  by unfold_locales
     (simp_all add: telnet_HandleConnection_def Let_def telnet_shell_good telnet_login_event_def
        good_event_def score_band_def split: option.splits)

end
