(* ===== verification/Decoys_Binary.thy ===== *)
theory Decoys_Binary
  imports Decoy_Iface
begin

unbundle bit_operations_syntax

text \<open>
  The binary-protocol decoys: Modbus/TCP, MQTT, PostgreSQL, MongoDB, SMB and DNS
  (\<open>internal/decoys/<name>/<name>.go\<close>). Wire bytes are 8-bit words; slices that the code fills
  with \<open>copy\<close> are built the same way, with \<open>copy_at\<close>, so that a slice that is too short
  truncates here as it does in Go.
\<close>

section \<open>Slices and byte order\<close>

text \<open>\<open>copy(dst[off:], src)\<close>: as many bytes as fit.\<close>

definition copy_at :: "nat \<Rightarrow> 'a list \<Rightarrow> 'a list \<Rightarrow> 'a list" where
  "copy_at off src dst =
     take off dst @ take (length dst - off) src @ drop (off + length src) dst"

lemma length_copy_at [simp]: "off \<le> length dst \<Longrightarrow> length (copy_at off src dst) = length dst"
  by (simp add: copy_at_def)

definition be16 :: "byte \<Rightarrow> byte \<Rightarrow> 16 word" where
  "be16 hi lo = push_bit 8 (ucast hi) OR ucast lo"

definition put_be16 :: "16 word \<Rightarrow> byte list" where
  "put_be16 w = [ucast (drop_bit 8 w), ucast w]"

definition put_be32 :: "32 word \<Rightarrow> byte list" where
  "put_be32 w = [ucast (drop_bit 24 w), ucast (drop_bit 16 w), ucast (drop_bit 8 w), ucast w]"

definition put_le32 :: "32 word \<Rightarrow> byte list" where
  "put_le32 w = rev (put_be32 w)"

definition le32 :: "byte list \<Rightarrow> 32 word" where
  "le32 bs = be32 (rev bs)"

lemma unat_be16: "unat (be16 hi lo) = 256 * unat hi + unat lo"
proof -
  have "(push_bit 8 (ucast hi) OR ucast lo :: 16 word) = push_bit 8 (ucast hi) + ucast lo"
    by (rule disjunctive_add_eq_or [symmetric], rule bit_word_eqI) (auto simp: bit_simps dest: bit_imp_le_length)
  moreover have hl: "unat hi < 256" "unat lo < 256"
    using unsigned_less [of hi] unsigned_less [of lo] by simp_all
  moreover from hl have "unat (ucast hi :: 16 word) = unat hi" "unat (ucast lo :: 16 word) = unat lo"
    by (simp_all add: unsigned_ucast_eq take_bit_nat_eq_self)
  ultimately show ?thesis
    by (simp add: be16_def unat_word_ariths push_bit_eq_mult)
qed

lemma be16_put_be16 [simp]: "be16 (ucast (drop_bit 8 w)) (ucast (w :: 16 word)) = w"
  unfolding be16_def by (rule bit_word_eqI) (auto simp: bit_simps)

section \<open>Modbus/TCP\<close>

definition resolveModbusFunction :: "byte \<Rightarrow> string" where
  "resolveModbusFunction fc =
     (if fc = 0x01 then ''READ_COILS''
      else if fc = 0x02 then ''READ_DISCRETE_INPUTS''
      else if fc = 0x03 then ''READ_HOLDING_REGISTERS''
      else if fc = 0x04 then ''READ_INPUT_REGISTERS''
      else if fc = 0x05 then ''WRITE_SINGLE_COIL''
      else if fc = 0x06 then ''WRITE_SINGLE_REGISTER''
      else if fc = 0x08 then ''DIAGNOSTICS''
      else if fc = 0x0F then ''WRITE_MULTIPLE_COILS''
      else if fc = 0x10 then ''WRITE_MULTIPLE_REGISTERS''
      else ''PROBE_UNKNOWN_FC'')"

text \<open>The three identical code fragments that frame a response body.\<close>

definition modbus_frame :: "byte list \<Rightarrow> byte list \<Rightarrow> byte list" where
  "modbus_frame mbap body =
     (let resp = replicate (6 + length body) 0;
          resp = copy_at 0 (take 4 mbap) resp;
          resp = copy_at 4 (put_be16 (of_nat (length body + 1))) resp;
          resp = resp[6 := mbap ! 6]
      in copy_at 7 body resp)"

definition buildModbusResponse :: "byte list \<Rightarrow> byte \<Rightarrow> byte list \<Rightarrow> byte list" where
  "buildModbusResponse mbap fc pduPayload =
     (if fc = 0x03 \<or> fc = 0x04 then modbus_frame mbap [fc, 4, 0x00, 0xDC, 0x00, 0x32]
      else if fc = 0x01 \<or> fc = 0x02 then modbus_frame mbap [fc, 1, 0x01]
      else if 4 \<le> length pduPayload then modbus_frame mbap (fc # take 4 pduPayload)
      else [])"

definition modbus_mitre :: MitreAttack where
  "modbus_mitre =
     \<lparr>TacticID = ''TA0108'', TacticName = ''Inhibit Response Function'', TechniqueID = ''T0855'',
      TechniqueName = ''Unauthorized Command Message'',
      Reference = ''https://attack.mitre.org/techniques/T0855/''\<rparr>"

definition modbus_write_fc :: "byte \<Rightarrow> bool" where
  "modbus_write_fc fc \<longleftrightarrow> fc = 0x05 \<or> fc = 0x06 \<or> fc = 0x0F \<or> fc = 0x10"

definition modbus_event :: "conn \<Rightarrow> nat \<Rightarrow> byte \<Rightarrow> byte \<Rightarrow> Event" where
  "modbus_event c k unitID fc =
     (base_event c ''modbus-'' k ''modbus'' 502
        (if modbus_write_fc fc then SeverityCritical else SeverityHigh)
        (if modbus_write_fc fc then 95 else 75)
        (''MODBUS_FC'' @ hex02 fc @ ''_'' @ resolveModbusFunction fc))
       \<lparr>Metadata := [''unit_id'' \<mapsto> dec (uint unitID), ''function_code'' \<mapsto> ''0x'' @ hex02 fc,
                     ''ics_protocol'' \<mapsto> ''Modbus/TCP''],
        Mitre := Some modbus_mitre\<rparr>"

function modbus_loop :: "conn \<Rightarrow> nat \<Rightarrow> string \<Rightarrow> io list" where
  "modbus_loop c k s =
     (case ReadFull 7 s of
        None \<Rightarrow> []
      | Some (hdr, r) \<Rightarrow>
          (let mbap = bytes_of hdr;
               protocolID = be16 (mbap ! 2) (mbap ! 3);
               pduLen = be16 (mbap ! 4) (mbap ! 5);
               unitID = mbap ! 6
           in if protocolID \<noteq> 0 \<or> pduLen < 2 \<or> pduLen > 256 then []
              else (case ReadFull (unat (pduLen - 1)) r of
                      None \<Rightarrow> []
                    | Some (p, r') \<Rightarrow>
                        (case bytes_of p of
                           [] \<Rightarrow> [Panic]
                         | functionCode # payload \<Rightarrow>
                             (let resp = buildModbusResponse mbap functionCode payload
                              in Emit (modbus_event c k unitID functionCode)
                                 # (if resp \<noteq> [] then [Write (string_of_bytes resp)] else [])
                                 @ modbus_loop c (Suc k) r')))))"
  by pat_completeness auto
termination
  by (relation "measure (\<lambda>(c, k, s). length s)") (auto simp: ReadFull_def split: if_splits)

declare modbus_loop.simps [simp del]

definition modbus_HandleConnection :: "conn \<Rightarrow> io list" where
  "modbus_HandleConnection c = modbus_loop c 0 (conn_in c)"

lemma modbus_event_good: "good_event c ''modbus'' (modbus_event c k u fc)"
  by (simp add: modbus_event_def good_event_def score_band_def)

lemma pdu_nonempty: "2 \<le> (w :: 16 word) \<Longrightarrow> ReadFull (unat (w - 1)) b \<noteq> Some ([], r)"
proof -
  assume "2 \<le> w"
  then have "unat (w - 1) \<noteq> 0" by unat_arith
  then show ?thesis by (auto dest: ReadFull_length)
qed

lemma modbus_loop_good: "list_all (good_io c ''modbus'') (modbus_loop c k s)"
proof (induction c k s rule: modbus_loop.induct)
  case (1 c k s)
  show ?case
    by (subst modbus_loop.simps)
       (auto simp: Let_def modbus_event_good not_less pdu_nonempty
          intro!: 1 split: option.splits list.splits)
qed

interpretation modbus: decoy "''modbus''" 502 modbus_HandleConnection
  by unfold_locales (simp_all add: modbus_HandleConnection_def modbus_loop_good)

text \<open>
  Every response is one byte shorter than its own length field announces: the header is seven
  bytes long, the buffer only six longer than the body, so \<open>copy(resp[7:], body)\<close> drops the last
  byte of the body.
\<close>

lemma modbus_frame_eq:
  assumes "length mbap = 7" "body \<noteq> []"
  shows "modbus_frame mbap body =
     take 4 mbap @ put_be16 (of_nat (length body + 1)) @ [mbap ! 6] @ butlast body"
proof -
  from assms(1) obtain a b c d e f g where m: "mbap = [a, b, c, d, e, f, g]"
    by (auto simp: numeral_eq_Suc length_Suc_conv)
  from assms(2) obtain x xs where b: "body = x # xs" by (cases body) auto
  show ?thesis
    by (simp add: modbus_frame_def copy_at_def m b put_be16_def Let_def butlast_conv_take
        numeral_eq_Suc)
qed

section \<open>MQTT\<close>

text \<open>
  \<open>decodeRemainingLength\<close>: seven bits per byte, least significant first, at most four bytes and
  at most 65536. \<open>None\<close> is an error (a read error, a fifth byte, or a value over the cap).
\<close>

fun mqtt_remlen_from :: "nat \<Rightarrow> nat \<Rightarrow> string \<Rightarrow> (nat \<times> string) option" where
  "mqtt_remlen_from multiplier v [] = None"
| "mqtt_remlen_from multiplier v (c # s) =
     (let encodedByte = byte_of c;
          v' = v + unat (encodedByte AND 127) * multiplier
      in if encodedByte AND 128 = 0 then (if v' > 65536 then None else Some (v', s))
         else if multiplier * 128 > 128 * 128 * 128 then None
         else mqtt_remlen_from (multiplier * 128) v' s)"

definition decodeRemainingLength :: "string \<Rightarrow> (nat \<times> string) option" where
  "decodeRemainingLength s = mqtt_remlen_from 1 0 s"

text \<open>The closure \<open>readString\<close> of \<open>parseConnectPayload\<close>: the text and the new offset.\<close>

definition mqtt_readString :: "byte list \<Rightarrow> nat \<Rightarrow> string \<times> nat" where
  "mqtt_readString d off =
     (if off + 2 > length d then ([], off)
      else (let l = unat (d ! off) * 256 + unat (d ! (off + 1)); off = off + 2
            in if off + l > length d then ([], off)
               else (string_of_bytes (take l (drop off d)), off + l)))"

definition parseConnectPayload :: "byte list \<Rightarrow> string \<times> string \<times> string" where
  "parseConnectPayload data =
     (if length data < 10 then (''unknown'', [], [])
      else
        (let flags = data ! 7;
             (clientID, off1) = mqtt_readString data 10;
             (username, off2) = (if flags AND 0x80 \<noteq> 0 then mqtt_readString data off1 else ([], off1));
             (password, off3) = (if flags AND 0x40 \<noteq> 0 then mqtt_readString data off2 else ([], off2))
         in (clientID, username, password)))"

definition parsePublishPayload :: "byte list \<Rightarrow> string \<times> string" where
  "parsePublishPayload data =
     (if length data < 2 then ([], [])
      else (let topicLen = unat (data ! 0) * 256 + unat (data ! 1)
            in if 2 + topicLen > length data then ([], [])
               else (string_of_bytes (take topicLen (drop 2 data)),
                     string_of_bytes (drop (2 + topicLen) data))))"

definition mqtt_connect_event :: "conn \<Rightarrow> nat \<Rightarrow> string \<Rightarrow> Event" where
  "mqtt_connect_event c k payload =
     (let (clientID, username, password) = parseConnectPayload (bytes_of payload)
      in (base_event c ''mqtt-conn-'' k ''mqtt'' 1883 SeverityHigh 85 ''MQTT_IOT_BOTNET_CONNECT'')
           \<lparr>Username := username, Password := password, PayloadHashes := [sha256_hex payload],
            Metadata := [''client_id'' \<mapsto> clientID]\<rparr>)"

definition mqtt_publish_event :: "conn \<Rightarrow> nat \<Rightarrow> string \<Rightarrow> Event" where
  "mqtt_publish_event c k payload =
     (let (topic, msg) = parsePublishPayload (bytes_of payload)
      in (base_event c ''mqtt-pub-'' k ''mqtt'' 1883 SeverityCritical 95 ''MQTT_IOT_EXPLOIT_PUBLISH'')
           \<lparr>Command := topic, PayloadHashes := [sha256_hex payload],
            Metadata := [''topic'' \<mapsto> topic, ''message'' \<mapsto> msg]\<rparr>)"

definition mqtt_subscribe_event :: "conn \<Rightarrow> nat \<Rightarrow> string \<Rightarrow> Event" where
  "mqtt_subscribe_event c k payload =
     (base_event c ''mqtt-sub-'' k ''mqtt'' 1883 SeverityMedium 70 ''MQTT_RECON_SUBSCRIBE'')
       \<lparr>PayloadHashes := [sha256_hex payload]\<rparr>"

text \<open>
  One packet: its actions, the events counted so far, and whether the connection goes on. Types
  other than CONNECT, PUBLISH, SUBSCRIBE, PINGREQ and DISCONNECT are ignored.
\<close>

definition mqtt_packet :: "conn \<Rightarrow> nat \<Rightarrow> byte \<Rightarrow> string \<Rightarrow> io list \<times> nat \<times> bool" where
  "mqtt_packet c k headerByte payload =
     (let packetType = drop_bit 4 headerByte AND 0x0F
      in if packetType = 1 then
           ([Emit (mqtt_connect_event c k payload),
             Write (string_of_bytes [0x20, 0x02, 0x00, 0x00])], Suc k, True)
         else if packetType = 3 then
           (Emit (mqtt_publish_event c k payload) #
            (if headerByte AND 0x06 > 0 \<and> 2 \<le> length payload
             then [Write (string_of_bytes [0x40, 0x02, 0x00, 0x01])] else []), Suc k, True)
         else if packetType = 8 then
           ([Emit (mqtt_subscribe_event c k payload),
             Write (string_of_bytes [0x90, 0x03, 0x00, 0x01, 0x00])], Suc k, True)
         else if packetType = 12 then ([Write (string_of_bytes [0xd0, 0x00])], k, True)
         else if packetType = 14 then ([], k, False)
         else ([], k, True))"

lemma mqtt_remlen_length: "mqtt_remlen_from m v s = Some (n, r) \<Longrightarrow> length r < length s"
  by (induction m v s rule: mqtt_remlen_from.induct) (auto simp: Let_def less_SucI split: if_splits)

function mqtt_loop :: "conn \<Rightarrow> nat \<Rightarrow> string \<Rightarrow> io list" where
  "mqtt_loop c k [] = []"
| "mqtt_loop c k (h # s) =
     (case decodeRemainingLength s of
        None \<Rightarrow> []
      | Some (remLen, r) \<Rightarrow>
          (case ReadFull remLen r of
             None \<Rightarrow> []
           | Some (payload, r') \<Rightarrow>
               (case mqtt_packet c k (byte_of h) payload of
                  (out, k', go) \<Rightarrow> out @ (if go then mqtt_loop c k' r' else []))))"
  by pat_completeness auto
termination
  by (relation "measure (\<lambda>(c, k, s). length s)")
     (auto simp: ReadFull_def decodeRemainingLength_def dest!: mqtt_remlen_length split: if_splits)

declare mqtt_loop.simps [simp del]

definition mqtt_HandleConnection :: "conn \<Rightarrow> io list" where
  "mqtt_HandleConnection c = mqtt_loop c 0 (conn_in c)"

lemma mqtt_events_good:
  "good_event c ''mqtt'' (mqtt_connect_event c k p)"
  "good_event c ''mqtt'' (mqtt_publish_event c k p)"
  "good_event c ''mqtt'' (mqtt_subscribe_event c k p)"
  by (simp_all add: mqtt_connect_event_def mqtt_publish_event_def mqtt_subscribe_event_def
      good_event_def score_band_def split: prod.splits)

lemma mqtt_packet_good: "mqtt_packet c k h p = (out, k', go) \<Longrightarrow> list_all (good_io c ''mqtt'') out"
  by (auto simp: mqtt_packet_def Let_def mqtt_events_good split: if_splits)

lemma mqtt_loop_good: "list_all (good_io c ''mqtt'') (mqtt_loop c k s)"
proof (induction c k s rule: mqtt_loop.induct)
  case (1 c k)
  then show ?case by (simp add: mqtt_loop.simps)
next
  case (2 c k h s)
  then show ?case
    by (subst mqtt_loop.simps) (auto simp: mqtt_packet_good split: option.splits prod.splits)
qed

interpretation mqtt: decoy "''mqtt''" 1883 mqtt_HandleConnection
  by unfold_locales (simp_all add: mqtt_HandleConnection_def mqtt_loop_good)

text \<open>The MQTT encoding of a remaining length (MQTT 3.1.1, section 2.2.3), as a reference.\<close>

fun mqtt_encode_len :: "nat \<Rightarrow> byte list" where
  "mqtt_encode_len n = (if n < 128 then [of_nat n] else of_nat (n mod 128 + 128) # mqtt_encode_len (n div 128))"

declare mqtt_encode_len.simps [simp del]

lemma byte_and_127: "unat ((b :: byte) AND 127) = unat b mod 128"
proof -
  have "b AND 127 = take_bit 7 b" by (simp add: take_bit_eq_mask mask_eq_exp_minus_1)
  then have "unat (b AND 127) = take_bit 7 (unat b)" by (simp only: unsigned_take_bit_eq)
  then show ?thesis by (simp add: take_bit_eq_mod)
qed

lemma byte_and_128: "(b :: byte) AND 128 = 0 \<longleftrightarrow> unat b < 128"
proof -
  have "b AND 128 = 0 \<longleftrightarrow> \<not> bit b 7"
    using and_exp_eq_0_iff_not_bit [of b 7] by simp
  also have "\<dots> \<longleftrightarrow> \<not> odd (unat b div 128)"
  proof -
    have "bit b 7 \<longleftrightarrow> bit (unat b) 7" by (simp add: bit_unsigned_iff)
    then show ?thesis by (simp add: bit_iff_odd)
  qed
  also have "\<dots> \<longleftrightarrow> unat b < 128"
  proof -
    have "unat b < 256" using unsigned_less [of b] by simp
    then have "unat b div 128 = 0 \<or> unat b div 128 = 1" by linarith
    then show ?thesis by (auto simp: div_eq_0_iff)
  qed
  finally show ?thesis .
qed

section \<open>PostgreSQL\<close>

text \<open>
  A failed \<open>ReadFull\<close> has consumed what was there, so nothing is left for a later read; where
  the code goes on after such a failure, the rest is \<open>[]\<close>.
\<close>

fun pg_pairs :: "string list \<Rightarrow> (string \<rightharpoonup> string) \<Rightarrow> (string \<rightharpoonup> string)" where
  "pg_pairs (k # v # ps) m = pg_pairs ps (if k \<noteq> [] then m(k \<mapsto> v) else m)"
| "pg_pairs _ m = m"

definition parseStartupParams :: "string \<Rightarrow> (string \<rightharpoonup> string)" where
  "parseStartupParams body = pg_pairs (split_char CHR 0x00 body) Map.empty"

text \<open>The start-up message: user, database and the bytes left.\<close>

definition pg_startup :: "int \<Rightarrow> string \<Rightarrow> string \<times> string \<times> string" where
  "pg_startup len s =
     (let bodyLen = len - 8
      in if 0 < bodyLen \<and> bodyLen < 4096 then
           (case ReadFull (nat bodyLen) s of
              None \<Rightarrow> ([], [], [])
            | Some (body, r) \<Rightarrow>
                (let params = parseStartupParams body
                 in (map_get params ''user'', map_get params ''database'', r)))
         else ([], [], s))"

text \<open>The password message: the password, if one was read.\<close>

definition pg_password :: "string \<Rightarrow> string option" where
  "pg_password s =
     (case ReadFull 5 s of
        None \<Rightarrow> None
      | Some (pHeader, r) \<Rightarrow>
          (if hd pHeader = CHR ''p'' then
             (let pLen = uint (be32 (bytes_of (drop 1 pHeader))) - 4
              in if 0 < pLen \<and> pLen < 1024 then
                   (case ReadFull (nat pLen) r of
                      None \<Rightarrow> None
                    | Some (pBody, _) \<Rightarrow> Some (trim_right pBody [CHR 0x00]))
                 else None)
           else None))"

definition pg_event :: "conn \<Rightarrow> string \<Rightarrow> string \<Rightarrow> Event" where
  "pg_event c user database =
     (base_event c ''pg-'' 0 ''postgres'' 5432 SeverityHigh 70 ''PG_AUTH_PROBE'')
       \<lparr>Username := user, Metadata := [''database'' \<mapsto> database],
        PayloadHashes := [sha256_hex (user @ '':'' @ database)]\<rparr>"

definition pg_error :: "string \<Rightarrow> string" where
  "pg_error user =
     (let errStr = ''SFATAL'' @ [CHR 0x00] @ ''C28P01'' @ [CHR 0x00]
            @ ''Mpassword authentication failed for user '' @ quot @ user @ quot @ [CHR 0x00, CHR 0x00];
          errLen = of_nat (length errStr + 4) :: 32 word
      in ''E'' @ string_of_bytes (put_be32 errLen) @ errStr)"

definition pg_serve :: "conn \<Rightarrow> int \<Rightarrow> string \<Rightarrow> io list" where
  "pg_serve c len s =
     (let (user, database, r) = pg_startup len s;
          event = pg_event c user database;
          event = (case pg_password r of
                     None \<Rightarrow> event
                   | Some pass \<Rightarrow>
                       event\<lparr>Password := pass, Severity := SeverityCritical, ThreatScore := 85\<rparr>)
      in [Write (''R'' @ string_of_bytes [0, 0, 0, 8, 0, 0, 0, 3]),
          Write (pg_error user), Emit event])"

definition postgres_HandleConnection :: "conn \<Rightarrow> io list" where
  "postgres_HandleConnection c =
     (case ReadFull 8 (conn_in c) of
        None \<Rightarrow> []
      | Some (header, r) \<Rightarrow>
          (let protocol = be32 (bytes_of (drop 4 header))
           in if protocol = 80877103 then
                Write ''N'' #
                (case ReadFull 8 r of
                   None \<Rightarrow> []
                 | Some (header, r') \<Rightarrow> pg_serve c (uint (be32 (bytes_of (take 4 header)))) r')
              else pg_serve c (uint (be32 (bytes_of (take 4 header)))) r))"

lemma pg_serve_good: "list_all (good_io c ''postgres'') (pg_serve c len s)"
  by (simp add: pg_serve_def pg_event_def good_event_def score_band_def Let_def
      split: prod.splits option.splits)

interpretation postgres: decoy "''postgres''" 5432 postgres_HandleConnection
  by unfold_locales
     (simp_all add: postgres_HandleConnection_def Let_def pg_serve_good split: option.splits)

section \<open>MongoDB\<close>

definition mongo_respBody :: "byte list" where
  "mongo_respBody =
     [0, 0, 0, 0] @ [0] @ [0x2f, 0, 0, 0] @
     [0x01] @ bytes_of ''isWritablePrimary'' @ [0] @
     [0x01, 0, 0, 0, 0, 0, 0, 0] @
     [0x01] @ bytes_of ''ok'' @ [0] @
     [0x01, 0, 0, 0, 0, 0, 0, 0] @ [0]"

definition mongo_respHeader :: "byte list" where
  "mongo_respHeader =
     put_le32 (of_nat (16 + length mongo_respBody)) @ put_le32 1 @ put_le32 1 @ put_le32 2013"

definition mongo_event :: "conn \<Rightarrow> string \<Rightarrow> string \<Rightarrow> Event" where
  "mongo_event c header r =
     (let msgLen = le32 (bytes_of (take 4 header));
          opCode = le32 (bytes_of (drop 12 header));
          event = base_event c ''mongo-'' 0 ''mongo'' 27017 SeverityHigh 70 (''OP_CODE_'' @ dec (uint opCode));
          bodyLen = uint msgLen - 16
      in if 0 < bodyLen \<and> bodyLen < 8192 then
           (case ReadFull (nat bodyLen) r of
              None \<Rightarrow> event
            | Some (body, _) \<Rightarrow> event\<lparr>PayloadHashes := [sha256_hex body]\<rparr>)
         else event)"

definition mongo_HandleConnection :: "conn \<Rightarrow> io list" where
  "mongo_HandleConnection c =
     (case ReadFull 16 (conn_in c) of
        None \<Rightarrow> []
      | Some (header, r) \<Rightarrow>
          [Emit (mongo_event c header r),
           Write (string_of_bytes mongo_respHeader), Write (string_of_bytes mongo_respBody)])"

interpretation mongo: decoy "''mongo''" 27017 mongo_HandleConnection
  by unfold_locales
     (simp_all add: mongo_HandleConnection_def mongo_event_def Let_def good_event_def score_band_def
        split: option.splits)

section \<open>SMB\<close>

definition smb_resp :: "byte list" where
  "smb_resp =
     [0x00, 0x00, 0x00, 0x40] @
     [0xfe] @ bytes_of ''SMB'' @
     [0x40, 0x00] @ [0x00, 0x00] @ [0x00, 0x00, 0x00, 0x00] @ [0x00, 0x00] @ [0x01, 0x00] @
     [0x01, 0x00, 0x00, 0x00] @ [0x00, 0x00, 0x00, 0x00] @
     [0x01, 0x00, 0x00, 0x00, 0x00, 0x00, 0x00, 0x00] @
     [0x00, 0x00, 0x00, 0x00] @ [0x00, 0x00, 0x00, 0x00] @
     [0x00, 0x00, 0x00, 0x00, 0x00, 0x00, 0x00, 0x00] @
     [0x00, 0x00, 0x00, 0x00, 0x00, 0x00, 0x00, 0x00] @
     [0x00, 0x00, 0x00, 0x00, 0x00, 0x00, 0x00, 0x00] @
     [0x41, 0x00] @ [0x01, 0x00] @ [0x02, 0x02]"

definition smb_event :: "conn \<Rightarrow> Event" where
  "smb_event c = base_event c ''smb-'' 0 ''smb'' 445 SeverityCritical 90 ''SMB_NEGOTIATE_PROBE''"

text \<open>
  The event is sent first. The payload hash computed after the second read goes into the local
  variable only, as \<open>late\<close> does here: the channel holds the copy made by the send.
\<close>

definition smb_HandleConnection :: "conn \<Rightarrow> io list" where
  "smb_HandleConnection c =
     (case ReadFull 4 (conn_in c) of
        None \<Rightarrow> []
      | Some (header, r) \<Rightarrow>
          (let event = smb_event c;
               late = (if take 512 r \<noteq> [] then event\<lparr>PayloadHashes := [sha256_hex (take 512 r)]\<rparr> else event)
           in [Emit event, Write (string_of_bytes smb_resp)]))"

interpretation smb: decoy "''smb''" 445 smb_HandleConnection
  by unfold_locales
     (simp_all add: smb_HandleConnection_def smb_event_def good_event_def score_band_def
        split: option.splits)

section \<open>DNS\<close>

text \<open>The labels of a question: a length byte and as many bytes, until a zero or a short label.\<close>

function dns_labels :: "string \<Rightarrow> string list" where
  "dns_labels [] = []"
| "dns_labels (b # s) =
     (let n = of_char b :: nat
      in if n = 0 \<or> n > length s then [] else take n s # dns_labels (drop n s))"
  by pat_completeness auto
termination
  by (relation "measure length") auto

definition parseDNSQuestion :: "string \<Rightarrow> string" where
  "parseDNSQuestion b = join ''.'' (dns_labels b)"

definition dns_event :: "conn \<Rightarrow> string \<Rightarrow> Event" where
  "dns_event c domain =
     (base_event c ''dns-'' 0 ''dns'' 5353 SeverityMedium 40 (''DNS_QUERY '' @ domain))
       \<lparr>PayloadHashes := [sha256_hex domain]\<rparr>"

definition dns_HandleConnection :: "conn \<Rightarrow> io list" where
  "dns_HandleConnection c =
     (case conn_read 512 c of
        None \<Rightarrow> []
      | Some buf \<Rightarrow>
          (if length buf < 12 then []
           else [Emit (dns_event c (parseDNSQuestion (drop 12 buf)))]))"

interpretation dns: decoy "''dns''" 5353 dns_HandleConnection
  by unfold_locales
     (simp_all add: dns_HandleConnection_def dns_event_def good_event_def score_band_def
        split: option.splits)

end
