(* ===== verification/Decoys_Http.thy ===== *)
theory Decoys_Http
  imports Decoy_Iface
begin

text \<open>
  The HTTP decoys: Docker, HTTP traps, Kubernetes, Elasticsearch and AWS IMDS
  (\<open>internal/decoys/{docker,http,k8s,elastic,aws}\<close>). The standard library's request parser is the
  parameter \<open>ReadRequest\<close> of every handler: it maps the bytes of the connection to a request,
  or to \<open>None\<close> on an error; all results hold for every parser. A request is what the code looks
  at: the method, the URL path, the headers (\<open>Get\<close> of an absent header is empty) and the bytes
  one read of the body returns.
\<close>

record http_request =
  Method :: string
  Path :: string
  Header :: "string \<Rightarrow> string"
  BodyRead :: string

type_synonym read_request = "string \<Rightarrow> http_request option"

section \<open>The canned bodies\<close>

definition docker_ping_body :: string where
  \<open>docker_ping_body =
     ''OK''\<close>

definition docker_version_body :: string where
  \<open>docker_version_body =
     ''{"Platform":{"Name":""},"Components":[{"Name":"Engine","Version":"24.0.7"}],"Version":"2''
     @ ''4.0.7","ApiVersion":"1.43","MinAPIVersion":"1.12","GitCommit":"afdd53b","GoVersion":"go1''
     @ ''.20.10","Os":"linux","Arch":"amd64"}''\<close>

definition docker_create_body :: string where
  \<open>docker_create_body =
     ''{"Id":"e90e34656806","Warnings":[]}''\<close>

definition docker_default_body :: string where
  \<open>docker_default_body =
     ''[]''\<close>

definition http_env_body :: string where
  \<open>http_env_body =
     ''DB_HOST=127.0.0.1'' @ nl @ ''DB_USER=app_prod'' @ nl
     @ ''DB_PASS=shinkiro_canary_secret_99a8b1'' @ nl
     @ ''AWS_SECRET_ACCESS_KEY=AKIA_SHINKIRO_CANARY'' @ nl\<close>

definition http_git_body :: string where
  \<open>http_git_body =
     ''[core]'' @ nl @ tab @ ''repositoryformatversion = 0'' @ nl @ tab @ ''filemode = true'' @ nl
     @ tab @ ''bare = false'' @ nl @ ''[remote "origin"]'' @ nl @ tab
     @ ''url = git@github.com:internal/corporate-app.git'' @ nl\<close>

definition http_wp_body :: string where
  \<open>http_wp_body =
     ''<!DOCTYPE html><html><head><title>WordPress &rsaquo; Log In</title></head><body class="l''
     @ ''ogin"><form name="loginform" id="loginform" action="/wp-login.php" method="post"><p><lab''
     @ ''el for="user_login">Username or Email Address</label><input type="text" name="log" id="u''
     @ ''ser_login" class="input" size="20" /></p><p><label for="user_pass">Password</label><inpu''
     @ ''t type="password" name="pwd" id="user_pass" class="input" size="20" /></p><p class="subm''
     @ ''it"><input type="submit" name="wp-submit" id="wp-submit" class="button button-primary bu''
     @ ''tton-large" value="Log In" /></p></form></body></html>''\<close>

definition http_grafana_body :: string where
  \<open>http_grafana_body =
     ''{"version":"10.2.3","database":"ok","commit":"0d86927","buildstamp":1704987654}''\<close>

definition http_jenkins_body :: string where
  \<open>http_jenkins_body =
     ''<html><head><title>Jenkins [Jenkins]</title></head><body><h1>Sign in [Jenkins]</h1><form''
     @ '' action="j_spring_security_check" method="POST"><input type="text" name="j_username" pla''
     @ ''ceholder="Username"/><input type="password" name="j_password" placeholder="Password"/><i''
     @ ''nput type="submit" value="Sign in"/></form></body></html>''\<close>

definition http_404_body :: string where
  \<open>http_404_body =
     ''<html><body><h1>404 Not Found</h1></body></html>''\<close>

definition k8s_version_body :: string where
  \<open>k8s_version_body =
     ''{"major":"1","minor":"29","gitVersion":"v1.29.2","gitCommit":"4b1e7b3","platform":"linux''
     @ ''/amd64"}''\<close>

definition k8s_api_body :: string where
  \<open>k8s_api_body =
     ''{"kind":"APIVersions","versions":["v1"],"serverAddressByClientCIDRs":[{"clientCIDR":"0.0''
     @ ''.0.0/0","serverAddress":"10.96.0.1:443"}]}''\<close>

definition k8s_forbidden_body :: string where
  \<open>k8s_forbidden_body =
     ''{"kind":"Status","apiVersion":"v1","metadata":{},"status":"Failure","message":"forbidden''
     @ '': User '' @ bslash @ ''"system:anonymous'' @ bslash
     @ ''" cannot get resource in API group '' @ bslash @ ''"'' @ bslash
     @ ''"","reason":"Forbidden","code":403}''\<close>

definition k8s_notfound_body :: string where
  \<open>k8s_notfound_body =
     ''{"kind":"Status","apiVersion":"v1","metadata":{},"status":"Failure","message":"the serve''
     @ ''r could not find the requested resource","reason":"NotFound","code":404}''\<close>

definition es_root_body :: string where
  \<open>es_root_body =
     ''{'' @ nl @ ''  "name" : "shinkiro-data-node-01",'' @ nl
     @ ''  "cluster_name" : "production-cluster",'' @ nl @ ''  "cluster_uuid" : "a8b9c1d2e3f4",''
     @ nl @ ''  "version" : {'' @ nl @ ''    "number" : "8.12.0",'' @ nl
     @ ''    "build_flavor" : "default",'' @ nl @ ''    "build_type" : "tar",'' @ nl
     @ ''    "build_hash" : "161d65a240c29ea526e3be5f40f123c8682351dc",'' @ nl
     @ ''    "lucene_version" : "9.9.1"'' @ nl @ ''  },'' @ nl
     @ ''  "tagline" : "You Know, for Search"'' @ nl @ ''}''\<close>

definition es_indices_body :: string where
  \<open>es_indices_body =
     ''green open customer-pii-records-2026 a8b9 5 1 450123 0 1.2gb 600mb'' @ nl
     @ ''green open corporate-vault-secrets-audit c1d2 3 1 12450 0 45mb 22mb'' @ nl\<close>

definition es_delete_body :: string where
  \<open>es_delete_body =
     ''{"acknowledged":true}''\<close>

definition es_default_body :: string where
  \<open>es_default_body =
     ''{"error":"no such index","status":404}''\<close>

definition imds_token_body :: string where
  \<open>imds_token_body =
     ''AQAAAHYshinkiro_canary_imds_token_v2_f89b21a==''\<close>

definition imds_role_body :: string where
  \<open>imds_role_body =
     ''shinkiro-prod-cluster-role'' @ nl\<close>

definition imds_creds_body :: string where
  \<open>imds_creds_body =
     ''{'' @ nl @ ''  "Code": "Success",'' @ nl @ ''  "LastUpdated": "2026-09-04T18:00:00Z",'' @ nl
     @ ''  "Type": "AWS-HMAC",'' @ nl @ ''  "AccessKeyId": "AKIA_SHINKIRO_CANARY_IAM_ROLE_99",'' @ nl
     @ ''  "SecretAccessKey": "wJalrXUtnFEMI/K7MDENG/bPxRfiCY_SHINKIRO_CANARY",'' @ nl
     @ ''  "Token": "FwoGZXIvYXdzEJr//////////wEaEHQ_SHINKIRO_CANARY_SESSION_TOKEN==",'' @ nl
     @ ''  "Expiration": "2026-09-05T06:00:00Z"'' @ nl @ ''}''\<close>

definition imds_instance_body :: string where
  \<open>imds_instance_body =
     ''i-098a72b19cf89a2b1'' @ nl\<close>

definition imds_userdata_body :: string where
  \<open>imds_userdata_body =
     ''#!/bin/bash'' @ nl @ ''echo '' @ [CHR 0x27] @ ''Provisioning shinkiro cloud host...''
     @ [CHR 0x27] @ nl\<close>

definition imds_default_body :: string where
  \<open>imds_default_body =
     ''ami-id'' @ nl @ ''hostname'' @ nl @ ''iam/'' @ nl @ ''instance-id'' @ nl @ ''local-ipv4'' @ nl
     @ ''public-ipv4'' @ nl\<close>
section \<open>Docker\<close>

definition json_response :: "string \<Rightarrow> int \<Rightarrow> string \<Rightarrow> string" where
  "json_response contentType statusCode respBody =
     ''HTTP/1.1 '' @ dec statusCode @ '' OK'' @ crlf @ ''Content-Type: '' @ contentType @ crlf
     @ ''Content-Length: '' @ dec (int (length respBody)) @ crlf @ ''Connection: close'' @ crlf @ crlf
     @ respBody"

definition docker_route :: "http_request \<Rightarrow> Event \<Rightarrow> Event \<times> int \<times> string" where
  "docker_route req event =
     (let path = Path req
      in if path = ''/_ping'' then (event, 200, docker_ping_body)
         else if path = ''/version'' \<or> has_suffix path ''/version'' then (event, 200, docker_version_body)
         else if str_contains path ''/containers/create'' then
           (let payload = take 4096 (BodyRead req)
            in (event\<lparr>Severity := SeverityCritical, ThreatScore := 95,
                      PayloadHashes := [sha256_hex payload], Command := payload\<rparr>,
                201, docker_create_body))
         else (event, 200, docker_default_body))"

definition docker_HandleConnection :: "read_request \<Rightarrow> conn \<Rightarrow> io list" where
  "docker_HandleConnection ReadRequest c =
     (case ReadRequest (conn_in c) of
        None \<Rightarrow> []
      | Some req \<Rightarrow>
          (let event = base_event c ''docker-'' 0 ''docker'' 2375 SeverityMedium 50
                         (Method req @ '' '' @ Path req);
               (event, statusCode, respBody) = docker_route req event
           in [Write (json_response ''application/json'' statusCode respBody), Emit event]))"

section \<open>HTTP traps\<close>

definition http_route :: "http_request \<Rightarrow> Event \<Rightarrow> Event \<times> string \<times> string" where
  "http_route req event =
     (let path = Path req
      in if str_contains path ''.env'' then
           (event\<lparr>Severity := SeverityHigh, ThreatScore := 80\<rparr>, ''text/plain'', http_env_body)
         else if str_contains path ''.git'' then
           (event\<lparr>Severity := SeverityHigh, ThreatScore := 80\<rparr>, ''text/plain'', http_git_body)
         else if str_contains path ''wp-login.php'' \<or> str_contains path ''wp-admin'' then
           (event\<lparr>Severity := SeverityHigh, ThreatScore := 75\<rparr>, ''text/html'', http_wp_body)
         else if str_contains path ''grafana'' \<or> str_contains path ''/api/v1/query'' then
           (event\<lparr>Severity := SeverityHigh, ThreatScore := 75\<rparr>, ''application/json'', http_grafana_body)
         else if str_contains path ''jenkins'' \<or> str_contains path ''j_spring_security_check'' then
           (event\<lparr>Severity := SeverityCritical, ThreatScore := 85\<rparr>, ''text/html'', http_jenkins_body)
         else (event, ''text/html'', http_404_body))"

definition http_response :: "string \<Rightarrow> string \<Rightarrow> string" where
  "http_response contentType respBody =
     ''HTTP/1.1 200 OK'' @ crlf @ ''Content-Type: '' @ contentType @ crlf @ ''Content-Length: ''
     @ dec (int (length respBody)) @ crlf @ ''Server: nginx/1.22.1'' @ crlf @ ''Connection: close''
     @ crlf @ crlf @ respBody"

definition http_HandleConnection :: "read_request \<Rightarrow> conn \<Rightarrow> io list" where
  "http_HandleConnection ReadRequest c =
     (case ReadRequest (conn_in c) of
        None \<Rightarrow> []
      | Some req \<Rightarrow>
          (let event = base_event c ''http-'' 0 ''http'' 8080 SeverityLow 20
                         (Method req @ '' '' @ Path req);
               (event, contentType, respBody) = http_route req event
           in [Write (http_response contentType respBody), Emit event]))"

section \<open>Kubernetes\<close>

definition k8s_auth :: "http_request \<Rightarrow> Event \<Rightarrow> Event" where
  "k8s_auth req event =
     (let authHeader = Header req ''Authorization''
      in if authHeader \<noteq> [] then
           event\<lparr>Severity := SeverityCritical, ThreatScore := 95,
                 PayloadHashes := [sha256_hex authHeader],
                 Metadata := (Metadata event)(''auth_type'' \<mapsto> ''bearer_token'')\<rparr>
         else event)"

definition k8s_route :: "http_request \<Rightarrow> Event \<Rightarrow> Event \<times> int \<times> string" where
  "k8s_route req event =
     (let path = Path req
      in if path = ''/version'' then (event, 200, k8s_version_body)
         else if path = ''/api'' \<or> path = ''/apis'' then (event, 200, k8s_api_body)
         else if str_contains path ''secrets'' \<or> str_contains path ''pods'' then
           (event\<lparr>Severity := SeverityCritical, ThreatScore := 100\<rparr>, 403, k8s_forbidden_body)
         else (event, 404, k8s_notfound_body))"

definition k8s_HandleConnection :: "read_request \<Rightarrow> conn \<Rightarrow> io list" where
  "k8s_HandleConnection ReadRequest c =
     (case ReadRequest (conn_in c) of
        None \<Rightarrow> []
      | Some req \<Rightarrow>
          (let event = (base_event c ''k8s-'' 0 ''k8s'' 6443 SeverityHigh 75
                          (Method req @ '' '' @ Path req))
                         \<lparr>Metadata := [''user_agent'' \<mapsto> Header req ''User-Agent'']\<rparr>;
               (event, statusCode, respBody) = k8s_route req (k8s_auth req event)
           in [Write (json_response ''application/json'' statusCode respBody), Emit event]))"

section \<open>Elasticsearch\<close>

definition elastic_route :: "http_request \<Rightarrow> Event \<Rightarrow> Event \<times> int \<times> string" where
  "elastic_route req event =
     (let path = Path req
      in if path = ''/'' \<or> path = [] then (event, 200, es_root_body)
         else if str_contains path ''_cat/indices'' then
           (event\<lparr>Severity := SeverityCritical, ThreatScore := 90\<rparr>, 200, es_indices_body)
         else if Method req = ''DELETE'' then
           (event\<lparr>Severity := SeverityCritical, ThreatScore := 100\<rparr>, 200, es_delete_body)
         else (event, 404, es_default_body))"

definition elastic_HandleConnection :: "read_request \<Rightarrow> conn \<Rightarrow> io list" where
  "elastic_HandleConnection ReadRequest c =
     (case ReadRequest (conn_in c) of
        None \<Rightarrow> []
      | Some req \<Rightarrow>
          (let event = base_event c ''es-'' 0 ''elastic'' 9200 SeverityMedium 50
                         (Method req @ '' '' @ Path req);
               (event, statusCode, respBody) = elastic_route req event;
               event = event\<lparr>PayloadHashes := [sha256_hex (Method req @ '':'' @ Path req)]\<rparr>
           in [Write (json_response ''application/json; charset=UTF-8'' statusCode respBody),
               Emit event]))"

section \<open>AWS IMDS\<close>

text \<open>The \<open>headers\<close> map has at most one entry; it is the list of its header lines.\<close>

definition imds_route :: "http_request \<Rightarrow> Event \<Rightarrow> Event \<times> string \<times> string list \<times> string" where
  "imds_route req event =
     (let path = Path req
      in if Method req = ''PUT'' \<and> path = ''/latest/api/token'' then
           (event\<lparr>Severity := SeverityCritical, ThreatScore := 90\<rparr>, ''text/plain'',
            [''X-aws-ec2-metadata-token-ttl-seconds: 21600'' @ crlf], imds_token_body)
         else if str_contains path ''security-credentials'' then
           (let event = event\<lparr>Severity := SeverityCritical, ThreatScore := 100\<rparr>
            in if path = ''/latest/meta-data/iam/security-credentials/''
                  \<or> path = ''/latest/meta-data/iam/security-credentials''
               then (event, ''text/plain'', [], imds_role_body)
               else (event, ''application/json'', [], imds_creds_body))
         else if str_contains path ''instance-id'' then (event, ''text/plain'', [], imds_instance_body)
         else if str_contains path ''user-data'' then
           (event\<lparr>Severity := SeverityCritical, ThreatScore := 95\<rparr>, ''text/plain'', [], imds_userdata_body)
         else (event, ''text/plain'', [], imds_default_body))"

definition imds_response :: "string \<Rightarrow> string list \<Rightarrow> string \<Rightarrow> string" where
  "imds_response contentType headers respBody =
     ''HTTP/1.1 200 OK'' @ crlf @ ''Content-Type: '' @ contentType @ crlf @ ''Content-Length: ''
     @ dec (int (length respBody)) @ crlf @ ''Server: EC2ws'' @ crlf @ concat headers
     @ ''Connection: close'' @ crlf @ crlf @ respBody"

definition aws_HandleConnection :: "read_request \<Rightarrow> conn \<Rightarrow> io list" where
  "aws_HandleConnection ReadRequest c =
     (case ReadRequest (conn_in c) of
        None \<Rightarrow> []
      | Some req \<Rightarrow>
          (let imdsToken = Header req ''X-aws-ec2-metadata-token'';
               event = (base_event c ''imds-'' 0 ''aws-imds'' 8169 SeverityHigh 80
                          (Method req @ '' '' @ Path req))
                         \<lparr>Metadata := [''user_agent'' \<mapsto> Header req ''User-Agent'']\<rparr>;
               (event, contentType, headers, respBody) = imds_route req event;
               event = event\<lparr>PayloadHashes := [sha256_hex (Path req @ '':'' @ imdsToken)]\<rparr>
           in [Write (imds_response contentType headers respBody), Emit event]))"

section \<open>The decoy contract\<close>

lemmas http_route_defs =
  docker_route_def http_route_def k8s_route_def k8s_auth_def elastic_route_def imds_route_def

interpretation docker: decoy "''docker''" 2375 "docker_HandleConnection ReadRequest" for ReadRequest
  by unfold_locales
     (simp_all add: docker_HandleConnection_def docker_route_def Let_def good_event_def score_band_def
        split: option.splits)

interpretation http: decoy "''http''" 8080 "http_HandleConnection ReadRequest" for ReadRequest
  by unfold_locales
     (simp_all add: http_HandleConnection_def http_route_def Let_def good_event_def score_band_def
        split: option.splits)

interpretation k8s: decoy "''k8s''" 6443 "k8s_HandleConnection ReadRequest" for ReadRequest
  by unfold_locales
     (simp_all add: k8s_HandleConnection_def k8s_route_def k8s_auth_def Let_def good_event_def
        score_band_def split: option.splits)

interpretation elastic: decoy "''elastic''" 9200 "elastic_HandleConnection ReadRequest" for ReadRequest
  by unfold_locales
     (simp_all add: elastic_HandleConnection_def elastic_route_def Let_def good_event_def score_band_def
        split: option.splits)

interpretation aws: decoy "''aws-imds''" 8169 "aws_HandleConnection ReadRequest" for ReadRequest
  by unfold_locales
     (simp_all add: aws_HandleConnection_def imds_route_def Let_def good_event_def score_band_def
        split: option.splits)

end
