(* ===== verification/Decoy_Props.thy ===== *)
theory Decoy_Props
  imports Decoys_Text Decoys_Binary Decoys_Http
begin

unbundle bit_operations_syntax

text \<open>
  What the protocol handlers record and answer: the Modbus framing, the MQTT and DNS codecs against
  reference encoders, complete PostgreSQL and Redis sessions, and the fixed MongoDB and SMB replies.
\<close>

definition demo_conn :: "string \<Rightarrow> conn" where
  "demo_conn s = \<lparr>conn_addr = ''192.0.2.7:4242'', conn_segs = [s], conn_clock = (\<lambda>_. 0)\<rparr>"

lemma demo_conn_in [simp]: "conn_in (demo_conn s) = s"
  by (simp add: demo_conn_def conn_in_def)

section \<open>Modbus\<close>

lemma unat_of_nat16: "n < 65536 \<Longrightarrow> unat (of_nat n :: 16 word) = n"
  by (simp add: unat_of_nat)

lemma modbus_frame_length:
  assumes "length mbap = 7" "body \<noteq> []" "length body < 1000"
  shows "length (modbus_frame mbap body) = 6 + length body
    \<and> unat (be16 (modbus_frame mbap body ! 4) (modbus_frame mbap body ! 5)) = length body + 1
    \<and> take 4 (modbus_frame mbap body) = take 4 mbap \<and> modbus_frame mbap body ! 6 = mbap ! 6"
proof -
  from assms(1) obtain a b c d e f g where m: "mbap = [a, b, c, d, e, f, g]"
    by (auto simp: numeral_eq_Suc length_Suc_conv)
  let ?n = "of_nat (length body + 1) :: 16 word"
  have fr: "modbus_frame mbap body =
      [a, b, c, d, ucast (drop_bit 8 ?n), ucast ?n, g] @ butlast body"
    using modbus_frame_eq [OF assms(1,2)] by (simp add: m put_be16_def)
  have "unat ?n = length body + 1" using assms(3) by (intro unat_of_nat16) simp
  moreover have "length (butlast body) + 1 = length body" using assms(2) by (cases body) auto
  ultimately show ?thesis unfolding fr by (simp add: m del: of_nat_add of_nat_Suc)
qed

lemma buildModbusResponse_frame:
  assumes "buildModbusResponse mbap fc p \<noteq> []"
  shows "\<exists>body. buildModbusResponse mbap fc p = modbus_frame mbap (fc # body) \<and> 1 \<le> length body \<and> length body < 10"
  using assms by (auto simp: buildModbusResponse_def split: if_splits)

definition modbus_reply_short :: "string \<Rightarrow> bool" where
  "modbus_reply_short w \<longleftrightarrow>
     (let bs = bytes_of w in 8 \<le> length bs \<and> 6 + unat (be16 (bs ! 4) (bs ! 5)) = length bs + 1)"

lemma build_short:
  assumes "ReadFull 7 s = Some (hdr, r)" "buildModbusResponse (bytes_of hdr) fc p \<noteq> []"
  shows "modbus_reply_short (string_of_bytes (buildModbusResponse (bytes_of hdr) fc p))"
proof -
  from assms(1) have len: "length (bytes_of hdr) = 7" by (simp add: ReadFull_length)
  from buildModbusResponse_frame [OF assms(2)] obtain body where
    b: "buildModbusResponse (bytes_of hdr) fc p = modbus_frame (bytes_of hdr) (fc # body)" "1 \<le> length body" "length body < 10" by blast
  from modbus_frame_length [OF len, of "fc # body"] b show ?thesis
    by (simp add: modbus_reply_short_def comp_def)
qed

lemma modbus_loop_short: "Write w \<in> set (modbus_loop c k s) \<Longrightarrow> modbus_reply_short w"
proof (induction "length s" arbitrary: k s rule: less_induct)
  case less
  obtain hdr r where hdr: "ReadFull 7 s = Some (hdr, r)"
    using less.prems by (cases "ReadFull 7 s") (simp_all add: modbus_loop.simps [of c k s] split_paired_all)
  let ?mbap = "bytes_of hdr"
  let ?len = "be16 (?mbap ! 4) (?mbap ! 5)"
  have guard: "\<not> (be16 (?mbap ! 2) (?mbap ! 3) \<noteq> 0 \<or> ?len < 2 \<or> ?len > 256)"
    using less.prems hdr by (cases "be16 (?mbap ! 2) (?mbap ! 3) \<noteq> 0 \<or> ?len < 2 \<or> ?len > 256")
      (simp_all add: modbus_loop.simps [of c k s] Let_def)
  obtain q r' where pdu: "ReadFull (unat (?len - 1)) r = Some (q, r')"
    using less.prems hdr guard by (cases "ReadFull (unat (?len - 1)) r")
      (simp_all add: modbus_loop.simps [of c k s] Let_def split_paired_all)
  obtain fc p where q: "bytes_of q = fc # p"
    using pdu_nonempty [of ?len r r'] guard pdu by (cases "bytes_of q") (auto simp: not_less)
  let ?resp = "buildModbusResponse ?mbap fc p"
  have loop: "modbus_loop c k s = Emit (modbus_event c k (?mbap ! 6) fc)
      # (if ?resp \<noteq> [] then [Write (string_of_bytes ?resp)] else []) @ modbus_loop c (Suc k) r'"
    using hdr guard pdu q by (subst modbus_loop.simps) (simp add: Let_def)
  from hdr pdu have "length r' < length s" by (auto simp: ReadFull_def split: if_splits)
  with less loop build_short [OF hdr] show ?case by (auto split: if_splits)
qed

text \<open>
  C40: Every Modbus reply is one byte too short. The decoy allocates six bytes more than the body
  for a seven-byte header, so each packet it writes ends one byte before the end that its own MBAP
  length field announces, and a client that reads the announced length waits for a byte that never
  comes.
\<close>

theorem modbus_reply_truncated:
  assumes "Write w \<in> set (modbus_HandleConnection c)"
  shows "6 + unat (be16 (bytes_of w ! 4) (bytes_of w ! 5)) = length w + 1"
proof -
  from assms have "modbus_reply_short w"
    unfolding modbus_HandleConnection_def by (rule modbus_loop_short)
  then show ?thesis by (simp only: modbus_reply_short_def Let_def length_map)
qed

definition modbus_read_request :: string where
  "modbus_read_request = string_of_bytes [0, 1, 0, 0, 0, 6, 17, 3, 0, 0x6B, 0, 3]"

theorem modbus_reply_truncated_witness:
  "let w = string_of_bytes [0, 1, 0, 0, 0, 7, 17, 3, 4, 0, 0xDC, 0] in
   Write w \<in> set (modbus_HandleConnection (demo_conn modbus_read_request))
   \<and> 6 + unat (be16 (bytes_of w ! 4) (bytes_of w ! 5)) = length w + 1"
proof -
  let ?w = "string_of_bytes [0, 1, 0, 0, 0, 7, 17, 3, 4, 0, 0xDC, 0]"
  have "?w \<in> set (written (modbus_HandleConnection (demo_conn modbus_read_request)))" by code_simp
  then have mem: "Write ?w \<in> set (modbus_HandleConnection (demo_conn modbus_read_request))"
    by (simp add: set_written)
  from mem modbus_reply_truncated [OF mem] show ?thesis by simp
qed

section \<open>MQTT\<close>

lemma remlen_encode:
  assumes "n < 128 ^ Suc j" "m = 128 ^ i" "i + j < 4" "v + n * m \<le> 65536"
  shows "mqtt_remlen_from m v (string_of_bytes (mqtt_encode_len n) @ s) = Some (v + n * m, s)"
  using assms
proof (induction j arbitrary: n m v i)
  case 0
  then have n: "n < 128" by simp
  then have u: "unat (of_nat n :: byte) = n" by (simp add: unat_of_nat)
  from n show ?case
    using "0.prems" by (simp add: mqtt_encode_len.simps [of n] byte_and_127 byte_and_128 u del: of_nat_eq_0_iff)
next
  case (Suc j)
  show ?case
  proof (cases "n < 128")
    case True
    then have u: "unat (of_nat n :: byte) = n" by (simp add: unat_of_nat)
    from True show ?thesis
      using Suc.prems by (simp add: mqtt_encode_len.simps [of n] byte_and_127 byte_and_128 u del: of_nat_eq_0_iff)
  next
    case False
    let ?b = "of_nat (n mod 128 + 128) :: byte"
    have u: "unat ?b = n mod 128 + 128" by (simp add: unat_of_nat del: of_nat_add)
    have parts: "unat (?b AND 127) = n mod 128" "?b AND 128 \<noteq> 0"
      by (simp_all only: byte_and_127 byte_and_128 u) simp_all
    have "m * 128 \<le> 128 ^ 3"
    proof -
      have "m * 128 = 128 ^ Suc i" using Suc.prems(2) by simp
      also have "\<dots> \<le> 128 ^ 3" using Suc.prems(3) by (intro power_increasing) auto
      finally show ?thesis .
    qed
    then have step: "mqtt_remlen_from m v (string_of_bytes (mqtt_encode_len n) @ s) =
        mqtt_remlen_from (m * 128) (v + n mod 128 * m) (string_of_bytes (mqtt_encode_len (n div 128)) @ s)"
      using False parts by (simp add: mqtt_encode_len.simps [of n] Let_def power3_eq_cube)
    have "v + n mod 128 * m + n div 128 * (m * 128) = v + n * m"
    proof -
      have "n * m = (n div 128 * 128 + n mod 128) * m" by simp
      then show ?thesis by (simp only: add_mult_distrib)
    qed
    moreover have "n div 128 < 128 ^ Suc j" using Suc.prems(1) by (simp add: less_mult_imp_div_less)
    ultimately show ?thesis
      unfolding step using Suc.IH [of "n div 128" "m * 128" "Suc i" "v + n mod 128 * m"] Suc.prems by simp
  qed
qed

lemma remlen_bound: "mqtt_remlen_from m v s = Some (n, r) \<Longrightarrow> n \<le> 65536"
  by (induction m v s rule: mqtt_remlen_from.induct) (auto simp: Let_def split: if_splits)

text \<open>
  The MQTT remaining-length decoder inverts the encoding of the standard for every length up to
  its cap of 65536, leaving the rest of the stream untouched; and no input makes it return more than
  the cap, so a hostile length cannot make the decoy allocate a larger buffer.
\<close>

theorem mqtt_length_roundtrip:
  "(n \<le> 65536 \<longrightarrow> decodeRemainingLength (string_of_bytes (mqtt_encode_len n) @ s) = Some (n, s))
   \<and> (case decodeRemainingLength t of None \<Rightarrow> True | Some (k, _) \<Rightarrow> k \<le> 65536)"
  using remlen_encode [of n 3 1 0 0 s] remlen_bound
  by (auto simp: decodeRemainingLength_def split: option.splits)

theorem mqtt_length_roundtrip_witness:
  "decodeRemainingLength (string_of_bytes (mqtt_encode_len 321) @ ''xyz'') = Some (321, ''xyz'')"
  using mqtt_length_roundtrip [of 321 "''xyz''" "[]"] by simp

section \<open>DNS\<close>

definition dns_encode :: "string list \<Rightarrow> string" where
  "dns_encode labels = concat (map (\<lambda>l. char_of (length l) # l) labels) @ [CHR 0x00]"

lemma dns_labels_encode:
  "\<forall>l \<in> set labels. l \<noteq> [] \<and> length l < 256 \<Longrightarrow> dns_labels (dns_encode labels @ rest) = labels"
proof (induction labels)
  case Nil
  then show ?case by (simp add: dns_encode_def)
next
  case (Cons l labels)
  then have "of_char (char_of (length l) :: char) = length l" by (simp add: of_char_of)
  with Cons show ?case by (simp add: dns_encode_def Let_def)
qed

text \<open>
  A DNS query is recorded under the name it asks for: when the first read delivers a twelve-byte
  header, a question encoded as length-prefixed labels and any trailer, within the 512-byte buffer,
  the decoy emits exactly one event, its action is \<open>DNS_QUERY\<close> with the labels joined by dots, the
  hash is that of the name, and nothing is sent back.
\<close>

theorem dns_query_recorded:
  assumes "conn_segs c = (hdr @ dns_encode labels @ rest) # segs" "length hdr = 12"
    and "length (hdr @ dns_encode labels @ rest) \<le> 512"
    and "\<forall>l \<in> set labels. l \<noteq> [] \<and> length l < 256"
  shows "written (dns_HandleConnection c) = []
       \<and> map Action (emitted (dns_HandleConnection c)) = [''DNS_QUERY '' @ join ''.'' labels]
       \<and> map PayloadHashes (emitted (dns_HandleConnection c)) = [[sha256_hex (join ''.'' labels)]]"
proof -
  have "conn_read 512 c = Some (hdr @ dns_encode labels @ rest)"
    using assms(1,3) by (simp add: conn_read_def)
  moreover have "drop 12 (hdr @ dns_encode labels @ rest) = dns_encode labels @ rest"
    using assms(2) by simp
  ultimately show ?thesis
    using assms(2) dns_labels_encode [OF assms(4)]
    by (simp add: dns_HandleConnection_def parseDNSQuestion_def dns_event_def)
qed

theorem dns_query_recorded_witness:
  "map Action (emitted (dns_HandleConnection (demo_conn (replicate 12 CHR ''x'' @ dns_encode [''example'', ''com'']))))
   = [''DNS_QUERY example.com'']"
  using dns_query_recorded [of "demo_conn (replicate 12 CHR ''x'' @ dns_encode [''example'', ''com''])"
      "replicate 12 CHR ''x''" "[''example'', ''com'']" "[]" "[]"]
  by (simp add: demo_conn_def dns_encode_def)

section \<open>PostgreSQL\<close>

definition nul :: string where "nul = [CHR 0x00]"

definition pg_startup_body :: "string \<Rightarrow> string \<Rightarrow> string" where
  "pg_startup_body user database = ''user'' @ nul @ user @ nul @ ''database'' @ nul @ database @ nul @ nul"

definition pg_startup_msg :: "string \<Rightarrow> string \<Rightarrow> string" where
  "pg_startup_msg user database =
     string_of_bytes (put_be32 (of_nat (length (pg_startup_body user database) + 8)) @ put_be32 196608)
     @ pg_startup_body user database"

definition pg_password_msg :: "string \<Rightarrow> string" where
  "pg_password_msg pass =
     ''p'' @ string_of_bytes (put_be32 (of_nat (length pass + 5))) @ pass @ nul"

definition pg_ssl_request :: string where
  "pg_ssl_request = string_of_bytes (put_be32 8 @ put_be32 80877103)"

lemma be32_put_be32 [simp]: "be32 (put_be32 w) = w"
proof (rule bit_word_eqI)
  fix n assume "n < LENGTH(32)"
  consider "n < 8" | "8 \<le> n \<and> n < 16" | "16 \<le> n \<and> n < 24" | "24 \<le> n" by linarith
  then show "bit (be32 (put_be32 w)) n = bit w n"
    using \<open>n < LENGTH(32)\<close> by cases (auto simp: put_be32_def be32_def bit_simps)
qed

lemma length_put_be32 [simp]: "length (put_be32 w) = 4"
  by (simp add: put_be32_def)

lemma trim_right_nul: "CHR 0x00 \<notin> set s \<Longrightarrow> trim_right (s @ nul) nul = s"
  by (cases s rule: rev_cases) (auto simp: trim_right_def nul_def)

lemma startup_params:
  assumes "CHR 0x00 \<notin> set user" "CHR 0x00 \<notin> set database"
  shows "map_get (parseStartupParams (pg_startup_body user database)) ''user'' = user
    \<and> map_get (parseStartupParams (pg_startup_body user database)) ''database'' = database"
proof -
  have "split_char CHR 0x00 (pg_startup_body user database) = [''user'', user, ''database'', database, [], []]"
    using assms by (simp add: pg_startup_body_def nul_def split_char_append)
  then show ?thesis by (simp add: parseStartupParams_def map_get_def)
qed

lemma uint_of_nat_small: "n < 5000 \<Longrightarrow> uint (of_nat n :: 32 word) = int n"
  by (simp add: uint_nat unat_of_nat)

lemma pg_password_parse:
  assumes "CHR 0x00 \<notin> set pass" "length pass < 1023"
  shows "pg_password (pg_password_msg pass @ rest) = Some pass"
proof -
  define lenb where "lenb = (of_nat (length pass + 5) :: 32 word)"
  have plen: "uint lenb = int (length pass) + 5"
    unfolding lenb_def using assms(2) by (subst uint_of_nat_small) auto
  have "pg_password_msg pass @ rest = (''p'' @ string_of_bytes (put_be32 lenb)) @ (pass @ nul) @ rest"
    by (simp add: pg_password_msg_def lenb_def)
  moreover have "ReadFull 5 ((''p'' @ string_of_bytes (put_be32 lenb)) @ (pass @ nul) @ rest) =
      Some (''p'' @ string_of_bytes (put_be32 lenb), (pass @ nul) @ rest)"
    by (rule ReadFull_append) simp
  ultimately have hdr: "ReadFull 5 (pg_password_msg pass @ rest) =
      Some (''p'' @ string_of_bytes (put_be32 lenb), (pass @ nul) @ rest)" by simp
  have "nat (int (length pass) + 1) = length (pass @ nul)" by (simp add: nul_def nat_add_distrib)
  then have body: "ReadFull (nat (int (length pass) + 1)) ((pass @ nul) @ rest) = Some (pass @ nul, rest)"
    by (simp only: ReadFull_append)
  have be: "be32 (bytes_of (string_of_bytes (put_be32 lenb))) = lenb"
    by (simp only: bytes_of_string_of_bytes be32_put_be32)
  have tl: "hd (''p'' @ string_of_bytes (put_be32 lenb)) = CHR ''p''"
    "drop 1 (''p'' @ string_of_bytes (put_be32 lenb)) = string_of_bytes (put_be32 lenb)" by simp_all
  have arith: "uint lenb - 4 = int (length pass) + 1" by (simp add: plen)
  show ?thesis
    unfolding pg_password_def hdr option.case prod.case tl be arith Let_def body
    using assms(2) trim_right_nul [OF assms(1)] by (simp add: nul_def)
qed

lemma pg_serve_session:
  assumes "CHR 0x00 \<notin> set user" "CHR 0x00 \<notin> set database" "CHR 0x00 \<notin> set pass"
    and "length (pg_startup_body user database) < 4096" "length pass < 1023"
    and "len = int (length (pg_startup_body user database)) + 8"
  shows "emitted (pg_serve c len (pg_startup_body user database @ pg_password_msg pass @ rest)) =
    [(pg_event c user database)\<lparr>Password := pass, Severity := SeverityCritical, ThreatScore := 85\<rparr>]"
proof -
  have "0 < length (pg_startup_body user database)" by (simp add: pg_startup_body_def)
  then have "pg_startup len (pg_startup_body user database @ pg_password_msg pass @ rest)
      = (user, database, pg_password_msg pass @ rest)"
    using assms(4,6) startup_params [OF assms(1,2)]
    by (simp add: pg_startup_def ReadFull_append Let_def)
  with pg_password_parse [OF assms(3,5)] show ?thesis by (simp add: pg_serve_def)
qed

text \<open>
  The PostgreSQL decoy captures the credentials of a complete login. For every start-up message
  with a user and a database followed by a password message, whether or not the client first asks
  for TLS and however the bytes are split into segments, exactly one event is emitted: it carries the
  user, the password and the database, at severity critical and score 85.
\<close>

theorem postgres_captures_login:
  assumes "CHR 0x00 \<notin> set user" "CHR 0x00 \<notin> set database" "CHR 0x00 \<notin> set pass"
    and "length (pg_startup_body user database) < 4096" "length pass < 1023"
    and "prelude = [] \<or> prelude = pg_ssl_request"
    and "conn_in c = prelude @ pg_startup_msg user database @ pg_password_msg pass @ rest"
  shows "map (\<lambda>ev. (Username ev, Password ev, Metadata ev ''database'', Severity ev, ThreatScore ev))
           (emitted (postgres_HandleConnection c)) = [(user, pass, Some database, SeverityCritical, 85)]"
proof -
  let ?body = "pg_startup_body user database"
  define len where "len = (of_nat (length ?body + 8) :: 32 word)"
  have lenv: "uint len = int (length ?body) + 8"
    unfolding len_def using assms(4) by (subst uint_of_nat_small) auto
  let ?hdr = "string_of_bytes (put_be32 len) @ string_of_bytes (put_be32 196608)"
  let ?rest = "?body @ pg_password_msg pass @ rest"
  have msg: "pg_startup_msg user database @ pg_password_msg pass @ rest = ?hdr @ ?rest"
    by (simp add: pg_startup_msg_def len_def)
  have rd: "ReadFull 8 (?hdr @ ?rest) = Some (?hdr, ?rest)" by (rule ReadFull_append) simp
  have parts: "bytes_of (drop 4 ?hdr) = put_be32 196608" "bytes_of (take 4 ?hdr) = put_be32 len"
    by (simp_all only: drop_append take_append length_map length_put_be32)
       (simp_all add: bytes_of_string_of_bytes del: map_map)
  have serve: "emitted (pg_serve c (uint len) ?rest) =
      [(pg_event c user database)\<lparr>Password := pass, Severity := SeverityCritical, ThreatScore := 85\<rparr>]"
    by (rule pg_serve_session [OF assms(1-5) lenv])
  have "emitted (postgres_HandleConnection c) = emitted (pg_serve c (uint len) ?rest)"
    using assms(6)
  proof
    assume "prelude = []"
    with assms(7) msg have "conn_in c = ?hdr @ ?rest" by simp
    then show ?thesis
      unfolding postgres_HandleConnection_def by (simp only: rd) (simp only: option.case prod.case parts be32_put_be32 Let_def, simp)
  next
    assume "prelude = pg_ssl_request"
    with assms(7) msg have cin: "conn_in c = pg_ssl_request @ ?hdr @ ?rest" by simp
    have "ReadFull 8 (pg_ssl_request @ ?hdr @ ?rest) = Some (pg_ssl_request, ?hdr @ ?rest)"
      by (rule ReadFull_append) (simp add: pg_ssl_request_def)
    moreover have "be32 (bytes_of (drop 4 pg_ssl_request)) = 80877103" by code_simp
    ultimately show ?thesis
      unfolding postgres_HandleConnection_def cin by (simp only: rd option.case prod.case parts be32_put_be32 Let_def) simp
  qed
  then show ?thesis unfolding serve by (simp add: pg_event_def)
qed

theorem postgres_captures_login_witness:
  "map Password (emitted (postgres_HandleConnection (demo_conn
     (pg_ssl_request @ pg_startup_msg ''admin'' ''prod'' @ pg_password_msg ''hunter2'')))) = [''hunter2'']"
proof -
  have "map (\<lambda>ev. (Username ev, Password ev, Metadata ev ''database'', Severity ev, ThreatScore ev))
     (emitted (postgres_HandleConnection (demo_conn
       (pg_ssl_request @ pg_startup_msg ''admin'' ''prod'' @ pg_password_msg ''hunter2''))))
     = [(''admin'', ''hunter2'', Some ''prod'', SeverityCritical, 85)]"
    by (rule postgres_captures_login [of _ _ _ pg_ssl_request _ "[]"])
       (simp_all add: pg_startup_body_def nul_def)
  then show ?thesis by (auto simp: map_eq_Cons_conv)
qed

section \<open>Redis\<close>

text \<open>The severity and score a command line gets.\<close>

definition redis_rating :: "string \<Rightarrow> Severity \<times> int" where
  "redis_rating line =
     (let cmd = to_upper (hd (str_fields line))
      in if cmd = ''INFO'' then (SeverityHigh, 65)
         else if cmd = ''CONFIG'' then (SeverityCritical, 85)
         else if cmd \<in> {''EVAL'', ''EVALSHA''} then (SeverityCritical, 95)
         else (SeverityMedium, 40))"

lemma redis_step_rating:
  assumes "trim_space l = line" "line \<noteq> []"
  shows "map (\<lambda>ev. (Command ev, Severity ev, ThreatScore ev)) (emitted (redis_step c k line)) = [(line, redis_rating line)]"
proof -
  from assms obtain w ws where "str_fields line = w # ws" by (metis fields_trim_space)
  then show ?thesis by (simp add: redis_step_def redis_rating_def Let_def)
qed

lemma redis_loop_lines:
  assumes "\<forall>l \<in> set ls. CHR 0x0A \<notin> set l" "CHR 0x0A \<notin> set rest"
  shows "map (\<lambda>ev. (Command ev, Severity ev, ThreatScore ev))
           (emitted (redis_loop c k (concat (map (\<lambda>l. l @ nl) ls) @ rest)))
       = map (\<lambda>line. (line, redis_rating line)) (filter (\<lambda>l. l \<noteq> []) (map (\<lambda>l. trim_space (l @ nl)) ls))"
  using assms(1)
proof (induction ls arbitrary: k)
  case Nil
  have "ReadString rest = None"
    using assms(2) by (induction rest) (auto split: option.splits)
  then show ?case by (simp add: redis_loop.simps [of c k rest])
next
  case (Cons l ls)
  have "ReadString (l @ nl @ concat (map (\<lambda>l. l @ nl) ls) @ rest)
      = Some (l @ nl, concat (map (\<lambda>l. l @ nl) ls) @ rest)"
    using Cons.prems by (simp add: ReadString_line)
  then show ?case
    using Cons redis_step_rating [of "l @ nl" "trim_space (l @ nl)" c k]
    by (subst redis_loop.simps) (simp add: Let_def)
qed

text \<open>
  C37: The Redis decoy records a session completely: for any stream of newline-terminated lines and an
  unterminated rest, exactly one event is emitted per non-blank line, in order, with the trimmed line
  verbatim as its command, rated by the command word (\<open>CONFIG\<close> and the scripting commands critical,
  \<open>INFO\<close> high, everything else medium); blank lines and the unterminated rest give none.
\<close>

theorem redis_session_recorded:
  assumes "\<forall>l \<in> set ls. CHR 0x0A \<notin> set l" "CHR 0x0A \<notin> set rest"
    and "conn_in c = concat (map (\<lambda>l. l @ nl) ls) @ rest"
  shows "map (\<lambda>ev. (Command ev, Severity ev, ThreatScore ev)) (emitted (redis_HandleConnection c))
       = map (\<lambda>line. (line, redis_rating line)) (filter (\<lambda>l. l \<noteq> []) (map (\<lambda>l. trim_space (l @ nl)) ls))"
  unfolding redis_HandleConnection_def assms(3) by (rule redis_loop_lines [OF assms(1,2)])

theorem redis_session_recorded_witness:
  "map (\<lambda>ev. (Command ev, Severity ev, ThreatScore ev))
     (emitted (redis_HandleConnection (demo_conn (''info'' @ nl @ nl @ ''EVAL x 0'' @ nl @ ''par''))))
   = [(''info'', SeverityHigh, 65), (''EVAL x 0'', SeverityCritical, 95)]"
proof -
  have trims: "trim_space (''info'' @ nl) = ''info''" "trim_space nl = []" "trim_space (''EVAL x 0'' @ nl) = ''EVAL x 0''"
    by code_simp+
  have ratings: "redis_rating ''info'' = (SeverityHigh, 65)" "redis_rating ''EVAL x 0'' = (SeverityCritical, 95)"
    by code_simp+
  from redis_session_recorded [of "[''info'', [], ''EVAL x 0'']" "''par''"
      "demo_conn (''info'' @ nl @ nl @ ''EVAL x 0'' @ nl @ ''par'')"]
  show ?thesis using trims ratings by simp
qed

section \<open>Telnet\<close>

fun upto_exit :: "string list \<Rightarrow> string list" where
  "upto_exit [] = []"
| "upto_exit (cmd # cmds) = cmd # (if cmd = ''exit'' \<or> cmd = ''quit'' then [] else upto_exit cmds)"

definition telnet_clean :: "string \<Rightarrow> string" where
  "telnet_clean l = trim_space (cleanIAC (l @ nl))"

lemma telnet_shell_lines:
  "\<forall>l \<in> set ls. CHR 0x0A \<notin> set l \<Longrightarrow>
   map (\<lambda>ev. (Action ev, Username ev, Password ev, Command ev)) (emitted (telnet_shell c k user (concat (map (\<lambda>l. l @ nl) ls))))
     = map (\<lambda>cmd. (''TELNET_EXEC'', user, [], cmd)) (upto_exit (filter (\<lambda>l. l \<noteq> []) (map telnet_clean ls)))"
proof (induction ls arbitrary: k)
  case Nil
  then show ?case by (simp add: telnet_shell.simps)
next
  case (Cons l ls)
  have "ReadString (l @ nl @ concat (map (\<lambda>l. l @ nl) ls)) = Some (l @ nl, concat (map (\<lambda>l. l @ nl) ls))"
    using Cons.prems by (simp add: ReadString_line)
  with Cons show ?case
    by (subst telnet_shell.simps) (simp add: Let_def telnet_clean_def [symmetric] telnet_cmd_event_def)
qed

text \<open>
  The Telnet decoy lets everyone in and records the session: the login event carries the user name
  and password as typed, reduced to printable ASCII (so option negotiation bytes do not leak into
  them), and then exactly one \<open>TELNET_EXEC\<close> event follows per non-blank command, in order, up to and
  including the first \<open>exit\<close> or \<open>quit\<close>, after which nothing more is recorded.
\<close>

theorem telnet_session_recorded:
  assumes "\<forall>l \<in> set (u # p # ls). CHR 0x0A \<notin> set l"
    and "conn_in c = concat (map (\<lambda>l. l @ nl) (u # p # ls))"
  shows "map (\<lambda>ev. (Action ev, Username ev, Password ev, Command ev)) (emitted (telnet_HandleConnection c))
       = (''TELNET_MIRAI_BOTNET_LOGIN'', telnet_clean u, telnet_clean p, [])
         # map (\<lambda>cmd. (''TELNET_EXEC'', telnet_clean u, [], cmd)) (upto_exit (filter (\<lambda>l. l \<noteq> []) (map telnet_clean ls)))"
proof -
  let ?s = "concat (map (\<lambda>l. l @ nl) ls)"
  have 1: "ReadString (conn_in c) = Some (u @ nl, p @ nl @ ?s)" "ReadString (p @ nl @ ?s) = Some (p @ nl, ?s)"
    using assms by (simp_all add: ReadString_line)
  show ?thesis
    unfolding telnet_HandleConnection_def 1 option.case prod.case Let_def
    using assms(1) 1(2) by (simp add: telnet_shell_lines telnet_login_event_def telnet_clean_def)
qed

theorem telnet_session_recorded_witness:
  "map (\<lambda>ev. (Action ev, Username ev, Password ev, Command ev))
     (emitted (telnet_HandleConnection (demo_conn (concat (map (\<lambda>l. l @ nl) [''root'', ''xc3511'', ''sh'', ''exit'', ''ls''])))))
   = [(''TELNET_MIRAI_BOTNET_LOGIN'', ''root'', ''xc3511'', []), (''TELNET_EXEC'', ''root'', [], ''sh''),
      (''TELNET_EXEC'', ''root'', [], ''exit'')]"
proof -
  have clean: "telnet_clean ''root'' = ''root''" "telnet_clean ''xc3511'' = ''xc3511''" "telnet_clean ''sh'' = ''sh''"
    "telnet_clean ''exit'' = ''exit''" "telnet_clean ''ls'' = ''ls''"
    by code_simp+
  show ?thesis
    by (subst telnet_session_recorded [of "''root''" "''xc3511''" "[''sh'', ''exit'', ''ls'']"]) (simp_all add: clean)
qed

section \<open>SMTP\<close>

lemma smtp_body_lines:
  "\<forall>l \<in> set ls. CHR 0x0A \<notin> set l \<and> trim_space (l @ nl) \<noteq> ''.'' \<Longrightarrow> trim_space (dot @ nl) = ''.'' \<Longrightarrow>
   CHR 0x0A \<notin> set dot \<Longrightarrow>
   smtp_body (concat (map (\<lambda>l. l @ nl) ls) @ dot @ nl @ rest) = (concat (map (\<lambda>l. l @ nl) ls), rest)"
proof (induction ls)
  case Nil
  then show ?case by (subst smtp_body.simps) (simp add: ReadString_line)
next
  case (Cons l ls)
  have "ReadString (l @ nl @ concat (map (\<lambda>l. l @ nl) ls) @ dot @ nl @ rest)
      = Some (l @ nl, concat (map (\<lambda>l. l @ nl) ls) @ dot @ nl @ rest)"
    using Cons.prems by (simp add: ReadString_line)
  with Cons show ?case by (subst smtp_body.simps) simp
qed



section \<open>Fixed replies\<close>

text \<open>
  Two fixed replies announce wrong lengths. The MongoDB answer declares a BSON document of 47 bytes
  where only 44 follow, and the SMB answer declares a NetBIOS payload of 64 bytes where 70 follow;
  the outer message length of the MongoDB header is right.
\<close>

theorem fixed_reply_lengths:
  "unat (le32 (take 4 (drop 5 mongo_respBody))) = 47 \<and> length (drop 5 mongo_respBody) = 44
   \<and> unat (le32 (take 4 mongo_respHeader)) = length (mongo_respHeader @ mongo_respBody)
   \<and> unat (be32 (take 4 smb_resp)) = 64 \<and> length (drop 4 smb_resp) = 70"
proof -
  have "length mongo_respBody = 49" by (simp add: mongo_respBody_def)
  moreover have "length smb_resp = 74" by (simp add: smb_resp_def)
  moreover have "unat (le32 (take 4 (drop 5 mongo_respBody))) = 47" by code_simp
  moreover have "unat (le32 (take 4 mongo_respHeader)) = 65" "length mongo_respHeader = 16" by code_simp+
  moreover have "unat (be32 (take 4 smb_resp)) = 64" by code_simp
  ultimately show ?thesis by simp
qed

text \<open>
  The payload hash the SMB decoy computes is never delivered: it is stored into the handler's local
  event after the event has been sent, so every event of every SMB connection goes out without one.
\<close>

theorem smb_hash_never_delivered:
  "map PayloadHashes (emitted (smb_HandleConnection c)) = (if length (conn_in c) < 4 then [] else [[]])"
  by (simp add: smb_HandleConnection_def smb_event_def ReadFull_def)

section \<open>The cloud metadata decoy\<close>

text \<open>
  Probes of the cloud metadata decoy are never mapped to T1190 (exploit public-facing application):
  the mapper tests for a decoy named \<open>aws\<close>, and this decoy is called \<open>aws-imds\<close>. Its requests fall
  through to another technique whatever the request.
\<close>

theorem imds_never_exploit_mapped:
  "list_all (\<lambda>ev. DecoyName ev = ''aws-imds''
       \<and> TechniqueID (MapToMitre (DecoyName ev) (Action ev) (Command ev)) \<noteq> ''T1190'')
     (emitted (aws_HandleConnection ReadRequest c))"
proof -
  have "TechniqueID (MapToMitre ''aws-imds'' a cmd) \<noteq> ''T1190''" for a cmd
    by (simp add: MapToMitre_def mitre_record_defs Let_def)
  then show ?thesis by (auto simp: list_all_iff dest: aws.emitted_name)
qed

end
