(* ===== verification/Ssh_Decoy.thy ===== *)
theory Ssh_Decoy
  imports Decoy_Props Ssh_Shell
begin

unbundle bit_operations_syntax

text \<open>
  The SSH decoy (\<open>internal/decoys/ssh/ssh.go\<close>). What \<open>golang.org/x/crypto/ssh\<close> makes of the
  connection is a parameter, the function \<open>lib\<close>: the outcome of the handshake (the user and what the
  callbacks captured as password, \<open>None\<close> on an error) and the sequence of turns that follow, in the
  order in which they are handled. A turn is a new channel, a request on a channel (handled by its
  request goroutine) or a line read by its shell loop; a turn on a goroutine that has returned is not
  handled any more. Each session has its own shell. Writes to a channel are \<open>Write\<close>; replies to
  requests and the exit status are the library's own messages and are left out.
\<close>

datatype ssh_turn =
    NewChannel nat string bool string
  | SessionReq nat string string ShellEnv
  | SessionLine nat string ShellEnv

record SshOutcome =
  handshake :: "(string \<times> string) option"
  turns :: "ssh_turn list"

record Session =
  vfs :: VirtualFS
  shell_running :: bool
  requests_running :: bool

definition ssh_probe_event :: "conn \<Rightarrow> Event" where
  "ssh_probe_event c = base_event c ''ssh-probe-'' 0 ''ssh'' 2222 SeverityMedium 40 ''SSH_PROBE_CONNECT''"

definition ssh_login_event :: "conn \<Rightarrow> string \<Rightarrow> string \<Rightarrow> Event" where
  "ssh_login_event c user pass =
     (base_event c ''ssh-login-'' 0 ''ssh'' 2222 SeverityHigh 75 ''SSH_LOGIN_SUCCESS_DECOY'')
       \<lparr>Username := user, Password := pass\<rparr>"

definition dangerous_command :: "string \<Rightarrow> bool" where
  "dangerous_command cmd =
     (let lower = to_lower cmd
      in str_contains lower ''curl'' \<or> str_contains lower ''wget'' \<or> str_contains lower ''base64''
         \<or> str_contains lower ''python'' \<or> str_contains lower ''bash -i'')"

definition recordCommand :: "conn \<Rightarrow> nat \<Rightarrow> string \<Rightarrow> string \<Rightarrow> io" where
  "recordCommand c k cmd user =
     Emit ((base_event c ''ssh-cmd-'' k ''ssh'' 2222
              (if dangerous_command cmd then SeverityCritical else SeverityHigh)
              (if dangerous_command cmd then 100 else 85) ''SSH_EXEC_COMMAND'')
             \<lparr>Username := user, Command := cmd, PayloadHashes := [sha256_hex cmd]\<rparr>)"

text \<open>The command of an \<open>exec\<close> request: its length is taken from the fourth byte alone.\<close>

definition exec_command :: "string \<Rightarrow> string option" where
  "exec_command payload =
     (if 4 \<le> length payload then
        (let cmdLen = of_char (payload ! 3) :: nat
         in if 4 + cmdLen \<le> length payload then Some (take cmdLen (drop 4 payload)) else None)
      else None)"

definition session_banner :: "string \<Rightarrow> string" where
  "session_banner last_login =
     ''Linux shinkiro-srv-prod01 6.6.137+deb12u1-amd64 #1 SMP Debian 6.6.137-1 x86_64'' @ crlf @ crlf
     @ ''The programs included with the Debian GNU/Linux system are free software.'' @ crlf
     @ ''Last login: '' @ last_login @ '' from 192.168.1.100'' @ crlf @ crlf"

text \<open>One turn of a running request goroutine: its actions, the events counted, the session.\<close>

definition handle_request ::
    "conn \<Rightarrow> string \<Rightarrow> nat \<Rightarrow> string \<Rightarrow> string \<Rightarrow> ShellEnv \<Rightarrow> Session \<Rightarrow> io list \<times> nat \<times> Session" where
  "handle_request c user k req payload e s =
     (if req = ''exec'' then
        (case exec_command payload of
           None \<Rightarrow> ([], k, s\<lparr>requests_running := False\<rparr>)
         | Some cmd \<Rightarrow>
             (let (fs, out) = Execute e (vfs s) cmd
              in ([recordCommand c k cmd user, Write out], Suc k, s\<lparr>vfs := fs, requests_running := False\<rparr>)))
      else ([], k, s))"

text \<open>One turn of a running shell loop.\<close>

definition handle_line ::
    "conn \<Rightarrow> string \<Rightarrow> nat \<Rightarrow> string \<Rightarrow> ShellEnv \<Rightarrow> Session \<Rightarrow> io list \<times> nat \<times> Session" where
  "handle_line c user k line e s =
     (let cmd = trim_space line
      in if cmd \<noteq> [] then
           (if cmd = ''exit'' \<or> cmd = ''logout'' then
              ([recordCommand c k cmd user, Write (''logout'' @ crlf)], Suc k, s\<lparr>shell_running := False\<rparr>)
            else
              (let (fs, output) = Execute e (vfs s) cmd;
                   s = s\<lparr>vfs := fs\<rparr>
               in ([recordCommand c k cmd user, Write (replace_all nl crlf output), Write (Prompt fs)], Suc k, s)))
         else ([Write (Prompt (vfs s))], k, s))"

definition new_session :: "string \<Rightarrow> Session" where
  "new_session user =
     \<lparr>vfs = NewVirtualFS user ''shinkiro-srv-prod01'', shell_running = True, requests_running = True\<rparr>"

fun ssh_turns :: "conn \<Rightarrow> string \<Rightarrow> nat \<Rightarrow> (nat \<rightharpoonup> Session) \<Rightarrow> ssh_turn list \<Rightarrow> io list" where
  "ssh_turns c user k ss [] = []"
| "ssh_turns c user k ss (NewChannel ch kind accepted login # ts) =
     (if kind \<noteq> ''session'' \<or> \<not> accepted then ssh_turns c user k ss ts
      else [Write (session_banner login), Write (Prompt (vfs (new_session user)))]
           @ ssh_turns c user k (ss(ch \<mapsto> new_session user)) ts)"
| "ssh_turns c user k ss (SessionReq ch req payload e # ts) =
     (case ss ch of
        None \<Rightarrow> ssh_turns c user k ss ts
      | Some s \<Rightarrow>
          (if requests_running s then
             (case handle_request c user k req payload e s of
                (out, k', s') \<Rightarrow> out @ ssh_turns c user k' (ss(ch \<mapsto> s')) ts)
           else ssh_turns c user k ss ts))"
| "ssh_turns c user k ss (SessionLine ch line e # ts) =
     (case ss ch of
        None \<Rightarrow> ssh_turns c user k ss ts
      | Some s \<Rightarrow>
          (if shell_running s then
             (case handle_line c user k line e s of
                (out, k', s') \<Rightarrow> out @ ssh_turns c user k' (ss(ch \<mapsto> s')) ts)
           else ssh_turns c user k ss ts))"

definition ssh_HandleConnection :: "(conn \<Rightarrow> SshOutcome) \<Rightarrow> conn \<Rightarrow> io list" where
  "ssh_HandleConnection lib c =
     (case handshake (lib c) of
        None \<Rightarrow> [Emit (ssh_probe_event c)]
      | Some (user, pass) \<Rightarrow>
          Emit (ssh_login_event c user pass) # ssh_turns c user 1 Map.empty (turns (lib c)))"

lemma recordCommand_good: "good_io c ''ssh'' (recordCommand c k cmd user)"
  by (simp add: recordCommand_def good_event_def score_band_def)

lemma handle_request_good:
  "handle_request c user k req payload e s = (out, k', s') \<Longrightarrow> list_all (good_io c ''ssh'') out"
  by (auto simp: handle_request_def recordCommand_good Let_def split: option.splits prod.splits if_splits)

lemma handle_line_good:
  "handle_line c user k line e s = (out, k', s') \<Longrightarrow> list_all (good_io c ''ssh'') out"
  by (auto simp: handle_line_def recordCommand_good Let_def split: prod.splits if_splits)

lemma ssh_turns_good: "list_all (good_io c ''ssh'') (ssh_turns c user k ss ts)"
proof (induction ts arbitrary: k ss)
  case (Cons t ts)
  then show ?case
    by (cases t) (auto split: option.splits prod.splits dest: handle_request_good handle_line_good)
qed simp

interpretation ssh: decoy "''ssh''" 2222 "ssh_HandleConnection lib" for lib
  by unfold_locales
     (auto simp: ssh_HandleConnection_def ssh_turns_good ssh_probe_event_def ssh_login_event_def
        good_event_def score_band_def split: option.splits)

section \<open>Exec requests\<close>

definition exec_payload :: "string \<Rightarrow> string" where
  "exec_payload cmd = string_of_bytes (put_be32 (of_nat (length cmd))) @ cmd"

lemma exec_payload_byte: "of_char (exec_payload cmd ! 3) = length cmd mod 256"
proof -
  have "unat (ucast (of_nat (length cmd) :: 32 word) :: byte) = length cmd mod 256"
    by (simp add: unsigned_ucast_eq take_bit_eq_mod unat_of_nat mod_mod_cancel)
  then show ?thesis by (simp add: exec_payload_def put_be32_def nth_append char_of_byte_def)
qed

text \<open>
  The SSH decoy records an \<open>exec\<close> command only up to its length modulo 256: it reads the length of
  the SSH string from the last of its four bytes. A command of 300 characters is recorded, hashed,
  rated and executed as its first 44; one of 256 characters as the empty string. Commands shorter
  than 256 characters are recorded in full.
\<close>

theorem ssh_exec_truncated:
  "exec_command (exec_payload cmd) = Some (take (length cmd mod 256) cmd)"
proof -
  have "length (exec_payload cmd) = 4 + length cmd" "drop 4 (exec_payload cmd) = cmd"
    by (simp_all add: exec_payload_def)
  moreover have "length cmd mod 256 \<le> length cmd" by simp
  ultimately show ?thesis using exec_payload_byte [of cmd] by (simp add: exec_command_def Let_def)
qed

section \<open>Interactive sessions\<close>

fun upto_logout :: "string list \<Rightarrow> string list" where
  "upto_logout [] = []"
| "upto_logout (cmd # cmds) = cmd # (if cmd = ''exit'' \<or> cmd = ''logout'' then [] else upto_logout cmds)"

lemma ssh_lines_stopped:
  "ss ch = Some s \<Longrightarrow> \<not> shell_running s \<Longrightarrow> ssh_turns c user k ss (map (\<lambda>l. SessionLine ch l e) ls) = []"
  by (induction ls) auto

lemma ssh_lines:
  "ss ch = Some s \<Longrightarrow> shell_running s \<Longrightarrow>
   map (\<lambda>ev. (Action ev, Username ev, Command ev))
     (emitted (ssh_turns c user k ss (map (\<lambda>l. SessionLine ch l e) ls)))
   = map (\<lambda>cmd. (''SSH_EXEC_COMMAND'', user, cmd)) (upto_logout (filter (\<lambda>l. l \<noteq> []) (map trim_space ls)))"
proof (induction ls arbitrary: k ss s)
  case (Cons l ls)
  obtain fs out where ex: "Execute e (vfs s) (trim_space l) = (fs, out)"
    by (cases "Execute e (vfs s) (trim_space l)")
  have stop: "ssh_turns c user (Suc k) (ss(ch \<mapsto> s\<lparr>shell_running := False\<rparr>)) (map (\<lambda>l. SessionLine ch l e) ls) = []"
    by (rule ssh_lines_stopped [of _ ch "s\<lparr>shell_running := False\<rparr>"]) simp_all
  have go: "map (\<lambda>ev. (Action ev, Username ev, Command ev))
      (emitted (ssh_turns c user (Suc k) (ss(ch \<mapsto> s\<lparr>vfs := fs\<rparr>)) (map (\<lambda>l. SessionLine ch l e) ls)))
    = map (\<lambda>cmd. (''SSH_EXEC_COMMAND'', user, cmd)) (upto_logout (filter (\<lambda>l. l \<noteq> []) (map trim_space ls)))"
    using Cons.prems by (intro Cons.IH [where s = "s\<lparr>vfs := fs\<rparr>"]) simp_all
  have same: "map (\<lambda>ev. (Action ev, Username ev, Command ev))
      (emitted (ssh_turns c user k (ss(ch \<mapsto> s)) (map (\<lambda>l. SessionLine ch l e) ls)))
    = map (\<lambda>cmd. (''SSH_EXEC_COMMAND'', user, cmd)) (upto_logout (filter (\<lambda>l. l \<noteq> []) (map trim_space ls)))"
    using Cons.prems by (intro Cons.IH) simp_all
  consider "trim_space l = []" | "trim_space l \<noteq> []" "trim_space l = ''exit'' \<or> trim_space l = ''logout''"
    | "trim_space l \<noteq> []" "\<not> (trim_space l = ''exit'' \<or> trim_space l = ''logout'')" by blast
  then show ?case
  proof cases
    case 1
    with Cons.prems same show ?thesis by (simp add: handle_line_def Let_def)
  next
    case 2
    with Cons.prems stop show ?thesis by (simp add: handle_line_def recordCommand_def Let_def)
  next
    case 3
    with Cons.prems go ex show ?thesis by (simp add: handle_line_def recordCommand_def Let_def)
  qed
qed simp



end
