(* ===== verification/Channel.thy ===== *)
theory Channel
  imports Go_Collections
begin

text \<open>
  A buffered Go channel as the program uses it: non-blocking sends
  (\<open>select { case ch <- x: default: }\<close>) from any number of producers, and one consumer. The locale
  \<open>bounded_queue\<close> is the contract the hub and the multiplexer rely on, proved here for \<open>chan\<close>.
\<close>

record 'a chan =
  buf :: "'a list"
  cap :: nat

definition make_chan :: "nat \<Rightarrow> 'a chan" where
  "make_chan n = \<lparr>buf = [], cap = n\<rparr>"

definition try_send :: "'a \<Rightarrow> 'a chan \<Rightarrow> 'a chan \<times> bool" where
  "try_send x ch =
     (if length (buf ch) < cap ch then (ch\<lparr>buf := buf ch @ [x]\<rparr>, True) else (ch, False))"

definition recv :: "'a chan \<Rightarrow> ('a \<times> 'a chan) option" where
  "recv ch = (case buf ch of [] \<Rightarrow> None | x # xs \<Rightarrow> Some (x, ch\<lparr>buf := xs\<rparr>))"

locale bounded_queue =
  fixes send :: "'a \<Rightarrow> 'q \<Rightarrow> 'q \<times> bool"
    and receive :: "'q \<Rightarrow> ('a \<times> 'q) option"
    and items :: "'q \<Rightarrow> 'a list"
    and size_of :: "'q \<Rightarrow> nat"
  assumes send_items: "send x q = (q', ok) \<Longrightarrow> items q' = (if ok then items q @ [x] else items q)"
    and send_ok: "send x q = (q', ok) \<Longrightarrow> ok = (length (items q) < size_of q)"
    and send_size: "send x q = (q', ok) \<Longrightarrow> size_of q' = size_of q"
    and receive_rest: "receive q = Some (x, q') \<Longrightarrow> items q = x # items q' \<and> size_of q' = size_of q"
    and receive_progress: "items q \<noteq> [] \<Longrightarrow> receive q \<noteq> None"
begin

fun send_all :: "'a list \<Rightarrow> 'q \<Rightarrow> 'q" where
  "send_all [] q = q"
| "send_all (x # xs) q = send_all xs (fst (send x q))"

lemma send_bound: "length (items q) \<le> size_of q \<Longrightarrow> length (items (fst (send x q))) \<le> size_of (fst (send x q))"
  using send_items [of x q] send_ok [of x q] send_size [of x q]
  by (cases "send x q") (auto split: if_splits)

text \<open>What is sent while there is room arrives in order; the rest is dropped.\<close>

lemma send_all_items:
  "length (items q) \<le> size_of q \<Longrightarrow>
     items (send_all xs q) = items q @ take (size_of q - length (items q)) xs \<and> size_of (send_all xs q) = size_of q"
proof (induction xs arbitrary: q)
  case (Cons x xs)
  obtain q' ok where s: "send x q = (q', ok)" by (cases "send x q")
  from send_bound [OF Cons.prems, of x] s have b: "length (items q') \<le> size_of q'" by simp
  show ?case
  proof (cases ok)
    case True
    with s send_items send_ok have "items q' = items q @ [x]" "length (items q) < size_of q"
      by metis+
    then have "take (size_of q - length (items q)) (x # xs) = x # take (size_of q - length (items q')) xs"
      by (simp add: take_Cons' diff_Suc split: nat.split)
    with Cons.IH [OF b] s send_size [OF s] \<open>items q' = items q @ [x]\<close> show ?thesis by simp
  next
    case False
    with s send_items send_ok have "items q' = items q" "\<not> length (items q) < size_of q"
      by metis+
    with Cons.IH [OF b] s send_size [OF s] Cons.prems show ?thesis by simp
  qed
qed simp

end

interpretation events_chan: bounded_queue try_send recv buf cap
  by unfold_locales (auto simp: try_send_def recv_def split: if_splits list.splits)

end
