(* ===== verification/Multiplexer.thy ===== *)
theory Multiplexer
  imports Ssh_Decoy Channel
begin

text \<open>
  Configuration (\<open>internal/config/config.go\<close>) and the listener engine
  (\<open>internal/core/multiplexer.go\<close>). \<open>Start\<close> asks the operating system for listeners; its answer is a
  parameter, which may depend on the listeners already bound. The goroutines of a running mesh are an
  inductive step relation: any number of open connections, each doing the actions of its handler one
  at a time, send into the event channel while one consumer drains it. The locale \<open>mesh\<close> states the
  contract of a registry (every decoy in it satisfies the locale \<open>decoy\<close>) and proves what holds in
  every reachable state; it is interpreted on the fifteen decoys that \<open>cmd/shinkiro/up.go\<close> registers.
\<close>

section \<open>Configuration\<close>

record ServiceConfig =
  SvcEnabled :: bool
  SvcPort :: int

record Config =
  NodeName :: string
  ConfIdleTimeout :: duration
  MaxConnections :: int
  AuditLogPath :: string
  MetricsPort :: int
  Services :: "string \<rightharpoonup> ServiceConfig"

definition svc :: "int \<Rightarrow> ServiceConfig" where
  "svc p = \<lparr>SvcEnabled = True, SvcPort = p\<rparr>"

definition default_services :: "(string \<times> int) list" where
  "default_services =
     [(''ssh'', 2222), (''redis'', 6379), (''docker'', 2375), (''http'', 8080), (''postgres'', 5432),
      (''k8s'', 6443), (''aws-imds'', 8169), (''mongo'', 27017), (''elastic'', 9200), (''smtp'', 2525),
      (''dns'', 1053), (''smb'', 4445), (''telnet'', 2323), (''mqtt'', 1883), (''modbus'', 502)]"

definition DefaultConfig :: Config where
  "DefaultConfig =
     \<lparr>NodeName = ''shinkiro-decoy-01'', ConfIdleTimeout = 30 * second, MaxConnections = 1000,
      AuditLogPath = ''data/events.jsonl'', MetricsPort = 9100,
      Services = map_of (map (\<lambda>(n, p). (n, svc p)) default_services)\<rparr>"

datatype file_outcome = NotExist | ReadError string | FileData string

text \<open>\<open>LoadConfig\<close>: the YAML parser gets the default configuration to merge into.\<close>

definition LoadConfig ::
    "(string \<Rightarrow> Config \<Rightarrow> string + Config) \<Rightarrow> (string \<Rightarrow> file_outcome) \<Rightarrow> string \<Rightarrow> string + Config" where
  "LoadConfig unmarshal fs path =
     (let path = (if path = [] then ''config.yaml'' else path)
      in case fs path of
           NotExist \<Rightarrow> Inr DefaultConfig
         | ReadError err \<Rightarrow> Inl err
         | FileData data \<Rightarrow>
             (case unmarshal data DefaultConfig of Inl err \<Rightarrow> Inl err | Inr cfg \<Rightarrow> Inr cfg))"

section \<open>The listener engine\<close>

record DecoyImpl =
  DecoyProtocol :: string
  DefaultPort :: int
  Handle :: "conn \<Rightarrow> io list"

record Listener =
  LnDecoy :: string
  LnAddr :: string

record Multiplexer =
  MuxCfg :: Config
  decoys :: "string \<rightharpoonup> DecoyImpl"
  listeners :: "Listener list"
  running :: bool

definition NewMultiplexer :: "Config \<Rightarrow> Multiplexer" where
  "NewMultiplexer cfg = \<lparr>MuxCfg = cfg, decoys = Map.empty, listeners = [], running = False\<rparr>"

definition RegisterDecoy :: "string \<Rightarrow> DecoyImpl \<Rightarrow> Multiplexer \<Rightarrow> Multiplexer" where
  "RegisterDecoy name d m = m\<lparr>decoys := (decoys m)(name \<mapsto> d)\<rparr>"

text \<open>The operating system's answer to \<open>net.Listen\<close>: \<open>None\<close> on success.\<close>

type_synonym listen = "Listener list \<Rightarrow> string \<Rightarrow> string option"

definition bind_service :: "listen \<Rightarrow> string \<Rightarrow> int \<Rightarrow> Multiplexer \<Rightarrow> Multiplexer" where
  "bind_service listen name port m =
     (let addr = '':'' @ dec port; loopAddr = ''127.0.0.1:'' @ dec port
      in case listen (listeners m) addr of
           None \<Rightarrow> m\<lparr>listeners := listeners m @ [\<lparr>LnDecoy = name, LnAddr = addr\<rparr>]\<rparr>
         | Some _ \<Rightarrow>
             (case listen (listeners m) loopAddr of
                None \<Rightarrow> m\<lparr>listeners := listeners m @ [\<lparr>LnDecoy = name, LnAddr = loopAddr\<rparr>]\<rparr>
              | Some _ \<Rightarrow> m))"

fun start_services :: "listen \<Rightarrow> string list \<Rightarrow> Multiplexer \<Rightarrow> Multiplexer" where
  "start_services listen [] m = m"
| "start_services listen (name # names) m =
     (case Services (MuxCfg m) name of
        None \<Rightarrow> start_services listen names m
      | Some svcCfg \<Rightarrow>
          (if \<not> SvcEnabled svcCfg then start_services listen names m
           else (case decoys m name of
                   None \<Rightarrow> start_services listen names m
                 | Some d \<Rightarrow>
                     (let port = (if SvcPort svcCfg = 0 then DefaultPort d else SvcPort svcCfg)
                      in start_services listen names (bind_service listen name port m)))))"

text \<open>\<open>Start\<close>: \<open>ks\<close> is the order in which the loop visits the services map.\<close>

definition Start :: "listen \<Rightarrow> string list \<Rightarrow> Multiplexer \<Rightarrow> Multiplexer \<times> string option" where
  "Start listen ks m =
     (if running m then (m, Some ''multiplexer already running'')
      else (start_services listen ks (m\<lparr>running := True\<rparr>), None))"

definition Stop :: "Multiplexer \<Rightarrow> Multiplexer" where
  "Stop m = (if \<not> running m then m else m\<lparr>running := False, listeners := []\<rparr>)"

section \<open>Which listeners a start opens\<close>

definition bind_addr :: "listen \<Rightarrow> Listener list \<Rightarrow> int \<Rightarrow> string option" where
  "bind_addr listen lns port =
     (if listen lns ('':'' @ dec port) = None then Some ('':'' @ dec port)
      else if listen lns (''127.0.0.1:'' @ dec port) = None then Some (''127.0.0.1:'' @ dec port)
      else None)"

lemma bind_service_frame [simp]:
  "MuxCfg (bind_service l n p m) = MuxCfg m" "decoys (bind_service l n p m) = decoys m"
  "running (bind_service l n p m) = running m"
  by (simp_all add: bind_service_def Let_def split: option.splits)

lemma start_services_frame [simp]:
  "MuxCfg (start_services l ks m) = MuxCfg m" "decoys (start_services l ks m) = decoys m"
  "running (start_services l ks m) = running m"
  by (induction l ks m rule: start_services.induct) (auto simp: Let_def split: option.splits)

text \<open>The services that can run: enabled and with a registered decoy.\<close>

definition startable :: "Multiplexer \<Rightarrow> string \<Rightarrow> bool" where
  "startable m name \<longleftrightarrow>
     (case Services (MuxCfg m) name of None \<Rightarrow> False | Some s \<Rightarrow> SvcEnabled s) \<and> decoys m name \<noteq> None"

definition port_of :: "Multiplexer \<Rightarrow> string \<Rightarrow> int" where
  "port_of m name =
     (if SvcPort (the (Services (MuxCfg m) name)) = 0 then DefaultPort (the (decoys m name))
      else SvcPort (the (Services (MuxCfg m) name)))"

lemma start_services_all:
  assumes "\<And>lns addr. listen lns addr = None"
  shows "listeners (start_services listen ks m) =
     listeners m @ map (\<lambda>n. \<lparr>LnDecoy = n, LnAddr = '':'' @ dec (port_of m n)\<rparr>) (filter (startable m) ks)"
proof (induction ks arbitrary: m)
  case (Cons k ks)
  have same: "startable (bind_service listen n p m) = startable m" "port_of (bind_service listen n p m) = port_of m" for n p
    by (simp_all add: startable_def port_of_def fun_eq_iff)
  show ?case
  proof (cases "startable m k")
    case True
    then obtain s d where "Services (MuxCfg m) k = Some s" "SvcEnabled s" "decoys m k = Some d"
      by (auto simp: startable_def split: option.splits)
    then have "start_services listen (k # ks) m = start_services listen ks (bind_service listen k (port_of m k) m)"
      by (simp add: port_of_def Let_def)
    moreover have "listeners (bind_service listen k (port_of m k) m) =
        listeners m @ [\<lparr>LnDecoy = k, LnAddr = '':'' @ dec (port_of m k)\<rparr>]"
      by (simp add: bind_service_def assms)
    ultimately show ?thesis using True by (simp only: Cons.IH same) simp
  next
    case False
    with Cons.IH [of m] show ?thesis by (auto simp: startable_def split: option.splits)
  qed
qed simp

section \<open>A running mesh\<close>

record Mesh =
  mux :: Multiplexer
  active :: "(string \<times> conn \<times> io list) list"
  seen :: "(string \<times> conn) list"
  events :: "Event chan"
  consumed :: "Event list"
  crashed :: bool

text \<open>The steps of open connections and of the consumer.\<close>

inductive conn_step :: "Mesh \<Rightarrow> Mesh \<Rightarrow> bool" where
  do_write: "active s = xs @ (n, c, Write w # rest) # ys \<Longrightarrow>
     conn_step s (s\<lparr>active := xs @ (n, c, rest) # ys\<rparr>)"
| do_emit: "active s = xs @ (n, c, Emit ev # rest) # ys \<Longrightarrow>
     conn_step s (s\<lparr>active := xs @ (n, c, rest) # ys, events := fst (try_send ev (events s))\<rparr>)"
| do_panic: "active s = xs @ (n, c, Panic # rest) # ys \<Longrightarrow>
     conn_step s (s\<lparr>active := [], crashed := True\<rparr>)"
| do_finish: "active s = xs @ (n, c, []) # ys \<Longrightarrow> conn_step s (s\<lparr>active := xs @ ys\<rparr>)"
| do_consume: "recv (events s) = Some (ev, ch) \<Longrightarrow>
     conn_step s (s\<lparr>events := ch, consumed := consumed s @ [ev]\<rparr>)"

inductive mesh_step :: "Mesh \<Rightarrow> Mesh \<Rightarrow> bool" where
  accept: "ln \<in> set (listeners (mux s)) \<Longrightarrow> decoys (mux s) (LnDecoy ln) = Some d \<Longrightarrow>
     mesh_step s (s\<lparr>active := active s @ [(LnDecoy ln, c, Handle d c)], seen := seen s @ [(LnDecoy ln, c)]\<rparr>)"
| conn: "conn_step s s' \<Longrightarrow> mesh_step s s'"
| stop: "mesh_step s (s\<lparr>mux := Stop (mux s)\<rparr>)"

inductive_cases conn_stepE: "conn_step s s'"
inductive_cases mesh_stepE: "mesh_step s s'"

definition mesh_init :: "Multiplexer \<Rightarrow> nat \<Rightarrow> Mesh" where
  "mesh_init m n =
     \<lparr>mux = m, active = [], seen = [], events = make_chan n, consumed = [], crashed = False\<rparr>"

lemma Stop_decoys [simp]: "decoys (Stop m) = decoys m"
  by (simp add: Stop_def)

lemma recv_Some: "recv ch = Some (ev, ch') \<longleftrightarrow> buf ch = ev # buf ch' \<and> cap ch' = cap ch"
  by (cases ch; cases ch') (auto simp: recv_def split: list.splits)

text \<open>An event comes from a connection of the mesh.\<close>

definition from_conn :: "(string \<rightharpoonup> DecoyImpl) \<Rightarrow> (string \<times> conn) list \<Rightarrow> Event \<Rightarrow> bool" where
  "from_conn reg conns ev \<longleftrightarrow>
     (\<exists>(n, c) \<in> set conns. \<exists>d. reg n = Some d \<and> ev \<in> set (emitted (Handle d c)))"

definition mesh_inv :: "(string \<rightharpoonup> DecoyImpl) \<Rightarrow> nat \<Rightarrow> Mesh \<Rightarrow> bool" where
  "mesh_inv reg n s \<longleftrightarrow>
     \<not> crashed s \<and> decoys (mux s) = reg \<and> cap (events s) = n \<and> length (buf (events s)) \<le> n
   \<and> (\<forall>(name, c, rest) \<in> set (active s). (name, c) \<in> set (seen s)
        \<and> (\<exists>d pre. reg name = Some d \<and> Handle d c = pre @ rest))
   \<and> (\<forall>ev \<in> set (buf (events s)) \<union> set (consumed s). from_conn reg (seen s) ev)"

lemma from_conn_mono: "from_conn reg conns ev \<Longrightarrow> from_conn reg (conns @ conns2) ev"
  by (auto simp: from_conn_def)

locale mesh =
  fixes reg :: "string \<rightharpoonup> DecoyImpl"
  assumes registered: "reg name = Some d \<Longrightarrow> decoy name (DefaultPort d) (Handle d)"
begin

lemma registered_no_panic: "reg name = Some d \<Longrightarrow> Panic \<notin> set (Handle d c)"
  using decoy.no_panic [OF registered] by blast

lemma registered_good: "reg name = Some d \<Longrightarrow> ev \<in> set (emitted (Handle d c)) \<Longrightarrow> good_event c name ev"
  using decoy.emitted_good [OF registered] by blast

lemma conn_step_inv:
  assumes "conn_step s s'" "mesh_inv reg n s"
  shows "mesh_inv reg n s'"
  using assms
proof (induction rule: conn_step.induct)
  case (do_write s xs nm c w rest ys)
  then obtain d pre where "reg nm = Some d" "Handle d c = pre @ Write w # rest" by (auto simp: mesh_inv_def)
  then have "Handle d c = (pre @ [Write w]) @ rest" by simp
  with do_write \<open>reg nm = Some d\<close> show ?case by (auto simp: mesh_inv_def)
next
  case (do_emit s xs nm c ev rest ys)
  then obtain d pre where d: "reg nm = Some d" "Handle d c = pre @ Emit ev # rest" "(nm, c) \<in> set (seen s)"
    by (auto simp: mesh_inv_def)
  then have d': "Handle d c = (pre @ [Emit ev]) @ rest" by simp
  have "from_conn reg (seen s) ev"
    unfolding from_conn_def using d by (intro bexI [of _ "(nm, c)"]) (auto simp: set_emitted)
  with do_emit d(1,3) d' show ?case by (auto simp: mesh_inv_def try_send_def)
next
  case (do_panic s xs nm c rest ys)
  then obtain d pre where "reg nm = Some d" "Handle d c = pre @ Panic # rest" by (auto simp: mesh_inv_def)
  with registered_no_panic [of nm d c] show ?case by auto
next
  case (do_finish s xs nm c ys)
  then show ?case by (auto simp: mesh_inv_def)
next
  case (do_consume s ev ch)
  then show ?case by (auto simp: mesh_inv_def recv_Some)
qed

lemma mesh_step_inv:
  assumes "mesh_step s s'" "mesh_inv reg n s"
  shows "mesh_inv reg n s'"
  using assms
proof (induction rule: mesh_step.induct)
  case (accept ln s d c)
  then have "reg (LnDecoy ln) = Some d" by (simp add: mesh_inv_def)
  with accept show ?case by (auto simp: mesh_inv_def intro: from_conn_mono)
next
  case (conn s s')
  then show ?case by (rule conn_step_inv)
next
  case (stop s)
  then show ?case by (simp add: mesh_inv_def)
qed

lemma mesh_init_inv: "decoys m = reg \<Longrightarrow> mesh_inv reg n (mesh_init m n)"
  by (simp add: mesh_inv_def mesh_init_def make_chan_def)

lemma reachable_inv: "mesh_step\<^sup>*\<^sup>* (mesh_init m n) s \<Longrightarrow> decoys m = reg \<Longrightarrow> mesh_inv reg n s"
proof (induction rule: rtranclp_induct)
  case base
  then show ?case by (rule mesh_init_inv)
next
  case (step y z)
  then show ?case using mesh_step_inv by blast
qed

lemma from_conn_good: "from_conn reg conns ev \<Longrightarrow> \<exists>(name, c) \<in> set conns. good_event c name ev"
  unfolding from_conn_def using registered_good by blast

lemma reachable_event:
  assumes "mesh_step\<^sup>*\<^sup>* (mesh_init m n) s" "decoys m = reg" "ev \<in> set (consumed s)"
  shows "\<exists>(name, c) \<in> set (seen s). good_event c name ev"
proof (rule from_conn_good)
  show "from_conn reg (seen s) ev"
    using reachable_inv [OF assms(1,2)] assms(3) unfolding mesh_inv_def by blast
qed

end

section \<open>The fifteen decoys\<close>

text \<open>The names, default ports and protocols the decoys declare, with their handlers.\<close>

definition ssh_decoy :: "(conn \<Rightarrow> SshOutcome) \<Rightarrow> string \<times> DecoyImpl" where
  "ssh_decoy lib = (''ssh'', \<lparr>DecoyProtocol = ''tcp'', DefaultPort = 2222, Handle = ssh_HandleConnection lib\<rparr>)"

definition redis_decoy :: "string \<times> DecoyImpl" where
  "redis_decoy = (''redis'', \<lparr>DecoyProtocol = ''tcp'', DefaultPort = 6379, Handle = redis_HandleConnection\<rparr>)"

definition docker_decoy :: "read_request \<Rightarrow> string \<times> DecoyImpl" where
  "docker_decoy ReadRequest = (''docker'', \<lparr>DecoyProtocol = ''tcp'', DefaultPort = 2375, Handle = docker_HandleConnection ReadRequest\<rparr>)"

definition http_decoy :: "read_request \<Rightarrow> string \<times> DecoyImpl" where
  "http_decoy ReadRequest = (''http'', \<lparr>DecoyProtocol = ''tcp'', DefaultPort = 8080, Handle = http_HandleConnection ReadRequest\<rparr>)"

definition postgres_decoy :: "string \<times> DecoyImpl" where
  "postgres_decoy = (''postgres'', \<lparr>DecoyProtocol = ''tcp'', DefaultPort = 5432, Handle = postgres_HandleConnection\<rparr>)"

definition k8s_decoy :: "read_request \<Rightarrow> string \<times> DecoyImpl" where
  "k8s_decoy ReadRequest = (''k8s'', \<lparr>DecoyProtocol = ''tcp'', DefaultPort = 6443, Handle = k8s_HandleConnection ReadRequest\<rparr>)"

definition aws_decoy :: "read_request \<Rightarrow> string \<times> DecoyImpl" where
  "aws_decoy ReadRequest = (''aws-imds'', \<lparr>DecoyProtocol = ''tcp'', DefaultPort = 8169, Handle = aws_HandleConnection ReadRequest\<rparr>)"

definition mongo_decoy :: "string \<times> DecoyImpl" where
  "mongo_decoy = (''mongo'', \<lparr>DecoyProtocol = ''tcp'', DefaultPort = 27017, Handle = mongo_HandleConnection\<rparr>)"

definition elastic_decoy :: "read_request \<Rightarrow> string \<times> DecoyImpl" where
  "elastic_decoy ReadRequest = (''elastic'', \<lparr>DecoyProtocol = ''tcp'', DefaultPort = 9200, Handle = elastic_HandleConnection ReadRequest\<rparr>)"

definition smtp_decoy :: "string \<times> DecoyImpl" where
  "smtp_decoy = (''smtp'', \<lparr>DecoyProtocol = ''tcp'', DefaultPort = 2525, Handle = smtp_HandleConnection\<rparr>)"

definition dns_decoy :: "string \<times> DecoyImpl" where
  "dns_decoy = (''dns'', \<lparr>DecoyProtocol = ''udp'', DefaultPort = 5353, Handle = dns_HandleConnection\<rparr>)"

definition smb_decoy :: "string \<times> DecoyImpl" where
  "smb_decoy = (''smb'', \<lparr>DecoyProtocol = ''tcp'', DefaultPort = 445, Handle = smb_HandleConnection\<rparr>)"

definition telnet_decoy :: "string \<times> DecoyImpl" where
  "telnet_decoy = (''telnet'', \<lparr>DecoyProtocol = ''tcp'', DefaultPort = 2323, Handle = telnet_HandleConnection\<rparr>)"

definition mqtt_decoy :: "string \<times> DecoyImpl" where
  "mqtt_decoy = (''mqtt'', \<lparr>DecoyProtocol = ''tcp'', DefaultPort = 1883, Handle = mqtt_HandleConnection\<rparr>)"

definition modbus_decoy :: "string \<times> DecoyImpl" where
  "modbus_decoy = (''modbus'', \<lparr>DecoyProtocol = ''tcp'', DefaultPort = 502, Handle = modbus_HandleConnection\<rparr>)"

definition decoy_list :: "read_request \<Rightarrow> (conn \<Rightarrow> SshOutcome) \<Rightarrow> (string \<times> DecoyImpl) list" where
  "decoy_list ReadRequest lib =
     [ssh_decoy lib, redis_decoy, docker_decoy ReadRequest, http_decoy ReadRequest, postgres_decoy,
      k8s_decoy ReadRequest, aws_decoy ReadRequest, mongo_decoy, elastic_decoy ReadRequest,
      smtp_decoy, dns_decoy, smb_decoy, telnet_decoy, mqtt_decoy, modbus_decoy]"

lemmas decoy_list_defs = decoy_list_def
  ssh_decoy_def redis_decoy_def docker_decoy_def http_decoy_def postgres_decoy_def k8s_decoy_def
  aws_decoy_def mongo_decoy_def elastic_decoy_def smtp_decoy_def dns_decoy_def smb_decoy_def
  telnet_decoy_def mqtt_decoy_def modbus_decoy_def

lemma dns_alone_udp: "map fst (filter (\<lambda>(n, d). DecoyProtocol d \<noteq> ''tcp'') (decoy_list rr lib)) = [''dns'']"
  by (simp add: decoy_list_defs)

definition registered_mux :: "read_request \<Rightarrow> (conn \<Rightarrow> SshOutcome) \<Rightarrow> Config \<Rightarrow> Multiplexer" where
  "registered_mux ReadRequest lib cfg =
     foldl (\<lambda>m (name, d). RegisterDecoy name d m) (NewMultiplexer cfg) (decoy_list ReadRequest lib)"

lemma RegisterDecoy_simps [simp]:
  "decoys (RegisterDecoy n d m) = decoys m ++ [n \<mapsto> d]" "MuxCfg (RegisterDecoy n d m) = MuxCfg m"
  "running (RegisterDecoy n d m) = running m" "listeners (RegisterDecoy n d m) = listeners m"
  by (simp_all add: RegisterDecoy_def)

lemma foldl_register:
  "decoys (foldl (\<lambda>m (name, d). RegisterDecoy name d m) m ds) = decoys m ++ map_of (rev ds)
   \<and> MuxCfg (foldl (\<lambda>m (name, d). RegisterDecoy name d m) m ds) = MuxCfg m
   \<and> running (foldl (\<lambda>m (name, d). RegisterDecoy name d m) m ds) = running m
   \<and> listeners (foldl (\<lambda>m (name, d). RegisterDecoy name d m) m ds) = listeners m"
proof (induction ds arbitrary: m)
  case (Cons x ds)
  obtain n d where x: "x = (n, d)" by (cases x)
  from Cons.IH [of "RegisterDecoy n d m"] show ?case by (simp add: x del: map_add_upd)
qed simp

lemma decoy_names_distinct: "distinct (map fst (decoy_list rr lib))"
  by (simp add: decoy_list_defs)

lemma registered_mux_simps [simp]:
  "decoys (registered_mux rr lib cfg) = map_of (decoy_list rr lib)"
  "MuxCfg (registered_mux rr lib cfg) = cfg" "running (registered_mux rr lib cfg) = False"
  "listeners (registered_mux rr lib cfg) = []"
proof -
  have "map_of (rev (decoy_list rr lib)) = map_of (decoy_list rr lib)"
    using decoy_names_distinct [of rr lib] by (subst map_of_inject_set) (simp_all add: rev_map [symmetric])
  with foldl_register [of "NewMultiplexer cfg" "decoy_list rr lib"]
  show "decoys (registered_mux rr lib cfg) = map_of (decoy_list rr lib)"
    "MuxCfg (registered_mux rr lib cfg) = cfg" "running (registered_mux rr lib cfg) = False"
    "listeners (registered_mux rr lib cfg) = []"
    by (simp_all add: registered_mux_def NewMultiplexer_def)
qed

lemmas decoy_contracts =
  ssh.decoy_axioms redis.decoy_axioms docker.decoy_axioms http.decoy_axioms postgres.decoy_axioms
  k8s.decoy_axioms aws.decoy_axioms mongo.decoy_axioms elastic.decoy_axioms smtp.decoy_axioms
  dns.decoy_axioms smb.decoy_axioms telnet.decoy_axioms mqtt.decoy_axioms modbus.decoy_axioms

lemma decoy_list_contract:
  "list_all (\<lambda>(name, d). decoy name (DefaultPort d) (Handle d)) (decoy_list rr lib)"
  by (simp add: decoy_list_defs decoy_contracts)

interpretation up_mesh: mesh "map_of (decoy_list rr lib)" for rr lib
  by (rule mesh.intro) (use decoy_list_contract [of rr lib] in \<open>auto simp: list_all_iff dest!: map_of_SomeD\<close>)

text \<open>
  C1: A running honeynet never crashes and never makes telemetry up. In every state reachable from a
  start of the fifteen decoys, whatever connections are accepted, however their handlers interleave
  and whatever bytes the peers send: no handler has panicked, the event channel stays within its
  capacity, and every event the pipeline has received was emitted by the handler of some accepted
  connection and carries that decoy's name, that peer's address and a score in the band of its
  severity.
\<close>

theorem mesh_safety:
  assumes "mesh_step\<^sup>*\<^sup>* (mesh_init (fst (Start listen ks (registered_mux rr lib cfg))) n) s"
  shows "\<not> crashed s \<and> length (buf (events s)) \<le> n
       \<and> (\<forall>ev \<in> set (consumed s). \<exists>(name, c) \<in> set (seen s).
            good_event c name ev \<and> (\<exists>d. (name, d) \<in> set (decoy_list rr lib) \<and> ev \<in> set (emitted (Handle d c))))"
proof -
  have reg: "decoys (fst (Start listen ks (registered_mux rr lib cfg))) = map_of (decoy_list rr lib)"
    by (simp add: Start_def)
  note inv = up_mesh.reachable_inv [OF assms reg]
  have "\<exists>(name, c) \<in> set (seen s). good_event c name ev \<and> (\<exists>d. (name, d) \<in> set (decoy_list rr lib) \<and> ev \<in> set (emitted (Handle d c)))"
    if "ev \<in> set (consumed s)" for ev
  proof -
    from inv that have "from_conn (map_of (decoy_list rr lib)) (seen s) ev" by (auto simp: mesh_inv_def)
    then obtain name c d where "(name, c) \<in> set (seen s)" "map_of (decoy_list rr lib) name = Some d"
      "ev \<in> set (emitted (Handle d c))" by (auto simp: from_conn_def)
    with up_mesh.registered_good show ?thesis by (blast dest: map_of_SomeD)
  qed
  with inv show ?thesis by (auto simp: mesh_inv_def)
qed

definition open_listen :: listen where
  "open_listen = (\<lambda>_ _. None)"

definition demo_rr :: read_request where
  "demo_rr = (\<lambda>_. None)"

definition demo_lib :: "conn \<Rightarrow> SshOutcome" where
  "demo_lib = (\<lambda>_. \<lparr>handshake = None, turns = []\<rparr>)"

definition demo_mux :: Multiplexer where
  "demo_mux = fst (Start open_listen [''ssh''] (registered_mux demo_rr demo_lib DefaultConfig))"

lemma demo_mux_simps:
  "decoys demo_mux = map_of (decoy_list demo_rr demo_lib)"
  "listeners demo_mux = [\<lparr>LnDecoy = ''ssh'', LnAddr = '':'' @ dec 2222\<rparr>]"
proof -
  show "decoys demo_mux = map_of (decoy_list demo_rr demo_lib)" by (simp add: demo_mux_def Start_def del: start_services.simps)
  show "listeners demo_mux = [\<lparr>LnDecoy = ''ssh'', LnAddr = '':'' @ dec 2222\<rparr>]"
    using start_services_all [of open_listen "[''ssh'']" "(registered_mux demo_rr demo_lib DefaultConfig)\<lparr>running := True\<rparr>"]
    by (simp add: demo_mux_def Start_def open_listen_def startable_def port_of_def DefaultConfig_def
        default_services_def svc_def decoy_list_defs del: start_services.simps)
qed

definition demo_run :: Mesh where
  "demo_run =
     \<lparr>mux = demo_mux, active = [(''ssh'', demo_conn [], [])], seen = [(''ssh'', demo_conn [])],
      events = make_chan 1, consumed = [ssh_probe_event (demo_conn [])], crashed = False\<rparr>"

lemma demo_run_reachable: "mesh_step\<^sup>*\<^sup>* (mesh_init demo_mux 1) demo_run"
proof -
  let ?c = "demo_conn []" and ?ev = "ssh_probe_event (demo_conn [])"
  let ?s0 = "mesh_init demo_mux 1"
  let ?s1 = "?s0\<lparr>active := active ?s0 @ [(''ssh'', ?c, [Emit ?ev])], seen := seen ?s0 @ [(''ssh'', ?c)]\<rparr>"
  let ?s2 = "?s1\<lparr>active := [(''ssh'', ?c, [])], events := fst (try_send ?ev (events ?s1))\<rparr>"
  have handle: "ssh_HandleConnection demo_lib ?c = [Emit ?ev]"
    by (simp add: ssh_HandleConnection_def demo_lib_def)
  have "mesh_step ?s0 ?s1"
    using mesh_step.accept [of "\<lparr>LnDecoy = ''ssh'', LnAddr = '':'' @ dec 2222\<rparr>" ?s0
        "\<lparr>DecoyProtocol = ''tcp'', DefaultPort = 2222, Handle = ssh_HandleConnection demo_lib\<rparr>" ?c]
    by (simp add: mesh_init_def demo_mux_simps decoy_list_defs handle)
  moreover have "mesh_step ?s1 ?s2"
    using conn_step.do_emit [of ?s1 "[]" "''ssh''" ?c ?ev "[]" "[]"] by (intro mesh_step.conn) (simp add: mesh_init_def)
  moreover have "mesh_step ?s2 demo_run"
    using conn_step.do_consume [of ?s2 ?ev "make_chan 1"]
    by (intro mesh_step.conn) (simp add: mesh_init_def make_chan_def try_send_def recv_def demo_run_def)
  ultimately show ?thesis by (meson rtranclp.rtrancl_into_rtrancl rtranclp.rtrancl_refl)
qed

theorem mesh_safety_witness:
  "mesh_step\<^sup>*\<^sup>* (mesh_init demo_mux 1) demo_run \<and> consumed demo_run \<noteq> [] \<and> \<not> crashed demo_run"
  using mesh_safety [of open_listen "[''ssh'']" demo_rr demo_lib DefaultConfig 1 demo_run] demo_run_reachable
  by (simp add: demo_mux_def [symmetric]) (simp add: demo_run_def)

section \<open>Shutdown\<close>

definition work :: "Mesh \<Rightarrow> nat" where
  "work s = sum_list (map (\<lambda>(n, c, rest). 2 * length rest + 1) (active s)) + length (buf (events s))"

lemma conn_step_work: "conn_step s s' \<Longrightarrow> work s' < work s"
  by (induction rule: conn_step.induct) (auto simp: work_def try_send_def recv_Some)

lemma conn_steps_work: "(conn_step ^^ k) s s' \<Longrightarrow> work s' + k \<le> work s"
  by (induction k arbitrary: s') (auto dest!: conn_step_work, fastforce)

lemma conn_step_mux: "conn_step s s' \<Longrightarrow> mux s' = mux s \<and> seen s' = seen s"
  by (induction rule: conn_step.induct) auto

lemma stopped_step: "mesh_step s s' \<Longrightarrow> listeners (mux s) = [] \<Longrightarrow> listeners (mux s') = [] \<and> seen s' = seen s"
  by (induction rule: mesh_step.induct) (auto simp: Stop_def dest: conn_step_mux)

lemma stopped_steps:
  "mesh_step\<^sup>*\<^sup>* s t \<Longrightarrow> listeners (mux s) = [] \<Longrightarrow> listeners (mux t) = [] \<and> seen t = seen s"
  by (induction rule: rtranclp_induct) (auto dest: stopped_step)



text \<open>Nothing is left: no open connection, no buffered event.\<close>

definition drained :: "Mesh \<Rightarrow> bool" where
  "drained s \<longleftrightarrow> active s = [] \<and> buf (events s) = []"

lemma conn_step_enabled: "\<not> drained s \<Longrightarrow> \<exists>s'. conn_step s s'"
proof (cases "active s")
  case Nil
  assume "\<not> drained s"
  with Nil obtain ev evs where "buf (events s) = ev # evs" by (cases "buf (events s)") (auto simp: drained_def)
  then have "recv (events s) = Some (ev, (events s)\<lparr>buf := evs\<rparr>)" by (simp add: recv_Some)
  then show ?thesis using conn_step.do_consume by blast
next
  case (Cons a as)
  obtain n c rest where a: "a = (n, c, rest)" by (cases a)
  show ?thesis
  proof (cases rest)
    case Nil
    then have "active s = [] @ (n, c, []) # as" by (simp add: Cons a)
    then show ?thesis using conn_step.do_finish by blast
  next
    case (Cons i rest')
    then have "active s = [] @ (n, c, i # rest') # as" using \<open>active s = a # as\<close> by (simp add: a)
    then show ?thesis
      by (cases i) (blast intro: conn_step.do_write conn_step.do_emit conn_step.do_panic)+
  qed
qed

lemma conn_step_delivers:
  "conn_step s s' \<Longrightarrow> \<exists>zs. consumed s' @ buf (events s') = consumed s @ buf (events s) @ zs"
  by (induction rule: conn_step.induct) (auto simp: try_send_def recv_Some)

lemma conn_steps_deliver:
  "conn_step\<^sup>*\<^sup>* s s' \<Longrightarrow> \<exists>zs. consumed s' @ buf (events s') = consumed s @ buf (events s) @ zs"
proof (induction rule: rtranclp_induct)
  case (step y z)
  from step.IH conn_step_delivers [OF step.hyps(2)] show ?case by (metis append.assoc)
qed simp

lemma drains: "\<exists>u. conn_step\<^sup>*\<^sup>* s u \<and> drained u"
proof (induction "work s" arbitrary: s rule: less_induct)
  case less
  show ?case
  proof (cases "drained s")
    case False
    then obtain s' where s': "conn_step s s'" using conn_step_enabled by blast
    from less [OF conn_step_work [OF s']] obtain u where "conn_step\<^sup>*\<^sup>* s' u" "drained u" by blast
    with s' show ?thesis by (meson converse_rtranclp_into_rtranclp)
  qed auto
qed



section \<open>The default mesh\<close>

lemma dom_default_services: "dom (Services DefaultConfig) = fst ` set default_services"
  by (simp add: DefaultConfig_def dom_map_of_conv_image_fst image_image case_prod_unfold)

lemma default_service: "(n, p) \<in> set default_services \<Longrightarrow> Services DefaultConfig n = Some (svc p)"
proof -
  assume "(n, p) \<in> set default_services"
  then have "(n, svc p) \<in> set (map (\<lambda>(n, p). (n, svc p)) default_services)" by force
  moreover have "distinct (map fst (map (\<lambda>(n, p). (n, svc p)) default_services))"
    by (simp add: default_services_def)
  ultimately have "map_of (map (\<lambda>(n, p). (n, svc p)) default_services) n = Some (svc p)"
    by (rule map_of_is_SomeI [rotated])
  then show ?thesis by (simp add: DefaultConfig_def)
qed

text \<open>
  With the default configuration and free ports, \<open>Start\<close> opens exactly one listener for each of the
  fifteen services, on its configured port, in whatever order the services map is visited; a second
  \<open>Start\<close> is refused and changes nothing.
\<close>

theorem default_mesh_listens:
  assumes "map_order (Services DefaultConfig) ks"
  shows "set (listeners (fst (Start open_listen ks (registered_mux rr lib DefaultConfig)))) =
           (\<lambda>(n, p). \<lparr>LnDecoy = n, LnAddr = '':'' @ dec p\<rparr>) ` set default_services
       \<and> length (listeners (fst (Start open_listen ks (registered_mux rr lib DefaultConfig)))) = 15
       \<and> Start l ks' (fst (Start open_listen ks (registered_mux rr lib DefaultConfig))) =
           (fst (Start open_listen ks (registered_mux rr lib DefaultConfig)), Some ''multiplexer already running'')"
proof -
  let ?m = "(registered_mux rr lib DefaultConfig)\<lparr>running := True\<rparr>"
  have names: "set ks = fst ` set default_services" "distinct ks"
    using assms dom_default_services by (auto simp: map_order_def)
  have start: "startable ?m n \<and> port_of ?m n = p" if "(n, p) \<in> set default_services" for n p
  proof -
    have "map_of (decoy_list rr lib) n \<noteq> None" "p \<noteq> 0"
      using that by (auto simp: default_services_def decoy_list_defs)
    with default_service [OF that] show ?thesis by (simp add: startable_def port_of_def svc_def)
  qed
  have "filter (startable ?m) ks = ks"
    using names(1) start by (auto simp: filter_id_conv)
  then have lns: "listeners (fst (Start open_listen ks (registered_mux rr lib DefaultConfig))) =
      map (\<lambda>n. \<lparr>LnDecoy = n, LnAddr = '':'' @ dec (port_of ?m n)\<rparr>) ks"
    using start_services_all [of open_listen ks ?m] by (simp add: Start_def open_listen_def)
  have "length ks = card (fst ` set default_services)"
    using names distinct_card [of ks] by simp
  also have "\<dots> = 15" by (simp add: default_services_def)
  finally have len: "length ks = 15" .
  have "(\<lambda>n. \<lparr>LnDecoy = n, LnAddr = '':'' @ dec (port_of ?m n)\<rparr>) ` fst ` set default_services =
      (\<lambda>(n, p). \<lparr>LnDecoy = n, LnAddr = '':'' @ dec p\<rparr>) ` set default_services"
    unfolding image_image by (rule image_cong) (use start in auto)
  moreover have "running (fst (Start open_listen ks (registered_mux rr lib DefaultConfig)))"
    by (simp add: Start_def del: start_services.simps)
  then have "Start l ks' (fst (Start open_listen ks (registered_mux rr lib DefaultConfig))) =
      (fst (Start open_listen ks (registered_mux rr lib DefaultConfig)), Some ''multiplexer already running'')"
    by (subst Start_def) simp
  ultimately show ?thesis unfolding lns using names(1) len by simp
qed

theorem default_mesh_listens_witness:
  "length (listeners (fst (Start open_listen (map fst default_services) (registered_mux demo_rr demo_lib DefaultConfig)))) = 15"
proof -
  have "map_order (Services DefaultConfig) (map fst default_services)"
    unfolding map_order_def dom_default_services by (simp add: default_services_def)
  from default_mesh_listens [OF this] show ?thesis by blast
qed

text \<open>
  Two decoys report a port they do not listen on in the default mesh: DNS listens on 1053 and
  reports 5353, SMB listens on 4445 and reports 445, in every event of every connection.
\<close>

theorem default_port_mismatch:
  "map_of default_services ''dns'' = Some 1053
   \<and> list_all (\<lambda>ev. LocalPort ev = 5353) (emitted (dns_HandleConnection c))
   \<and> map_of default_services ''smb'' = Some 4445
   \<and> list_all (\<lambda>ev. LocalPort ev = 445) (emitted (smb_HandleConnection c))"
  by (simp add: default_services_def dns_HandleConnection_def dns_event_def smb_HandleConnection_def
      smb_event_def split: option.splits)

end
