(* ===== verification/Pcap.thy ===== *)
theory Pcap
  imports Decoy_Props
begin

text \<open>
  Packet captures: the libpcap writer (\<open>internal/pcap/pcap.go\<close>) and the on-demand capture hook
  (\<open>internal/pcap/ondemand.go\<close>). Files are a map from paths to bytes; each operation of the operating
  system can fail, and a failing write may have written a part: the record \<open>PcapEnv\<close>. The payload of
  a frame, a JSON object made by \<open>encoding/json\<close>, is a parameter. \<open>Panicked\<close> is a nil dereference.
\<close>

section \<open>The libpcap format\<close>

definition put_le16 :: "16 word \<Rightarrow> byte list" where
  "put_le16 w = rev (put_be16 w)"

definition global_header :: "byte list" where
  "global_header =
     put_le32 0xa1b2c3d4 @ put_le16 2 @ put_le16 4 @ put_le32 0 @ put_le32 0 @ put_le32 65535 @ put_le32 101"

definition cap_len :: "byte list \<Rightarrow> 32 word" where
  "cap_len data = (let n = of_nat (length data) in if n > 65535 then 65535 else n)"

definition packet_header :: "time \<Rightarrow> byte list \<Rightarrow> byte list" where
  "packet_header t data =
     put_le32 (of_int (unix_sec t)) @ put_le32 (of_int (t mod second div 1000))
     @ put_le32 (cap_len data) @ put_le32 (of_nat (length data))"

definition packet_data :: "byte list \<Rightarrow> byte list" where
  "packet_data data = take (unat (cap_len data)) data"

type_synonym files = "string \<rightharpoonup> byte list"

datatype write_outcome = Written | WriteFailed nat string

record PcapEnv =
  mkdir_err :: "string option"
  open_err :: "string option"
  stat_err :: "string option"
  header_write :: write_outcome
  packet_header_write :: write_outcome
  packet_data_write :: write_outcome

definition file_append :: "write_outcome \<Rightarrow> string \<Rightarrow> byte list \<Rightarrow> files \<Rightarrow> files \<times> string option" where
  "file_append out path bs fs =
     (let old = (case fs path of None \<Rightarrow> [] | Some b \<Rightarrow> b)
      in case out of
           Written \<Rightarrow> (fs(path \<mapsto> old @ bs), None)
         | WriteFailed n err \<Rightarrow> (fs(path \<mapsto> old @ take n bs), Some err))"

definition NewWriter :: "PcapEnv \<Rightarrow> string \<Rightarrow> files \<Rightarrow> files \<times> string option" where
  "NewWriter env path fs = file_append (header_write env) path global_header fs"

definition WritePacket :: "PcapEnv \<Rightarrow> string \<Rightarrow> time \<Rightarrow> byte list \<Rightarrow> files \<Rightarrow> files \<times> string option" where
  "WritePacket env path t data fs =
     (case file_append (packet_header_write env) path (packet_header t data) fs of
        (fs, Some err) \<Rightarrow> (fs, Some err)
      | (fs, None) \<Rightarrow> file_append (packet_data_write env) path (packet_data data) fs)"

text \<open>\<open>OpenCapture\<close>: the file is created if missing; an empty one gets the global header.\<close>

definition OpenCapture :: "PcapEnv \<Rightarrow> string \<Rightarrow> files \<Rightarrow> files \<times> string option" where
  "OpenCapture env path fs =
     (case open_err env of
        Some err \<Rightarrow> (fs, Some err)
      | None \<Rightarrow>
          (let fs = (case fs path of None \<Rightarrow> fs(path \<mapsto> []) | Some _ \<Rightarrow> fs)
           in case stat_err env of
                Some err \<Rightarrow> (fs, Some err)
              | None \<Rightarrow> if fs path = Some [] then NewWriter env path fs else (fs, None)))"

section \<open>Paths\<close>

text \<open>\<open>filepath.Clean\<close> and \<open>filepath.Join\<close> on Unix, for a non-empty directory.\<close>

definition clean_step :: "bool \<Rightarrow> string list \<Rightarrow> string \<Rightarrow> string list" where
  "clean_step rooted acc c =
     (if c = [] \<or> c = ''.'' then acc
      else if c = ''..'' then
        (if acc \<noteq> [] \<and> last acc \<noteq> ''..'' then butlast acc else if rooted then acc else acc @ [c])
      else acc @ [c])"

definition clean_parts :: "string \<Rightarrow> string list" where
  "clean_parts s = foldl (clean_step (has_prefix s ''/'')) [] (split_char CHR ''/'' s)"

definition filepath_Clean :: "string \<Rightarrow> string" where
  "filepath_Clean s =
     (let p = (if has_prefix s ''/'' then ''/'' else []) @ join ''/'' (clean_parts s)
      in if p = [] then ''.'' else p)"

definition filepath_Join :: "string \<Rightarrow> string \<Rightarrow> string" where
  "filepath_Join dir name = filepath_Clean (dir @ ''/'' @ name)"

section \<open>On-demand capture\<close>

definition DefaultThreshold :: int where "DefaultThreshold = 80"
definition DefaultDir :: string where "DefaultDir = ''data/pcap''"

record TriggerResult =
  Triggered :: bool
  TriggerPath :: string
  Score :: int
  TriggerThreshold :: int

record OnDemandCapture =
  threshold :: int
  dir :: string
  opened :: "string \<rightharpoonup> string"
  paths :: "string \<rightharpoonup> string"

definition NewOnDemandCapture :: "int \<Rightarrow> string \<Rightarrow> OnDemandCapture" where
  "NewOnDemandCapture n d =
     \<lparr>threshold = (if n \<le> 0 then DefaultThreshold else n), dir = (if d = [] then DefaultDir else d),
      opened = Map.empty, paths = Map.empty\<rparr>"

text \<open>The environment variable and the result of \<open>strconv.Atoi\<close> on it.\<close>

definition ThresholdFromEnv :: "(string \<Rightarrow> int option) \<Rightarrow> string \<Rightarrow> int" where
  "ThresholdFromEnv Atoi v =
     (let v = trim_space v
      in if v = [] then DefaultThreshold
         else (case Atoi v of None \<Rightarrow> DefaultThreshold | Some n \<Rightarrow> if n \<le> 0 then DefaultThreshold else n))"

definition DirFromEnv :: "string \<Rightarrow> string" where
  "DirFromEnv v = (let v = trim_space v in if v = [] then DefaultDir else v)"

definition sanitizeIP :: "string \<Rightarrow> string" where
  "sanitizeIP ip = replace_all ''..'' ''_'' (replace_all ''/'' ''_'' (replace_all '':'' ''_'' (trim_space ip)))"

definition capture_key :: "Event \<Rightarrow> string" where
  "capture_key ev = (let key = sanitizeIP (RemoteIP ev) in if key = [] then ''unknown'' else key)"

definition capture_time :: "time \<Rightarrow> Event \<Rightarrow> time" where
  "capture_time now ev = (if is_zero_time (Timestamp ev) then now else Timestamp ev)"

definition capture_name :: "bool \<Rightarrow> time \<Rightarrow> Event \<Rightarrow> string" where
  "capture_name operator now ev =
     (if operator then ''operator'' else ''highscore'') @ ''-'' @ capture_key ev @ ''-''
     @ dec (unix_sec (capture_time now ev)) @ ''.pcap''"

datatype 'a outcome = Panicked | Returned 'a

text \<open>\<open>writeLocked\<close>: the hook, the files, and the path or an error.\<close>

definition writeLocked ::
    "PcapEnv \<Rightarrow> (Event \<Rightarrow> bool \<Rightarrow> byte list option) \<Rightarrow> time \<Rightarrow> Event \<Rightarrow> bool \<Rightarrow> OnDemandCapture \<Rightarrow> files \<Rightarrow>
     (OnDemandCapture \<times> files \<times> (string + string)) outcome" where
  "writeLocked env marshal now ev operator oc fs =
     (case mkdir_err env of
        Some err \<Rightarrow> Returned (oc, fs, Inl (''pcap dir: '' @ err))
      | None \<Rightarrow>
          (let key = capture_key ev;
               (oc, fs, path, err) =
                 (case paths oc key of
                    Some path \<Rightarrow> (oc, fs, path, None)
                  | None \<Rightarrow>
                      (let path = filepath_Join (dir oc) (capture_name operator now ev);
                           (fs, err) = OpenCapture env path fs
                       in case err of
                            Some e \<Rightarrow> (oc, fs, path, Some e)
                          | None \<Rightarrow> (oc\<lparr>opened := (opened oc)(key \<mapsto> path), paths := (paths oc)(key \<mapsto> path)\<rparr>, fs, path, None)))
           in case err of
                Some e \<Rightarrow> Returned (oc, fs, Inl e)
              | None \<Rightarrow>
                  (case marshal ev operator of
                     None \<Rightarrow> Returned (oc, fs, Inl ''json'')
                   | Some payload \<Rightarrow>
                       (case opened oc key of
                          None \<Rightarrow> Panicked
                        | Some cf \<Rightarrow>
                            (case WritePacket env cf (capture_time now ev) payload fs of
                               (fs, Some e) \<Rightarrow> Returned (oc, fs, Inl e)
                             | (fs, None) \<Rightarrow> Returned (oc, fs, Inr path))))))"

definition finish_capture ::
    "OnDemandCapture \<Rightarrow> Event \<Rightarrow> (OnDemandCapture \<times> files \<times> (string + string)) outcome \<Rightarrow>
     (OnDemandCapture \<times> files \<times> TriggerResult \<times> string option) outcome" where
  "finish_capture oc0 ev out =
     (let res = \<lparr>Triggered = False, TriggerPath = [], Score = ThreatScore ev, TriggerThreshold = threshold oc0\<rparr>
      in case out of
           Panicked \<Rightarrow> Panicked
         | Returned (oc, fs, Inl err) \<Rightarrow> Returned (oc, fs, res, Some err)
         | Returned (oc, fs, Inr path) \<Rightarrow> Returned (oc, fs, res\<lparr>Triggered := True, TriggerPath := path\<rparr>, None))"

definition MaybeCapture ::
    "PcapEnv \<Rightarrow> (Event \<Rightarrow> bool \<Rightarrow> byte list option) \<Rightarrow> time \<Rightarrow> Event \<Rightarrow> OnDemandCapture \<Rightarrow> files \<Rightarrow>
     (OnDemandCapture \<times> files \<times> TriggerResult \<times> string option) outcome" where
  "MaybeCapture env marshal now ev oc fs =
     (if ThreatScore ev < threshold oc then
        Returned (oc, fs, \<lparr>Triggered = False, TriggerPath = [], Score = ThreatScore ev, TriggerThreshold = threshold oc\<rparr>, None)
      else finish_capture oc ev (writeLocked env marshal now ev False oc fs))"

definition CaptureNow ::
    "PcapEnv \<Rightarrow> (Event \<Rightarrow> bool \<Rightarrow> byte list option) \<Rightarrow> time \<Rightarrow> Event \<Rightarrow> OnDemandCapture \<Rightarrow> files \<Rightarrow>
     (OnDemandCapture \<times> files \<times> TriggerResult \<times> string option) outcome" where
  "CaptureNow env marshal now ev oc fs = finish_capture oc ev (writeLocked env marshal now ev True oc fs)"

text \<open>\<open>Close\<close> forgets every handle but keeps the paths; what the closes return is not modelled.\<close>

definition ClosePcap :: "OnDemandCapture \<Rightarrow> OnDemandCapture" where
  "ClosePcap oc = oc\<lparr>opened := Map.empty\<rparr>"

text \<open>Every path the hook remembers is an open file: kept by all operations but \<open>Close\<close>, and then nothing panics.\<close>

definition pcap_open :: "OnDemandCapture \<Rightarrow> bool" where
  "pcap_open oc \<longleftrightarrow> opened oc = paths oc"

lemma writeLocked_open:
  "pcap_open oc \<Longrightarrow> writeLocked pe m now ev op oc fs \<noteq> Panicked
     \<and> (\<forall>oc' fs' r. writeLocked pe m now ev op oc fs = Returned (oc', fs', r) \<longrightarrow> pcap_open oc')"
  by (auto simp: writeLocked_def pcap_open_def Let_def split: option.splits prod.splits)

lemma MaybeCapture_open:
  assumes "pcap_open oc"
  obtains oc' fs' res err where "MaybeCapture pe m now ev oc fs = Returned (oc', fs', res, err)" "pcap_open oc'"
proof (cases "ThreatScore ev < threshold oc")
  case True
  then show ?thesis using that assms by (simp add: MaybeCapture_def)
next
  case False
  from writeLocked_open [OF assms, of pe m now ev False fs]
  obtain oc' fs' r where w: "writeLocked pe m now ev False oc fs = Returned (oc', fs', r)" "pcap_open oc'"
    by (cases "writeLocked pe m now ev False oc fs") auto
  show ?thesis
    using False w that by (cases r) (simp_all add: MaybeCapture_def finish_capture_def Let_def)
qed

lemma CaptureNow_open:
  assumes "pcap_open oc"
  obtains oc' fs' res err where "CaptureNow pe m now ev oc fs = Returned (oc', fs', res, err)" "pcap_open oc'"
proof -
  from writeLocked_open [OF assms, of pe m now ev True fs]
  obtain oc' fs' r where w: "writeLocked pe m now ev True oc fs = Returned (oc', fs', r)" "pcap_open oc'"
    by (cases "writeLocked pe m now ev True oc fs") auto
  show ?thesis using w that by (cases r) (simp_all add: CaptureNow_def finish_capture_def Let_def)
qed

lemma pcap_open_new: "pcap_open (NewOnDemandCapture n d)"
  by (simp add: pcap_open_def NewOnDemandCapture_def)

section \<open>Reading a capture back\<close>

text \<open>A reference reader of the packets after the global header: seconds, microseconds, length, data.\<close>

function parse_packets :: "byte list \<Rightarrow> (32 word \<times> 32 word \<times> 32 word \<times> byte list) list" where
  "parse_packets bs =
     (if length bs < 16 then []
      else
        (let caplen = unat (le32 (take 4 (drop 8 bs)))
         in (le32 (take 4 bs), le32 (take 4 (drop 4 bs)), le32 (take 4 (drop 12 bs)), take caplen (drop 16 bs))
            # parse_packets (drop caplen (drop 16 bs))))"
  by pat_completeness auto
termination
  by (relation "measure length") auto

declare parse_packets.simps [simp del]

fun write_packets :: "PcapEnv \<Rightarrow> string \<Rightarrow> (time \<times> byte list) list \<Rightarrow> files \<Rightarrow> files" where
  "write_packets env path [] fs = fs"
| "write_packets env path ((t, data) # ps) fs = write_packets env path ps (fst (WritePacket env path t data fs))"

definition io_ok :: "PcapEnv \<Rightarrow> bool" where
  "io_ok env \<longleftrightarrow> mkdir_err env = None \<and> open_err env = None \<and> stat_err env = None
     \<and> header_write env = Written \<and> packet_header_write env = Written \<and> packet_data_write env = Written"

definition frame_bytes :: "time \<Rightarrow> byte list \<Rightarrow> byte list" where
  "frame_bytes t data = packet_header t data @ packet_data data"

definition file_bytes :: "files \<Rightarrow> string \<Rightarrow> byte list" where
  "file_bytes fs path = (case fs path of None \<Rightarrow> [] | Some b \<Rightarrow> b)"

lemma file_bytes_upd [simp]: "file_bytes (fs(p \<mapsto> b)) p = b"
  by (simp add: file_bytes_def)

lemma length_put_le32 [simp]: "length (put_le32 w) = 4"
  by (simp add: put_le32_def)

lemma le32_put_le32 [simp]: "le32 (put_le32 w) = w"
  by (simp add: le32_def put_le32_def)

lemma WritePacket_ok:
  "io_ok env \<Longrightarrow> WritePacket env path t data fs = (fs(path \<mapsto> file_bytes fs path @ frame_bytes t data), None)"
  by (simp add: WritePacket_def file_append_def io_ok_def frame_bytes_def file_bytes_def Let_def split: option.splits)

lemma parse_frame:
  "parse_packets (frame_bytes t data @ rest) =
     (of_int (unix_sec t), of_int (t mod second div 1000), of_nat (length data), packet_data data) # parse_packets rest"
proof -
  let ?a = "put_le32 (of_int (unix_sec t))" and ?b = "put_le32 (of_int (t mod second div 1000))"
    and ?c = "put_le32 (cap_len data)" and ?d = "put_le32 (of_nat (length data))"
  have len: "length (packet_data data) = unat (cap_len data)"
  proof -
    have "unat (cap_len data) \<le> length data"
    proof (cases "of_nat (length data) > (65535 :: 32 word)")
      case True
      then have "unat (65535 :: 32 word) < unat (of_nat (length data) :: 32 word)" by (simp add: word_less_nat_alt)
      moreover have "unat (of_nat (length data) :: 32 word) \<le> length data" by (simp add: unat_of_nat)
      ultimately show ?thesis using True by (simp add: cap_len_def)
    next
      case False
      then show ?thesis by (simp add: cap_len_def unat_of_nat Let_def)
    qed
    then show ?thesis by (simp add: packet_data_def)
  qed
  have "frame_bytes t data @ rest = ?a @ ?b @ ?c @ ?d @ packet_data data @ rest"
    by (simp add: frame_bytes_def packet_header_def)
  then show ?thesis
    by (subst parse_packets.simps) (simp add: Let_def len)
qed

lemma write_packets_bytes:
  "io_ok env \<Longrightarrow> file_bytes (write_packets env path ps fs) path =
     file_bytes fs path @ concat (map (\<lambda>(t, d). frame_bytes t d) ps)"
proof (induction env path ps fs rule: write_packets.induct)
  case (2 env path t data ps fs)
  from "2.IH" [OF "2.prems"] "2.prems" show ?case by (simp add: WritePacket_ok del: fun_upd_apply)
qed simp

lemma parse_frames:
  "parse_packets (concat (map (\<lambda>(t, d). frame_bytes t d) ps)) =
     map (\<lambda>(t, d). (of_int (unix_sec t), of_int (t mod second div 1000), of_nat (length d), packet_data d)) ps"
proof (induction ps)
  case Nil
  then show ?case by (subst parse_packets.simps) simp
next
  case (Cons p ps)
  obtain t d where p: "p = (t, d)" by (cases p)
  show ?case using Cons by (simp add: p parse_frame)
qed


definition ok_env :: PcapEnv where
  "ok_env = \<lparr>mkdir_err = None, open_err = None, stat_err = None, header_write = Written,
     packet_header_write = Written, packet_data_write = Written\<rparr>"


section \<open>Where captures go\<close>

lemma split_char_concat: "split_char sep (a @ sep # b) = split_char sep a @ split_char sep b"
proof (induction a)
  case (Cons c a)
  then show ?case by (cases "split_char sep a") auto
qed simp

lemma sanitize_no_slash: "CHR ''/'' \<notin> set (sanitizeIP ip)"
proof -
  let ?a = "replace_all '':'' ''_'' (trim_space ip)"
  have "CHR ''/'' \<notin> set (replace_all ''/'' ''_'' ?a)"
    by (auto simp: replace_all_char)
  then show ?thesis
    using replace_all_set [of "''..''" "''_''" "replace_all ''/'' ''_'' ?a"] by (auto simp: sanitizeIP_def)
qed

lemma dec_no_slash: "CHR ''/'' \<notin> set (dec i)"
  by (auto dest!: dec_chars)

lemma capture_name_no_slash: "CHR ''/'' \<notin> set (capture_name operator now ev)"
  using sanitize_no_slash [of "RemoteIP ev"] dec_no_slash
  by (simp add: capture_name_def capture_key_def Let_def)

text \<open>
  No peer address can place a capture outside the capture directory. Whatever bytes the address
  holds, slashes and dots included, the cleaned path of the file is the cleaned directory plus exactly
  one more component, which contains no slash.
\<close>

theorem capture_path_confined:
  "clean_parts (dir (NewOnDemandCapture n d) @ ''/'' @ capture_name operator now ev) =
     clean_parts (dir (NewOnDemandCapture n d)) @ [capture_name operator now ev]
   \<and> CHR ''/'' \<notin> set (capture_name operator now ev)"
proof -
  let ?d = "dir (NewOnDemandCapture n d)" and ?n = "capture_name operator now ev"
  obtain c t where d: "?d = c # t" by (cases ?d) (auto simp: NewOnDemandCapture_def DefaultDir_def split: if_splits)
  have "has_prefix (?d @ ''/'' @ ?n) ''/'' = has_prefix ?d ''/''" by (simp add: d)
  moreover have "split_char CHR ''/'' (?d @ ''/'' @ ?n) = split_char CHR ''/'' ?d @ [?n]"
    using capture_name_no_slash [of operator now ev] by (simp add: split_char_concat split_char_none)
  moreover have "clean_step rooted acc ?n = acc @ [?n]" for rooted acc
    by (simp add: clean_step_def capture_name_def)
  ultimately show ?thesis
    using capture_name_no_slash [of operator now ev] by (simp add: clean_parts_def)
qed

section \<open>The capture gate\<close>

definition capture_path :: "OnDemandCapture \<Rightarrow> time \<Rightarrow> Event \<Rightarrow> string" where
  "capture_path oc now ev =
     (case paths oc (capture_key ev) of Some p \<Rightarrow> p | None \<Rightarrow> filepath_Join (dir oc) (capture_name False now ev))"

lemma capture_success:
  assumes "io_ok env" "marshal ev False = Some payload" "opened oc (capture_key ev) = paths oc (capture_key ev)"
    and "paths oc (capture_key ev) \<noteq> None \<longrightarrow> file_bytes fs (capture_path oc now ev) \<noteq> []"
  shows "\<exists>oc'. writeLocked env marshal now ev False oc fs = Returned (oc',
       fs(capture_path oc now ev \<mapsto>
         (if file_bytes fs (capture_path oc now ev) = [] then global_header else file_bytes fs (capture_path oc now ev))
         @ frame_bytes (capture_time now ev) payload), Inr (capture_path oc now ev))
     \<and> opened oc' = (opened oc)(capture_key ev \<mapsto> capture_path oc now ev)
     \<and> paths oc' = (paths oc)(capture_key ev \<mapsto> capture_path oc now ev)"
proof (cases "paths oc (capture_key ev)")
  case None
  let ?p = "capture_path oc now ev"
  have p: "filepath_Join (dir oc) (capture_name False now ev) = ?p" using None by (simp add: capture_path_def)
  have "OpenCapture env ?p fs = (fs(?p \<mapsto> if file_bytes fs ?p = [] then global_header else file_bytes fs ?p), None)"
    using assms(1) by (auto simp: OpenCapture_def NewWriter_def file_append_def io_ok_def file_bytes_def split: option.splits)
  moreover have "mkdir_err env = None" using assms(1) by (simp add: io_ok_def)
  ultimately show ?thesis using None assms(1,2) p
    by (simp add: writeLocked_def Let_def del: fun_upd_apply) (simp add: WritePacket_ok)
next
  case (Some p)
  then have path: "capture_path oc now ev = p" by (simp add: capture_path_def)
  have upd: "(opened oc)(capture_key ev \<mapsto> p) = opened oc" "(paths oc)(capture_key ev \<mapsto> p) = paths oc"
    using Some assms(3) by auto
  have "mkdir_err env = None" using assms(1) by (simp add: io_ok_def)
  with Some assms path upd show ?thesis by (simp add: writeLocked_def Let_def WritePacket_ok)
qed

text \<open>
  The capture gate is exact. Below the threshold \<open>MaybeCapture\<close> touches nothing. From the threshold
  on, if the operating system cooperates, it reports the file of that address (the same file for every
  later event of the address), appends exactly one frame with the event's payload and time to it, after a
  header if the file is new, and changes no other file.
\<close>

theorem capture_gate_exact:
  assumes "io_ok env" "marshal ev False = Some payload" "opened oc (capture_key ev) = paths oc (capture_key ev)"
    and "paths oc (capture_key ev) \<noteq> None \<longrightarrow> file_bytes fs (capture_path oc now ev) \<noteq> []"
  shows "if ThreatScore ev < threshold oc
     then \<exists>res. MaybeCapture env marshal now ev oc fs = Returned (oc, fs, res, None) \<and> \<not> Triggered res
     else \<exists>oc' fs' res. MaybeCapture env marshal now ev oc fs = Returned (oc', fs', res, None)
        \<and> Triggered res \<and> TriggerPath res = capture_path oc now ev
        \<and> paths oc' (capture_key ev) = Some (TriggerPath res)
        \<and> fs' = fs(TriggerPath res \<mapsto>
             (if file_bytes fs (TriggerPath res) = [] then global_header else file_bytes fs (TriggerPath res))
             @ frame_bytes (capture_time now ev) payload)"
proof (cases "ThreatScore ev < threshold oc")
  case True
  then show ?thesis by (simp add: MaybeCapture_def)
next
  case False
  let ?p = "capture_path oc now ev"
  let ?fs = "fs(?p \<mapsto> (if file_bytes fs ?p = [] then global_header else file_bytes fs ?p)
      @ frame_bytes (capture_time now ev) payload)"
  let ?res = "\<lparr>Triggered = True, TriggerPath = ?p, Score = ThreatScore ev, TriggerThreshold = threshold oc\<rparr>"
  obtain oc' where w: "writeLocked env marshal now ev False oc fs = Returned (oc', ?fs, Inr ?p)"
    "paths oc' = (paths oc)(capture_key ev \<mapsto> ?p)"
    using capture_success [of env marshal ev payload oc fs now, OF assms] by blast
  have "MaybeCapture env marshal now ev oc fs = Returned (oc', ?fs, ?res, None)"
    using False unfolding MaybeCapture_def w(1) finish_capture_def Let_def by simp
  with False w(2) show ?thesis
    by (simp del: fun_upd_apply) (metis TriggerResult.select_convs(1,2) fun_upd_same)
qed

definition hot_event :: Event where
  "hot_event = zero_event\<lparr>RemoteIP := ''192.0.2.7'', ThreatScore := 95, Timestamp := 100 * second\<rparr>"

theorem capture_gate_exact_witness:
  "\<exists>oc' fs' res. MaybeCapture ok_env (\<lambda>_ _. Some [1]) 0 hot_event (NewOnDemandCapture 80 ''d'') Map.empty
     = Returned (oc', fs', res, None) \<and> Triggered res"
  using capture_gate_exact [of ok_env "\<lambda>_ _. Some [1]" hot_event "[1]" "NewOnDemandCapture 80 ''d''" Map.empty 0]
  by (auto simp: io_ok_def ok_env_def NewOnDemandCapture_def hot_event_def)

text \<open>
  A closed hook is a trap. \<open>Close\<close> drops the file handles but remembers the paths, so the next
  capture for an address that had one dereferences a nil handle: the process panics.
\<close>

theorem closed_hook_panics:
  assumes "paths oc (capture_key ev) \<noteq> None" "threshold oc \<le> ThreatScore ev"
    and "mkdir_err env = None" "marshal ev False \<noteq> None"
  shows "MaybeCapture env marshal now ev (ClosePcap oc) fs = Panicked"
  using assms by (auto simp: MaybeCapture_def finish_capture_def writeLocked_def ClosePcap_def Let_def)

theorem closed_hook_panics_witness:
  "let oc = (NewOnDemandCapture 80 ''d'')\<lparr>paths := [capture_key hot_event \<mapsto> ''d/f'']\<rparr>
   in MaybeCapture ok_env (\<lambda>_ _. Some [1]) 0 hot_event (ClosePcap oc) Map.empty = Panicked"
  unfolding Let_def
  by (rule closed_hook_panics) (simp_all add: NewOnDemandCapture_def hot_event_def ok_env_def)

end
