(* ===== verification/Metrics.thy ===== *)
theory Metrics
  imports Go_Strings "HOL-Library.Word"
begin

text \<open>
  The counters of \<open>internal/metrics/prometheus.go\<close>: seven unsigned 64-bit words that wrap, each
  increment one atomic step, and the text page \<open>Handler\<close> serves to Prometheus.
\<close>

section \<open>Counters\<close>

record Metrics =
  TotalConnections :: "64 word"
  ProbesBlocked :: "64 word"
  CriticalThreats :: "64 word"
  SSHAttempts :: "64 word"
  RedisAttempts :: "64 word"
  DockerAttempts :: "64 word"
  DatabaseAttempts :: "64 word"

definition zero_metrics :: Metrics where
  "zero_metrics =
     \<lparr>TotalConnections = 0, ProbesBlocked = 0, CriticalThreats = 0, SSHAttempts = 0, RedisAttempts = 0,
      DockerAttempts = 0, DatabaseAttempts = 0\<rparr>"

definition IncConnections :: "Metrics \<Rightarrow> Metrics" where
  "IncConnections m = m\<lparr>TotalConnections := TotalConnections m + 1\<rparr>"

definition IncBlocked :: "Metrics \<Rightarrow> Metrics" where
  "IncBlocked m = m\<lparr>ProbesBlocked := ProbesBlocked m + 1\<rparr>"

definition IncCritical :: "Metrics \<Rightarrow> Metrics" where
  "IncCritical m = m\<lparr>CriticalThreats := CriticalThreats m + 1\<rparr>"

definition IncSSH :: "Metrics \<Rightarrow> Metrics" where
  "IncSSH m = m\<lparr>SSHAttempts := SSHAttempts m + 1\<rparr>"

definition IncRedis :: "Metrics \<Rightarrow> Metrics" where
  "IncRedis m = m\<lparr>RedisAttempts := RedisAttempts m + 1\<rparr>"

definition IncDocker :: "Metrics \<Rightarrow> Metrics" where
  "IncDocker m = m\<lparr>DockerAttempts := DockerAttempts m + 1\<rparr>"

definition IncDatabase :: "Metrics \<Rightarrow> Metrics" where
  "IncDatabase m = m\<lparr>DatabaseAttempts := DatabaseAttempts m + 1\<rparr>"

section \<open>The metrics page\<close>

definition counter_line :: "string \<Rightarrow> 64 word \<Rightarrow> string" where
  "counter_line name n = name @ '' '' @ dec_nat (unat n) @ nl"

definition help_lines :: "string \<Rightarrow> string \<Rightarrow> string" where
  "help_lines name help = ''# HELP '' @ name @ '' '' @ help @ nl @ ''# TYPE '' @ name @ '' counter'' @ nl"

definition probe_name :: "string \<Rightarrow> string" where
  "probe_name service = ''shinkiro_decoy_probes{service='' @ quot @ service @ quot @ ''}''"

definition MetricsHandler :: "Metrics \<Rightarrow> string" where
  "MetricsHandler m =
     help_lines ''shinkiro_connections_total'' ''Total incoming connection probes''
     @ counter_line ''shinkiro_connections_total'' (TotalConnections m)
     @ help_lines ''shinkiro_probes_blocked_total'' ''Total attacker IPs mitigated by defense engine''
     @ counter_line ''shinkiro_probes_blocked_total'' (ProbesBlocked m)
     @ help_lines ''shinkiro_critical_threats_total'' ''Total critical severity exploits observed''
     @ counter_line ''shinkiro_critical_threats_total'' (CriticalThreats m)
     @ help_lines ''shinkiro_decoy_probes'' ''Total probes categorized by decoy service''
     @ counter_line (probe_name ''ssh'') (SSHAttempts m)
     @ counter_line (probe_name ''redis'') (RedisAttempts m)
     @ counter_line (probe_name ''docker'') (DockerAttempts m)
     @ counter_line (probe_name ''database'') (DatabaseAttempts m)"

text \<open>A counter line determines its counter and where it ends.\<close>

lemma dec_nat_no_nl: "CHR 0x0A \<notin> set (dec_nat n)"
  using dec_nat_digits [of "CHR 0x0A" n] by auto

lemma counter_line_eq:
  "counter_line name m @ s = counter_line name n @ t \<longleftrightarrow> m = n \<and> s = t"
proof
  assume "counter_line name m @ s = counter_line name n @ t"
  then have "dec_nat (unat m) @ CHR 0x0A # s = dec_nat (unat n) @ CHR 0x0A # t"
    by (simp add: counter_line_def)
  then have "split_char CHR 0x0A (dec_nat (unat m) @ CHR 0x0A # s) =
      split_char CHR 0x0A (dec_nat (unat n) @ CHR 0x0A # t)" by simp
  then have d: "dec_nat (unat m) = dec_nat (unat n)"
    by (simp add: split_char_append dec_nat_no_nl)
  with \<open>dec_nat (unat m) @ CHR 0x0A # s = dec_nat (unat n) @ CHR 0x0A # t\<close> show "m = n \<and> s = t"
    by (simp add: word_unat_eq_iff)
qed simp

text \<open>
  The metrics page loses nothing: two states of the counters give the same page only if all seven
  counters agree, so a scraper that reads the page knows every counter exactly.
\<close>

theorem metrics_page_faithful: "MetricsHandler m = MetricsHandler m' \<longleftrightarrow> m = m'"
proof
  assume "MetricsHandler m = MetricsHandler m'"
  then have "TotalConnections m = TotalConnections m' \<and> ProbesBlocked m = ProbesBlocked m'
      \<and> CriticalThreats m = CriticalThreats m' \<and> SSHAttempts m = SSHAttempts m' \<and> RedisAttempts m = RedisAttempts m'
      \<and> DockerAttempts m = DockerAttempts m' \<and> DatabaseAttempts m = DatabaseAttempts m'"
    using counter_line_eq [of "probe_name ''database''" "DatabaseAttempts m" "[]" "DatabaseAttempts m'" "[]"]
    by (simp add: MetricsHandler_def counter_line_eq)
  then show "m = m'" by (cases m; cases m') simp
qed simp

end
