(* ===== verification/Net_IP.thy ===== *)
theory Net_IP
  imports Go_Strings
begin

unbundle bit_operations_syntax

text \<open>
  \<open>net.ParseIP\<close> of the Go standard library (\<open>netip.ParseAddr\<close> and its two parsers, a zone refused)
  and the address classes the code asks for. An address is its 16 bytes; an IPv4 address is mapped into
  the prefix \<open>::ffff:0:0/96\<close> as \<open>As16\<close> does, and \<open>To4\<close> takes it back.
\<close>

section \<open>Parsing\<close>

text \<open>
  The loop of \<open>parseIPv4Fields\<close>: the fields read, the value and the number of digits of the current
  one, and the rest. A dot needs a digit before it and a character after it; after the last
  character the current value is the fourth field, whether or not it has a digit.
\<close>

fun v4_fields :: "nat list \<Rightarrow> nat \<Rightarrow> nat \<Rightarrow> string \<Rightarrow> byte list option" where
  "v4_fields fs val digLen [] = (if length fs < 3 then None else Some (map of_nat (fs @ [val])))"
| "v4_fields fs val digLen (c # s) =
     (case dec_val c of
        Some d \<Rightarrow>
          if digLen = 1 \<and> val = 0 then None
          else if 10 * val + d > 255 then None
          else v4_fields fs (10 * val + d) (Suc digLen) s
      | None \<Rightarrow>
          if c \<noteq> CHR ''.'' then None
          else if digLen = 0 \<or> s = [] then None
          else if length fs = 3 then None
          else v4_fields (fs @ [val]) 0 0 s)"

definition v4_prefix :: "byte list" where
  "v4_prefix = replicate 10 0 @ [0xff, 0xff]"

definition parse_v4 :: "string \<Rightarrow> byte list option" where
  "parse_v4 s = map_option (\<lambda>f. v4_prefix @ f) (v4_fields [] 0 0 s)"

text \<open>One group of at most four hexadecimal digits: how many, its value, the rest.\<close>

fun hex_group :: "nat \<Rightarrow> nat \<Rightarrow> string \<Rightarrow> (nat \<times> nat \<times> string) option" where
  "hex_group off acc [] = Some (off, acc, [])"
| "hex_group off acc (c # s) =
     (case hex_val c of
        None \<Rightarrow> Some (off, acc, c # s)
      | Some v \<Rightarrow> if off > 3 then None else if 16 * acc + v > 65535 then None
                  else hex_group (Suc off) (16 * acc + v) s)"

text \<open>The loop of \<open>parseIPv6\<close>: the bytes so far, the position of the ellipsis, the rest.\<close>

function v6_loop :: "byte list \<Rightarrow> nat option \<Rightarrow> string \<Rightarrow> (byte list \<times> nat option \<times> string) option" where
  "v6_loop bs ell s =
     (if length bs < 16 then
        (case hex_group 0 0 s of
           None \<Rightarrow> None
         | Some (off, acc, r) \<Rightarrow>
             if off = 0 then None
             else if r \<noteq> [] \<and> hd r = CHR ''.'' then
               (if ell = None \<and> length bs \<noteq> 12 then None
                else if length bs + 4 > 16 then None
                else (case v4_fields [] 0 0 s of None \<Rightarrow> None | Some f \<Rightarrow> Some (bs @ f, ell, [])))
             else
               (let bs = bs @ [of_nat (acc div 256), of_nat acc]
                in if r = [] then Some (bs, ell, [])
                   else if hd r \<noteq> CHR '':'' then None
                   else if length r = 1 then None
                   else if hd (tl r) = CHR '':'' then
                     (if ell \<noteq> None then None
                      else if tl (tl r) = [] then Some (bs, Some (length bs), [])
                      else v6_loop bs (Some (length bs)) (tl (tl r)))
                   else v6_loop bs ell (tl r)))
      else Some (bs, ell, s))"
  by pat_completeness auto
termination
  by (relation "measure (\<lambda>(bs, ell, s). 16 - length bs)") auto

declare v6_loop.simps [simp del]

definition v6_expand :: "byte list \<Rightarrow> nat option \<Rightarrow> byte list option" where
  "v6_expand bs ell =
     (if length bs < 16 then
        (case ell of None \<Rightarrow> None | Some e \<Rightarrow> Some (take e bs @ replicate (16 - length bs) 0 @ drop e bs))
      else if ell \<noteq> None then None else Some bs)"

definition parse_v6 :: "string \<Rightarrow> byte list option" where
  "parse_v6 s =
     (if has_prefix s ''::'' \<and> length s = 2 then Some (replicate 16 0)
      else (case (if has_prefix s ''::'' then v6_loop [] (Some 0) (drop 2 s) else v6_loop [] None s) of
              None \<Rightarrow> None
            | Some (bs, ell, r) \<Rightarrow> if r \<noteq> [] then None else v6_expand bs ell))"

text \<open>A percent sign is an error or starts a zone, which \<open>ParseIP\<close> refuses.\<close>

definition ParseIP :: "string \<Rightarrow> byte list option" where
  "ParseIP s =
     (case find (\<lambda>c. c = CHR ''.'' \<or> c = CHR '':'' \<or> c = CHR ''%'') s of
        None \<Rightarrow> None
      | Some c \<Rightarrow>
          if c = CHR ''.'' then parse_v4 s
          else if c = CHR '':'' then (if CHR ''%'' \<in> set s then None else parse_v6 s)
          else None)"

section \<open>Classes\<close>

definition To4 :: "byte list \<Rightarrow> byte list option" where
  "To4 ip = (if length ip = 16 \<and> take 12 ip = v4_prefix then Some (drop 12 ip) else None)"

definition IsPrivate :: "byte list \<Rightarrow> bool" where
  "IsPrivate ip =
     (case To4 ip of
        Some q \<Rightarrow> q ! 0 = 10 \<or> q ! 0 = 172 \<and> q ! 1 AND 0xf0 = 16 \<or> q ! 0 = 192 \<and> q ! 1 = 168
      | None \<Rightarrow> length ip = 16 \<and> ip ! 0 AND 0xfe = 0xfc)"

definition IsLoopback :: "byte list \<Rightarrow> bool" where
  "IsLoopback ip = (case To4 ip of Some q \<Rightarrow> q ! 0 = 127 | None \<Rightarrow> ip = replicate 15 0 @ [1])"

definition IsLinkLocalMulticast :: "byte list \<Rightarrow> bool" where
  "IsLinkLocalMulticast ip =
     (case To4 ip of
        Some q \<Rightarrow> q ! 0 = 224 \<and> q ! 1 = 0 \<and> q ! 2 = 0
      | None \<Rightarrow> length ip = 16 \<and> ip ! 0 = 0xff \<and> ip ! 1 AND 0x0f = 2)"

definition IsLinkLocalUnicast :: "byte list \<Rightarrow> bool" where
  "IsLinkLocalUnicast ip =
     (case To4 ip of
        Some q \<Rightarrow> q ! 0 = 169 \<and> q ! 1 = 254
      | None \<Rightarrow> length ip = 16 \<and> ip ! 0 = 0xfe \<and> ip ! 1 AND 0xc0 = 0x80)"

section \<open>What the parser accepts\<close>

definition dotted :: "byte \<Rightarrow> byte \<Rightarrow> byte \<Rightarrow> byte \<Rightarrow> string" where
  "dotted a b c d = join ''.'' (map (\<lambda>x. dec_nat (unat x)) [a, b, c, d])"

lemma dec_val_digit [simp]: "d < 10 \<Longrightarrow> dec_val (digit d) = Some d"
  by (simp add: dec_val_def of_char_digit)

lemma dec_val_dot [simp]: "dec_val CHR ''.'' = None" "dec_val CHR '':'' = None" "dec_val CHR ''%'' = None"
  by (simp_all add: dec_val_def)

lemma v4_fields_digit:
  "d < 10 \<Longrightarrow> \<not> (k = 1 \<and> val = 0) \<Longrightarrow> 10 * val + d = val' \<Longrightarrow> val' \<le> 255 \<Longrightarrow>
   v4_fields fs val k (digit d # s) = v4_fields fs val' (Suc k) s"
  by (simp only: v4_fields.simps dec_val_digit option.case if_False) auto

lemma dec_nat_two: "10 \<le> n \<Longrightarrow> n < 100 \<Longrightarrow> dec_nat n = [digit (n div 10), digit (n mod 10)]"
  by (simp add: dec_nat.simps [of n] dec_nat.simps [of "n div 10"])

lemma dec_nat_three:
  assumes "100 \<le> n" "n < 1000"
  shows "dec_nat n = [digit (n div 100), digit (n div 10 mod 10), digit (n mod 10)]"
proof -
  have "dec_nat n = dec_nat (n div 10) @ [digit (n mod 10)]" using assms by (subst dec_nat.simps) simp
  also have "dec_nat (n div 10) = [digit (n div 10 div 10), digit (n div 10 mod 10)]"
    using assms by (intro dec_nat_two) auto
  also have "n div 10 div 10 = n div 100" by (simp add: div_mult2_eq [symmetric])
  finally show ?thesis by simp
qed

lemma v4_fields_number:
  assumes "n \<le> 255"
  shows "\<exists>k > 0. v4_fields fs 0 0 (dec_nat n @ s) = v4_fields fs n k s"
proof -
  consider "n < 10" | "10 \<le> n" "n < 100" | "100 \<le> n" by linarith
  then show ?thesis
  proof cases
    case 1
    then show ?thesis by (intro exI [of _ 1]) (simp add: dec_nat.simps [of n])
  next
    case 2
    let ?a = "n div 10" and ?b = "n mod 10"
    have f: "?a < 10" "?a \<noteq> 0" "?b < 10" "10 * ?a + ?b = n" using 2 by simp_all
    have "v4_fields fs 0 0 (digit ?a # digit ?b # s) = v4_fields fs ?a (Suc 0) (digit ?b # s)"
      using f(1) by (intro v4_fields_digit) simp_all
    also have "\<dots> = v4_fields fs n (Suc (Suc 0)) s"
      using f(2,3) assms by (intro v4_fields_digit f(4)) simp_all
    finally show ?thesis using dec_nat_two [OF 2] by (metis append_Cons append_Nil zero_less_Suc)
  next
    case 3
    let ?a = "n div 100" and ?b = "n div 10 mod 10" and ?c = "n mod 10"
    have m: "?a = n div 10 div 10" by (simp add: div_mult2_eq [symmetric])
    have r: "10 \<le> n div 10" "n div 10 \<le> 25" using 3 assms by simp_all
    have f: "?a < 10" "?a \<noteq> 0" "?b < 10" "?c < 10" "10 * ?a + ?b = n div 10" "10 * (n div 10) + ?c = n"
      "n div 10 \<le> 255" "?a \<le> 255" "n div 10 \<noteq> 0" using r unfolding m by simp_all
    have "v4_fields fs 0 0 (digit ?a # digit ?b # digit ?c # s) = v4_fields fs ?a (Suc 0) (digit ?b # digit ?c # s)"
      using f(1,8) by (intro v4_fields_digit) simp_all
    also have "\<dots> = v4_fields fs (n div 10) (Suc (Suc 0)) (digit ?c # s)"
      using f(2,3,7) by (intro v4_fields_digit f(5)) simp_all
    also have "\<dots> = v4_fields fs n (Suc (Suc (Suc 0))) s"
      using f(4) assms by (intro v4_fields_digit f(6)) simp_all
    finally have "v4_fields fs 0 0 ([digit ?a, digit ?b, digit ?c] @ s) = v4_fields fs n (Suc (Suc (Suc 0))) s"
      by (simp only: append.simps)
    moreover have "dec_nat n = [digit ?a, digit ?b, digit ?c]" using 3 assms by (intro dec_nat_three) linarith+
    ultimately show ?thesis by (metis zero_less_Suc)
  qed
qed

lemma byte_le_255: "unat (b :: byte) \<le> 255"
proof -
  have "unat b < 2 ^ LENGTH(8)" by (rule unsigned_less)
  then show ?thesis by simp
qed

lemma v4_fields_byte_dot:
  assumes "length fs < 3" "s \<noteq> []"
  shows "v4_fields fs 0 0 (dec_nat (unat (b :: byte)) @ CHR ''.'' # s) = v4_fields (fs @ [unat b]) 0 0 s"
proof -
  obtain k where "k > 0" "v4_fields fs 0 0 (dec_nat (unat b) @ CHR ''.'' # s) = v4_fields fs (unat b) k (CHR ''.'' # s)"
    using v4_fields_number [OF byte_le_255] by blast
  with assms show ?thesis by simp
qed

lemma parse_v4_dotted: "parse_v4 (dotted a b c d) = Some (v4_prefix @ [a, b, c, d])"
proof -
  have last: "v4_fields [unat a, unat b, unat c] 0 0 (dec_nat (unat d)) = Some [a, b, c, d]"
    using v4_fields_number [OF byte_le_255, of "[unat a, unat b, unat c]" d "[]"] by auto
  show ?thesis
    by (simp add: parse_v4_def dotted_def v4_fields_byte_dot last)
qed

text \<open>Every dotted quad is parsed to its four bytes.\<close>

lemma find_dot: "find (\<lambda>c. c = CHR ''.'' \<or> c = CHR '':'' \<or> c = CHR ''%'') (dec_nat n @ CHR ''.'' # s) = Some CHR ''.''"
proof -
  have "find (\<lambda>c. c = CHR ''.'' \<or> c = CHR '':'' \<or> c = CHR ''%'') (ds @ CHR ''.'' # s) = Some CHR ''.''"
    if "\<forall>c \<in> set ds. 48 \<le> (of_char c :: nat) \<and> (of_char c :: nat) \<le> 57" for ds
    using that by (induction ds) auto
  then show ?thesis using dec_nat_digits by blast
qed

lemma ParseIP_dotted: "ParseIP (dotted a b c d) = Some (v4_prefix @ [a, b, c, d])"
  using parse_v4_dotted [of a b c d] by (simp add: ParseIP_def dotted_def find_dot)

lemma To4_v4 [simp]: "To4 (v4_prefix @ [a, b, c, d]) = Some [a, b, c, d]"
  by (simp add: To4_def v4_prefix_def)

text \<open>A parsed address has 16 bytes, and its text only hexadecimal digits, dots and colons.\<close>

definition addr_char :: "char \<Rightarrow> bool" where
  "addr_char c \<longleftrightarrow> hex_val c \<noteq> None \<or> c = CHR ''.'' \<or> c = CHR '':''"

lemma dec_val_hex: "dec_val c = Some d \<Longrightarrow> addr_char c"
  by (auto simp: addr_char_def dec_val_def hex_val_def Let_def split: if_splits)

lemma v4_fields_accepts:
  "v4_fields fs val k s = Some f \<Longrightarrow> length fs \<le> 3 \<Longrightarrow> (\<forall>c \<in> set s. addr_char c) \<and> length f = 4"
proof (induction fs val k s arbitrary: f rule: v4_fields.induct)
  case (2 fs val k c s)
  then show ?case
    by (auto simp: addr_char_def dest: dec_val_hex split: option.splits if_splits)
qed (auto split: if_splits)

lemma hex_group_accepts:
  "hex_group off acc s = Some (off', acc', r) \<Longrightarrow> \<exists>p. s = p @ r \<and> (\<forall>c \<in> set p. addr_char c)"
proof (induction off acc s rule: hex_group.induct)
  case (2 off acc c s)
  show ?case
  proof (cases "hex_val c")
    case None
    with 2 show ?thesis by auto
  next
    case (Some v)
    with 2 obtain p where "s = p @ r" "\<forall>c \<in> set p. addr_char c" by (auto split: if_splits)
    moreover have "addr_char c" using Some by (simp add: addr_char_def)
    ultimately show ?thesis by (intro exI [of _ "c # p"]) auto
  qed
qed auto

lemma v6_loop_accepts:
  "v6_loop bs ell s = Some (bs', ell', []) \<Longrightarrow> even (length bs) \<Longrightarrow> length bs \<le> 16 \<Longrightarrow>
   (\<forall>e. ell = Some e \<longrightarrow> e \<le> length bs) \<Longrightarrow>
   (\<forall>c \<in> set s. addr_char c) \<and> length bs' \<le> 16 \<and> (\<forall>e. ell' = Some e \<longrightarrow> e \<le> length bs')"
proof (induction bs ell s rule: v6_loop.induct)
  case (1 bs ell s)
  show ?case
  proof (cases "length bs < 16")
    case False
    with "1.prems" show ?thesis by (simp add: v6_loop.simps [of bs ell s])
  next
    case True
    with "1.prems"(1) obtain off acc r where g: "hex_group 0 0 s = Some (off, acc, r)" "off \<noteq> 0"
      by (auto simp: v6_loop.simps [of bs ell s] split: option.splits if_splits)
    from hex_group_accepts [OF g(1)] obtain p where p: "s = p @ r" "\<forall>c \<in> set p. addr_char c" by blast
    have len: "length bs + 2 \<le> 16" using True "1.prems"(2) by presburger
    have colon: "addr_char CHR '':''" by (simp add: addr_char_def)
    consider (v4) "r \<noteq> [] \<and> hd r = CHR ''.''" | (fin) "r = []"
      | (more) "r \<noteq> []" "hd r \<noteq> CHR ''.''" by blast
    then show ?thesis
    proof cases
      case v4
      with "1.prems" True g show ?thesis
        by (auto simp: v6_loop.simps [of bs ell s] dest: v4_fields_accepts split: option.splits if_splits)
    next
      case fin
      with "1.prems"(1) True g have "bs' = bs @ [of_nat (acc div 256), of_nat acc]" "ell' = ell"
        by (auto simp: v6_loop.simps [of bs ell s] Let_def)
      with "1.prems"(4) p len fin show ?thesis by auto
    next
      case more
      let ?bs = "bs @ [of_nat (acc div 256), of_nat acc]"
      from "1.prems"(1) True g more have r: "hd r = CHR '':''" "length r \<noteq> 1"
        by (auto simp: v6_loop.simps [of bs ell s] Let_def split: if_splits)
      with more obtain c t where t: "r = CHR '':'' # c # t" by (cases r; cases "tl r") auto
      show ?thesis
      proof (cases "c = CHR '':''")
        case False
        with "1.prems"(1) True g t have l: "v6_loop ?bs ell (c # t) = Some (bs', ell', [])"
          by (simp add: v6_loop.simps [of bs ell s] Let_def)
        have "(\<forall>c \<in> set (tl r). addr_char c) \<and> length bs' \<le> 16 \<and> (\<forall>e. ell' = Some e \<longrightarrow> e \<le> length bs')"
          by (rule "1.IH"(2) [OF True g(1) refl refl _ _ refl]) (use False g t l len "1.prems"(2,4) in \<open>auto simp: le_SucI\<close>)
        then show ?thesis using p t colon by auto
      next
        case c: True
        show ?thesis
        proof (cases "t = []")
          case True
          with "1.prems"(1) \<open>length bs < 16\<close> g t c have "bs' = ?bs" "ell' = Some (length ?bs)"
            by (auto simp: v6_loop.simps [of bs ell s] Let_def split: if_splits)
          with p t c \<open>t = []\<close> len colon show ?thesis by auto
        next
          case False
          with "1.prems"(1) True g t c have l: "v6_loop ?bs (Some (length ?bs)) t = Some (bs', ell', [])" "ell = None"
            by (auto simp: v6_loop.simps [of bs ell s] Let_def split: if_splits)
          have "(\<forall>c \<in> set (tl (tl r)). addr_char c) \<and> length bs' \<le> 16 \<and> (\<forall>e. ell' = Some e \<longrightarrow> e \<le> length bs')"
            by (rule "1.IH"(1) [OF True g(1) refl refl _ _ refl]) (use False g t c l len "1.prems"(2) in auto)
          then show ?thesis using p t c colon by auto
        qed
      qed
    qed
  qed
qed

lemma v6_expand_length:
  "v6_expand bs ell = Some ip \<Longrightarrow> length bs \<le> 16 \<Longrightarrow> (\<forall>e. ell = Some e \<longrightarrow> e \<le> length bs) \<Longrightarrow> length ip = 16"
  by (auto simp: v6_expand_def split: option.splits if_splits)

lemma ParseIP_accepts:
  assumes "ParseIP s = Some ip"
  shows "(\<forall>c \<in> set s. addr_char c) \<and> length ip = 16 \<and> s \<noteq> []"
proof -
  obtain c where c: "find (\<lambda>c. c = CHR ''.'' \<or> c = CHR '':'' \<or> c = CHR ''%'') s = Some c"
    using assms by (auto simp: ParseIP_def split: option.splits)
  then have "s \<noteq> []" by auto
  have colon: "addr_char CHR '':''" by (simp add: addr_char_def)
  consider (v4) "parse_v4 s = Some ip" | (v6) "parse_v6 s = Some ip"
    using assms c by (auto simp: ParseIP_def split: if_splits)
  then show ?thesis
  proof cases
    case v4
    with \<open>s \<noteq> []\<close> show ?thesis by (auto simp: parse_v4_def v4_prefix_def dest: v4_fields_accepts)
  next
    case v6
    show ?thesis
    proof (cases "has_prefix s ''::''")
      case True
      then obtain t where t: "s = ''::'' @ t" by (auto simp: has_prefix_iff)
      show ?thesis
      proof (cases "t = []")
        case False
        with v6 True t obtain bs ell where l: "v6_loop [] (Some 0) t = Some (bs, ell, [])" "v6_expand bs ell = Some ip"
          by (auto simp: parse_v6_def split: option.splits if_splits)
        with v6_loop_accepts [OF l(1)] v6_expand_length [OF l(2)] t colon show ?thesis by auto
      qed (use v6 t colon in \<open>auto simp: parse_v6_def\<close>)
    next
      case False
      with v6 obtain bs ell where l: "v6_loop [] None s = Some (bs, ell, [])" "v6_expand bs ell = Some ip"
        by (auto simp: parse_v6_def split: option.splits if_splits)
      with v6_loop_accepts [OF l(1)] v6_expand_length [OF l(2)] \<open>s \<noteq> []\<close> show ?thesis by auto
    qed
  qed
qed

text \<open>The mask tests of the class predicates as ranges.\<close>

lemma and_f0_eq_16: "(b :: byte) AND 0xf0 = 16 \<longleftrightarrow> 16 \<le> b \<and> b \<le> 31"
proof -
  have "list_all (\<lambda>n. ((of_nat n :: byte) AND 0xf0 = 16) = (16 \<le> (of_nat n :: byte) \<and> (of_nat n :: byte) \<le> 31)) [0..<256]"
    by code_simp
  moreover have "unat b \<in> set [0..<256]" using byte_le_255 [of b] by simp
  ultimately have "((of_nat (unat b) :: byte) AND 0xf0 = 16) = (16 \<le> (of_nat (unat b) :: byte) \<and> (of_nat (unat b) :: byte) \<le> 31)"
    unfolding list_all_iff by blast
  then show ?thesis by (simp only: of_nat_unat ucast_id)
qed

end
