(* ===== verification/Geoip.thy ===== *)
theory Geoip
  imports Net_IP
begin

text \<open>
  The optional MaxMind enrichment of \<open>internal/intel/geoip/resolver.go\<close>. The database reader is third
  party: \<open>GeoReader\<close> holds its answers, \<open>None\<close> for an error or a nil record, and opening a file is a
  parameter. A method called on a nil resolver is the case \<open>None\<close> of a \<open>Resolver option\<close>. The
  messages handed to the logger are kept in \<open>geo_log\<close>.
\<close>

section \<open>Records, readers, resolvers\<close>

record GeoRecord =
  Country :: string
  City :: string
  ASN :: string
  Org :: string

definition empty_geo :: GeoRecord where
  "empty_geo = \<lparr>Country = [], City = [], ASN = [], Org = []\<rparr>"

definition EmptyGeo :: "GeoRecord \<Rightarrow> bool" where
  "EmptyGeo r \<longleftrightarrow> Country r = [] \<and> City r = [] \<and> ASN r = [] \<and> Org r = []"

record GeoReader =
  CityOf :: "byte list \<Rightarrow> (string \<times> (string \<rightharpoonup> string)) option"
  CountryOf :: "byte list \<Rightarrow> string option"
  ASNOf :: "byte list \<Rightarrow> (nat \<times> string) option"
  MetaType :: string

record Resolver =
  geo_reader :: "GeoReader option"
  dbType :: string
  geo_enabled :: bool
  has_logger :: bool
  logged_once :: bool
  geo_log :: "string list"

datatype GeoOption = WithLogger | WithReader "GeoReader option"

fun apply_option :: "GeoOption \<Rightarrow> Resolver \<Rightarrow> Resolver" where
  "apply_option WithLogger r = r\<lparr>has_logger := True\<rparr>"
| "apply_option (WithReader None) r = r\<lparr>geo_reader := None\<rparr>"
| "apply_option (WithReader (Some rd)) r = r\<lparr>geo_reader := Some rd, geo_enabled := True, dbType := MetaType rd\<rparr>"

text \<open>\<open>logOnce.Do\<close>: the first message goes to the logger, all later ones are dropped.\<close>

definition log_once :: "string \<Rightarrow> Resolver \<Rightarrow> Resolver" where
  "log_once msg r =
     (if logged_once r then r
      else r\<lparr>logged_once := True, geo_log := geo_log r @ (if has_logger r then [msg] else [])\<rparr>)"

definition PathFromEnv :: "string \<Rightarrow> string" where
  "PathFromEnv v = trim_space v"

definition ResolvePath :: "string \<Rightarrow> string \<Rightarrow> string" where
  "ResolvePath env_value flagOrPath = (let p = trim_space flagOrPath in if p \<noteq> [] then p else PathFromEnv env_value)"

definition dbTypeOrUnknown :: "Resolver \<Rightarrow> string" where
  "dbTypeOrUnknown r = (if dbType r = [] then ''unknown'' else dbType r)"

definition disabledMsg :: string where
  "disabledMsg = ''GeoIP disabled''"

text \<open>The file system and the MaxMind library as \<open>NewResolver\<close> sees them.\<close>

record GeoEnv =
  stat_fails :: "string \<Rightarrow> bool"
  open_db :: "string \<Rightarrow> string + GeoReader"

definition NewResolver :: "GeoEnv \<Rightarrow> string \<Rightarrow> GeoOption list \<Rightarrow> Resolver" where
  "NewResolver env path opts =
     (let r = foldl (\<lambda>r opt. apply_option opt r)
                \<lparr>geo_reader = None, dbType = [], geo_enabled = False, has_logger = False, logged_once = False,
                 geo_log = []\<rparr> opts
      in if geo_reader r \<noteq> None then log_once (''GeoIP enabled ('' @ dbTypeOrUnknown r @ '')'') r
         else
           (let path = trim_space path
            in if path = [] then log_once disabledMsg r
               else if stat_fails env path then
                 log_once (disabledMsg @ '' (path unset or missing: '' @ path @ '')'') r
               else (case open_db env path of
                       Inl err \<Rightarrow> log_once (disabledMsg @ '' (failed to open '' @ path @ '': '' @ err @ '')'') r
                     | Inr db \<Rightarrow>
                         (let r = r\<lparr>geo_reader := Some db, dbType := MetaType db, geo_enabled := True\<rparr>
                          in log_once (''GeoIP enabled (MaxMind '' @ dbTypeOrUnknown r @ '' from '' @ path @ '')'') r))))"

definition Enabled :: "Resolver option \<Rightarrow> bool" where
  "Enabled ro = (case ro of None \<Rightarrow> False | Some r \<Rightarrow> geo_enabled r \<and> geo_reader r \<noteq> None)"

definition DatabaseType :: "Resolver option \<Rightarrow> string" where
  "DatabaseType ro = (case ro of None \<Rightarrow> [] | Some r \<Rightarrow> dbType r)"

definition CloseGeo :: "Resolver option \<Rightarrow> Resolver option" where
  "CloseGeo ro =
     (case ro of
        None \<Rightarrow> None
      | Some r \<Rightarrow> if geo_reader r = None then Some r else Some (r\<lparr>geo_reader := None, geo_enabled := False\<rparr>))"

section \<open>Lookups\<close>

text \<open>The parts of \<open>lookupPublic\<close> its branches share.\<close>

definition with_city :: "(string \<times> (string \<rightharpoonup> string)) option \<Rightarrow> GeoRecord \<Rightarrow> GeoRecord" where
  "with_city ans rec =
     (case ans of
        None \<Rightarrow> rec
      | Some (code, names) \<Rightarrow>
          (let rec = rec\<lparr>Country := code\<rparr>
           in case names ''en'' of None \<Rightarrow> rec | Some name \<Rightarrow> rec\<lparr>City := name\<rparr>))"

definition with_asn_number :: "nat \<Rightarrow> GeoRecord \<Rightarrow> GeoRecord" where
  "with_asn_number n rec = (if n > 0 then rec\<lparr>ASN := ''AS'' @ dec_nat n\<rparr> else rec)"

definition with_asn :: "(nat \<times> string) option \<Rightarrow> GeoRecord \<Rightarrow> GeoRecord" where
  "with_asn ans rec = (case ans of None \<Rightarrow> rec | Some (n, org) \<Rightarrow> (with_asn_number n rec)\<lparr>Org := org\<rparr>)"

definition lookupPublic :: "string \<Rightarrow> GeoReader \<Rightarrow> byte list \<Rightarrow> GeoRecord" where
  "lookupPublic dbt rd ip =
     (let dbt = to_lower dbt; rec = empty_geo
      in if str_contains dbt ''city'' then with_city (CityOf rd ip) rec
         else if str_contains dbt ''country'' then
           (case CountryOf rd ip of None \<Rightarrow> rec | Some code \<Rightarrow> rec\<lparr>Country := code\<rparr>)
         else if str_contains dbt ''asn'' then with_asn (ASNOf rd ip) rec
         else if str_contains dbt ''isp'' then with_asn (ASNOf rd ip) (with_city (CityOf rd ip) rec)
         else
           (let rec = (case CityOf rd ip of
                         Some ans \<Rightarrow> with_city (Some ans) rec
                       | None \<Rightarrow> (case CountryOf rd ip of None \<Rightarrow> rec | Some code \<Rightarrow> rec\<lparr>Country := code\<rparr>))
            in case ASNOf rd ip of
                 None \<Rightarrow> rec
               | Some (n, org) \<Rightarrow>
                   (let rec = with_asn_number n rec in if Org rec = [] then rec\<lparr>Org := org\<rparr> else rec)))"

definition local_geo :: GeoRecord where
  "local_geo = \<lparr>Country = ''LOCAL'', City = ''Private Network'', ASN = [], Org = ''RFC1918/loopback''\<rparr>"

definition local_address :: "byte list \<Rightarrow> bool" where
  "local_address ip \<longleftrightarrow> IsPrivate ip \<or> IsLoopback ip \<or> IsLinkLocalUnicast ip \<or> IsLinkLocalMulticast ip"

definition LookupGeo :: "Resolver option \<Rightarrow> string \<Rightarrow> GeoRecord" where
  "LookupGeo ro ipStr =
     (case ro of
        None \<Rightarrow> empty_geo
      | Some r \<Rightarrow>
          if \<not> Enabled ro then empty_geo
          else (case ParseIP ipStr of
                  None \<Rightarrow> empty_geo
                | Some ip \<Rightarrow>
                    if local_address ip then local_geo
                    else (case geo_reader r of None \<Rightarrow> empty_geo | Some rd \<Rightarrow> lookupPublic (dbType r) rd ip)))"

definition EnrichMetadata :: "(string \<rightharpoonup> string) \<Rightarrow> GeoRecord \<Rightarrow> (string \<rightharpoonup> string)" where
  "EnrichMetadata meta rec =
     (let meta = (if Country rec \<noteq> [] then meta(''geo_country'' \<mapsto> Country rec) else meta);
          meta = (if City rec \<noteq> [] then meta(''geo_city'' \<mapsto> City rec) else meta);
          meta = (if ASN rec \<noteq> [] then meta(''geo_asn'' \<mapsto> ASN rec) else meta)
      in if Org rec \<noteq> [] then meta(''geo_org'' \<mapsto> Org rec) else meta)"

section \<open>Opening the database\<close>

lemma apply_options_log [simp]:
  "geo_log (foldl (\<lambda>r opt. apply_option opt r) r opts) = geo_log r"
  "logged_once (foldl (\<lambda>r opt. apply_option opt r) r opts) = logged_once r"
  "has_logger (foldl (\<lambda>r opt. apply_option opt r) r opts) = (has_logger r \<or> WithLogger \<in> set opts)"
proof -
  have [simp]: "geo_log (apply_option opt r) = geo_log r" "logged_once (apply_option opt r) = logged_once r"
    "has_logger (apply_option opt r) = (has_logger r \<or> opt = WithLogger)" for opt r
    by (cases "(opt, r)" rule: apply_option.cases; simp)+
  show "geo_log (foldl (\<lambda>r opt. apply_option opt r) r opts) = geo_log r"
    "logged_once (foldl (\<lambda>r opt. apply_option opt r) r opts) = logged_once r"
    "has_logger (foldl (\<lambda>r opt. apply_option opt r) r opts) = (has_logger r \<or> WithLogger \<in> set opts)"
    by (induction opts arbitrary: r) auto
qed

lemma log_once_fields [simp]:
  "geo_reader (log_once msg r) = geo_reader r" "geo_enabled (log_once msg r) = geo_enabled r"
  "dbType (log_once msg r) = dbType r"
  by (simp_all add: log_once_def)

lemma log_once_first:
  "\<not> logged_once r \<Longrightarrow> geo_log r = [] \<Longrightarrow> geo_log (log_once msg r) = (if has_logger r then [msg] else [])"
  by (simp add: log_once_def)

text \<open>The state of the reader that the options leave.\<close>

definition injected :: "GeoOption list \<Rightarrow> GeoReader option" where
  "injected opts = foldl (\<lambda>rd opt. case opt of WithLogger \<Rightarrow> rd | WithReader new \<Rightarrow> new) None opts"

lemma apply_options_reader:
  "geo_reader (foldl (\<lambda>r opt. apply_option opt r) r opts) =
     foldl (\<lambda>rd opt. case opt of WithLogger \<Rightarrow> rd | WithReader new \<Rightarrow> new) (geo_reader r) opts"
proof (induction opts arbitrary: r)
  case (Cons opt opts)
  then show ?case by (cases "(opt, r)" rule: apply_option.cases) simp_all
qed simp

lemma apply_options_enabled:
  "geo_reader r \<noteq> None \<longrightarrow> geo_enabled r \<Longrightarrow>
   geo_reader (foldl (\<lambda>r opt. apply_option opt r) r opts) \<noteq> None \<longrightarrow> geo_enabled (foldl (\<lambda>r opt. apply_option opt r) r opts)"
proof (induction opts arbitrary: r)
  case (Cons opt opts)
  have "geo_reader (apply_option opt r) \<noteq> None \<longrightarrow> geo_enabled (apply_option opt r)"
    using Cons.prems by (cases "(opt, r)" rule: apply_option.cases) auto
  with Cons.IH show ?case by simp
qed simp

text \<open>
  A resolver is always built, and says once how. Whatever the path, the file system and the MaxMind
  library answer, exactly one status message reaches the logger (none without a logger), and the
  resolver is enabled if and only if a reader was injected or the trimmed path is not empty, exists and
  opens. Every failure disables the enrichment instead of stopping the program.
\<close>

theorem resolver_opens_or_disables:
  "length (geo_log (NewResolver env path opts)) = (if WithLogger \<in> set opts then 1 else 0)
   \<and> (Enabled (Some (NewResolver env path opts)) \<longleftrightarrow>
        injected opts \<noteq> None \<or>
        trim_space path \<noteq> [] \<and> \<not> stat_fails env (trim_space path) \<and> (\<exists>db. open_db env (trim_space path) = Inr db))"
proof -
  let ?r0 = "\<lparr>geo_reader = None, dbType = [], geo_enabled = False, has_logger = False, logged_once = False, geo_log = []\<rparr>"
  define r where "r = foldl (\<lambda>r opt. apply_option opt r) ?r0 opts"
  have r: "geo_reader r = injected opts" "geo_log r = []" "\<not> logged_once r" "has_logger r = (WithLogger \<in> set opts)"
    "geo_reader r \<noteq> None \<longrightarrow> geo_enabled r"
    using apply_options_enabled [of ?r0 opts] by (simp_all add: r_def apply_options_reader injected_def)
  show ?thesis
    unfolding NewResolver_def r_def [symmetric] Let_def
    using r by (auto simp: Enabled_def log_once_first split: sum.splits)
qed

section \<open>What a lookup says\<close>

text \<open>
  The answer for an IPv4 address is exact for all four bytes. With a database open, the private
  ranges 10/8, 172.16/12 and 192.168/16, loopback 127/8, link-local 169.254/16 and the multicast range
  224.0.0/24 are answered as local without asking the database, and every other address is answered by
  the database entry of exactly that address; without a database the record is empty.
\<close>

theorem geo_lookup_exact:
  "LookupGeo ro (dotted a b c d) =
     (case (if Enabled ro then ro else None) of
        None \<Rightarrow> empty_geo
      | Some r \<Rightarrow>
          if a = 10 \<or> a = 172 \<and> b \<in> {16..31} \<or> a = 192 \<and> b = 168 \<or> a = 127 \<or> a = 169 \<and> b = 254
             \<or> a = 224 \<and> b = 0 \<and> c = 0
          then local_geo else lookupPublic (dbType r) (the (geo_reader r)) (v4_prefix @ [a, b, c, d]))"
proof -
  have "local_address (v4_prefix @ [a, b, c, d]) \<longleftrightarrow>
      a = 10 \<or> a = 172 \<and> b \<in> {16..31} \<or> a = 192 \<and> b = 168 \<or> a = 127 \<or> a = 169 \<and> b = 254
      \<or> a = 224 \<and> b = 0 \<and> c = 0"
    by (auto simp: local_address_def IsPrivate_def IsLoopback_def IsLinkLocalUnicast_def
        IsLinkLocalMulticast_def and_f0_eq_16)
  then show ?thesis
    by (auto simp: LookupGeo_def Enabled_def ParseIP_dotted split: option.splits)
qed

text \<open>Everything a public record says is an answer of the reader for that address.\<close>

definition reader_says :: "GeoReader \<Rightarrow> byte list \<Rightarrow> string set" where
  "reader_says rd ip =
     (case CityOf rd ip of None \<Rightarrow> {} | Some (code, names) \<Rightarrow> insert code (set_option (names ''en'')))
     \<union> set_option (CountryOf rd ip)
     \<union> (case ASNOf rd ip of None \<Rightarrow> {} | Some (n, org) \<Rightarrow> {''AS'' @ dec_nat n, org})"

definition geo_values :: "GeoRecord \<Rightarrow> string set" where
  "geo_values rec = {Country rec, City rec, ASN rec, Org rec} - {[]}"

lemma lookupPublic_says: "geo_values (lookupPublic dbt rd ip) \<subseteq> reader_says rd ip"
  unfolding lookupPublic_def Let_def
  by (auto simp: geo_values_def reader_says_def with_city_def with_asn_def with_asn_number_def empty_geo_def Let_def
      split: option.splits prod.splits)

lemma EnrichMetadata_at:
  "EnrichMetadata meta rec k = Some v \<Longrightarrow> meta k = Some v \<or> v \<in> geo_values rec"
  by (auto simp: EnrichMetadata_def geo_values_def Let_def split: if_splits)


definition demo_reader :: GeoReader where
  "demo_reader =
     \<lparr>CityOf = (\<lambda>ip. if ip = v4_prefix @ [8, 8, 8, 8] then Some (''US'', [''en'' \<mapsto> ''Ashburn'']) else None),
      CountryOf = (\<lambda>_. None), ASNOf = (\<lambda>_. None), MetaType = ''GeoLite2-City''\<rparr>"


text \<open>Closing disables the lookups but leaves the database type in place.\<close>

lemma closed_resolver:
  "LookupGeo (CloseGeo ro) s = empty_geo" if "geo_reader (the ro) \<noteq> None"
  using that by (auto simp: LookupGeo_def CloseGeo_def Enabled_def split: option.splits)

lemma closed_resolver_keeps_type: "DatabaseType (CloseGeo ro) = DatabaseType ro"
  by (auto simp: DatabaseType_def CloseGeo_def split: option.splits)

end
