(* ===== verification/Json.thy ===== *)
theory Json
  imports Go_Strings
begin

text \<open>
  The values the code hands to \<open>encoding/json\<close>. An object keeps the keys in the order of the Go struct
  or literal; where the code uses a map the encoder sorts them, which the model leaves open. The encoder
  itself is a parameter of the definitions that send text.
\<close>

datatype json =
  JStr string | JInt int | JBool bool | JNull | JArr "json list" | JObj "(string \<times> json) list"

fun jget :: "string \<Rightarrow> json \<Rightarrow> json option" where
  "jget k (JObj kvs) = map_of kvs k"
| "jget k _ = None"

fun jitems :: "json \<Rightarrow> json list" where
  "jitems (JArr xs) = xs"
| "jitems _ = []"

text \<open>All texts in a value, in order.\<close>

fun jtexts :: "json \<Rightarrow> string list" where
  "jtexts (JStr s) = [s]"
| "jtexts (JArr xs) = concat (map jtexts xs)"
| "jtexts (JObj kvs) = concat (map (\<lambda>(k, v). jtexts v) kvs)"
| "jtexts _ = []"

end
