(* ===== verification/Go_Time.thy ===== *)
theory Go_Time
  imports Go_Collections
begin

text \<open>
  \<open>time.Time.Format\<close> for the layouts the code uses, on UTC times: \<open>RFC3339\<close>, \<open>RFC3339Nano\<close> and the
  clock \<open>15:04:05\<close>. The civil date is computed from the day number by the usual 400-year cycle.
\<close>

section \<open>Civil dates\<close>

text \<open>Year, month and day of a day number, counted from 1970-01-01. Years start in March inside.\<close>

definition year_of_era :: "int \<Rightarrow> int" where
  "year_of_era doe = (doe - doe div 1460 + doe div 36524 - doe div 146096) div 365"

definition day_of_year :: "int \<Rightarrow> int" where
  "day_of_year doe = (let y = year_of_era doe in doe - (365 * y + y div 4 - y div 100))"

definition civil :: "int \<Rightarrow> int \<times> int \<times> int" where
  "civil days =
     (let z = days + 719468; era = z div 146097; doe = z mod 146097;
          doy = day_of_year doe; mp = (5 * doy + 2) div 153;
          m = (if mp < 10 then mp + 3 else mp - 9);
          y = year_of_era doe + era * 400 + (if m \<le> 2 then 1 else 0)
      in (y, m, doy - (153 * mp + 2) div 5 + 1))"

section \<open>Layouts\<close>

definition pad0 :: "nat \<Rightarrow> int \<Rightarrow> string" where
  "pad0 n v = (let ds = dec_nat (nat \<bar>v\<bar>) in (if v < 0 then ''-'' else []) @ replicate (n - length ds) CHR ''0'' @ ds)"

definition clock_string :: "time \<Rightarrow> string" where
  "clock_string t =
     (let s = unix_sec t mod 86400
      in pad0 2 (s div 3600) @ '':'' @ pad0 2 (s div 60 mod 60) @ '':'' @ pad0 2 (s mod 60))"

definition date_string :: "time \<Rightarrow> string" where
  "date_string t = (case civil (unix_sec t div 86400) of (y, m, d) \<Rightarrow> pad0 4 y @ ''-'' @ pad0 2 m @ ''-'' @ pad0 2 d)"

definition rfc3339 :: "time \<Rightarrow> string" where
  "rfc3339 t = date_string t @ ''T'' @ clock_string t @ ''Z''"

definition rfc3339_nano :: "time \<Rightarrow> string" where
  "rfc3339_nano t = date_string t @ ''T'' @ clock_string t @ frac_string 9 (nat (t mod second)) @ ''Z''"

end
