(* ===== verification/Webhook.thy ===== *)
theory Webhook
  imports Json Intel_Event Go_Time
begin

text \<open>
  The alert dispatcher of \<open>internal/webhook/slack.go\<close>: the Slack and Discord payloads, and \<open>SendAlert\<close>.
  The JSON encoder and the outcome of the HTTP POST are parameters; the result is the request sent, if
  any, and the error returned. The response status is never looked at, as in the code.
\<close>

section \<open>Payloads\<close>

definition siren :: string where
  "siren = [CHR 0xF0, CHR 0x9F, CHR 0x9A, CHR 0xA8]"

definition slack_origin :: "Event \<Rightarrow> string" where
  "slack_origin ev =
     (if map_get (Metadata ev) ''geo_country'' \<noteq> [] \<or> map_get (Metadata ev) ''geo_asn'' \<noteq> []
      then map_get (Metadata ev) ''geo_country'' @ '' ('' @ map_get (Metadata ev) ''geo_asn'' @ '')''
      else ''Unknown'')"

definition slack_header :: "Event \<Rightarrow> string" where
  "slack_header ev = siren @ '' SHINKIRO INTRUSION ALERT: '' @ DecoyName ev"

definition slack_summary :: "Event \<Rightarrow> string" where
  "slack_summary ev =
     ''*Decoy:* `'' @ DecoyName ev @ ''` (Port '' @ dec (LocalPort ev) @ '')'' @ nl
     @ ''*Severity:* `'' @ Severity ev @ ''` | *Threat Score:* `'' @ dec (ThreatScore ev) @ ''/100`'' @ nl
     @ ''*Attacker IP:* `'' @ RemoteIP ev @ ''`'' @ nl
     @ ''*Origin:* `'' @ slack_origin ev @ ''`'' @ nl
     @ ''*Action:* `'' @ Action ev @ ''`''"

definition slack_section :: "string \<Rightarrow> json" where
  "slack_section txt =
     JObj [(''type'', JStr ''section''), (''text'', JObj [(''type'', JStr ''mrkdwn''), (''text'', JStr txt)])]"

definition BuildSlackPayload :: "Event \<Rightarrow> json" where
  "BuildSlackPayload ev =
     (let blocks =
        [JObj [(''type'', JStr ''header''),
               (''text'', JObj [(''type'', JStr ''plain_text''), (''text'', JStr (slack_header ev))])],
         slack_section (slack_summary ev)];
          blocks = (if Username ev \<noteq> [] \<or> Password ev \<noteq> []
            then blocks @ [slack_section (''*Captured Credentials:* `'' @ Username ev @ ''` / `'' @ Password ev @ ''`'')]
            else blocks);
          blocks = (if Command ev \<noteq> []
            then blocks @ [slack_section (''*Injected Command / Exploit:* ```'' @ Command ev @ ''```'')]
            else blocks)
      in JObj [(''text'', JStr (slack_header ev)), (''blocks'', JArr blocks)])"

definition discord_field :: "string \<Rightarrow> string \<Rightarrow> bool \<Rightarrow> json" where
  "discord_field name val inln = JObj [(''name'', JStr name), (''value'', JStr val), (''inline'', JBool inln)]"

definition BuildDiscordPayload :: "Event \<Rightarrow> json" where
  "BuildDiscordPayload ev =
     (let color = (if Severity ev = SeverityHigh then 15105570 else 15158332);
          fields =
            [discord_field ''Decoy Service'' (DecoyName ev @ '' (Port '' @ dec (LocalPort ev) @ '')'') True,
             discord_field ''Attacker IP'' (RemoteIP ev) True,
             discord_field ''Threat Score'' (dec (ThreatScore ev) @ ''/100 ('' @ Severity ev @ '')'') True,
             discord_field ''Action / Vector'' (Action ev) False];
          fields = (if Username ev \<noteq> []
            then fields @ [discord_field ''Captured Credentials'' (''`'' @ Username ev @ '':'' @ Password ev @ ''`'') True]
            else fields);
          fields = (if Command ev \<noteq> []
            then fields @ [discord_field ''Command / Payload'' (''```'' @ Command ev @ ''```'') False]
            else fields);
          embed = JObj
            [(''title'', JStr (siren @ '' Honeypot Triggered: '' @ DecoyName ev)),
             (''description'', JStr ''An adversary has triggered an in-memory cyber deception trap.''),
             (''color'', JInt color), (''fields'', JArr fields),
             (''timestamp'', JStr (rfc3339 (Timestamp ev)))]
      in JObj [(''embeds'', JArr [embed])])"

section \<open>Sending\<close>

record Dispatcher =
  webhook_url :: string

definition NewDispatcher :: "string \<Rightarrow> Dispatcher" where
  "NewDispatcher url = \<lparr>webhook_url = url\<rparr>"

text \<open>\<open>SendAlert\<close>: the request (address and payload) that reaches the client, and the error.\<close>

definition alert_payload :: "Dispatcher \<Rightarrow> Event \<Rightarrow> json" where
  "alert_payload d ev =
     (if str_contains (webhook_url d) ''discord.com'' then BuildDiscordPayload ev else BuildSlackPayload ev)"

definition SendAlert ::
    "(json \<Rightarrow> string option) \<Rightarrow> (string \<Rightarrow> string \<Rightarrow> string option) \<Rightarrow> Dispatcher \<Rightarrow> Event \<Rightarrow>
     (string \<times> json) option \<times> string option" where
  "SendAlert marshal post d ev =
     (if webhook_url d = [] then (None, None)
      else
        (case marshal (alert_payload d ev) of
           None \<Rightarrow> (None, Some ''json'')
         | Some body \<Rightarrow> (Some (webhook_url d, alert_payload d ev), post (webhook_url d) body)))"

text \<open>What an alert must tell an operator: every fact of the event that is not empty.\<close>

definition alert_facts :: "Event \<Rightarrow> string set" where
  "alert_facts ev =
     {DecoyName ev, RemoteIP ev, Severity ev, Action ev, Username ev, Command ev,
      dec (LocalPort ev), dec (ThreatScore ev)} \<union> (if Username ev \<noteq> [] then {Password ev} else {})"

definition mentions :: "json \<Rightarrow> string \<Rightarrow> bool" where
  "mentions j f \<longleftrightarrow> (\<exists>txt \<in> set (jtexts j). str_contains txt f)"

lemma mentionsI: "txt \<in> set (jtexts j) \<Longrightarrow> txt = u @ f @ v \<Longrightarrow> mentions j f"
  by (auto simp: mentions_def str_contains_iff)

lemma slack_texts:
  "set (jtexts (BuildSlackPayload ev)) =
     {slack_header ev, ''header'', ''plain_text'', ''section'', ''mrkdwn'', slack_summary ev}
     \<union> (if Username ev \<noteq> [] \<or> Password ev \<noteq> []
        then {''*Captured Credentials:* `'' @ Username ev @ ''` / `'' @ Password ev @ ''`''} else {})
     \<union> (if Command ev \<noteq> [] then {''*Injected Command / Exploit:* ```'' @ Command ev @ ''```''} else {})"
  by (auto simp: BuildSlackPayload_def slack_section_def Let_def)

lemma discord_texts:
  "set (jtexts (BuildDiscordPayload ev)) \<supseteq>
     {siren @ '' Honeypot Triggered: '' @ DecoyName ev, DecoyName ev @ '' (Port '' @ dec (LocalPort ev) @ '')'',
      RemoteIP ev, dec (ThreatScore ev) @ ''/100 ('' @ Severity ev @ '')'', Action ev}
     \<union> (if Username ev \<noteq> [] then {''`'' @ Username ev @ '':'' @ Password ev @ ''`''} else {})
     \<union> (if Command ev \<noteq> [] then {''```'' @ Command ev @ ''```''} else {})"
  by (simp add: BuildDiscordPayload_def discord_field_def Let_def)

lemma mentions_part: "txt \<in> set (jtexts j) \<Longrightarrow> str_contains txt f \<Longrightarrow> mentions j f"
  by (auto simp: mentions_def)

text \<open>A text that is one of the pieces of another occurs in it.\<close>

lemma contains_concat: "txt = concat ps \<Longrightarrow> f \<in> set ps \<Longrightarrow> str_contains txt f"
  unfolding str_contains_iff by (auto dest!: split_list) blast

lemma mentions_concat: "concat ps \<in> set (jtexts j) \<Longrightarrow> f \<in> set ps \<Longrightarrow> mentions j f"
  using contains_concat [OF refl] by (blast intro: mentions_part)

lemma slack_summary_pieces:
  "slack_summary ev = concat [''*Decoy:* `'', DecoyName ev, ''` (Port '', dec (LocalPort ev), '')'' @ nl @ ''*Severity:* `'',
     Severity ev, ''` | *Threat Score:* `'', dec (ThreatScore ev), ''/100`'' @ nl @ ''*Attacker IP:* `'', RemoteIP ev,
     ''`'' @ nl @ ''*Origin:* `'', slack_origin ev, ''`'' @ nl @ ''*Action:* `'', Action ev, ''`'']"
  by (simp add: slack_summary_def)

lemma slack_mentions: "alert_facts ev \<subseteq> {f. mentions (BuildSlackPayload ev) f}"
proof -
  let ?j = "BuildSlackPayload ev"
  have sum: "mentions ?j f"
    if "f \<in> {DecoyName ev, RemoteIP ev, Severity ev, Action ev, dec (LocalPort ev), dec (ThreatScore ev)}" for f
  proof (rule mentions_concat)
    show "concat [''*Decoy:* `'', DecoyName ev, ''` (Port '', dec (LocalPort ev), '')'' @ nl @ ''*Severity:* `'',
     Severity ev, ''` | *Threat Score:* `'', dec (ThreatScore ev), ''/100`'' @ nl @ ''*Attacker IP:* `'', RemoteIP ev,
     ''`'' @ nl @ ''*Origin:* `'', slack_origin ev, ''`'' @ nl @ ''*Action:* `'', Action ev, ''`''] \<in> set (jtexts ?j)"
      unfolding slack_summary_pieces [symmetric] slack_texts by simp
  qed (use that in auto)
  have empty: "mentions ?j []" using slack_texts [of ev] by (auto simp: mentions_def)
  have creds: "mentions ?j f" if "f \<in> {Username ev, Password ev}" "Username ev \<noteq> []" for f
  proof (rule mentions_concat)
    show "concat [''*Captured Credentials:* `'', Username ev, ''` / `'', Password ev, ''`''] \<in> set (jtexts ?j)"
      using that(2) unfolding slack_texts by simp
  qed (use that(1) in auto)
  have cmd: "mentions ?j (Command ev)" if "Command ev \<noteq> []"
  proof (rule mentions_concat)
    show "concat [''*Injected Command / Exploit:* ```'', Command ev, ''```''] \<in> set (jtexts ?j)"
      using that unfolding slack_texts by simp
  qed simp
  show ?thesis using sum creds cmd empty by (cases "Username ev = []"; cases "Command ev = []") (auto simp: alert_facts_def)
qed

lemma discord_mentions: "alert_facts ev \<subseteq> {f. mentions (BuildDiscordPayload ev) f}"
proof -
  let ?j = "BuildDiscordPayload ev"
  have in_texts: "mentions ?j f" if "concat ps \<in> set (jtexts ?j)" "f \<in> set ps" for f ps
    using that by (rule mentions_concat)
  have base: "mentions ?j (DecoyName ev)" "mentions ?j (dec (LocalPort ev))" "mentions ?j (RemoteIP ev)"
    "mentions ?j (dec (ThreatScore ev))" "mentions ?j (Severity ev)" "mentions ?j (Action ev)"
    using discord_texts [of ev]
      in_texts [of "[DecoyName ev, '' (Port '', dec (LocalPort ev), '')'']"]
      in_texts [of "[dec (ThreatScore ev), ''/100 ('', Severity ev, '')'']"]
      in_texts [of "[RemoteIP ev]"] in_texts [of "[Action ev]"] by auto
  have empty: "mentions ?j []" using discord_texts [of ev] by (auto simp: mentions_def)
  have creds: "mentions ?j f" if "f \<in> {Username ev, Password ev}" "Username ev \<noteq> []" for f
    using in_texts [of "[''`'', Username ev, '':'', Password ev, ''`'']" f] discord_texts [of ev] that by auto
  have cmd: "mentions ?j (Command ev)" if "Command ev \<noteq> []"
    using in_texts [of "[''```'', Command ev, ''```'']"] discord_texts [of ev] that by auto
  show ?thesis using base creds cmd empty
    by (cases "Username ev = []"; cases "Command ev = []") (auto simp: alert_facts_def)
qed


text \<open>A password without a user name is shown by Slack and left out by Discord.\<close>

lemma discord_drops_password:
  assumes "ev = zero_event\<lparr>Password := ''s3cret''\<rparr>"
  shows "mentions (BuildSlackPayload ev) ''s3cret'' \<and> \<not> mentions (BuildDiscordPayload ev) ''s3cret''"
proof
  have "concat [''*Captured Credentials:* `'', [], ''` / `'', ''s3cret'', ''`''] \<in> set (jtexts (BuildSlackPayload ev))"
    unfolding slack_texts by (simp add: assms)
  then show "mentions (BuildSlackPayload ev) ''s3cret''" by (rule mentions_concat) simp
  have "list_all (\<lambda>txt. \<not> str_contains txt ''s3cret'') (jtexts (BuildDiscordPayload ev))"
    unfolding assms by code_simp
  then show "\<not> mentions (BuildDiscordPayload ev) ''s3cret''" by (auto simp: mentions_def list_all_iff)
qed

end
