(* ===== verification/Up.thy ===== *)
theory Up
  imports Intel_Engine Pipeline Soar Block_Applier Multiplexer Pcap Metrics Geoip Webhook
begin

text \<open>
  The wiring of \<open>cmd/shinkiro/up.go\<close>: the four stage handlers that \<open>runUp\<close> registers on the bus, over
  one record \<open>World\<close> of the state they share (the metrics of \<open>internal/metrics\<close> included). What differs
  from event to event in the environment (clock readings, outcomes of system calls, the GeoIP answer) is
  the function \<open>step_env\<close>, indexed by the number of events the sink has begun. Terminal output is left
  out. A panic in a handler ends the process: it sets \<open>panicked\<close> and stops the event.
\<close>

section \<open>The service counters\<close>

definition inc_service :: "string \<Rightarrow> Metrics \<Rightarrow> Metrics" where
  "inc_service name m =
     (if name = ''ssh'' then IncSSH m
      else if name = ''redis'' then IncRedis m
      else if name = ''docker'' then IncDocker m
      else if name = ''postgres'' \<or> name = ''mongo'' then IncDatabase m
      else m)"

section \<open>The shared state\<close>

record StepEnv =
  soar_now :: time
  pcap_now :: time
  append_out :: append_outcome
  persist_err :: string
  pcap_env :: PcapEnv

record UpConfig =
  step_env :: "nat \<Rightarrow> StepEnv"
  marshal_event :: "Event \<Rightarrow> string option"
  marshal_frame :: "Event \<Rightarrow> bool \<Rightarrow> byte list option"
  block_env :: BlockEnv
  geo_resolver :: "Resolver option"
  dispatcher :: Dispatcher
  marshal_alert :: "json \<Rightarrow> string option"
  post_alert :: "string \<Rightarrow> string \<Rightarrow> string option"
  interactive :: bool

record World =
  tick :: nat
  engine :: IntelEngine
  soar :: "BlockApplier SoarEngine"
  applier :: BlockApplier
  pcap :: OnDemandCapture
  capture_files :: files
  metrics :: Metrics
  alerts :: "(string \<times> json) list"
  tui :: "Event chan"
  panicked :: bool

text \<open>The alert requests posted are kept; the error \<open>SendAlert\<close> returns is discarded.\<close>

definition send_alert :: "UpConfig \<Rightarrow> Event \<Rightarrow> World \<Rightarrow> World" where
  "send_alert cfg ev w =
     (case fst (SendAlert (marshal_alert cfg) (post_alert cfg) (dispatcher cfg) ev) of
        None \<Rightarrow> w
      | Some request \<Rightarrow> w\<lparr>alerts := alerts w @ [request]\<rparr>)"

section \<open>The stage handlers\<close>

definition score_handler :: "UpConfig \<Rightarrow> World Handler" where
  "score_handler cfg w ev =
     (let ev = fill_mitre ev;
          geo = LookupGeo (geo_resolver cfg) (RemoteIP ev)
      in (w, ev\<lparr>Metadata := EnrichMetadata (Metadata ev) geo\<rparr>, None))"

definition correlate_handler :: "World Handler" where
  "correlate_handler w ev =
     (w\<lparr>engine := (engine w)\<lparr>EngCorrelator := fst (Ingest (EngCorrelator (engine w)) ev)\<rparr>\<rparr>, ev, None)"

definition playbook_handler :: "UpConfig \<Rightarrow> World Handler" where
  "playbook_handler cfg w ev =
     (let (e, a, actions) = SoarProcess (soar w) (soar_now (step_env cfg (tick w))) ev (applier w)
      in (w\<lparr>soar := e, applier := a\<rparr>, ev, None))"

definition sink_metrics :: "UpConfig \<Rightarrow> Event \<Rightarrow> World \<Rightarrow> World" where
  "sink_metrics cfg ev w =
     (let w = w\<lparr>metrics := IncConnections (metrics w)\<rparr>;
          w = (if Severity ev = SeverityCritical
               then send_alert cfg ev (w\<lparr>metrics := IncCritical (metrics w)\<rparr>) else w);
          w = (if ThreatScore ev \<ge> 80 then w\<lparr>metrics := IncBlocked (metrics w)\<rparr> else w)
      in w\<lparr>metrics := inc_service (DecoyName ev) (metrics w)\<rparr>)"

definition sink_handler :: "UpConfig \<Rightarrow> World Handler" where
  "sink_handler cfg w ev =
     (let env = step_env cfg (tick w);
          w = sink_metrics cfg ev (w\<lparr>tick := Suc (tick w)\<rparr>)
      in case MaybeCapture (pcap_env env) (marshal_frame cfg) (pcap_now env) ev (pcap w) (capture_files w) of
           Panicked \<Rightarrow> (w\<lparr>panicked := True\<rparr>, ev, Some ''panic'')
         | Returned (oc, fs, res, err) \<Rightarrow>
             (let w = w\<lparr>pcap := oc, capture_files := fs\<rparr>;
                  ev = (if err = None \<and> Triggered res
                        then ev\<lparr>Metadata := (Metadata ev)(''pcap_path'' \<mapsto> TriggerPath res)\<rparr> else ev);
                  (e, failed) = Persist (marshal_event cfg) (append_out env) (engine w) ev;
                  w = w\<lparr>engine := e\<rparr>
              in if failed then (w, ev, Some (persist_err env))
                 else if interactive cfg then (w\<lparr>tui := fst (try_send ev (tui w))\<rparr>, ev, None)
                 else (w, ev, None)))"

definition up_bus :: "UpConfig \<Rightarrow> World Bus" where
  "up_bus cfg =
     On StageSink (Some (sink_handler cfg))
       (On StagePlaybook (Some (playbook_handler cfg))
         (On StageCorrelate (Some correlate_handler)
           (On StageScore (Some (score_handler cfg)) NewBus)))"

text \<open>The start: a loaded rule set, the applier behind the block hook, an empty store.\<close>

definition init_world :: "UpConfig \<Rightarrow> Rule list \<Rightarrow> ApplyMode \<Rightarrow> Format \<Rightarrow> string \<Rightarrow> int \<Rightarrow> string \<Rightarrow> World" where
  "init_world cfg rs mode format url n d =
     \<lparr>tick = 0, engine = NewIntelEngine,
      soar = SetBlockHook (Some (Hook (block_env cfg))) (NewSoarEngine\<lparr>rules := rs\<rparr>),
      applier = NewBlockApplier mode format url, pcap = NewOnDemandCapture n d, capture_files = Map.empty,
      metrics = zero_metrics, alerts = [], tui = make_chan 200, panicked = False\<rparr>"

lemma up_bus_handlers:
  "handlers (up_bus cfg) s =
     (if s = StageScore then [score_handler cfg] else if s = StageCorrelate then [correlate_handler]
      else if s = StagePlaybook then [playbook_handler cfg] else if s = StageSink then [sink_handler cfg] else [])"
  "onAfter (up_bus cfg) = []"
  by (simp_all add: up_bus_def On_def NewBus_def stage_defs)

section \<open>What a whole event does\<close>

definition enriched :: "UpConfig \<Rightarrow> Event \<Rightarrow> Event" where
  "enriched cfg ev =
     (let ev = fill_mitre ev
      in ev\<lparr>Metadata := EnrichMetadata (Metadata ev) (LookupGeo (geo_resolver cfg) (RemoteIP ev))\<rparr>)"

lemma fill_mitre_fields [simp]:
  "RemoteIP (fill_mitre ev) = RemoteIP ev" "ThreatScore (fill_mitre ev) = ThreatScore ev"
  "Severity (fill_mitre ev) = Severity ev" "DecoyName (fill_mitre ev) = DecoyName ev"
  by (simp_all add: fill_mitre_def split: option.splits)

lemma enriched_fields [simp]:
  "RemoteIP (enriched cfg ev) = RemoteIP ev" "ThreatScore (enriched cfg ev) = ThreatScore ev"
  "Severity (enriched cfg ev) = Severity ev" "DecoyName (enriched cfg ev) = DecoyName ev"
  by (simp_all add: enriched_def Let_def)

lemma sink_metrics_fields [simp]:
  "tick (sink_metrics cfg ev w) = tick w" "engine (sink_metrics cfg ev w) = engine w"
  "soar (sink_metrics cfg ev w) = soar w" "applier (sink_metrics cfg ev w) = applier w"
  "pcap (sink_metrics cfg ev w) = pcap w" "capture_files (sink_metrics cfg ev w) = capture_files w"
  "tui (sink_metrics cfg ev w) = tui w" "panicked (sink_metrics cfg ev w) = panicked w"
  by (simp_all add: sink_metrics_def send_alert_def Let_def split: option.splits)

text \<open>The alert requests one critical event must lead to: one, with its payload, if there is an endpoint.\<close>

definition alert_of :: "UpConfig \<Rightarrow> Event \<Rightarrow> (string \<times> json) list" where
  "alert_of cfg ev =
     (if webhook_url (dispatcher cfg) = [] \<or> marshal_alert cfg (alert_payload (dispatcher cfg) ev) = None then []
      else [(webhook_url (dispatcher cfg), alert_payload (dispatcher cfg) ev)])"

lemma inc_service_fields [simp]:
  "TotalConnections (inc_service d m) = TotalConnections m" "CriticalThreats (inc_service d m) = CriticalThreats m"
  "ProbesBlocked (inc_service d m) = ProbesBlocked m"
  by (simp_all add: inc_service_def IncSSH_def IncRedis_def IncDocker_def IncDatabase_def)

lemma sink_metrics_counts [simp]:
  "TotalConnections (metrics (sink_metrics cfg ev w)) = TotalConnections (metrics w) + 1"
  "CriticalThreats (metrics (sink_metrics cfg ev w)) =
     CriticalThreats (metrics w) + (if Severity ev = SeverityCritical then 1 else 0)"
  "ProbesBlocked (metrics (sink_metrics cfg ev w)) = ProbesBlocked (metrics w) + (if ThreatScore ev \<ge> 80 then 1 else 0)"
  "alerts (sink_metrics cfg ev w) = alerts w @ (if Severity ev = SeverityCritical then alert_of cfg ev else [])"
  by (simp_all add: sink_metrics_def send_alert_def alert_of_def SendAlert_def IncConnections_def IncCritical_def
      IncBlocked_def Let_def split: option.splits)

lemma persist_correlator: "EngCorrelator (fst (Persist m out e ev)) = EngCorrelator e"
  by (simp add: Persist_def persistLocked_def Let_def split: option.splits append_outcome.splits)

text \<open>The sink never panics while the capture hook is open, and what it does to each part.\<close>

lemma sink_effect:
  assumes "pcap_open (pcap w)"
  shows "\<exists>w' ev' err m. sink_handler cfg w ev = (w', ev', err) \<and> ev' = ev\<lparr>Metadata := m\<rparr>
     \<and> tick w' = Suc (tick w) \<and> soar w' = soar w \<and> applier w' = applier w \<and> panicked w' = panicked w
     \<and> pcap_open (pcap w') \<and> metrics w' = metrics (sink_metrics cfg ev w) \<and> alerts w' = alerts (sink_metrics cfg ev w)
     \<and> EngCorrelator (engine w') = EngCorrelator (engine w)
     \<and> (\<forall>ip. score_of (engine w') ip =
          (if RemoteIP ev = ip then wrap64 (score_of (engine w) ip + ThreatScore ev) else score_of (engine w) ip))"
proof -
  let ?w = "sink_metrics cfg ev (w\<lparr>tick := Suc (tick w)\<rparr>)" and ?env = "step_env cfg (tick w)"
  obtain oc fs res err where cap: "MaybeCapture (pcap_env ?env) (marshal_frame cfg) (pcap_now ?env) ev (pcap ?w) (capture_files ?w)
      = Returned (oc, fs, res, err)" "pcap_open oc"
    using MaybeCapture_open [of "pcap ?w"] assms by (metis sink_metrics_fields(5) World.select_convs(5) World.surjective World.update_convs(1))
  define ev' where "ev' = (if err = None \<and> Triggered res
     then ev\<lparr>Metadata := (Metadata ev)(''pcap_path'' \<mapsto> TriggerPath res)\<rparr> else ev)"
  obtain e failed where p: "Persist (marshal_event cfg) (append_out ?env) (engine ?w) ev' = (e, failed)"
    by (cases "Persist (marshal_event cfg) (append_out ?env) (engine ?w) ev'")
  have same: "RemoteIP ev' = RemoteIP ev" "ThreatScore ev' = ThreatScore ev" "\<exists>m. ev' = ev\<lparr>Metadata := m\<rparr>"
    by (auto simp: ev'_def intro: exI [of _ "Metadata ev"])
  have met: "metrics ?w = metrics (sink_metrics cfg ev w)" "alerts ?w = alerts (sink_metrics cfg ev w)"
    by (simp_all add: sink_metrics_def send_alert_def Let_def split: option.splits)
  have e: "EngCorrelator e = EngCorrelator (engine w)"
    "score_of e ip = (if RemoteIP ev = ip then wrap64 (score_of (engine w) ip + ThreatScore ev) else score_of (engine w) ip)" for ip
    using persist_correlator [of "marshal_event cfg" "append_out ?env" "engine ?w" ev']
      score_of_persist [of "marshal_event cfg" "append_out ?env" "engine ?w" ev' ip] p same by simp_all
  let ?w2 = "?w\<lparr>pcap := oc, capture_files := fs, engine := e\<rparr>"
  have "sink_handler cfg w ev = (if failed then (?w2, ev', Some (persist_err ?env))
      else if interactive cfg then (?w2\<lparr>tui := fst (try_send ev' (tui ?w2))\<rparr>, ev', None) else (?w2, ev', None))"
    unfolding sink_handler_def Let_def cap(1) using p by (simp add: ev'_def)
  with same(3) e cap(2) met show ?thesis by (cases failed; cases "interactive cfg") auto
qed

definition up_step :: "UpConfig \<Rightarrow> World \<Rightarrow> Event \<Rightarrow> World" where
  "up_step cfg w ev = fst (Process (up_bus cfg) w ev)"

lemma up_step_sink:
  "up_step cfg w ev =
     (let e = enriched cfg ev;
          (s, a, _) = SoarProcess (soar w) (soar_now (step_env cfg (tick w))) e (applier w)
      in fst (sink_handler cfg (w\<lparr>engine := (engine w)\<lparr>EngCorrelator := fst (Ingest (EngCorrelator (engine w)) e)\<rparr>,
            soar := s, applier := a\<rparr>) e))"
  by (auto simp: up_step_def Process_def stageOrder_def up_bus_handlers stage_defs score_handler_def
      correlate_handler_def playbook_handler_def enriched_def Let_def split: prod.splits option.splits)

section \<open>Accounting\<close>

text \<open>The events a run of \<open>RunChannel\<close> processes: those received before it is told to stop.\<close>

fun received :: "selection list \<Rightarrow> Event list" where
  "received [] = []"
| "received (CtxDone # _) = []"
| "received (Closed # _) = []"
| "received (Received ev # sels) = ev # received sels"

lemma RunChannel_received: "RunChannel (up_bus cfg) sels w = foldl (up_step cfg) w (received sels)"
  by (induction sels arbitrary: w rule: received.induct) (simp_all add: up_step_def)

definition enriched_all :: "UpConfig \<Rightarrow> Event list \<Rightarrow> Event list" where
  "enriched_all cfg evs = map (enriched cfg) evs"

definition soar_trace :: "UpConfig \<Rightarrow> Event list \<Rightarrow> (time \<times> Event) list" where
  "soar_trace cfg evs = map (\<lambda>(k, ev). (soar_now (step_env cfg k), enriched cfg ev)) (enumerate 0 evs)"

lemma enumerate_snoc: "enumerate 0 (xs @ [x]) = enumerate 0 xs @ [(length xs, x)]"
  by (simp add: enumerate_append_eq)

lemma enriched_snoc [simp]:
  "enriched_all cfg (evs @ [ev]) = enriched_all cfg evs @ [enriched cfg ev]"
  "soar_trace cfg (evs @ [ev]) = soar_trace cfg evs @ [(soar_now (step_env cfg (length evs)), enriched cfg ev)]"
  "enriched_all cfg [] = []" "soar_trace cfg [] = []"
  by (simp_all add: enriched_all_def soar_trace_def enumerate_snoc)

definition score_sum :: "string \<Rightarrow> Event list \<Rightarrow> int" where
  "score_sum ip evs = sum_list (map ThreatScore (filter (\<lambda>ev. RemoteIP ev = ip) evs))"

definition accounted :: "UpConfig \<Rightarrow> World \<Rightarrow> Event list \<Rightarrow> World \<Rightarrow> bool" where
  "accounted cfg w0 evs w \<longleftrightarrow>
     \<not> panicked w \<and> tick w = length evs
   \<and> TotalConnections (metrics w) = of_nat (length evs)
   \<and> CriticalThreats (metrics w) = of_nat (length (filter (\<lambda>ev. Severity ev = SeverityCritical) evs))
   \<and> ProbesBlocked (metrics w) = of_nat (length (filter (\<lambda>ev. ThreatScore ev \<ge> 80) evs))
   \<and> (\<forall>ip. score_of (engine w) ip = wrap64 (score_sum ip evs))
   \<and> EngCorrelator (engine w) = ingest_all (EngCorrelator (engine w0)) (enriched_all cfg evs)
   \<and> (soar w, applier w) = soar_run (soar w0) (soar_trace cfg evs) (applier w0)
   \<and> alerts w = concat (map (alert_of cfg) (filter (\<lambda>ev. Severity ev = SeverityCritical) (enriched_all cfg evs)))"

text \<open>Where a run may start: nothing counted, nobody scored, the capture hook open. The log may hold anything.\<close>

definition fresh_world :: "World \<Rightarrow> bool" where
  "fresh_world w \<longleftrightarrow>
     \<not> panicked w \<and> tick w = 0 \<and> metrics w = zero_metrics \<and> alerts w = [] \<and> blocklist (engine w) = Map.empty
   \<and> pcap_open (pcap w)"

lemma fresh_init_world: "fresh_world (init_world cfg rs mode format url n d)"
  by (simp add: fresh_world_def init_world_def NewIntelEngine_def pcap_open_new)

lemma accounted_run:
  assumes "fresh_world w0"
  shows "accounted cfg w0 evs (foldl (up_step cfg) w0 evs) \<and> pcap_open (pcap (foldl (up_step cfg) w0 evs))"
proof (induction evs rule: rev_induct)
  case Nil
  show ?case
    using assms by (simp add: fresh_world_def accounted_def zero_metrics_def score_sum_def score_of_def wrap64_id)
next
  case (snoc ev evs)
  let ?w = "foldl (up_step cfg) w0 evs" and ?k = "length evs"
  let ?e = "enriched cfg ev"
  from snoc have acc: "accounted cfg w0 evs ?w" and opn: "pcap_open (pcap ?w)" by simp_all
  from acc have k: "tick ?w = ?k" by (simp add: accounted_def)
  obtain s' a' out where so: "SoarProcess (soar ?w) (soar_now (step_env cfg ?k)) ?e (applier ?w) = (s', a', out)"
    by (cases "SoarProcess (soar ?w) (soar_now (step_env cfg ?k)) ?e (applier ?w)") auto
  let ?w1 = "?w\<lparr>engine := (engine ?w)\<lparr>EngCorrelator := fst (Ingest (EngCorrelator (engine ?w)) ?e)\<rparr>,
            soar := s', applier := a'\<rparr>"
  have "pcap_open (pcap ?w1)" using opn by simp
  from sink_effect [OF this, of cfg ?e] obtain w' ev' err where
    raw: "sink_handler cfg ?w1 ?e = (w', ev', err)"
      "tick w' = Suc (tick ?w1)" "soar w' = soar ?w1" "applier w' = applier ?w1" "panicked w' = panicked ?w1"
      "pcap_open (pcap w')" "metrics w' = metrics (sink_metrics cfg ?e ?w1)"
      "alerts w' = alerts (sink_metrics cfg ?e ?w1)" "EngCorrelator (engine w') = EngCorrelator (engine ?w1)"
    and sc: "\<forall>ip. score_of (engine w') ip =
          (if RemoteIP ?e = ip then wrap64 (score_of (engine ?w1) ip + ThreatScore ?e) else score_of (engine ?w1) ip)"
    by blast
  have met: "metrics w' = metrics (sink_metrics cfg ?e ?w)" "alerts w' = alerts (sink_metrics cfg ?e ?w)"
    unfolding raw(7,8) by (simp_all add: sink_metrics_def send_alert_def Let_def split: option.splits)
  have w': "sink_handler cfg ?w1 ?e = (w', ev', err)"
      "tick w' = Suc ?k" "soar w' = s'" "applier w' = a'" "panicked w' = panicked ?w" "pcap_open (pcap w')"
      "EngCorrelator (engine w') = fst (Ingest (EngCorrelator (engine ?w)) ?e)"
    using raw k by simp_all
  have step: "foldl (up_step cfg) w0 (evs @ [ev]) = w'"
    by (simp add: up_step_sink k so w'(1) Let_def)
  have run: "soar_run (soar w0) (soar_trace cfg (evs @ [ev])) (applier w0) = (s', a')"
    using acc so by (simp add: accounted_def soar_run_append del: soar_run.simps(2)) (metis (no_types, lifting) case_prod_conv soar_run.simps)
  have cor: "ingest_all (EngCorrelator (engine w0)) (enriched_all cfg (evs @ [ev])) =
      fst (Ingest (EngCorrelator (engine ?w)) ?e)"
    using acc by (simp add: accounted_def ingest_all_append)
  have same: "score_of (engine ?w1) ip = score_of (engine ?w) ip" for ip by (simp add: score_of_def)
  have scores: "score_of (engine w') ip = wrap64 (score_sum ip (evs @ [ev]))" for ip
    using sc [rule_format, of ip, unfolded same] acc by (simp add: accounted_def score_sum_def wrap64_add)
  show ?case
    unfolding step accounted_def run cor
    using acc w' met scores by (simp add: accounted_def)
qed

text \<open>
  C3: The assembled pipeline accounts for every event exactly once. Whatever the system calls, the JSON
  codec, the GeoIP database, the firewall and the alert endpoint answer, after any run of the channel
  loop over the events received: nothing has panicked; the connection, critical and blocked counters
  are the numbers of events, of critical events and of events scored 80 or more; the score of every
  address is the sum over its events; the correlator has ingested exactly the enriched events in
  order; the playbooks have processed exactly these, at their clock readings; and exactly the alert
  of every critical event has been posted, in order, if an endpoint is configured. Events whose log line could not be written
  are counted like all others.
\<close>

theorem pipeline_accounts:
  "accounted cfg (init_world cfg rs mode format url n d) (received sels)
     (RunChannel (up_bus cfg) sels (init_world cfg rs mode format url n d))"
  unfolding RunChannel_received using accounted_run [OF fresh_init_world] by blast

section \<open>Dry run, end to end\<close>

text \<open>A property of the hook state that the block hook keeps is kept by the whole engine.\<close>

lemma run_actions_hook:
  assumes "\<And>ip reason h. P h \<Longrightarrow> P (fst (hook ip reason h))"
  shows "blockHook e = Some hook \<Longrightarrow> alertHook e = None \<Longrightarrow> P h \<Longrightarrow>
     run_actions acts ev nm e h = (e', h', out) \<Longrightarrow> P h'"
proof (induction acts arbitrary: e h e' h' out)
  case (Cons a acts)
  obtain e1 h1 o1 where 1: "executeAction a ev nm e h = (e1, h1, o1)" by (cases "executeAction a ev nm e h") auto
  obtain e2 h2 o2 where 2: "run_actions acts ev nm e1 h1 = (e2, h2, o2)" by (cases "run_actions acts ev nm e1 h1") auto
  have "P h1"
    using 1 Cons.prems(1-3) assms by (auto simp: executeAction_def Let_def split: if_splits)
  with Cons.IH [OF _ _ _ 2] Cons.prems executeAction_frame [OF 1] 1 2 show ?case by simp
qed simp

lemma process_rules_hook:
  assumes "\<And>ip reason h. P h \<Longrightarrow> P (fst (hook ip reason h))"
  shows "blockHook e = Some hook \<Longrightarrow> alertHook e = None \<Longrightarrow> P h \<Longrightarrow>
     process_rules rs now ev e h = (e', h', out) \<Longrightarrow>
     P h' \<and> blockHook e' = Some hook \<and> alertHook e' = None"
proof (induction rs arbitrary: e h e' h' out)
  case (Cons r rs)
  obtain e1 h1 o1 where 1: "process_rule r now ev e h = (e1, h1, o1)" by (cases "process_rule r now ev e h") auto
  obtain e2 h2 o2 where 2: "process_rules rs now ev e1 h1 = (e2, h2, o2)" by (cases "process_rules rs now ev e1 h1") auto
  obtain e3 b where rc: "rate_check r now ev e = (e3, b)" by (cases "rate_check r now ev e")
  from rate_check_frame [OF rc] Cons.prems(1,2) have hooks: "blockHook e3 = Some hook" "alertHook e3 = None" by simp_all
  have "P h1"
    using 1 rc Cons.prems(3) run_actions_hook [of P hook, OF assms hooks Cons.prems(3)]
    by (auto simp: process_rule_def split: if_splits bool.splits)
  with Cons.IH [OF _ _ _ 2] Cons.prems process_rule_frame [OF 1] 1 2 show ?case by simp
qed simp

definition dry :: "BlockApplier \<Rightarrow> bool" where
  "dry a \<longleftrightarrow> ApMode a \<noteq> ApplyLive \<and> commands_run (effects a) = [] \<and> posts (effects a) = []"

lemma dry_Hook: "dry a \<Longrightarrow> dry (fst (Hook benv ip reason a))"
proof -
  assume a: "dry a"
  obtain a' res err where b: "BlockIP benv ip reason a = (a', res, err)" by (cases "BlockIP benv ip reason a") auto
  from dry_run_step [OF _ b] a b show ?thesis by (simp add: dry_def Hook_def)
qed

definition dry_world :: "UpConfig \<Rightarrow> World \<Rightarrow> bool" where
  "dry_world cfg w \<longleftrightarrow> \<not> panicked w \<and> pcap_open (pcap w) \<and> dry (applier w)
     \<and> blockHook (soar w) = Some (Hook (block_env cfg)) \<and> alertHook (soar w) = None"

text \<open>The stages change only the ATT&CK mapping, once, and the metadata of an event.\<close>

definition identity_kept :: "Event \<Rightarrow> Event \<Rightarrow> bool" where
  "identity_kept ev ev' \<longleftrightarrow>
     ev'\<lparr>Mitre := Mitre ev, Metadata := Metadata ev\<rparr> = ev \<and> (Mitre ev \<noteq> None \<longrightarrow> Mitre ev' = Mitre ev)"

lemma identity_refl: "identity_kept ev ev"
  by (simp add: identity_kept_def)

lemma identity_trans: "identity_kept x y \<Longrightarrow> identity_kept y z \<Longrightarrow> identity_kept x z"
  by (cases x; cases y; cases z) (auto simp: identity_kept_def)

interpretation up_contract: bus_contract "up_bus cfg" "dry_world cfg" identity_kept for cfg
proof
  fix s h w ev w' ev' err
  assume s: "s \<in> set stageOrder" and h: "h \<in> set (handlers (up_bus cfg) s)" and inv: "dry_world cfg w"
    and run: "h w ev = (w', ev', err)"
  from s h have "h = score_handler cfg \<or> h = correlate_handler \<or> h = playbook_handler cfg \<or> h = sink_handler cfg"
    by (auto simp: up_bus_handlers split: if_splits)
  then show "dry_world cfg w' \<and> identity_kept ev ev'"
  proof (elim disjE)
    assume "h = score_handler cfg"
    with run inv show ?thesis
      by (cases ev) (auto simp: score_handler_def identity_kept_def fill_mitre_def Let_def split: option.splits)
  next
    assume "h = correlate_handler"
    with run inv show ?thesis by (auto simp: correlate_handler_def dry_world_def intro: identity_refl)
  next
    assume h: "h = playbook_handler cfg"
    obtain e a out where so: "SoarProcess (soar w) (soar_now (step_env cfg (tick w))) ev (applier w) = (e, a, out)"
      by (cases "SoarProcess (soar w) (soar_now (step_env cfg (tick w))) ev (applier w)") auto
    have "dry a \<and> blockHook e = Some (Hook (block_env cfg)) \<and> alertHook e = None"
      by (rule process_rules_hook [of dry "Hook (block_env cfg)", OF dry_Hook _ _ _ so [unfolded SoarProcess_def]])
         (use inv in \<open>auto simp: dry_world_def\<close>)
    with h run inv so show ?thesis by (auto simp: playbook_handler_def dry_world_def intro: identity_refl)
  next
    assume h: "h = sink_handler cfg"
    from inv have "pcap_open (pcap w)" by (simp add: dry_world_def)
    from sink_effect [OF this, of cfg ev] h run inv show ?thesis
      by (auto simp: dry_world_def identity_kept_def)
  qed
qed (auto intro: identity_refl identity_trans simp: up_bus_handlers)

lemma dry_world_run:
  assumes "dry_world cfg w0"
  shows "let w = RunChannel (up_bus cfg) sels w0
     in commands_run (effects (applier w)) = [] \<and> posts (effects (applier w)) = [] \<and> \<not> panicked w
      \<and> identity_kept ev (ResEvent (snd (Process (up_bus cfg) w ev)))"
proof -
  let ?w = "RunChannel (up_bus cfg) sels w0"
  have w: "dry_world cfg ?w" using assms by (rule up_contract.run_channel_keeps)
  obtain w' res where p: "Process (up_bus cfg) ?w ev = (w', res)" by (cases "Process (up_bus cfg) ?w ev") auto
  from up_contract.process_keeps [OF w p] p have "identity_kept ev (ResEvent (snd (Process (up_bus cfg) ?w ev)))" by simp
  with w show ?thesis by (simp add: Let_def dry_world_def dry_def)
qed

text \<open>
  Without \<open>--apply\<close> the honeynet never touches the firewall. Started in any mode but \<open>apply\<close>, with any
  playbooks, whatever events are processed and however the environment answers, no firewall command is
  run and no block webhook is called; and processing an event never changes who did what: the
  stages only fill a missing ATT&CK mapping and add metadata.
\<close>

theorem up_dry_run_safe:
  assumes "mode \<noteq> ApplyLive"
  shows "let w = RunChannel (up_bus cfg) sels (init_world cfg rs mode format url n d)
     in commands_run (effects (applier w)) = [] \<and> posts (effects (applier w)) = [] \<and> \<not> panicked w
      \<and> identity_kept ev (ResEvent (snd (Process (up_bus cfg) w ev)))"
proof -
  have "dry_world cfg (init_world cfg rs mode format url n d)"
    using assms pcap_open_new
    by (simp add: dry_world_def init_world_def dry_def NewBlockApplier_def ApplyDryRun_def ApplyLive_def
        SetBlockHook_def NewSoarEngine_def)
  then show ?thesis by (rule dry_world_run)
qed

definition demo_cfg :: UpConfig where
  "demo_cfg =
     \<lparr>step_env = (\<lambda>_. \<lparr>soar_now = 0, pcap_now = 0, append_out = AppendOk, persist_err = [], pcap_env = ok_env\<rparr>),
      marshal_event = (\<lambda>_. Some ''{}''), marshal_frame = (\<lambda>_ _. Some [1]), block_env = demo_env,
      geo_resolver = None, dispatcher = NewDispatcher [], marshal_alert = (\<lambda>_. Some ''{}''),
      post_alert = (\<lambda>_ _. None), interactive = False\<rparr>"

theorem up_dry_run_safe_witness:
  "commands_run (effects (applier (RunChannel (up_bus demo_cfg) [Received (demo_login ''192.0.2.7'')]
     (init_world demo_cfg [demo_rule\<lparr>RuleIf := (RuleIf demo_rule)\<lparr>Threshold := 0\<rparr>\<rparr>] ApplyDryRun FormatIPTables [] 80 ''d'')))) = []"
  using up_dry_run_safe [of ApplyDryRun demo_cfg "[Received (demo_login ''192.0.2.7'')]"
      "[demo_rule\<lparr>RuleIf := (RuleIf demo_rule)\<lparr>Threshold := 0\<rparr>\<rparr>]" FormatIPTables "[]" 80 "''d''" zero_event]
  by (simp add: ApplyDryRun_def ApplyLive_def Let_def)

end
