(* ===== verification/Canary.thy ===== *)
theory Canary
  imports Go_Hash
begin

text \<open>
  The canary credentials of \<open>internal/canary/generator.go\<close>: \<open>GenerateAWSKey\<close> at a given Unix time
  and \<open>VerifySignature\<close>, which computes the HMAC of a key but does not compare it with anything.
\<close>

definition CanarySecretKey :: string where
  "CanarySecretKey = ''shinkiro-deception-hmac-master-key-2026''"

record CanaryToken =
  TokenType :: string
  KeyID :: string
  Secret :: string
  Signature :: string
  Created :: time
  Label :: string

text \<open>The verb \<open>%X\<close> of an integer.\<close>

fun hex_nat_upper :: "nat \<Rightarrow> string" where
  "hex_nat_upper n =
     (if n < 16 then [hex_digit_upper n] else hex_nat_upper (n div 16) @ [hex_digit_upper (n mod 16)])"

declare hex_nat_upper.simps [simp del]

definition hex_upper :: "int \<Rightarrow> string" where
  "hex_upper i = (if i < 0 then ''-'' @ hex_nat_upper (nat (- i)) else hex_nat_upper (nat i))"

definition canary_signature :: "string \<Rightarrow> string" where
  "canary_signature rawID = take 16 (hex_encode (hmac_sha256 (bytes_of CanarySecretKey) (bytes_of rawID)))"

definition canary_key_id :: "int \<Rightarrow> string" where
  "canary_key_id timestamp =
     (let rawID = ''AKIA'' @ hex_upper timestamp
      in if length rawID < 20 then rawID @ replicate (20 - length rawID) CHR ''0''
         else if length rawID > 20 then take 20 rawID else rawID)"

definition GenerateAWSKey :: "time \<Rightarrow> time \<Rightarrow> string \<Rightarrow> CanaryToken" where
  "GenerateAWSKey now created label =
     (let rawID = canary_key_id (unix_sec now); sig = canary_signature rawID
      in \<lparr>TokenType = ''aws'', KeyID = rawID, Secret = ''wJalrXUtnFEMI/K7MDENG/bPxRfiCY'' @ sig,
          Signature = sig, Created = created, Label = label\<rparr>)"

definition VerifySignature :: "string \<Rightarrow> bool" where
  "VerifySignature tokenID =
     (if \<not> has_prefix tokenID ''AKIA'' \<or> length tokenID \<noteq> 20 then False
      else (let expectedSig = canary_signature tokenID in length expectedSig = 16))"

lemma canary_signature_length [simp]: "length (canary_signature s) = 16"
  by (simp add: canary_signature_def)

lemma canary_key_shape: "has_prefix (canary_key_id t) ''AKIA'' \<and> length (canary_key_id t) = 20"
  by (simp add: canary_key_id_def Let_def)

text \<open>
  Every generated canary key verifies, and so does everything else of the right shape:
  \<open>VerifySignature\<close> accepts a string if and only if it has 20 bytes and starts with \<open>AKIA\<close>. The
  signature plays no part, so a real key of an attacker passes as one of the decoy's own.
\<close>

theorem verify_signature_accepts_any:
  "VerifySignature (KeyID (GenerateAWSKey now created label))
   \<and> (VerifySignature s \<longleftrightarrow> length s = 20 \<and> (\<exists>r. s = ''AKIA'' @ r))"
  using canary_key_shape [of "unix_sec now"] has_prefix_iff [of s "''AKIA''"]
  by (auto simp: VerifySignature_def GenerateAWSKey_def Let_def)

end
