(* ===== verification/Tui.thy ===== *)
theory Tui
  imports Intel_Engine Block_Applier Pcap Canary Simulator Go_Time
begin

text \<open>
  The operator dashboard of \<open>internal/tui\<close> (\<open>operator.go\<close>, \<open>dashboard.go\<close>, \<open>keys.go\<close>): the model, the update
  function over messages, the operator's actions on the shared back ends, and the text of the view. Bubble
  Tea's loop is the sequence of messages; a command that \<open>Update\<close> returns is a value of \<open>Cmd\<close>. Lip Gloss
  styles are the parameter \<open>paint\<close>. What an update reads from outside is the record \<open>TuiEnv\<close>. The list of
  campaigns holds the values at the last refresh; the code keeps the correlator's own pointers, so counters
  on the screen may be newer there, while address and identifier never change.
\<close>

section \<open>The model\<close>

datatype FocusPane = FocusEvents | FocusCampaigns

record ActionResult =
  ArStatus :: string
  ArOK :: bool

record TuiConfig =
  HasEventChan :: bool
  Ports :: "int list"
  HasEngine :: bool
  HasBlocker :: bool
  HasPCAP :: bool
  TuiApplyLive :: bool
  SimulateHost :: string
  MinScore :: int
  CanaryLabel :: string
  SimulateFn :: "(string \<Rightarrow> string + string) option"
  CanaryFn :: "(string \<Rightarrow> CanaryToken) option"

record TuiModel =
  tcfg :: TuiConfig
  tevents :: "Event list"
  tcamps :: "Campaign list"
  cursor :: int
  focus :: FocusPane
  help_on :: bool
  status :: string
  activePorts :: "int list"
  totalProbes :: int
  criticals :: int

text \<open>The back ends the TUI shares with the pipeline, and what an update reads from outside.\<close>

record Backend =
  be_engine :: IntelEngine
  be_blocker :: BlockApplier
  be_pcap :: OnDemandCapture
  be_files :: files

record TuiEnv =
  te_now :: time
  te_block :: BlockEnv
  te_pcap :: PcapEnv
  te_frame :: "Event \<Rightarrow> bool \<Rightarrow> byte list option"
  te_unmarshal :: "string \<Rightarrow> Event option"
  te_order :: "string list"
  te_net :: SimNet

datatype Msg = KeyMsg string | EventMsg Event | SimulateDoneMsg ActionResult | StatusMsg string | OtherMsg
datatype Cmd = NoCmd | QuitCmd | WaitForEvent | SimulateCmd string

section \<open>Lists and selection\<close>

definition event_before :: "Event \<Rightarrow> Event \<Rightarrow> bool" where
  "event_before a b \<longleftrightarrow>
     (if ThreatScore a = ThreatScore b then Timestamp a > Timestamp b else ThreatScore a > ThreatScore b)"

definition HighScoreEvents :: "Event list \<Rightarrow> int \<Rightarrow> int \<Rightarrow> Event list" where
  "HighScoreEvents evs minScore limit =
     (let out = SliceStable event_before (filter (\<lambda>ev. ThreatScore ev \<ge> minScore) evs)
      in if limit > 0 \<and> int (length out) > limit then take (nat limit) out else out)"

definition SortCampaignsByScore :: "Campaign list \<Rightarrow> Campaign list" where
  "SortCampaignsByScore cs = SliceStable camp_before cs"

definition in_list :: "int \<Rightarrow> 'a list \<Rightarrow> bool" where
  "in_list i xs \<longleftrightarrow> 0 \<le> i \<and> i < int (length xs)"

definition SelectedIP :: "TuiModel \<Rightarrow> string" where
  "SelectedIP m =
     (case focus m of
        FocusCampaigns \<Rightarrow> if in_list (cursor m) (tcamps m) then AttackerIP (tcamps m ! nat (cursor m)) else []
      | FocusEvents \<Rightarrow> if in_list (cursor m) (tevents m) then RemoteIP (tevents m ! nat (cursor m)) else [])"

definition campaign_event :: "time \<Rightarrow> Campaign \<Rightarrow> Event" where
  "campaign_event now c =
     (let decoy = (case DecoysTargeted c of [] \<Rightarrow> [] | d # _ \<Rightarrow> d)
      in zero_event\<lparr>ID := CampID c, Timestamp := now, DecoyName := decoy, RemoteIP := AttackerIP c,
           ThreatScore := MaxThreatScore c, Action := ''operator-campaign'', Severity := SeverityHigh\<rparr>)"

definition SelectedEvent :: "time \<Rightarrow> TuiModel \<Rightarrow> Event \<times> bool" where
  "SelectedEvent now m =
     (case focus m of
        FocusCampaigns \<Rightarrow>
          if in_list (cursor m) (tcamps m)
          then (let c = tcamps m ! nat (cursor m) in (campaign_event now c, AttackerIP c \<noteq> []))
          else (zero_event, False)
      | FocusEvents \<Rightarrow>
          if in_list (cursor m) (tevents m)
          then (let ev = tevents m ! nat (cursor m) in (ev, RemoteIP ev \<noteq> []))
          else (zero_event, False))"

definition clampCursor :: "TuiModel \<Rightarrow> TuiModel" where
  "clampCursor m =
     (let mx = (case focus m of FocusCampaigns \<Rightarrow> int (length (tcamps m)) - 1 | FocusEvents \<Rightarrow> int (length (tevents m)) - 1)
      in if mx < 0 then m\<lparr>cursor := 0\<rparr>
         else
           (let c = (if cursor m > mx then mx else cursor m)
            in m\<lparr>cursor := (if c < 0 then 0 else c)\<rparr>))"

definition moveCursor :: "int \<Rightarrow> TuiModel \<Rightarrow> TuiModel" where
  "moveCursor delta m = clampCursor (m\<lparr>cursor := cursor m + delta\<rparr>)"

definition em_dash :: string where "em_dash = [CHR 0xE2, CHR 0x80, CHR 0x94]"
definition ellipsis :: string where "ellipsis = [CHR 0xE2, CHR 0x80, CHR 0xA6]"
definition right_arrow :: string where "right_arrow = [CHR 0xE2, CHR 0x86, CHR 0x92]"
definition at_least :: string where "at_least = [CHR 0xE2, CHR 0x89, CHR 0xA5]"
definition rule_char :: string where "rule_char = [CHR 0xE2, CHR 0x94, CHR 0x80]"

definition shortMsg :: "string \<Rightarrow> int \<Rightarrow> string" where
  "shortMsg s n =
     (let s = trim_space s in if n > 0 \<and> int (length s) > n then take (nat (n - 1)) s @ ellipsis else s)"

section \<open>The operator's actions\<close>

definition bad :: "string \<Rightarrow> ActionResult" where "bad s = \<lparr>ArStatus = s, ArOK = False\<rparr>"
definition good :: "string \<Rightarrow> ActionResult" where "good s = \<lparr>ArStatus = s, ArOK = True\<rparr>"

definition DispatchBlock :: "TuiEnv \<Rightarrow> TuiModel \<Rightarrow> Backend \<Rightarrow> ActionResult \<times> Backend" where
  "DispatchBlock te m b =
     (if \<not> HasBlocker (tcfg m) then (bad ''block_ip unavailable: no SOAR BlockApplier wired'', b)
      else
        (let ip = SelectedIP m in
         if ip = [] then (bad ''block_ip: no IP selected'', b)
         else
           (case BlockIP (te_block te) ip ''tui-operator'' (be_blocker b) of
              (a, res, Some err) \<Rightarrow> (bad (''block_ip error: '' @ err), b\<lparr>be_blocker := a\<rparr>)
            | (a, res, None) \<Rightarrow>
                (let b = b\<lparr>be_blocker := a\<rparr> in
                 if Applied res then (good (''block_ip LIVE applied '' @ ip @ '' ('' @ Mode res @ '')''), b)
                 else (good (''block_ip dry-run '' @ ip @ '' '' @ em_dash @ '' '' @ shortMsg (Message res) 80), b)))))"

definition DispatchPCAP :: "TuiEnv \<Rightarrow> TuiModel \<Rightarrow> Backend \<Rightarrow> (ActionResult \<times> Backend) outcome" where
  "DispatchPCAP te m b =
     (if \<not> HasPCAP (tcfg m) then Returned (bad ''pcap unavailable: OnDemandCapture not wired'', b)
      else
        (case SelectedEvent (te_now te) m of
           (ev, False) \<Rightarrow> Returned (bad ''pcap: no IP/event selected'', b)
         | (ev, True) \<Rightarrow>
             (case CaptureNow (te_pcap te) (te_frame te) (te_now te) ev (be_pcap b) (be_files b) of
                Panicked \<Rightarrow> Panicked
              | Returned (oc, fs, res, err) \<Rightarrow>
                  (let b = b\<lparr>be_pcap := oc, be_files := fs\<rparr> in
                   case err of
                     Some e \<Rightarrow> Returned (bad (''pcap error: '' @ e), b)
                   | None \<Rightarrow>
                       if \<not> Triggered res \<or> TriggerPath res = [] then Returned (bad ''pcap: capture did not write a file'', b)
                       else Returned (good (''pcap operator capture '' @ RemoteIP ev @ '' '' @ right_arrow @ '' '' @ TriggerPath res
                              @ '' (score='' @ dec (ThreatScore ev) @ '')''), b)))))"

definition DispatchCanary :: "TuiEnv \<Rightarrow> TuiModel \<Rightarrow> ActionResult" where
  "DispatchCanary te m =
     (let label = (if CanaryLabel (tcfg m) \<noteq> [] then CanaryLabel (tcfg m) else ''tui-operator'');
          token = (case CanaryFn (tcfg m) of Some f \<Rightarrow> f label | None \<Rightarrow> GenerateAWSKey (te_now te) (te_now te) label)
      in good (''canary AWS key_id='' @ KeyID token @ '' label='' @ Label token @ '' (place as honeytoken '' @ em_dash
           @ '' not live IAM)''))"

definition RunSimulateSync :: "SimNet \<Rightarrow> string \<Rightarrow> (string \<Rightarrow> string + string) option \<Rightarrow> ActionResult" where
  "RunSimulateSync net host simulateFn =
     (let host = (if host = [] then ''127.0.0.1'' else host) in
      case simulateFn of
        Some f \<Rightarrow> (case f host of Inl err \<Rightarrow> bad (''simulate error: '' @ err) | Inr msg \<Rightarrow> good msg)
      | None \<Rightarrow>
          (let sim = NewSimulator host (1500 * 1000000);
               (ok, fail) = simulate_counts (simulate_all net sim DefaultScenarios)
           in good (''simulate vs '' @ host @ '': '' @ dec_nat ok @ '' ok / '' @ dec_nat fail @ '' failed of ''
                @ dec_nat (length DefaultScenarios) @ '' scenarios (mesh must be listening)'')))"

definition engine_campaigns :: "TuiEnv \<Rightarrow> Backend \<Rightarrow> Campaign list" where
  "engine_campaigns te b =
     take 15 (SortCampaignsByScore (ActiveCampaigns (EngCorrelator (be_engine b)) (te_order te)))"

definition RefreshFromStore :: "TuiEnv \<Rightarrow> TuiModel \<Rightarrow> Backend \<Rightarrow> TuiModel \<times> ActionResult" where
  "RefreshFromStore te m b =
     (if \<not> HasEngine (tcfg m) then (m, bad (''refresh: no intel Engine wired '' @ em_dash @ '' live feed only''))
      else
        (let minScore = (if MinScore (tcfg m) \<le> 0 then 50 else MinScore (tcfg m));
             raw = RecentEvents (te_unmarshal te) (be_engine b) 200;
             m = clampCursor (m\<lparr>tevents := HighScoreEvents raw minScore 15, tcamps := engine_campaigns te b\<rparr>)
         in (m, good (''refreshed: '' @ dec (int (length (tevents m))) @ '' high-score events ('' @ at_least @ dec minScore
                 @ ''), '' @ dec (int (length (tcamps m))) @ '' campaigns''))))"

section \<open>Start and update\<close>

definition NewModel :: "TuiEnv \<Rightarrow> TuiConfig \<Rightarrow> Backend \<Rightarrow> TuiModel" where
  "NewModel te cfg b =
     (let cfg = (if SimulateHost cfg = [] then cfg\<lparr>SimulateHost := ''127.0.0.1''\<rparr> else cfg);
          cfg = (if MinScore cfg \<le> 0 then cfg\<lparr>MinScore := 50\<rparr> else cfg);
          m = \<lparr>tcfg = cfg, tevents = [], tcamps = [], cursor = 0, focus = FocusEvents, help_on = False, status = [],
               activePorts = Ports cfg, totalProbes = 0, criticals = 0\<rparr>
      in if HasEngine cfg then (fst (RefreshFromStore te m b))\<lparr>status := []\<rparr> else m)"

definition Init :: "TuiModel \<Rightarrow> Cmd" where
  "Init m = (if HasEventChan (tcfg m) then WaitForEvent else NoCmd)"

definition live_event :: "TuiEnv \<Rightarrow> Event \<Rightarrow> TuiModel \<Rightarrow> Backend \<Rightarrow> TuiModel" where
  "live_event te ev m b =
     (let m = m\<lparr>totalProbes := wrap64 (totalProbes m + 1)\<rparr>;
          m = (if Severity ev = SeverityCritical then m\<lparr>criticals := wrap64 (criticals m + 1)\<rparr> else m);
          m = m\<lparr>tevents := take 15 (ev # tevents m)\<rparr>;
          m = (if focus m = FocusEvents then clampCursor (m\<lparr>cursor := cursor m + 1\<rparr>) else m)
      in if HasEngine (tcfg m) then m\<lparr>tcamps := engine_campaigns te b\<rparr> else m)"

type_synonym update = "(TuiModel \<times> Backend \<times> Cmd) outcome"

definition handleKey :: "TuiEnv \<Rightarrow> string \<Rightarrow> TuiModel \<Rightarrow> Backend \<Rightarrow> update" where
  "handleKey te key m b =
     (if key = ''q'' \<or> key = ''ctrl+c'' then Returned (m, b, QuitCmd)
      else if key = ''?'' \<or> key = ''h'' then Returned (m\<lparr>help_on := \<not> help_on m\<rparr>, b, NoCmd)
      else if key = ''esc'' \<or> key = ''x'' then Returned (m\<lparr>help_on := False, status := []\<rparr>, b, NoCmd)
      else if key = ''tab'' then
        (let m = m\<lparr>focus := (if focus m = FocusEvents then FocusCampaigns else FocusEvents)\<rparr>
         in Returned (clampCursor (m\<lparr>cursor := 0\<rparr>), b, NoCmd))
      else if key = ''up'' \<or> key = ''k'' then Returned (moveCursor (-1) m, b, NoCmd)
      else if key = ''down'' \<or> key = ''j'' then Returned (moveCursor 1 m, b, NoCmd)
      else if key = ''r'' then
        (let (m, res) = RefreshFromStore te m b in Returned (m\<lparr>status := ArStatus res\<rparr>, b, NoCmd))
      else if key = ''b'' then
        (let (res, b) = DispatchBlock te m b in Returned (m\<lparr>status := ArStatus res\<rparr>, b, NoCmd))
      else if key = ''p'' then
        (case DispatchPCAP te m b of
           Panicked \<Rightarrow> Panicked
         | Returned (res, b) \<Rightarrow> Returned (m\<lparr>status := ArStatus res\<rparr>, b, NoCmd))
      else if key = ''c'' then Returned (m\<lparr>status := ArStatus (DispatchCanary te m)\<rparr>, b, NoCmd)
      else if key = ''s'' then
        Returned (m\<lparr>status := ''simulate: running scenarios vs '' @ SimulateHost (tcfg m) @ ellipsis\<rparr>, b,
                  SimulateCmd (SimulateHost (tcfg m)))
      else Returned (m, b, NoCmd))"

definition Update :: "TuiEnv \<Rightarrow> Msg \<Rightarrow> TuiModel \<Rightarrow> Backend \<Rightarrow> update" where
  "Update te msg m b =
     (case msg of
        KeyMsg key \<Rightarrow> handleKey te key m b
      | EventMsg ev \<Rightarrow> Returned (live_event te ev m b, b, WaitForEvent)
      | SimulateDoneMsg res \<Rightarrow> Returned (m\<lparr>status := ArStatus res\<rparr>, b, NoCmd)
      | StatusMsg s \<Rightarrow> Returned (m\<lparr>status := s\<rparr>, b, NoCmd)
      | OtherMsg \<Rightarrow> Returned (m, b, NoCmd))"

section \<open>The view\<close>

datatype Style =
  TitleStyle | HeaderStyle | CriticalStyle | HighStyle | MediumStyle | LowStyle | BoxStyle | StatusStyle | SelectStyle
  | HelpBoxStyle

type_synonym paint = "Style \<Rightarrow> string \<Rightarrow> string"

definition HelpText :: string where
  \<open>HelpText =
     ''SHINKIRO TUI '' @ [CHR 0xE2, CHR 0x80, CHR 0x94] @ '' OPERATOR KEYBINDINGS'' @ nl @ nl
     @ ''Navigation'' @ nl @ ''  '' @ [CHR 0xE2, CHR 0x86, CHR 0x91] @ ''/k  j/'' @ [CHR 0xE2]
     @ [CHR 0x86, CHR 0x93] @ ''     Move selection in the active list'' @ nl
     @ ''  Tab          Toggle Events '' @ [CHR 0xE2, CHR 0x86, CHR 0x94] @ '' Campaigns pane''
     @ nl @ ''  r            Refresh high-score events / campaigns from intel store'' @ nl @ nl
     @ ''Operator actions (selected row)'' @ nl @ ''  b            SOAR block_ip for selected IP ''
     @ [CHR 0xE2, CHR 0x80, CHR 0x94] @ '' dry-run by default'' @ nl
     @ ''               (live firewall apply only when tui/up started with --apply'' @ nl
     @ ''               or SHINKIRO_SOAR_APPLY=1 '' @ [CHR 0xE2, CHR 0x80, CHR 0x94]
     @ '' same guards as the event pipeline)'' @ nl
     @ ''  p            On-demand PCAP for selected IP/event (internal/pcap)'' @ nl
     @ ''  s            Run adversary simulate suite against local mesh host'' @ nl
     @ ''  c            Generate AWS canary token (HMAC honeytoken)'' @ nl @ nl @ ''UI'' @ nl
     @ ''  ? / h        Toggle this help overlay'' @ nl
     @ ''  esc / x      Clear status line / close help'' @ nl
     @ ''  q / Ctrl+C   Quit TUI (stops decoy listeners)'' @ nl @ nl @ ''Honesty notes'' @ nl
     @ ''  '' @ [CHR 0xE2, CHR 0x80, CHR 0xA2]
     @ '' Event list shows live probes + high-score refresh from intel JSONL/correlator'' @ nl
     @ ''  '' @ [CHR 0xE2, CHR 0x80, CHR 0xA2]
     @ '' block_ip dry-run prints nftables/iptables text; it does not claim silent XDP drops'' @ nl
     @ ''  '' @ [CHR 0xE2, CHR 0x80, CHR 0xA2]
     @ '' PCAP is forensic libpcap frames, not continuous socket mirroring'' @ nl @ ''  ''
     @ [CHR 0xE2, CHR 0x80, CHR 0xA2]
     @ '' No live eBPF loader / cluster mesh map in this dashboard''\<close>

definition KeyHintFooter :: string where
  \<open>KeyHintFooter =
     ''?/h help  '' @ [CHR 0xE2, CHR 0x86, CHR 0x91, CHR 0xE2, CHR 0x86, CHR 0x93]
     @ '' select  Tab pane  b block  p pcap  s simulate  c canary  r refresh  x clear  q quit''\<close>

definition ruler :: string where
  "ruler = concat (replicate 96 rule_char) @ nl"

definition statusLine :: "paint \<Rightarrow> TuiModel \<Rightarrow> string" where
  \<open>statusLine paint m =
     (if status m = [] then paint StatusStyle (''status: (idle '' @ [CHR 0xE2, CHR 0x80, CHR 0x94] @ '' press ? for help)'')
      else paint StatusStyle (''status: '' @ status m))\<close>

definition severity_text :: "paint \<Rightarrow> Severity \<Rightarrow> string" where
  "severity_text paint sev =
     (if sev = SeverityCritical then paint CriticalStyle sev
      else if sev = SeverityHigh then paint HighStyle sev
      else if sev = SeverityMedium then paint MediumStyle sev
      else if sev = SeverityLow then paint LowStyle sev
      else sev)"

definition cut_text :: "nat \<Rightarrow> string \<Rightarrow> string" where
  "cut_text n s = (if length s > n then take (n - 3) s @ ''...'' else s)"

definition event_row :: "paint \<Rightarrow> TuiModel \<Rightarrow> nat \<Rightarrow> Event \<Rightarrow> string" where
  "event_row paint m i ev =
     (let marker = (if int i = cursor m then ''>'' else '' '');
          line = pad_right 2 marker @ '' '' @ pad_right 8 (clock_string (Timestamp ev)) @ '' '' @ pad_right 10 (DecoyName ev) @ '' ''
            @ pad_right 16 (RemoteIP ev) @ '' '' @ pad_right 6 (dec (LocalPort ev)) @ '' '' @ pad_right 5 (dec (ThreatScore ev)) @ '' ''
            @ pad_right 18 (severity_text paint (Severity ev)) @ '' '' @ pad_right 28 (cut_text 28 (Action ev))
      in (if int i = cursor m then paint SelectStyle line else line) @ nl)"

definition event_rows :: "paint \<Rightarrow> TuiModel \<Rightarrow> string list" where
  "event_rows paint m = map (\<lambda>(i, ev). event_row paint m i ev) (enumerate 0 (tevents m))"

definition renderEvents :: "paint \<Rightarrow> TuiModel \<Rightarrow> string" where
  \<open>renderEvents paint m =
     pad_right 2 [] @ '' '' @ pad_right 8 ''TIME'' @ '' '' @ pad_right 10 ''DECOY'' @ '' '' @ pad_right 16 ''ATTACKER IP'' @ '' ''
     @ pad_right 6 ''PORT'' @ '' '' @ pad_right 5 ''SCR'' @ '' '' @ pad_right 10 ''SEVERITY'' @ '' '' @ pad_right 28 ''ACTION'' @ nl
     @ ruler
     @ (if tevents m = [] then ''  (no events yet '' @ [CHR 0xE2, CHR 0x80, CHR 0x94]
               @ '' waiting on decoy probes, or press r to refresh store)'' @ nl
        else concat (event_rows paint m))\<close>

definition campaign_row :: "paint \<Rightarrow> TuiModel \<Rightarrow> nat \<Rightarrow> Campaign \<Rightarrow> string" where
  "campaign_row paint m i c =
     (let marker = (if int i = cursor m then ''>'' else '' '');
          line = pad_right 2 marker @ '' '' @ pad_right 16 (AttackerIP c) @ '' '' @ pad_right 5 (dec (TotalEvents c)) @ '' ''
            @ pad_right 6 (dec (MaxThreatScore c)) @ '' '' @ pad_right 8 (cut_text 8 (join '','' (DecoysTargeted c))) @ '' ''
            @ pad_right 40 (cut_text 40 (CampID c))
      in (if int i = cursor m then paint SelectStyle line else line) @ nl)"

definition campaign_rows :: "paint \<Rightarrow> TuiModel \<Rightarrow> string list" where
  "campaign_rows paint m = map (\<lambda>(i, c). campaign_row paint m i c) (enumerate 0 (tcamps m))"

definition renderCampaigns :: "paint \<Rightarrow> TuiModel \<Rightarrow> string" where
  \<open>renderCampaigns paint m =
     pad_right 2 [] @ '' '' @ pad_right 16 ''ATTACKER IP'' @ '' '' @ pad_right 5 ''EVTS'' @ '' '' @ pad_right 6 ''MAXSCR'' @ '' ''
     @ pad_right 8 ''DECOYS'' @ '' '' @ pad_right 40 ''CAMPAIGN ID'' @ nl
     @ ruler
     @ (if tcamps m = [] then ''  (no active campaigns in correlator '' @ [CHR 0xE2, CHR 0x80, CHR 0x94]
               @ '' probes will populate this pane)'' @ nl
        else concat (campaign_rows paint m))\<close>

definition View :: "paint \<Rightarrow> TuiModel \<Rightarrow> string" where
  \<open>View paint m =
     (if help_on m then paint HelpBoxStyle HelpText @ nl @ statusLine paint m
      else
        (let blockMode = (if TuiApplyLive (tcfg m) then ''LIVE apply'' else ''dry-run'');
             stats = [CHR 0xE2, CHR 0x9A, CHR 0xA1] @ '' Decoy listeners: '' @ dec (int (length (activePorts m)))
               @ '' ports  |  '' @ [CHR 0xF0, CHR 0x9F, CHR 0x9A, CHR 0xA8] @ '' Probes: '' @ dec (totalProbes m)
               @ ''  |  '' @ [CHR 0xF0, CHR 0x9F, CHR 0x94, CHR 0xA5] @ '' Critical: '' @ dec (criticals m) @ ''  |  SOAR block_ip: '' @ blockMode;
             eventsLabel = ''EVENTS (live + high-score)'';
             campLabel = ''CAMPAIGNS (correlator)'';
             (eventsLabel, campLabel) =
               (if focus m = FocusEvents then (''> '' @ eventsLabel, campLabel) else (eventsLabel, ''> '' @ campLabel))
         in paint TitleStyle ('' '' @ [CHR 0xE8, CHR 0x9C, CHR 0x83, CHR 0xE6, CHR 0xB0, CHR 0x97, CHR 0xE6]
                   @ [CHR 0xA5, CHR 0xBC] @ '' SHINKIRO '' @ [CHR 0xE2, CHR 0x80, CHR 0x94]
                   @ '' Operator TUI (decoy telemetry + SOAR/PCAP actions) '')
            @ nl @ nl @ paint BoxStyle stats @ nl @ nl
            @ paint HeaderStyle (eventsLabel @ ''   |   '' @ campLabel) @ nl @ ruler
            @ (if focus m = FocusCampaigns then renderCampaigns paint m else renderEvents paint m)
            @ nl @ paint HeaderStyle KeyHintFooter @ nl @ statusLine paint m))\<close>

section \<open>The high-score list\<close>

interpretation event_sort: sort_less event_before
  by unfold_locales (auto simp: event_before_def split: if_splits)


section \<open>Cursor and selection\<close>

definition tui_ok :: "TuiModel \<Rightarrow> bool" where
  "tui_ok m \<longleftrightarrow> length (tevents m) \<le> 15 \<and> length (tcamps m) \<le> 15 \<and> 0 \<le> cursor m \<and> cursor m < 15
     \<and> (focus m = FocusEvents \<longrightarrow> cursor m = 0 \<or> in_list (cursor m) (tevents m))"

definition lists_ok :: "TuiModel \<Rightarrow> bool" where
  "lists_ok m \<longleftrightarrow> length (tevents m) \<le> 15 \<and> length (tcamps m) \<le> 15"

lemma clampCursor_fields [simp]:
  "tevents (clampCursor m) = tevents m" "tcamps (clampCursor m) = tcamps m" "focus (clampCursor m) = focus m"
  "tcfg (clampCursor m) = tcfg m"
  by (simp_all add: clampCursor_def Let_def split: FocusPane.split)

lemma clampCursor_ok: "lists_ok m \<Longrightarrow> tui_ok (clampCursor m)"
  by (cases "focus m") (auto simp: lists_ok_def tui_ok_def clampCursor_def in_list_def Let_def)

lemma HighScoreEvents_length: "length (HighScoreEvents evs least 15) \<le> 15"
  by (simp add: HighScoreEvents_def Let_def)

lemma engine_campaigns_length: "length (engine_campaigns te b) \<le> 15"
  by (simp add: engine_campaigns_def)

lemma Refresh_ok: "tui_ok m \<Longrightarrow> RefreshFromStore te m b = (m', res) \<Longrightarrow> tui_ok m'"
  by (auto simp: RefreshFromStore_def Let_def lists_ok_def HighScoreEvents_length engine_campaigns_length
      intro!: clampCursor_ok split: if_splits)

lemma tui_ok_status [simp]: "tui_ok (m\<lparr>status := s\<rparr>) = tui_ok m" "tui_ok (m\<lparr>help_on := h\<rparr>) = tui_ok m"
  by (simp_all add: tui_ok_def)

lemma live_event_ok:
  assumes "tui_ok m"
  shows "tui_ok (live_event te ev m b)"
proof -
  let ?m = "m\<lparr>totalProbes := wrap64 (totalProbes m + 1)\<rparr>"
  let ?m = "if Severity ev = SeverityCritical then ?m\<lparr>criticals := wrap64 (criticals ?m + 1)\<rparr> else ?m"
  let ?m1 = "?m\<lparr>tevents := take 15 (ev # tevents ?m)\<rparr>"
  let ?m2 = "if focus ?m1 = FocusEvents then clampCursor (?m1\<lparr>cursor := cursor ?m1 + 1\<rparr>) else ?m1"
  have "lists_ok (?m1\<lparr>cursor := cursor ?m1 + 1\<rparr>)" using assms by (simp add: lists_ok_def tui_ok_def)
  from clampCursor_ok [OF this] assms have "tui_ok ?m2" by (auto simp: tui_ok_def)
  then have "tui_ok (?m2\<lparr>tcamps := engine_campaigns te b\<rparr>)"
    using engine_campaigns_length [of te b] by (simp add: tui_ok_def)
  with \<open>tui_ok ?m2\<close> show ?thesis unfolding live_event_def Let_def by (simp only: split: if_split) simp
qed

lemma NewModel_ok: "tui_ok (NewModel te cfg b)"
proof -
  let ?cfg = "if SimulateHost cfg = [] then cfg\<lparr>SimulateHost := ''127.0.0.1''\<rparr> else cfg"
  let ?cfg = "if MinScore ?cfg \<le> 0 then ?cfg\<lparr>MinScore := 50\<rparr> else ?cfg"
  let ?m = "\<lparr>tcfg = ?cfg, tevents = [], tcamps = [], cursor = 0, focus = FocusEvents, help_on = False, status = [],
               activePorts = Ports ?cfg, totalProbes = 0, criticals = 0\<rparr>"
  have m: "tui_ok ?m" by (simp add: tui_ok_def)
  obtain m' res where r: "RefreshFromStore te ?m b = (m', res)" by (cases "RefreshFromStore te ?m b")
  from Refresh_ok [OF m r] m r show ?thesis by (simp add: NewModel_def Let_def)
qed

text \<open>What the operator is looking at when an event arrives: the row under the cursor.\<close>

definition selection :: "TuiModel \<Rightarrow> time \<Rightarrow> string \<times> Event \<times> bool" where
  "selection m now = (SelectedIP m, SelectedEvent now m)"

lemma live_event_lists:
  "tevents (live_event te ev m b) = take 15 (ev # tevents m)" "focus (live_event te ev m b) = focus m"
  "focus m = FocusEvents \<Longrightarrow> cursor (live_event te ev m b) =
     cursor (clampCursor (m\<lparr>tevents := take 15 (ev # tevents m), cursor := cursor m + 1\<rparr>))"
  by (simp_all add: live_event_def clampCursor_def Let_def split: FocusPane.split)

text \<open>
  A new event never moves the operator's selection in the event pane. While the row under the cursor is
  one of the first fourteen, the address and the event that block and capture act on are the same before
  and after any event arrives, whatever the event and whatever the store holds; from the last row the
  selection falls back to the row above it, never to the new event.
\<close>

theorem live_event_keeps_selection:
  assumes "focus m = FocusEvents" "in_list (cursor m) (tevents m)" "tui_ok m"
  shows "selection (live_event te ev m b) now =
     (if cursor m < 14 then selection m now
      else (RemoteIP (tevents m ! 13), tevents m ! 13, RemoteIP (tevents m ! 13) \<noteq> []))"
proof -
  let ?m' = "live_event te ev m b"
  from assms(2) obtain k where k: "cursor m = int k" "k < length (tevents m)"
    by (cases "cursor m") (auto simp: in_list_def)
  have k14: "k \<le> 14" using assms(3) k by (simp add: tui_ok_def)
  have c: "cursor ?m' = (if k < 14 then int (Suc k) else 14)"
    unfolding live_event_lists(3) [OF assms(1)] using k k14 assms(1) by (auto simp: clampCursor_def Let_def)
  have "in_list (cursor ?m') (tevents ?m')"
    using k unfolding c live_event_lists(1) by (auto simp: in_list_def)
  moreover have "tevents ?m' ! nat (cursor ?m') = tevents m ! (if k < 14 then k else 13)"
    unfolding c live_event_lists(1) using k by (cases "k < 14") (simp_all only: if_True if_False nat_int, simp_all)
  ultimately show ?thesis
    using assms(1,2) k k14 live_event_lists(2) [of te ev m b]
    by (auto simp: selection_def SelectedIP_def SelectedEvent_def Let_def)
qed

section \<open>Any session\<close>

text \<open>
  A step of a session: an update, or something the pipeline does to the shared back ends between two
  messages, of which only \<open>quiet\<close> is assumed: the mode stays, nothing more has been executed or posted,
  and the capture hook stays open. \<open>None\<close> is a panic.
\<close>

definition quiet :: "Backend \<Rightarrow> Backend \<Rightarrow> bool" where
  "quiet b b' \<longleftrightarrow> ApMode (be_blocker b') = ApMode (be_blocker b)
     \<and> commands_run (effects (be_blocker b')) = commands_run (effects (be_blocker b))
     \<and> posts (effects (be_blocker b')) = posts (effects (be_blocker b))
     \<and> (pcap_open (be_pcap b) \<longrightarrow> pcap_open (be_pcap b'))"

inductive tui_step :: "(TuiModel \<times> Backend) option \<Rightarrow> (TuiModel \<times> Backend) option \<Rightarrow> bool" where
  update: "Update te msg m b = Returned (m', b', c) \<Longrightarrow> tui_step (Some (m, b)) (Some (m', b'))"
| panic: "Update te msg m b = Panicked \<Longrightarrow> tui_step (Some (m, b)) None"
| background: "quiet b b' \<Longrightarrow> tui_step (Some (m, b)) (Some (m, b'))"

inductive_cases tui_stepE: "tui_step (Some (m, b)) s"
inductive_simps tui_step_panicked [simp]: "tui_step None s"

definition session_ok :: "(TuiModel \<times> Backend) option \<Rightarrow> bool" where
  "session_ok s \<longleftrightarrow>
     (case s of None \<Rightarrow> False
      | Some (m, b) \<Rightarrow> tui_ok m \<and> pcap_open (be_pcap b) \<and> ApMode (be_blocker b) \<noteq> ApplyLive
          \<and> commands_run (effects (be_blocker b)) = [] \<and> posts (effects (be_blocker b)) = [])"

lemma DispatchBlock_quiet: "ApMode (be_blocker b) \<noteq> ApplyLive \<Longrightarrow> DispatchBlock te m b = (res, b') \<Longrightarrow> quiet b b'"
  by (auto simp: DispatchBlock_def quiet_def Let_def dest: dry_run_step split: if_splits prod.splits option.splits)

lemma DispatchPCAP_quiet:
  assumes "pcap_open (be_pcap b)"
  obtains res b' where "DispatchPCAP te m b = Returned (res, b')" "quiet b b'"
proof -
  obtain ev found where ev: "SelectedEvent (te_now te) m = (ev, found)" by (cases "SelectedEvent (te_now te) m")
  obtain oc fs r err where cap: "CaptureNow (te_pcap te) (te_frame te) (te_now te) ev (be_pcap b) (be_files b) =
      Returned (oc, fs, r, err)" "pcap_open oc" using CaptureNow_open [OF assms] by blast
  have "\<exists>res b'. DispatchPCAP te m b = Returned (res, b') \<and> quiet b b'"
  proof (cases "HasPCAP (tcfg m) \<and> found")
    case True
    then show ?thesis using ev cap by (cases err) (simp_all add: DispatchPCAP_def quiet_def Let_def)
  next
    case False
    then show ?thesis using ev by (auto simp: DispatchPCAP_def quiet_def split: bool.splits)
  qed
  with that show ?thesis by blast
qed

lemma moveCursor_ok: "tui_ok m \<Longrightarrow> tui_ok (moveCursor d m)"
  unfolding moveCursor_def by (rule clampCursor_ok) (simp add: tui_ok_def lists_ok_def)

lemma tab_ok: "tui_ok m \<Longrightarrow> tui_ok (clampCursor (m\<lparr>focus := f, cursor := 0\<rparr>))"
  by (rule clampCursor_ok) (simp add: tui_ok_def lists_ok_def)

lemma quiet_refl: "quiet b b"
  by (simp add: quiet_def)

lemma handleKey_keeps:
  assumes "tui_ok m" "pcap_open (be_pcap b)" "ApMode (be_blocker b) \<noteq> ApplyLive"
  shows "\<exists>m' b' c. handleKey te key m b = Returned (m', b', c) \<and> tui_ok m' \<and> quiet b b'"
proof -
  obtain m1 res1 where r: "RefreshFromStore te m b = (m1, res1)" by (cases "RefreshFromStore te m b")
  obtain res2 b2 where d: "DispatchBlock te m b = (res2, b2)" by (cases "DispatchBlock te m b")
  obtain res3 b3 where p: "DispatchPCAP te m b = Returned (res3, b3)" "quiet b b3"
    using DispatchPCAP_quiet [OF assms(2), of te m] by blast
  show ?thesis
    using assms(1) Refresh_ok [OF assms(1) r] DispatchBlock_quiet [OF assms(3) d] p r d quiet_refl moveCursor_ok tab_ok
    by (simp add: handleKey_def Let_def)
qed

lemma Update_keeps:
  assumes "tui_ok m" "pcap_open (be_pcap b)" "ApMode (be_blocker b) \<noteq> ApplyLive"
  shows "\<exists>m' b' c. Update te msg m b = Returned (m', b', c) \<and> tui_ok m' \<and> quiet b b'"
  using handleKey_keeps [OF assms] assms(1) quiet_refl live_event_ok
  by (cases msg) (simp_all add: Update_def)

lemma tui_step_keeps: "tui_step s s' \<Longrightarrow> session_ok s \<Longrightarrow> session_ok s'"
proof (induction rule: tui_step.induct)
  case (update te msg m b m' b' c)
  then show ?case using Update_keeps [of m b te msg] by (auto simp: session_ok_def quiet_def)
next
  case (panic te msg m b)
  then show ?case using Update_keeps [of m b te msg] by (auto simp: session_ok_def)
next
  case (background b b' m)
  then show ?case by (auto simp: session_ok_def quiet_def)
qed


definition demo_model :: TuiModel where
  "demo_model =
     \<lparr>tcfg = \<lparr>HasEventChan = True, Ports = [], HasEngine = False, HasBlocker = True, HasPCAP = True, TuiApplyLive = False,
        SimulateHost = [], MinScore = 0, CanaryLabel = [], SimulateFn = None, CanaryFn = None\<rparr>,
      tevents = [zero_event\<lparr>RemoteIP := ''192.0.2.7''\<rparr>], tcamps = [], cursor = 0, focus = FocusEvents, help_on = False,
      status = [], activePorts = [], totalProbes = 1, criticals = 0\<rparr>"

definition demo_backend :: Backend where
  "demo_backend =
     \<lparr>be_engine = NewIntelEngine, be_blocker = NewBlockApplier ApplyDryRun FormatIPTables [],
      be_pcap = NewOnDemandCapture 80 ''d'', be_files = Map.empty\<rparr>"

definition demo_te :: TuiEnv where
  "demo_te =
     \<lparr>te_now = 0, te_block = demo_env, te_pcap = ok_env, te_frame = (\<lambda>_ _. Some [1]), te_unmarshal = (\<lambda>_. None), te_order = [],
      te_net = mesh_net demo_get_parser demo_lib\<rparr>"

theorem live_event_keeps_selection_witness:
  "SelectedIP (live_event demo_te (zero_event\<lparr>RemoteIP := ''198.51.100.9''\<rparr>) demo_model demo_backend) = ''192.0.2.7''"
proof -
  have "tui_ok demo_model" "focus demo_model = FocusEvents" "in_list (cursor demo_model) (tevents demo_model)"
    by (simp_all add: demo_model_def tui_ok_def in_list_def)
  from live_event_keeps_selection [OF this(2,3,1), of demo_te "zero_event\<lparr>RemoteIP := ''198.51.100.9''\<rparr>" demo_backend 0]
  show ?thesis by (simp add: selection_def demo_model_def SelectedIP_def in_list_def)
qed


text \<open>
  The campaign pane has no such guarantee: the list is sorted again at every event and the cursor stays, so the
  address under it can change between looking and pressing a key.
\<close>

lemma campaign_selection_moves:
  assumes "focus m = FocusCampaigns" "HasEngine (tcfg m)" "cursor m = 0" "engine_campaigns te b = c # cs"
  shows "SelectedIP (live_event te ev m b) = AttackerIP c"
  using assms by (simp add: live_event_def SelectedIP_def in_list_def Let_def)

end
