(* ===== verification/Startup.thy ===== *)
theory Startup
  imports Up Tui
begin

text \<open>
  The start of \<open>shinkiro up\<close> and \<open>shinkiro tui\<close> (\<open>runUp\<close> of \<open>cmd/shinkiro/up.go\<close>): the scan of its arguments,
  the assembly of configuration, store, decoys, playbooks, block applier and capture hook, and what is
  printed before the signal to stop. \<open>UpEnv\<close> holds what the start reads: environment variables, files,
  parsers, sockets. The result is either the text of an exit or everything that then runs.
\<close>

section \<open>Arguments\<close>

definition live_requested :: "string \<Rightarrow> string list \<Rightarrow> bool" where
  "live_requested soar_apply args \<longleftrightarrow> (\<exists>a \<in> set args. a = ''--apply'') \<or> ModeFromEnv soar_apply = ApplyLive"

fun scan_config :: "string \<Rightarrow> string list \<Rightarrow> string" where
  "scan_config p [] = p"
| "scan_config p [a] = (if has_prefix a ''--config='' then trim_prefix a ''--config='' else p)"
| "scan_config p (a # b # args) =
     (if a = ''--config'' \<or> a = ''-c'' then scan_config b args
      else if has_prefix a ''--config='' then scan_config (trim_prefix a ''--config='') (b # args)
      else scan_config p (b # args))"

fun scan_geoip :: "string \<Rightarrow> string list \<Rightarrow> string" where
  "scan_geoip p [] = p"
| "scan_geoip p [a] = (if has_prefix a ''--geoip-db='' then trim_prefix a ''--geoip-db='' else p)"
| "scan_geoip p (a # b # args) =
     (if a = ''--geoip-db'' then scan_geoip b args
      else if has_prefix a ''--geoip-db='' then scan_geoip (trim_prefix a ''--geoip-db='') (b # args)
      else scan_geoip p (b # args))"

section \<open>The assembly\<close>

record UpEnv =
  ue_getenv :: "string \<Rightarrow> string"
  ue_fs :: "string \<Rightarrow> file_outcome"
  ue_mkdir :: "string \<Rightarrow> string option"
  ue_yaml :: "string \<Rightarrow> Config \<Rightarrow> string + Config"
  ue_rules :: "string \<Rightarrow> string + Rule list"
  ue_atoi :: "string \<Rightarrow> int option"
  ue_geo :: GeoEnv
  ue_read_request :: read_request
  ue_ssh :: "conn \<Rightarrow> SshOutcome"
  ue_listen :: listen
  ue_order :: "string list"

definition file_read :: "file_outcome \<Rightarrow> string + string" where
  "file_read out = (case out of NotExist \<Rightarrow> Inl ''not found'' | ReadError err \<Rightarrow> Inl err | FileData data \<Rightarrow> Inr data)"

text \<open>\<open>intel.NewEngine\<close> on a path, with the log the file already holds.\<close>

definition open_engine ::
    "(string \<Rightarrow> string option) \<Rightarrow> (string \<Rightarrow> file_outcome) \<Rightarrow> string \<Rightarrow> string + IntelEngine" where
  "open_engine mkdir fs path =
     (let path = (if path = [] then ''data/events.jsonl'' else path)
      in case mkdir path of
           Some err \<Rightarrow> Inl (''failed to create intel events dir: '' @ err)
         | None \<Rightarrow> Inr (NewIntelEngine\<lparr>eventsFile := (case fs path of FileData data \<Rightarrow> Some data | _ \<Rightarrow> None)\<rparr>))"

record Running =
  RunCfg :: Config
  RunBus :: UpConfig
  RunWorld :: World
  RunMux :: Multiplexer
  RunLive :: bool

definition config_path :: "UpEnv \<Rightarrow> string list \<Rightarrow> string" where
  "config_path ue args =
     (let p = ue_getenv ue ''SHINKIRO_CONFIG''
      in scan_config (if p = [] then ''config.yaml'' else p) args)"

definition geo_start :: "UpEnv \<Rightarrow> string list \<Rightarrow> Resolver" where
  "geo_start ue args =
     NewResolver (ue_geo ue) (ResolvePath (ue_getenv ue ''SHINKIRO_GEOLITE2_PATH'') (scan_geoip [] args)) [WithLogger]"

definition block_mode :: "UpEnv \<Rightarrow> string list \<Rightarrow> ApplyMode" where
  "block_mode ue args =
     (if live_requested (ue_getenv ue ''SHINKIRO_SOAR_APPLY'') args then ApplyLive else ApplyDryRun)"

text \<open>The state the handlers start in; an unreadable playbook file leaves no rules.\<close>

definition start_world :: "UpEnv \<Rightarrow> UpConfig \<Rightarrow> string list \<Rightarrow> IntelEngine \<Rightarrow> World" where
  "start_world ue up args e =
     (let soarEngine = fst (LoadYAML (ue_rules ue) (file_read (ue_fs ue ''playbooks.yaml'')) NewSoarEngine);
          blockApplier = NewBlockApplier (block_mode ue args) (FormatFromEnv (ue_getenv ue ''SHINKIRO_SOAR_BLOCK_FORMAT''))
                           (WebhookFromEnv (ue_getenv ue ''SHINKIRO_SOAR_BLOCK_WEBHOOK''));
          pcapHook = NewOnDemandCapture (ThresholdFromEnv (ue_atoi ue) (ue_getenv ue ''SHINKIRO_PCAP_THRESHOLD''))
                       (DirFromEnv (ue_getenv ue ''SHINKIRO_PCAP_DIR''))
      in \<lparr>tick = 0, engine = e, soar = SetBlockHook (Some (Hook (block_env up))) soarEngine,
          applier = blockApplier, pcap = pcapHook, capture_files = Map.empty,
          metrics = zero_metrics, alerts = [], tui = make_chan 200, panicked = False\<rparr>)"

definition warning_cross :: string where "warning_cross = [CHR 0xE2, CHR 0x9D, CHR 0x8C]"

definition runUp :: "UpEnv \<Rightarrow> UpConfig \<Rightarrow> bool \<Rightarrow> string list \<Rightarrow> string + Running" where
  "runUp ue up interactiveUI args =
     (case LoadConfig (ue_yaml ue) (ue_fs ue) (config_path ue args) of
        Inl err \<Rightarrow> Inl (warning_cross @ '' Configuration error: '' @ err @ nl)
      | Inr cfg \<Rightarrow>
          (case open_engine (ue_mkdir ue) (ue_fs ue) (AuditLogPath cfg) of
             Inl err \<Rightarrow> Inl (warning_cross @ '' Failed to initialize intel engine: '' @ err @ nl)
           | Inr e \<Rightarrow>
               (let up = up\<lparr>geo_resolver := Some (geo_start ue args),
                            dispatcher := NewDispatcher (ue_getenv ue ''SHINKIRO_WEBHOOK_URL''),
                            interactive := interactiveUI\<rparr>;
                    w = start_world ue up args e;
                    mux = registered_mux (ue_read_request ue) (ue_ssh ue) cfg
                in case Start (ue_listen ue) (ue_order ue) mux of
                     (mux, Some err) \<Rightarrow> Inl (warning_cross @ '' Failed to bind honeypot listeners: '' @ err @ nl)
                   | (mux, None) \<Rightarrow>
                       Inr \<lparr>RunCfg = cfg, RunBus = up, RunWorld = w, RunMux = mux,
                            RunLive = live_requested (ue_getenv ue ''SHINKIRO_SOAR_APPLY'') args\<rparr>)))"

section \<open>After the start\<close>

text \<open>The ports handed to the dashboard, and the dashboard itself; \<open>ks\<close> is the order of the services map.\<close>

definition active_ports :: "Config \<Rightarrow> string list \<Rightarrow> int list" where
  "active_ports cfg ks =
     List.map_filter (\<lambda>name. case Services cfg name of
        Some s \<Rightarrow> if SvcEnabled s then Some (SvcPort s) else None | None \<Rightarrow> None) ks"

definition tui_model :: "TuiEnv \<Rightarrow> Running \<Rightarrow> string list \<Rightarrow> TuiModel" where
  "tui_model te r ks =
     NewModel te
       \<lparr>HasEventChan = True, Ports = active_ports (RunCfg r) ks, HasEngine = True, HasBlocker = True, HasPCAP = True,
        TuiApplyLive = RunLive r, SimulateHost = ''127.0.0.1'', MinScore = 50, CanaryLabel = [], SimulateFn = None,
        CanaryFn = None\<rparr>
       \<lparr>be_engine = engine (RunWorld r), be_blocker = applier (RunWorld r), be_pcap = pcap (RunWorld r),
        be_files = capture_files (RunWorld r)\<rparr>"

definition arrow_text :: string where "arrow_text = [CHR 0xE2, CHR 0x86, CHR 0x92]"

definition service_line :: "Config \<Rightarrow> string \<Rightarrow> string" where
  "service_line cfg name =
     (case Services cfg name of
        Some s \<Rightarrow> if SvcEnabled s
                  then ''   '' @ [CHR 0xE2, CHR 0x80, CHR 0xA2] @ '' '' @ pad_right 10 name @ '' -> tcp/'' @ dec (SvcPort s) @ nl
                  else []
      | None \<Rightarrow> [])"

definition up_report :: "UpEnv \<Rightarrow> Running \<Rightarrow> string list \<Rightarrow> string" where
  "up_report ue r ks =
     (let cfg = RunCfg r; w = RunWorld r; geo = geo_resolver (RunBus r) in
      [CHR 0xE2, CHR 0x9A, CHR 0xA1] @ '' Decoy mesh is active and listening:'' @ nl
      @ concat (map (service_line cfg) ks)
      @ (if MetricsPort cfg > 0
         then [CHR 0xF0, CHR 0x9F, CHR 0x93, CHR 0x8A] @ '' Prometheus metrics available at: http://0.0.0.0:''
              @ dec (MetricsPort cfg) @ ''/metrics'' @ nl else [])
      @ ''Audit logs streaming to: '' @ AuditLogPath cfg @ nl
      @ ''Pipeline: Event '' @ arrow_text @ '' Score '' @ arrow_text @ '' Correlate '' @ arrow_text @ '' Playbook ''
      @ arrow_text @ '' Sink (SOAR block_ip mode='' @ ApMode (applier w) @ '')'' @ nl
      @ (if Enabled geo then ''GeoIP: MaxMind '' @ DatabaseType geo @ '' (optional enrichment active)'' @ nl
         else ''GeoIP: disabled (set SHINKIRO_GEOLITE2_PATH or --geoip-db to enable)'' @ nl)
      @ ''On-demand PCAP threshold: '' @ dec (threshold (pcap w)) @ '' '' @ arrow_text @ '' dir ''
      @ DirFromEnv (ue_getenv ue ''SHINKIRO_PCAP_DIR'') @ nl
      @ (if \<not> RunLive r
         then ''SOAR block_ip: dry-run (pass --apply or set SHINKIRO_SOAR_APPLY=1 for live firewall exec)'' @ nl
         else ''SOAR block_ip: LIVE apply enabled '' @ [CHR 0xE2, CHR 0x80, CHR 0x94]
              @ '' firewall commands will be executed'' @ nl)
      @ ''Press Ctrl+C to stop.'' @ nl)"

section \<open>What a start guarantees\<close>

lemma runUp_running:
  assumes "runUp ue up ui args = Inr r"
  obtains cfg e where "LoadConfig (ue_yaml ue) (ue_fs ue) (config_path ue args) = Inr cfg"
    "open_engine (ue_mkdir ue) (ue_fs ue) (AuditLogPath cfg) = Inr e"
    "RunBus r = up\<lparr>geo_resolver := Some (geo_start ue args),
        dispatcher := NewDispatcher (ue_getenv ue ''SHINKIRO_WEBHOOK_URL''), interactive := ui\<rparr>"
    "RunWorld r = start_world ue (RunBus r) args e" "RunCfg r = cfg"
    "RunMux r = fst (Start (ue_listen ue) (ue_order ue) (registered_mux (ue_read_request ue) (ue_ssh ue) cfg))"
    "RunLive r = live_requested (ue_getenv ue ''SHINKIRO_SOAR_APPLY'') args"
  using assms
  by (auto simp: runUp_def Let_def split: sum.splits prod.splits option.splits intro!: that)

lemma start_world_dry:
  assumes "block_mode ue args \<noteq> ApplyLive"
  shows "dry_world up (start_world ue up args e)"
  using assms pcap_open_new
  by (auto simp: dry_world_def start_world_def dry_def NewBlockApplier_def ApplyDryRun_def ApplyLive_def
      SetBlockHook_def NewSoarEngine_def LoadYAML_def Let_def split: sum.splits)

lemma open_engine_fresh:
  assumes "open_engine mkdir fs path = Inr e"
  shows "blocklist e = Map.empty" "EngCorrelator e = NewCorrelator (2 * hour)"
    "eventsFile e = (case fs (if path = [] then ''data/events.jsonl'' else path) of FileData data \<Rightarrow> Some data | _ \<Rightarrow> None)"
  using assms by (auto simp: open_engine_def NewIntelEngine_def Let_def split: option.splits)

lemma start_world_fresh: "blocklist e = Map.empty \<Longrightarrow> fresh_world (start_world ue up args e)"
  by (simp add: fresh_world_def start_world_def Let_def pcap_open_new)

text \<open>
  C2: Nothing touches the firewall unless it was asked for. Whatever the configuration, the playbooks, the
  databases and the sockets are: if \<open>shinkiro up\<close> or \<open>tui\<close> starts, no argument is \<open>--apply\<close> and
  \<open>SHINKIRO_SOAR_APPLY\<close> is not \<open>1\<close>, then after any run of the pipeline no firewall command has been run and
  no block webhook called, nothing has panicked, and the run accounts for every event received. Conversely
  the word \<open>--apply\<close> anywhere among the arguments, or the variable, makes the applier live.
\<close>

theorem live_only_on_request:
  assumes "runUp ue up ui args = Inr r"
  shows "(ApMode (applier (RunWorld r)) = ApplyLive \<longleftrightarrow>
            ''--apply'' \<in> set args \<or> ue_getenv ue ''SHINKIRO_SOAR_APPLY'' = ''1'')
     \<and> (let w = RunChannel (up_bus (RunBus r)) sels (RunWorld r)
        in accounted (RunBus r) (RunWorld r) (received sels) w
         \<and> (''--apply'' \<notin> set args \<and> ue_getenv ue ''SHINKIRO_SOAR_APPLY'' \<noteq> ''1'' \<longrightarrow>
              commands_run (effects (applier w)) = [] \<and> posts (effects (applier w)) = []))"
proof -
  obtain cfg :: Config and e where e: "open_engine (ue_mkdir ue) (ue_fs ue) (AuditLogPath cfg) = Inr e"
    and w: "RunWorld r = start_world ue (RunBus r) args e"
    using runUp_running [OF assms] by blast
  let ?w = "RunChannel (up_bus (RunBus r)) sels (RunWorld r)"
  have mode: "block_mode ue args = ApplyLive \<longleftrightarrow>
      ''--apply'' \<in> set args \<or> ue_getenv ue ''SHINKIRO_SOAR_APPLY'' = ''1''"
    by (simp add: block_mode_def live_requested_def ModeFromEnv_def ApplyLive_def ApplyDryRun_def)
  have 1: "ApMode (applier (RunWorld r)) = block_mode ue args"
    by (simp add: w start_world_def NewBlockApplier_def block_mode_def ApplyLive_def ApplyDryRun_def Let_def)
  have 2: "accounted (RunBus r) (RunWorld r) (received sels) ?w"
    using accounted_run [OF start_world_fresh [OF open_engine_fresh(1) [OF e]]] unfolding RunChannel_received w by blast
  have 3: "commands_run (effects (applier ?w)) = [] \<and> posts (effects (applier ?w)) = []"
    if "block_mode ue args \<noteq> ApplyLive"
    using dry_world_run [OF start_world_dry [OF that], of "RunBus r" sels e] unfolding w Let_def by blast
  show ?thesis unfolding Let_def using 1 2 3 mode by argo
qed

definition demo_up :: UpEnv where
  "demo_up =
     \<lparr>ue_getenv = (\<lambda>_. []), ue_fs = (\<lambda>_. NotExist), ue_mkdir = (\<lambda>_. None), ue_yaml = (\<lambda>_ c. Inr c),
      ue_rules = (\<lambda>_. Inr []), ue_atoi = (\<lambda>_. None), ue_geo = \<lparr>stat_fails = (\<lambda>_. True), open_db = (\<lambda>_. Inl [])\<rparr>,
      ue_read_request = demo_rr, ue_ssh = demo_lib, ue_listen = open_listen, ue_order = map fst default_services\<rparr>"

lemma runUp_starts:
  assumes "LoadConfig (ue_yaml ue) (ue_fs ue) (config_path ue args) = Inr cfg"
    "open_engine (ue_mkdir ue) (ue_fs ue) (AuditLogPath cfg) = Inr e"
  shows "\<exists>r. runUp ue up ui args = Inr r"
  using assms by (simp add: runUp_def Start_def Let_def split: prod.splits)

lemma demo_up_starts: "\<exists>r. runUp demo_up up ui args = Inr r"
proof (rule runUp_starts)
  show "LoadConfig (ue_yaml demo_up) (ue_fs demo_up) (config_path demo_up args) = Inr DefaultConfig"
    by (simp add: demo_up_def LoadConfig_def)
  show "open_engine (ue_mkdir demo_up) (ue_fs demo_up) (AuditLogPath DefaultConfig) = Inr (NewIntelEngine\<lparr>eventsFile := None\<rparr>)"
    by (simp add: demo_up_def open_engine_def Let_def)
qed

theorem live_only_on_request_witness:
  "\<exists>r. runUp demo_up demo_cfg False [''--config'', ''lab.yaml''] = Inr r
     \<and> ApMode (applier (RunWorld r)) \<noteq> ApplyLive
     \<and> commands_run (effects (applier (RunChannel (up_bus (RunBus r)) [Received (demo_login ''192.0.2.7'')] (RunWorld r)))) = []"
proof -
  obtain r where r: "runUp demo_up demo_cfg False [''--config'', ''lab.yaml''] = Inr r" using demo_up_starts by blast
  have env: "ue_getenv demo_up x = []" for x by (simp add: demo_up_def)
  from live_only_on_request [OF r, of "[Received (demo_login ''192.0.2.7'')]"]
  have "ApMode (applier (RunWorld r)) \<noteq> ApplyLive
     \<and> commands_run (effects (applier (RunChannel (up_bus (RunBus r)) [Received (demo_login ''192.0.2.7'')] (RunWorld r)))) = []"
    unfolding Let_def env by simp
  with r show ?thesis by blast
qed

end
