(* ===== verification/Hub.thy ===== *)
theory Hub
  imports Intel_Event Channel
begin

text \<open>
  The cluster hub (\<open>internal/cluster/node.go\<close>) and the sensor's client (\<open>agent.go\<close>). A request is
  what \<open>net/http\<close> hands to a handler; a response is its status and the JSON object written. The
  JSON decoder is a parameter: it sees at most \<open>MaxBodyBytes\<close> bytes of the body and whether the body
  is longer (its next read then fails). The answers of \<open>http.ServeMux\<close> to paths without a handler are
  a parameter too. The clock is an argument. The client's JSON encoder and HTTP exchange are \<open>agent_env\<close>;
  \<open>hub_link\<close> wires a client to a hub.
\<close>

section \<open>Configuration\<close>

record Node =
  NodeID :: string
  NodeAddress :: string
  NodeLastSeen :: time
  Active :: bool

record HubConfig =
  Token :: string
  TLSCertFile :: string
  TLSKeyFile :: string
  MaxBodyBytes :: int
  ReadTimeout :: duration
  WriteTimeout :: duration
  IdleTimeout :: duration

definition DefaultMaxBodyBytes :: int where "DefaultMaxBodyBytes = 2 ^ 20"

definition DefaultHubConfig :: "string \<Rightarrow> HubConfig" where
  "DefaultHubConfig env_token =
     \<lparr>Token = trim_space env_token, TLSCertFile = [], TLSKeyFile = [],
      MaxBodyBytes = DefaultMaxBodyBytes, ReadTimeout = 15 * second, WriteTimeout = 15 * second,
      IdleTimeout = 60 * second\<rparr>"

record Hub =
  nodes :: "string \<rightharpoonup> Node"
  HubEvents :: "Event chan"
  HubCfg :: HubConfig

definition NewHubWithConfig :: "Event chan \<Rightarrow> HubConfig \<Rightarrow> Hub" where
  "NewHubWithConfig events cfg =
     (let cfg = (if MaxBodyBytes cfg \<le> 0 then cfg\<lparr>MaxBodyBytes := DefaultMaxBodyBytes\<rparr> else cfg);
          cfg = (if ReadTimeout cfg \<le> 0 then cfg\<lparr>ReadTimeout := 15 * second\<rparr> else cfg);
          cfg = (if WriteTimeout cfg \<le> 0 then cfg\<lparr>WriteTimeout := 15 * second\<rparr> else cfg);
          cfg = (if IdleTimeout cfg \<le> 0 then cfg\<lparr>IdleTimeout := 60 * second\<rparr> else cfg);
          cfg = cfg\<lparr>Token := trim_space (Token cfg)\<rparr>
      in \<lparr>nodes = Map.empty, HubEvents = events, HubCfg = cfg\<rparr>)"

definition NewHub :: "Event chan \<Rightarrow> string \<Rightarrow> Hub" where
  "NewHub events env_token = NewHubWithConfig events (DefaultHubConfig env_token)"

definition TokenConfigured :: "Hub \<Rightarrow> bool" where
  "TokenConfigured h \<longleftrightarrow> Token (HubCfg h) \<noteq> []"

section \<open>Requests, responses, authentication\<close>

record Request =
  Method :: string
  Path :: string
  Header :: "string \<Rightarrow> string"
  Body :: string

datatype jval = JString string | JBool bool

datatype payload = JFields "(string \<times> jval) list" | JNodes "string \<rightharpoonup> Node" | Opaque string

record Response =
  StatusCode :: int
  Payload :: payload

definition writeJSONError :: "int \<Rightarrow> string \<Rightarrow> string \<Rightarrow> Response" where
  "writeJSONError status code message =
     \<lparr>StatusCode = status, Payload = JFields [(''error'', JString code), (''message'', JString message)]\<rparr>"

definition writeJSON :: "int \<Rightarrow> payload \<Rightarrow> Response" where
  "writeJSON status v = \<lparr>StatusCode = status, Payload = v\<rparr>"

definition bearer :: string where "bearer = ''Bearer ''"

definition extractToken :: "Request \<Rightarrow> string" where
  "extractToken r =
     (let auth = Header r ''Authorization''
      in if auth \<noteq> [] \<and> length auth \<ge> length bearer
            \<and> equal_fold_ascii (take (length bearer) auth) bearer
         then trim_space (drop (length bearer) auth)
         else trim_space (Header r ''X-Shinkiro-Cluster-Token''))"

type_synonym HandlerFunc = "Hub \<Rightarrow> Request \<Rightarrow> Hub \<times> Response"

definition RequireToken :: "HandlerFunc \<Rightarrow> HandlerFunc" where
  "RequireToken next h r =
     (if Token (HubCfg h) = [] then next h r
      else (let got = extractToken r
            in if got = [] then (h, writeJSONError 401 ''unauthorized'' ''missing cluster token'')
               else if got \<noteq> Token (HubCfg h) then (h, writeJSONError 401 ''unauthorized'' ''invalid cluster token'')
               else next h r))"

section \<open>Handlers\<close>

definition RegisterNode :: "time \<Rightarrow> string \<Rightarrow> string \<Rightarrow> Hub \<Rightarrow> Hub" where
  "RegisterNode now i address h =
     h\<lparr>nodes := (nodes h)(i \<mapsto> \<lparr>NodeID = i, NodeAddress = address, NodeLastSeen = now, Active = True\<rparr>)\<rparr>"

record joinRequest =
  JoinID :: string
  JoinAddress :: string

record Codec =
  decode_join :: "string \<Rightarrow> bool \<Rightarrow> joinRequest option"
  decode_event :: "string \<Rightarrow> bool \<Rightarrow> Event option"
  mux_default :: "Request \<Rightarrow> Response"

text \<open>\<open>http.MaxBytesReader\<close>: the bytes a reader can get, and whether it ends in an error.\<close>

definition max_bytes :: "int \<Rightarrow> string \<Rightarrow> string \<times> bool" where
  "max_bytes n body = (take (nat n) body, int (length body) > n)"

definition JoinHandler :: "Codec \<Rightarrow> time \<Rightarrow> HandlerFunc" where
  "JoinHandler codec now h r =
     (if Method r \<noteq> ''POST'' then (h, writeJSONError 405 ''method_not_allowed'' ''POST required'')
      else (case case_prod (decode_join codec) (max_bytes (MaxBodyBytes (HubCfg h)) (Body r)) of
              None \<Rightarrow> (h, writeJSONError 400 ''bad_request'' ''invalid join payload'')
            | Some req \<Rightarrow>
                (let i = trim_space (JoinID req); address = trim_space (JoinAddress req)
                 in if i = [] \<or> address = []
                    then (h, writeJSONError 400 ''bad_request'' ''id and address are required'')
                    else (RegisterNode now i address h,
                          writeJSON 200 (JFields [(''status'', JString ''joined''), (''id'', JString i),
                            (''address'', JString address), (''model'', JString ''hub-and-spoke-http'')])))))"

definition IngestHandler :: "Codec \<Rightarrow> HandlerFunc" where
  "IngestHandler codec h r =
     (if Method r \<noteq> ''POST'' then (h, writeJSONError 405 ''method_not_allowed'' ''POST required'')
      else (case case_prod (decode_event codec) (max_bytes (MaxBodyBytes (HubCfg h)) (Body r)) of
              None \<Rightarrow> (h, writeJSONError 400 ''bad_request'' ''invalid event JSON'')
            | Some ev \<Rightarrow>
                (if trim_space (ID ev) = [] then (h, writeJSONError 400 ''bad_request'' ''event id is required'')
                 else (case try_send ev (HubEvents h) of
                         (ch, True) \<Rightarrow> (h\<lparr>HubEvents := ch\<rparr>, writeJSON 202 (JFields [(''status'', JString ''ingested'')]))
                       | (_, False) \<Rightarrow> (h, writeJSONError 503 ''buffer_full'' ''hub event buffer full'')))))"

definition NodesHandler :: HandlerFunc where
  "NodesHandler h r =
     (if Method r \<noteq> ''GET'' then (h, writeJSONError 405 ''method_not_allowed'' ''GET required'')
      else (h, writeJSON 200 (JNodes (nodes h))))"

definition HealthHandler :: HandlerFunc where
  "HealthHandler h r = (h, writeJSON 200 (JFields [(''status'', JString ''ok'')]))"

definition ReadyHandler :: HandlerFunc where
  "ReadyHandler h r =
     (h, writeJSON 200 (JFields
       [(''status'', JString ''ready''),
        (''auth_mode'', JString (if TokenConfigured h then ''token'' else ''insecure-lab'')),
        (''tls'', JBool (TLSCertFile (HubCfg h) \<noteq> [] \<and> TLSKeyFile (HubCfg h) \<noteq> [])),
        (''model'', JString ''hub-and-spoke-http'')]))"

definition join_path :: string where "join_path = ''/api/v1/cluster/join''"
definition ingest_path :: string where "ingest_path = ''/api/v1/cluster/ingest''"
definition nodes_path :: string where "nodes_path = ''/api/v1/cluster/nodes''"

lemmas path_defs = join_path_def ingest_path_def nodes_path_def

definition HubHandler :: "Codec \<Rightarrow> time \<Rightarrow> HandlerFunc" where
  "HubHandler codec now h r =
     (if Path r = ''/healthz'' then HealthHandler h r
      else if Path r = ''/readyz'' then ReadyHandler h r
      else if Path r = join_path then RequireToken (JoinHandler codec now) h r
      else if Path r = ingest_path then RequireToken (IngestHandler codec) h r
      else if Path r = nodes_path then RequireToken NodesHandler h r
      else (h, mux_default codec r))"

text \<open>How \<open>StartHTTP\<close> serves: with TLS, without, or not at all.\<close>

datatype serve_mode = ServeTLS string string | ServeError string | ServePlain

definition serve_mode_of :: "HubConfig \<Rightarrow> serve_mode" where
  "serve_mode_of cfg =
     (let hasCert = TLSCertFile cfg \<noteq> []; hasKey = TLSKeyFile cfg \<noteq> []
      in if hasCert \<and> hasKey then ServeTLS (TLSCertFile cfg) (TLSKeyFile cfg)
         else if hasCert \<or> hasKey then
           ServeError ''cluster hub TLS requires both --tls-cert and --tls-key (or leave both empty and terminate TLS upstream)''
         else ServePlain)"

text \<open>The settings \<open>StartHTTP\<close> gives \<open>http.Server\<close>, and the grace period of the shutdown it schedules.\<close>

record http_server =
  ServerAddr :: string
  ServerReadTimeout :: duration
  ServerWriteTimeout :: duration
  ServerIdleTimeout :: duration
  MaxHeaderBytes :: int
  ShutdownGrace :: duration

definition StartHTTP :: "Hub \<Rightarrow> int \<Rightarrow> http_server \<times> serve_mode" where
  "StartHTTP h port =
     (\<lparr>ServerAddr = '':'' @ dec port, ServerReadTimeout = ReadTimeout (HubCfg h),
       ServerWriteTimeout = WriteTimeout (HubCfg h), ServerIdleTimeout = IdleTimeout (HubCfg h),
       MaxHeaderBytes = 2 ^ 14, ShutdownGrace = 5 * second\<rparr>,
      serve_mode_of (HubCfg h))"

section \<open>The client\<close>

record AgentClient =
  BaseURL :: string
  AgentToken :: string

definition setAuth :: "AgentClient \<Rightarrow> (string \<Rightarrow> string) \<Rightarrow> (string \<Rightarrow> string)" where
  "setAuth c hdr =
     (let token = trim_space (AgentToken c)
      in if token = [] then hdr else hdr(''Authorization'' := bearer @ token))"

definition agent_url :: "AgentClient \<Rightarrow> string \<Rightarrow> string" where
  "agent_url c path = trim_right (BaseURL c) ''/'' @ path"

definition agent_request :: "AgentClient \<Rightarrow> string \<Rightarrow> string \<Rightarrow> Request" where
  "agent_request c path body =
     \<lparr>Method = ''POST'', Path = path,
      Header = setAuth c ((\<lambda>_. [])(''Content-Type'' := ''application/json'')), Body = body\<rparr>"

text \<open>The outcome of a call: a transport error or the status and the first 4096 bytes of the body.\<close>

definition agent_result :: "string \<Rightarrow> string + int \<times> string \<Rightarrow> string option" where
  "agent_result op out =
     (case out of
        Inl err \<Rightarrow> Some err
      | Inr (code, body) \<Rightarrow>
          (if code < 200 \<or> code \<ge> 300
           then Some (''cluster '' @ op @ '': HTTP '' @ dec code @ '': '' @ trim_space (take 4096 body))
           else None))"

text \<open>
  What the client relies on: the JSON encoder, the check of \<open>http.NewRequestWithContext\<close> on a URL, and the
  exchange \<open>Do\<close>, which may change the world at the other end.
\<close>

record 'w agent_env =
  join_json :: "joinRequest \<Rightarrow> string + string"
  event_json :: "Event \<Rightarrow> string + string"
  request_error :: "string \<Rightarrow> string option"
  do_request :: "string \<Rightarrow> Request \<Rightarrow> 'w \<Rightarrow> (string + int \<times> string) \<times> 'w"

definition agent_post ::
    "'w agent_env \<Rightarrow> AgentClient \<Rightarrow> string \<Rightarrow> string \<Rightarrow> string + string \<Rightarrow> 'w \<Rightarrow> string option \<times> 'w" where
  "agent_post ae c op path body w =
     (case body of
        Inl err \<Rightarrow> (Some err, w)
      | Inr b \<Rightarrow>
          (case request_error ae (agent_url c path) of
             Some err \<Rightarrow> (Some err, w)
           | None \<Rightarrow>
               (let (out, w) = do_request ae (agent_url c path) (agent_request c path b) w
                in (agent_result op out, w))))"

definition AgentJoin :: "'w agent_env \<Rightarrow> AgentClient \<Rightarrow> string \<Rightarrow> string \<Rightarrow> 'w \<Rightarrow> string option \<times> 'w" where
  "AgentJoin ae c i address w =
     agent_post ae c ''join'' join_path (join_json ae \<lparr>JoinID = i, JoinAddress = address\<rparr>) w"

definition AgentIngest :: "'w agent_env \<Rightarrow> AgentClient \<Rightarrow> Event \<Rightarrow> 'w \<Rightarrow> string option \<times> 'w" where
  "AgentIngest ae c ev w = agent_post ae c ''ingest'' ingest_path (event_json ae ev) w"

section \<open>Authentication\<close>

lemma equal_fold_refl: "equal_fold_ascii s s"
  by (simp add: equal_fold_ascii_def)

lemma trim_left_space_id: "s = [] \<or> space_len s = 0 \<Longrightarrow> trim_left_space s = s"
  by (cases s) simp_all

lemma trim_rev_space_idem: "trim_rev_space (trim_rev_space s) = trim_rev_space s"
  by (induction s rule: trim_rev_space.induct) (simp_all add: Let_def)

lemma trim_space_idem [simp]: "trim_space (trim_space s) = trim_space s"
proof -
  have "trim_left_space (trim_space s) = trim_space s"
    by (rule trim_left_space_id) (use trim_space_head [of s] in \<open>cases "trim_space s"; simp\<close>)
  then have "trim_space (trim_space s) = rev (trim_rev_space (rev (trim_space s)))" by (simp add: trim_space_def)
  also have "rev (trim_space s) = trim_rev_space (rev (trim_left_space s))" by (simp add: trim_space_def)
  finally show ?thesis by (simp add: trim_rev_space_idem) (simp add: trim_space_def)
qed

lemma extractToken_bearer: "Header r ''Authorization'' = bearer @ t \<Longrightarrow> extractToken r = trim_space t"
  by (simp add: extractToken_def bearer_def equal_fold_refl)

definition protected_paths :: "string list" where
  "protected_paths = [join_path, ingest_path, nodes_path]"

text \<open>
  C9: With a shared secret configured, a request to the join, ingest or nodes route whose token is
  missing or differs from the secret gets status 401 and changes nothing: no node is registered, no
  event enters the channel, and the node list is not disclosed.
\<close>

theorem unauthorised_changes_nothing:
  assumes "TokenConfigured h" "Path r \<in> set protected_paths" "extractToken r \<noteq> Token (HubCfg h)"
  shows "fst (HubHandler codec now h r) = h \<and> StatusCode (snd (HubHandler codec now h r)) = 401
       \<and> (\<forall>m. Payload (snd (HubHandler codec now h r)) \<noteq> JNodes m)"
  using assms
  by (auto simp: HubHandler_def RequireToken_def TokenConfigured_def protected_paths_def path_defs
      writeJSONError_def Let_def)

text \<open>\<open>NewHubWithConfig\<close> keeps the trimmed secret; a blank one is the open lab mode.\<close>

lemma NewHub_token [simp]:
  "Token (HubCfg (NewHubWithConfig ch cfg)) = trim_space (Token cfg)"
  "nodes (NewHubWithConfig ch cfg) = Map.empty" "HubEvents (NewHubWithConfig ch cfg) = ch"
  by (simp_all add: NewHubWithConfig_def Let_def)

lemma NewHub_limit: "0 < MaxBodyBytes (HubCfg (NewHubWithConfig ch cfg))"
  by (simp add: NewHubWithConfig_def Let_def DefaultMaxBodyBytes_def)

section \<open>Ingest\<close>

text \<open>A sequence of timed requests, with the responses in order.\<close>

fun serve_all :: "Codec \<Rightarrow> (time \<times> Request) list \<Rightarrow> Hub \<Rightarrow> Hub \<times> Response list" where
  "serve_all codec [] h = (h, [])"
| "serve_all codec ((now, r) # rs) h =
     (let (h, res) = HubHandler codec now h r; (h, ress) = serve_all codec rs h in (h, res # ress))"

text \<open>The event a request offers to the channel, if it passes every check before the send.\<close>

definition offers :: "Codec \<Rightarrow> HubConfig \<Rightarrow> Request \<Rightarrow> Event option" where
  "offers codec cfg r =
     (if Path r = ingest_path \<and> (Token cfg = [] \<or> extractToken r = Token cfg) \<and> Method r = ''POST'' then
        (case case_prod (decode_event codec) (max_bytes (MaxBodyBytes cfg) (Body r)) of
           None \<Rightarrow> None
         | Some ev \<Rightarrow> if trim_space (ID ev) = [] then None else Some ev)
      else None)"

lemma RegisterNode_frame [simp]:
  "HubCfg (RegisterNode now i a h) = HubCfg h" "HubEvents (RegisterNode now i a h) = HubEvents h"
  by (simp_all add: RegisterNode_def)

lemma JoinHandler_frame:
  "HubCfg (fst (JoinHandler codec now h r)) = HubCfg h \<and> HubEvents (fst (JoinHandler codec now h r)) = HubEvents h"
  by (auto simp: JoinHandler_def Let_def split: option.splits)

lemma IngestHandler_offers:
  assumes "Path r = ingest_path" "Token (HubCfg h) = [] \<or> extractToken r = Token (HubCfg h)"
  shows "IngestHandler codec h r =
     (case offers codec (HubCfg h) r of
        None \<Rightarrow> (h, snd (IngestHandler codec h r))
      | Some ev \<Rightarrow>
          (if length (buf (HubEvents h)) < cap (HubEvents h)
           then (h\<lparr>HubEvents := fst (try_send ev (HubEvents h))\<rparr>, writeJSON 202 (JFields [(''status'', JString ''ingested'')]))
           else (h, writeJSONError 503 ''buffer_full'' ''hub event buffer full'')))"
  using assms
  by (auto simp: IngestHandler_def offers_def try_send_def split: option.splits if_splits)

lemma RequireToken_open:
  "RequireToken next h r =
     (if Token (HubCfg h) = [] \<or> extractToken r = Token (HubCfg h) then next h r
      else (h, snd (RequireToken next h r)))"
  by (auto simp: RequireToken_def Let_def)

lemma HubHandler_events:
  "HubCfg (fst (HubHandler codec now h r)) = HubCfg h"
  "HubEvents (fst (HubHandler codec now h r)) =
     (case offers codec (HubCfg h) r of None \<Rightarrow> HubEvents h | Some ev \<Rightarrow> fst (try_send ev (HubEvents h)))"
proof -
  let ?open = "Token (HubCfg h) = [] \<or> extractToken r = Token (HubCfg h)"
  have "HubCfg (fst (HubHandler codec now h r)) = HubCfg h \<and>
    HubEvents (fst (HubHandler codec now h r)) =
     (case offers codec (HubCfg h) r of None \<Rightarrow> HubEvents h | Some ev \<Rightarrow> fst (try_send ev (HubEvents h)))"
  proof (cases "Path r = ingest_path")
    case True
    then have route: "HubHandler codec now h r = RequireToken (IngestHandler codec) h r"
      by (simp add: HubHandler_def path_defs)
    show ?thesis
    proof (cases ?open)
      case granted: True
      then have "HubHandler codec now h r = IngestHandler codec h r"
        unfolding route by (subst RequireToken_open) simp
      then show ?thesis
        by (subst (1 2) \<open>HubHandler codec now h r = IngestHandler codec h r\<close>, subst (1 2) IngestHandler_offers [OF True granted])
           (simp add: try_send_def split: option.splits)
    next
      case False
      then have "fst (HubHandler codec now h r) = h"
        unfolding route by (subst RequireToken_open) simp
      moreover from False have "offers codec (HubCfg h) r = None" by (auto simp: offers_def)
      ultimately show ?thesis by simp
    qed
  next
    case False
    then have none: "offers codec (HubCfg h) r = None" by (simp add: offers_def)
    have "fst (NodesHandler h r) = h" by (simp add: NodesHandler_def)
    then have list: "fst (RequireToken NodesHandler h r) = h"
      by (subst RequireToken_open) simp
    have join: "HubCfg (fst (RequireToken (JoinHandler codec now) h r)) = HubCfg h"
      "HubEvents (fst (RequireToken (JoinHandler codec now) h r)) = HubEvents h"
      using JoinHandler_frame [of codec now h r] by (subst RequireToken_open; simp)+
    show ?thesis
      using False list join unfolding none HubHandler_def
      by (auto simp: HealthHandler_def ReadyHandler_def)
  qed
  then show "HubCfg (fst (HubHandler codec now h r)) = HubCfg h"
    "HubEvents (fst (HubHandler codec now h r)) =
     (case offers codec (HubCfg h) r of None \<Rightarrow> HubEvents h | Some ev \<Rightarrow> fst (try_send ev (HubEvents h)))"
    by blast+
qed

lemma serve_all_events:
  "HubCfg (fst (serve_all codec rs h)) = HubCfg h
   \<and> HubEvents (fst (serve_all codec rs h)) =
       events_chan.send_all (List.map_filter (offers codec (HubCfg h)) (map snd rs)) (HubEvents h)"
proof (induction rs arbitrary: h)
  case Nil
  then show ?case by (simp add: map_filter_simps)
next
  case (Cons q rs)
  obtain now r where q: "q = (now, r)" by (cases q)
  obtain h1 res where 1: "HubHandler codec now h r = (h1, res)" by (cases "HubHandler codec now h r")
  have "HubCfg h1 = HubCfg h"
    "HubEvents h1 = (case offers codec (HubCfg h) r of None \<Rightarrow> HubEvents h | Some ev \<Rightarrow> fst (try_send ev (HubEvents h)))"
    using HubHandler_events [of codec now h r] 1 by simp_all
  with Cons.IH [of h1] 1 q show ?case
    by (auto simp: map_filter_simps split: prod.splits option.splits)
qed

text \<open>
  C8: The hub's event buffer is a bounded queue without loss or duplication. After any sequence of
  requests, in any mix of routes and with the consumer stalled, the buffer holds exactly the first
  \<open>cap\<close> of the events that authorised, well-formed ingest requests offered, in the order of the
  requests; every later one has been refused.
\<close>

theorem ingest_bounded_queue:
  "buf (HubEvents (fst (serve_all codec rs (NewHubWithConfig (make_chan n) cfg)))) =
     take n (List.map_filter (offers codec (HubCfg (NewHubWithConfig (make_chan n) cfg))) (map snd rs))"
proof -
  let ?h = "NewHubWithConfig (make_chan n) cfg"
  have "length (buf (HubEvents ?h)) \<le> cap (HubEvents ?h)" by (simp add: make_chan_def)
  from events_chan.send_all_items [OF this] serve_all_events [of codec rs ?h] show ?thesis
    by (simp add: make_chan_def)
qed

section \<open>Client and hub together\<close>

text \<open>
  A sensor that shares the hub's secret (up to surrounding white space) can register: when the
  JSON codec decodes the body the client encoded and the body is within the limit, the join request
  the client builds is answered 200, and the node is then listed under its trimmed ID with the address
  and the time of the call, whatever was registered before.
\<close>

theorem agent_join_registers:
  assumes "trim_space (AgentToken c) = Token (HubCfg h) \<or> Token (HubCfg h) = []"
    and "int (length body) \<le> MaxBodyBytes (HubCfg h)"
    and "decode_join codec body False = Some \<lparr>JoinID = i, JoinAddress = address\<rparr>"
    and "trim_space i \<noteq> []" "trim_space address \<noteq> []"
  shows "StatusCode (snd (HubHandler codec now h (agent_request c join_path body))) = 200
       \<and> nodes (fst (HubHandler codec now h (agent_request c join_path body))) = (nodes h)(trim_space i \<mapsto>
           \<lparr>NodeID = trim_space i, NodeAddress = trim_space address, NodeLastSeen = now, Active = True\<rparr>)
       \<and> HubEvents (fst (HubHandler codec now h (agent_request c join_path body))) = HubEvents h"
proof -
  let ?r = "agent_request c join_path body"
  have tok: "extractToken ?r = Token (HubCfg h)" if "Token (HubCfg h) \<noteq> []"
  proof -
    from that assms(1) have t: "trim_space (AgentToken c) = Token (HubCfg h)" by simp
    with that have "Header ?r ''Authorization'' = bearer @ trim_space (AgentToken c)"
      by (simp add: agent_request_def setAuth_def)
    from extractToken_bearer [OF this] t show ?thesis by simp (metis t trim_space_idem)
  qed
  have "HubHandler codec now h ?r = RequireToken (JoinHandler codec now) h ?r"
    by (simp add: HubHandler_def agent_request_def path_defs)
  also have "\<dots> = JoinHandler codec now h ?r" using tok by (auto simp: RequireToken_def)
  also have "\<dots> = (RegisterNode now (trim_space i) (trim_space address) h,
      writeJSON 200 (JFields [(''status'', JString ''joined''), (''id'', JString (trim_space i)),
        (''address'', JString (trim_space address)), (''model'', JString ''hub-and-spoke-http'')]))"
    using assms(2-5) by (simp add: JoinHandler_def agent_request_def max_bytes_def Let_def)
  finally show ?thesis by (simp add: RegisterNode_def writeJSON_def)
qed

text \<open>
  The client wired to a hub: the exchange hands the request to the hub's handler and brings back the status
  and the rendered answer.
\<close>

definition hub_link ::
    "Codec \<Rightarrow> (payload \<Rightarrow> string) \<Rightarrow> (joinRequest \<Rightarrow> string) \<Rightarrow> (Event \<Rightarrow> string) \<Rightarrow> time \<Rightarrow> Hub agent_env" where
  "hub_link codec render enc_join enc_event now =
     \<lparr>join_json = (\<lambda>r. Inr (enc_join r)), event_json = (\<lambda>ev. Inr (enc_event ev)), request_error = (\<lambda>_. None),
      do_request = (\<lambda>_ r h. case HubHandler codec now h r of
        (h, res) \<Rightarrow> (Inr (StatusCode res, render (Payload res)), h))\<rparr>"

lemma hub_link_json [simp]:
  "event_json (hub_link codec render ej ee now) ev = Inr (ee ev)"
  "join_json (hub_link codec render ej ee now) r = Inr (ej r)"
  by (simp_all add: hub_link_def)

lemma agent_link_result:
  "agent_post (hub_link codec render ej ee now) c op path (Inr b) h =
     (case HubHandler codec now h (agent_request c path b) of
        (h, res) \<Rightarrow> (agent_result op (Inr (StatusCode res, render (Payload res))), h))"
  by (simp add: agent_post_def hub_link_def split: prod.split)

lemma agent_result_None: "agent_result op (Inr (code, body)) = None \<longleftrightarrow> 200 \<le> code \<and> code < 300"
  by (auto simp: agent_result_def)

definition may_post :: "AgentClient \<Rightarrow> Hub \<Rightarrow> bool" where
  "may_post c h \<longleftrightarrow> Token (HubCfg h) = [] \<or> trim_space (AgentToken c) = Token (HubCfg h)"

lemma agent_request_token: "extractToken (agent_request c path b) = trim_space (AgentToken c)"
proof (cases "trim_space (AgentToken c) = []")
  case True
  then show ?thesis by (simp add: extractToken_def agent_request_def setAuth_def trim_space_def)
next
  case False
  then have "Header (agent_request c path b) ''Authorization'' = bearer @ trim_space (AgentToken c)"
    by (simp add: agent_request_def setAuth_def)
  from extractToken_bearer [OF this] show ?thesis by simp
qed

text \<open>The encoder and the hub's decoder agree on an event that fits and has an ID.\<close>

definition sendable :: "Codec \<Rightarrow> (Event \<Rightarrow> string) \<Rightarrow> HubConfig \<Rightarrow> Event \<Rightarrow> bool" where
  "sendable codec enc cfg ev \<longleftrightarrow>
     int (length (enc ev)) \<le> MaxBodyBytes cfg \<and> decode_event codec (enc ev) False = Some ev \<and> trim_space (ID ev) \<noteq> []"

lemma AgentIngest_link:
  assumes "sendable codec ee (HubCfg h) ev"
  shows "AgentIngest (hub_link codec render ej ee now) c ev h =
    (if \<not> may_post c h then (fst (AgentIngest (hub_link codec render ej ee now) c ev h), h)
     else if length (buf (HubEvents h)) < cap (HubEvents h)
     then (None, h\<lparr>HubEvents := fst (try_send ev (HubEvents h))\<rparr>)
     else (fst (AgentIngest (hub_link codec render ej ee now) c ev h), h))"
    and "fst (AgentIngest (hub_link codec render ej ee now) c ev h) = None \<longleftrightarrow>
      may_post c h \<and> length (buf (HubEvents h)) < cap (HubEvents h)"
proof -
  let ?r = "agent_request c ingest_path (ee ev)"
  have route: "HubHandler codec now h ?r = RequireToken (IngestHandler codec) h ?r"
    by (simp add: HubHandler_def agent_request_def path_defs)
  have post: "AgentIngest (hub_link codec render ej ee now) c ev h =
      (case HubHandler codec now h ?r of
        (h, res) \<Rightarrow> (agent_result ''ingest'' (Inr (StatusCode res, render (Payload res))), h))"
    by (simp add: AgentIngest_def agent_link_result)
  have offer: "offers codec (HubCfg h) ?r = (if may_post c h then Some ev else None)"
    using assms
    by (auto simp: offers_def sendable_def may_post_def agent_request_token max_bytes_def)
       (simp_all add: agent_request_def)
  have "AgentIngest (hub_link codec render ej ee now) c ev h =
    (if \<not> may_post c h then (fst (AgentIngest (hub_link codec render ej ee now) c ev h), h)
     else if length (buf (HubEvents h)) < cap (HubEvents h)
     then (None, h\<lparr>HubEvents := fst (try_send ev (HubEvents h))\<rparr>)
     else (fst (AgentIngest (hub_link codec render ej ee now) c ev h), h))
    \<and> (fst (AgentIngest (hub_link codec render ej ee now) c ev h) = None \<longleftrightarrow>
      may_post c h \<and> length (buf (HubEvents h)) < cap (HubEvents h))"
  proof (cases "may_post c h")
    case True
    have "Path ?r = ingest_path" by (simp add: agent_request_def)
    from IngestHandler_offers [OF this, of h codec] True
    have "RequireToken (IngestHandler codec) h ?r =
        (if length (buf (HubEvents h)) < cap (HubEvents h)
         then (h\<lparr>HubEvents := fst (try_send ev (HubEvents h))\<rparr>, writeJSON 202 (JFields [(''status'', JString ''ingested'')]))
         else (h, writeJSONError 503 ''buffer_full'' ''hub event buffer full''))"
      by (subst RequireToken_open) (auto simp: offer may_post_def agent_request_token)
    with True show ?thesis
      by (auto simp: post route writeJSON_def writeJSONError_def agent_result_None)
  next
    case False
    then have "HubHandler codec now h ?r = (h, snd (HubHandler codec now h ?r))"
      "StatusCode (snd (HubHandler codec now h ?r)) = 401"
      by (auto simp: route RequireToken_def may_post_def agent_request_token writeJSONError_def Let_def)
    with False show ?thesis
      by (cases "HubHandler codec now h ?r") (simp add: post agent_result_None)
  qed
  then show "AgentIngest (hub_link codec render ej ee now) c ev h =
    (if \<not> may_post c h then (fst (AgentIngest (hub_link codec render ej ee now) c ev h), h)
     else if length (buf (HubEvents h)) < cap (HubEvents h)
     then (None, h\<lparr>HubEvents := fst (try_send ev (HubEvents h))\<rparr>)
     else (fst (AgentIngest (hub_link codec render ej ee now) c ev h), h))"
    and "fst (AgentIngest (hub_link codec render ej ee now) c ev h) = None \<longleftrightarrow>
      may_post c h \<and> length (buf (HubEvents h)) < cap (HubEvents h)" by blast+
qed

text \<open>Any sensors sending any events, one after the other: which sends returned no error, and the hub.\<close>

fun forward_all :: "Hub agent_env \<Rightarrow> (AgentClient \<times> Event) list \<Rightarrow> Hub \<Rightarrow> bool list \<times> Hub" where
  "forward_all ae [] h = ([], h)"
| "forward_all ae ((c, ev) # sends) h =
     (let (err, h) = AgentIngest ae c ev h; (oks, h) = forward_all ae sends h in ((err = None) # oks, h))"

definition acknowledged :: "bool list \<Rightarrow> (AgentClient \<times> Event) list \<Rightarrow> Event list" where
  "acknowledged oks sends = map (snd \<circ> snd) (filter fst (zip oks sends))"

lemma acknowledged_Cons [simp]:
  "acknowledged (ok # oks) (s # sends) = (if ok then [snd s] else []) @ acknowledged oks sends"
  by (simp add: acknowledged_def)

text \<open>
  C10: The sensors' protocol neither loses nor invents an event. Let any sensors, with the right secret, a
  wrong one or none, send any events in any order to a hub whose consumer stands still, over a JSON codec that
  reads back what it wrote within the body limit. Then the hub's buffer holds exactly the events whose
  \<open>Ingest\<close> returned nil, in that order, behind what was there; nothing else of the hub has changed; and once
  the secret is configured, no send by a sensor without it returned nil.
\<close>

theorem agents_acknowledged:
  assumes "list_all (\<lambda>(c, ev). sendable codec ee (HubCfg h) ev) sends"
  shows "(case forward_all (hub_link codec render ej ee now) sends h of
      (oks, h') \<Rightarrow> buf (HubEvents h') = buf (HubEvents h) @ acknowledged oks sends
        \<and> h'\<lparr>HubEvents := HubEvents h\<rparr> = h
        \<and> list_all (\<lambda>(ok, c, ev). ok \<longrightarrow> may_post c h) (zip oks sends))"
  using assms
proof (induction sends arbitrary: h)
  case Nil
  then show ?case by (simp add: acknowledged_def)
next
  case (Cons s sends)
  obtain c ev where s: "s = (c, ev)" by (cases s)
  let ?ae = "hub_link codec render ej ee now"
  obtain err h1 where 1: "AgentIngest ?ae c ev h = (err, h1)" by (cases "AgentIngest ?ae c ev h")
  obtain oks h2 where 2: "forward_all ?ae sends h1 = (oks, h2)" by (cases "forward_all ?ae sends h1")
  from Cons.prems s have ev: "sendable codec ee (HubCfg h) ev" by simp
  note step = AgentIngest_link [OF ev, of render ej now c]
  have h1: "h1\<lparr>HubEvents := HubEvents h\<rparr> = h" "buf (HubEvents h1) = buf (HubEvents h) @ (if err = None then [ev] else [])"
    using step 1 by (auto simp: try_send_def split: if_splits)
  have cfg: "HubCfg h1 = HubCfg h" using arg_cong [OF h1(1), of HubCfg] by simp
  have may: "may_post d h1 = may_post d h" for d by (simp add: may_post_def cfg)
  have "err = None \<longrightarrow> may_post c h" using step(2) 1 by simp
  moreover from Cons.IH [of h1] Cons.prems 2 cfg
  have "buf (HubEvents h2) = buf (HubEvents h1) @ acknowledged oks sends" "h2\<lparr>HubEvents := HubEvents h1\<rparr> = h1"
    "list_all (\<lambda>(ok, c, ev). ok \<longrightarrow> may_post c h) (zip oks sends)"
    by (simp_all add: may)
  moreover have "h2\<lparr>HubEvents := HubEvents h\<rparr> = h"
    using arg_cong [OF calculation(3), of "\<lambda>x. x\<lparr>HubEvents := HubEvents h\<rparr>"] h1(1) by simp
  ultimately show ?case using 1 2 h1(2) s by simp
qed

definition demo_hub :: Hub where
  "demo_hub = NewHub (make_chan 2) '' s3cret ''"

definition demo_codec :: Codec where
  "demo_codec =
     \<lparr>decode_join = (\<lambda>_ truncated. if truncated then None else Some \<lparr>JoinID = ''n1'', JoinAddress = ''10.0.0.1:22''\<rparr>),
      decode_event = (\<lambda>_ _. None), mux_default = (\<lambda>_. writeJSON 404 (Opaque ''404 page not found''))\<rparr>"

lemma demo_hub_token: "Token (HubCfg demo_hub) = ''s3cret''" "MaxBodyBytes (HubCfg demo_hub) = 2 ^ 20"
  by (simp_all add: demo_hub_def NewHub_def DefaultHubConfig_def)
     (code_simp, simp add: NewHubWithConfig_def DefaultMaxBodyBytes_def Let_def second_def)

theorem unauthorised_changes_nothing_witness:
  "fst (HubHandler demo_codec 5 demo_hub \<lparr>Method = ''GET'', Path = nodes_path, Header = (\<lambda>_. ''Bearer guess''), Body = []\<rparr>) = demo_hub"
proof -
  let ?r = "\<lparr>Method = ''GET'', Path = nodes_path, Header = (\<lambda>_. ''Bearer guess''), Body = []\<rparr> :: Request"
  have "extractToken ?r = ''guess''" by code_simp
  then show ?thesis
    using unauthorised_changes_nothing [of demo_hub ?r demo_codec 5]
    by (simp add: TokenConfigured_def demo_hub_token protected_paths_def)
qed

theorem agent_join_registers_witness:
  "nodes (fst (HubHandler demo_codec 5 demo_hub
     (agent_request \<lparr>BaseURL = ''http://hub:9090/'', AgentToken = ''s3cret''\<rparr> join_path ''{}''))) ''n1''
   = Some \<lparr>NodeID = ''n1'', NodeAddress = ''10.0.0.1:22'', NodeLastSeen = 5, Active = True\<rparr>"
proof -
  have trims: "trim_space ''s3cret'' = ''s3cret''" "trim_space ''n1'' = ''n1''" "trim_space ''10.0.0.1:22'' = ''10.0.0.1:22''"
    by (rule trim_space_graphic; simp add: graphic_def)+
  show ?thesis
    using agent_join_registers [of "\<lparr>BaseURL = ''http://hub:9090/'', AgentToken = ''s3cret''\<rparr>" demo_hub
        "''{}''" demo_codec "''n1''" "''10.0.0.1:22''" 5]
    by (simp add: demo_hub_token trims demo_codec_def)
qed

definition sent_event :: Event where
  "sent_event = zero_event\<lparr>ID := ''e1'', DecoyName := ''redis'', RemoteIP := ''192.0.2.7''\<rparr>"

definition echo_codec :: Codec where
  "echo_codec = demo_codec\<lparr>decode_event := (\<lambda>body truncated. if truncated then None else Some sent_event)\<rparr>"

definition demo_sends :: "(AgentClient \<times> Event) list" where
  "demo_sends =
     [(\<lparr>BaseURL = ''http://hub:9090'', AgentToken = ''s3cret''\<rparr>, sent_event),
      (\<lparr>BaseURL = ''http://hub:9090'', AgentToken = []\<rparr>, sent_event)]"

theorem agents_acknowledged_witness:
  "(case forward_all (hub_link echo_codec (\<lambda>_. []) JoinID (\<lambda>_. ''{}'') 5) demo_sends demo_hub of
      (oks, h') \<Rightarrow> buf (HubEvents h') = acknowledged oks demo_sends
        \<and> list_all (\<lambda>(ok, c, ev). ok \<longrightarrow> may_post c demo_hub) (zip oks demo_sends))
   \<and> \<not> may_post \<lparr>BaseURL = ''http://hub:9090'', AgentToken = []\<rparr> demo_hub"
proof -
  have i: "trim_space ''e1'' = ''e1''" by (rule trim_space_graphic; simp add: graphic_def)
  have "buf (HubEvents demo_hub) = []" by (simp add: demo_hub_def NewHub_def make_chan_def)
  moreover have "list_all (\<lambda>(c, ev). sendable echo_codec (\<lambda>_. ''{}'') (HubCfg demo_hub) ev) demo_sends"
    by (simp add: demo_sends_def sendable_def demo_hub_token echo_codec_def sent_event_def i)
  moreover have "\<not> may_post \<lparr>BaseURL = ''http://hub:9090'', AgentToken = []\<rparr> demo_hub"
    by (simp add: may_post_def demo_hub_token trim_space_def)
  ultimately show ?thesis
    using agents_acknowledged [of echo_codec "\<lambda>_. ''{}''" demo_hub demo_sends "\<lambda>_. []" JoinID 5]
    by (auto split: prod.splits)
qed

end
