(* ===== verification/Coverage.thy ===== *)
theory Coverage
  imports Correlator "HOL-Library.AList" "HOL-Library.List_Lexorder" "HOL-Library.Char_ord"
begin

text \<open>
  The ATT&CK coverage report of \<open>internal/intel/coverage.go\<close>. A Go map that is filled here and then read
  in sorted order is an association list; \<open>sort\<close> orders strings by bytes, as Go does. The JSON form is the
  encoder applied to the report.
\<close>

section \<open>The documented matrix\<close>

record TechniqueRef =
  RefID :: string
  RefName :: string

record DecoyCoverageEntry =
  Decoy :: string
  EntryPort :: int
  Techniques :: "TechniqueRef list"
  EntrySource :: string

definition techniqueNames :: "(string \<times> string) list" where
  "techniqueNames =
     [(''T1078'', ''Valid Accounts''),
      (''T1078.001'', ''Valid Accounts: Default Accounts''),
      (''T1078.004'', ''Valid Accounts: Cloud Accounts''),
      (''T1059'', ''Command and Scripting Interpreter''),
      (''T1059.004'', ''Unix Shell''),
      (''T1021'', ''Remote Services''),
      (''T1021.002'', ''SMB/Windows Admin Shares''),
      (''T1021.004'', ''SSH''),
      (''T1110'', ''Brute Force''),
      (''T1190'', ''Exploit Public-Facing Application''),
      (''T1552.001'', ''Unsecured Credentials: Credentials In Files''),
      (''T1552.005'', ''Unsecured Credentials: Cloud Instance Metadata API''),
      (''T1609'', ''Container Administration Command''),
      (''T1496'', ''Resource Hijacking''),
      (''T1613'', ''Container and Resource Discovery''),
      (''T1083'', ''File and Directory Discovery''),
      (''T1566'', ''Phishing''),
      (''T1071.003'', ''Application Layer Protocol: Mail Protocols''),
      (''T1071.004'', ''Application Layer Protocol: DNS''),
      (''T1568'', ''Dynamic Resolution''),
      (''T1210'', ''Exploitation of Remote Services''),
      (''T1595'', ''Active Scanning''),
      (''T0855'', ''Unauthorized Command Message''),
      (''T0858'', ''Detect Operating Mode''),
      (''T0812'', ''Change Operating Mode'')]"

definition technique_name :: "string \<Rightarrow> string" where
  "technique_name t = (case map_of techniqueNames t of None \<Rightarrow> [] | Some n \<Rightarrow> n)"

definition refs :: "string list \<Rightarrow> TechniqueRef list" where
  "refs ids = map (\<lambda>t. \<lparr>RefID = t, RefName = technique_name t\<rparr>) ids"

definition matrix_entry :: "string \<Rightarrow> int \<Rightarrow> string list \<Rightarrow> DecoyCoverageEntry" where
  "matrix_entry d p ids = \<lparr>Decoy = d, EntryPort = p, Techniques = refs ids, EntrySource = ''decoy-matrix''\<rparr>"

definition DecoyMatrixCoverage :: "DecoyCoverageEntry list" where
  "DecoyMatrixCoverage =
     [matrix_entry ''ssh'' 2222 [''T1078'', ''T1059.004'', ''T1021.004''],
      matrix_entry ''telnet'' 2323 [''T1078'', ''T1059.004''],
      matrix_entry ''modbus'' 502 [''T0855'', ''T0858'', ''T0812''],
      matrix_entry ''redis'' 6379 [''T1059'', ''T1190''],
      matrix_entry ''docker'' 2375 [''T1609'', ''T1496''],
      matrix_entry ''k8s'' 6443 [''T1613'', ''T1078.001''],
      matrix_entry ''postgres'' 5432 [''T1078.001'', ''T1110''],
      matrix_entry ''mongo'' 27017 [''T1078'', ''T1190''],
      matrix_entry ''elastic'' 9200 [''T1190'', ''T1083''],
      matrix_entry ''http'' 8080 [''T1190'', ''T1552.001''],
      matrix_entry ''aws-imds'' 8169 [''T1552.005'', ''T1078.004''],
      matrix_entry ''mqtt'' 1883 [''T1078'', ''T1190''],
      matrix_entry ''smb'' 4445 [''T1021.002'', ''T1210''],
      matrix_entry ''smtp'' 2525 [''T1566'', ''T1071.003''],
      matrix_entry ''dns'' 1053 [''T1071.004'', ''T1568'']]"

section \<open>The runtime mapper\<close>

definition coverage_samples :: "(string \<times> string \<times> string) list" where
  "coverage_samples =
     [(''ssh'', ''LOGIN'', []), (''ssh'', ''EXEC'', ''whoami''), (''redis'', ''EVAL'', []), (''docker'', ''GET'', []),
      (''k8s'', ''GET'', []), (''aws-imds'', ''GET'', []), (''http'', ''PROBE'', [])]"

fun sampled :: "(string \<times> string \<times> string) list \<Rightarrow> (string \<times> TechniqueRef) list \<Rightarrow> (string \<times> TechniqueRef) list" where
  "sampled [] known = known"
| "sampled ((decoy, action, command) # samples) known =
     (let m = MapToMitre decoy action command
      in if TechniqueID m = [] then sampled samples known
         else sampled samples
                (AList.update (TechniqueID m) \<lparr>RefID = TechniqueID m, RefName = TechniqueName m\<rparr> known))"

definition RuntimeMapperCoverage :: "DecoyCoverageEntry list" where
  "RuntimeMapperCoverage =
     [\<lparr>Decoy = ''(runtime MapToMitre)'', EntryPort = 0,
       Techniques = sort_key RefID (map snd (sampled coverage_samples [])), EntrySource = ''map_to_mitre''\<rparr>]"

section \<open>The report\<close>

record CoverageReport =
  Decoys :: "DecoyCoverageEntry list"
  UniqueTechniques :: "TechniqueRef list"
  TechniqueToDecoys :: "(string \<times> string list) list"
  TotalDecoys :: int
  TotalTechniques :: int
  Note :: string

definition decoys_of :: "(string \<times> string list) list \<Rightarrow> string \<Rightarrow> string list" where
  "decoys_of ttd t = (case map_of ttd t of None \<Rightarrow> [] | Some ds \<Rightarrow> ds)"

type_synonym tally = "(string \<times> TechniqueRef) list \<times> (string \<times> string list) list"

definition tally_technique :: "string \<Rightarrow> tally \<Rightarrow> TechniqueRef \<Rightarrow> tally" where
  "tally_technique d = (\<lambda>(unique, ttd) t.
     (AList.update (RefID t) t unique,
      if \<not> slice_contains (decoys_of ttd (RefID t)) d
      then AList.update (RefID t) (decoys_of ttd (RefID t) @ [d]) ttd else ttd))"

definition tally_entry :: "tally \<Rightarrow> DecoyCoverageEntry \<Rightarrow> tally" where
  "tally_entry s d = foldl (tally_technique (Decoy d)) s (Techniques d)"

definition coverage_note :: string where
  "coverage_note = ''Coverage derived from docs/decoys/decoy-matrix.md and internal/intel.MapToMitre - no invented ATT&CK mappings.''"

definition BuildCoverageReport :: "bool \<Rightarrow> CoverageReport" where
  "BuildCoverageReport includeRuntimeMapper =
     (let entries = DecoyMatrixCoverage @ (if includeRuntimeMapper then RuntimeMapperCoverage else []);
          (unique, ttd) = foldl tally_entry ([], []) entries;
          uniqList = sort_key RefID (map snd unique);
          ids = sort (map fst ttd)
      in \<lparr>Decoys = entries, UniqueTechniques = uniqList,
          TechniqueToDecoys = map (\<lambda>t. (t, sort (decoys_of ttd t))) ids,
          TotalDecoys = int (length (filter (\<lambda>d. EntrySource d = ''decoy-matrix'') entries)),
          TotalTechniques = int (length uniqList), Note = coverage_note\<rparr>)"

definition CoverageReportJSON :: "(CoverageReport \<Rightarrow> string option) \<Rightarrow> CoverageReport \<Rightarrow> string option" where
  "CoverageReportJSON marshal r = marshal r"

section \<open>The table\<close>

definition entry_line :: "DecoyCoverageEntry \<Rightarrow> string" where
  "entry_line d =
     (let ids = map RefID (Techniques d); port = (if EntryPort d > 0 then dec (EntryPort d) else ''-'')
      in pad_right 12 (Decoy d) @ '' '' @ pad_right 6 port @ '' ''
         @ pad_right 50 (truncate_str (join '', '' ids) 50) @ '' '' @ EntrySource d @ nl)"

definition technique_line :: "CoverageReport \<Rightarrow> string \<Rightarrow> string" where
  "technique_line r t =
     (let name = technique_name t;
          name = (if name = [] then (case find (\<lambda>u. RefID u = t \<and> RefName u \<noteq> []) (UniqueTechniques r) of
                    None \<Rightarrow> [] | Some u \<Rightarrow> RefName u) else name);
          label = (if name \<noteq> [] then t @ '' ('' @ name @ '')'' else t)
      in ''  '' @ pad_right 40 label @ ''  '' @ join '', '' (decoys_of (TechniqueToDecoys r) t) @ nl)"

definition FormatCoverageTable :: "CoverageReport \<Rightarrow> string" where
  "FormatCoverageTable r =
     ''Shinkiro ATT&CK coverage (documented decoy tags)'' @ nl
     @ replicate 88 CHR ''='' @ nl
     @ pad_right 12 ''DECOY'' @ '' '' @ pad_right 6 ''PORT'' @ '' '' @ pad_right 50 ''TECHNIQUES'' @ '' SOURCE'' @ nl
     @ replicate 88 CHR ''-'' @ nl
     @ concat (map entry_line (Decoys r))
     @ replicate 88 CHR ''-'' @ nl
     @ ''Unique techniques: '' @ dec (TotalTechniques r) @ '' across '' @ dec (TotalDecoys r) @ '' decoys (matrix)'' @ nl
     @ nl @ ''By technique -> decoys:'' @ nl
     @ concat (map (technique_line r) (sort (map fst (TechniqueToDecoys r))))
     @ nl @ Note r @ nl"

section \<open>The index is the inverse of the matrix\<close>

definition tally_ok :: "(string \<times> TechniqueRef) list \<Rightarrow> tally \<Rightarrow> bool" where
  "tally_ok pairs = (\<lambda>(unique, ttd).
     distinct (map fst unique) \<and> distinct (map fst ttd) \<and> (\<forall>(k, t) \<in> set unique. RefID t = k)
     \<and> fst ` set unique = RefID ` snd ` set pairs \<and> fst ` set ttd = RefID ` snd ` set pairs
     \<and> (\<forall>t. distinct (decoys_of ttd t) \<and> set (decoys_of ttd t) = {d. \<exists>r. (d, r) \<in> set pairs \<and> RefID r = t}))"

lemma tally_ok_empty: "tally_ok [] ([], [])"
  by (simp add: tally_ok_def decoys_of_def)

lemma decoys_of_update: "decoys_of (AList.update k v ttd) t = (if t = k then v else decoys_of ttd t)"
  by (simp add: decoys_of_def update_conv')

lemma keys_update: "fst ` set (AList.update k v al) = insert k (fst ` set al)"
  using dom_update [of k v al] by (simp add: dom_map_of_conv_image_fst)

lemma decoys_of_member: "d \<in> set (decoys_of ttd t) \<Longrightarrow> t \<in> fst ` set ttd"
  by (cases "map_of ttd t") (auto simp: decoys_of_def dest: map_of_SomeD intro: rev_image_eqI)

lemma tally_technique_ok:
  assumes "tally_ok pairs s"
  shows "tally_ok (pairs @ [(d, t)]) (tally_technique d s t)"
proof -
  obtain unique ttd where s: "s = (unique, ttd)" by (cases s)
  have u: "distinct (map fst (AList.update (RefID t) t unique))" using assms by (simp add: tally_ok_def s distinct_update)
  have refs: "\<forall>(k, r) \<in> set (AList.update (RefID t) t unique). RefID r = k"
  proof (intro ballI, clarify)
    fix k r
    assume "(k, r) \<in> set (AList.update (RefID t) t unique)"
    then have "map_of (AList.update (RefID t) t unique) k = Some r" using u by simp
    then have "k = RefID t \<and> r = t \<or> (k, r) \<in> set unique"
      by (auto simp: update_conv' split: if_splits dest: map_of_SomeD)
    with assms show "RefID r = k" by (auto simp: tally_ok_def s)
  qed
  have new: "RefID t \<notin> fst ` set ttd \<Longrightarrow> decoys_of ttd (RefID t) = []"
    by (simp add: decoys_of_def map_of_eq_None_iff [THEN iffD2])
  show ?thesis
    using assms u refs decoys_of_member [of d ttd "RefID t"]
    by (auto simp: tally_ok_def s tally_technique_def keys_update distinct_update decoys_of_update)
qed

text \<open>All pairs of a decoy and a technique in a list of entries.\<close>

definition entry_pairs :: "DecoyCoverageEntry list \<Rightarrow> (string \<times> TechniqueRef) list" where
  "entry_pairs es = concat (map (\<lambda>d. map (Pair (Decoy d)) (Techniques d)) es)"

lemma entry_pairs_techniques: "snd ` set (entry_pairs es) = (\<Union>e \<in> set es. set (Techniques e))"
  by (induction es) (auto simp: entry_pairs_def image_Un image_image)

lemma tally_techniques_ok:
  "tally_ok pairs s \<Longrightarrow> tally_ok (pairs @ map (Pair d) ts) (foldl (tally_technique d) s ts)"
proof (induction ts arbitrary: pairs s)
  case (Cons t ts)
  from Cons.IH [OF tally_technique_ok [OF Cons.prems, of d t]] show ?case by simp
qed simp

lemma tally_entries_ok: "tally_ok pairs s \<Longrightarrow> tally_ok (pairs @ entry_pairs es) (foldl tally_entry s es)"
proof (induction es arbitrary: pairs s)
  case (Cons e es)
  from Cons.IH [OF tally_techniques_ok [OF Cons.prems, of "Decoy e" "Techniques e"]]
  show ?case by (simp add: entry_pairs_def tally_entry_def)
qed (simp add: entry_pairs_def)

lemma sort_key_refs:
  assumes "\<forall>(k, t) \<in> set al. RefID t = k"
  shows "map RefID (sort_key RefID (map snd al)) = sort (map fst al)"
proof -
  have "map RefID (map snd al) = map fst al" using assms by auto
  moreover have "map RefID (sort_key RefID (map snd al)) = sort (map RefID (map snd al))"
    by (rule properties_for_sort [symmetric]) (simp_all only: mset_map mset_sort sorted_sort_key)
  ultimately show ?thesis by (simp only:)
qed

text \<open>
  C31: The coverage report is a correct index. With or without the runtime mapper, the unique techniques are
  sorted by identifier without repetition and are exactly those of the entries; the table from techniques
  to decoys lists a decoy under a technique exactly if the entry of the decoy lists the technique, each
  list sorted and without repetition; and the totals are the fifteen decoys and the number of techniques.
\<close>

theorem coverage_report_index:
  fixes runtime :: bool
  defines "r \<equiv> BuildCoverageReport runtime"
  shows "sorted_wrt (<) (map RefID (UniqueTechniques r))
   \<and> set (map RefID (UniqueTechniques r)) = RefID ` (\<Union>e \<in> set (Decoys r). set (Techniques e))
   \<and> map fst (TechniqueToDecoys r) = map RefID (UniqueTechniques r)
   \<and> list_all (\<lambda>(t, ds). sorted_wrt (<) ds
        \<and> set ds = {d. \<exists>e \<in> set (Decoys r). Decoy e = d \<and> t \<in> RefID ` set (Techniques e)}) (TechniqueToDecoys r)
   \<and> TotalTechniques r = int (length (TechniqueToDecoys r)) \<and> TotalDecoys r = 15"
proof -
  let ?es = "DecoyMatrixCoverage @ (if runtime then RuntimeMapperCoverage else [])"
  obtain unique ttd where f: "foldl tally_entry ([], []) ?es = (unique, ttd)" by (cases "foldl tally_entry ([], []) ?es")
  from tally_entries_ok [OF tally_ok_empty, of ?es] f have ok: "tally_ok (entry_pairs ?es) (unique, ttd)" by simp
  have pairs: "(d, t) \<in> set (entry_pairs ?es) \<longleftrightarrow> (\<exists>e \<in> set ?es. Decoy e = d \<and> t \<in> set (Techniques e))" for d t
    by (auto simp: entry_pairs_def)
  have ids: "RefID ` snd ` set (entry_pairs ?es) = RefID ` (\<Union>e \<in> set ?es. set (Techniques e))"
    by (simp only: entry_pairs_techniques)
  have r: "Decoys r = ?es" "UniqueTechniques r = sort_key RefID (map snd unique)"
    "TechniqueToDecoys r = map (\<lambda>t. (t, sort (decoys_of ttd t))) (sort (map fst ttd))"
    "TotalTechniques r = int (length (UniqueTechniques r))"
    "TotalDecoys r = int (length (filter (\<lambda>d. EntrySource d = ''decoy-matrix'') ?es))"
    unfolding r_def BuildCoverageReport_def Let_def f by simp_all
  have u: "map RefID (UniqueTechniques r) = sort (map fst unique)"
    unfolding r(2) by (rule sort_key_refs) (use ok in \<open>simp add: tally_ok_def\<close>)
  have "set (map fst unique) = set (map fst ttd)" "distinct (map fst unique)" "distinct (map fst ttd)"
    using ok by (simp_all add: tally_ok_def)
  then have same: "sort (map fst unique) = sort (map fst ttd)" by (metis sorted_list_of_set_sort_remdups distinct_remdups_id)
  have strict: "sorted_wrt (<) (sort xs)" if "distinct xs" for xs :: "string list"
    using that by (simp add: strict_sorted_iff)
  have "\<forall>(t, ds) \<in> set (TechniqueToDecoys r).
      sorted_wrt (<) ds \<and> set ds = {d. \<exists>e \<in> set ?es. Decoy e = d \<and> t \<in> RefID ` set (Techniques e)}"
  proof (intro ballI, clarify)
    fix t ds
    assume "(t, ds) \<in> set (TechniqueToDecoys r)"
    then have ds: "ds = sort (decoys_of ttd t)" by (auto simp: r(3))
    have "distinct (decoys_of ttd t)" "set (decoys_of ttd t) = {d. \<exists>u. (d, u) \<in> set (entry_pairs ?es) \<and> RefID u = t}"
      using ok by (simp_all add: tally_ok_def)
    then show "sorted_wrt (<) ds \<and> set ds = {d. \<exists>e \<in> set ?es. Decoy e = d \<and> t \<in> RefID ` set (Techniques e)}"
      unfolding ds pairs by (auto simp: strict)
  qed
  moreover have "TotalDecoys r = 15"
    unfolding r(5) by (simp add: DecoyMatrixCoverage_def matrix_entry_def RuntimeMapperCoverage_def)
  moreover have "set (map RefID (UniqueTechniques r)) = RefID ` (\<Union>e \<in> set ?es. set (Techniques e))"
    unfolding u ids [symmetric] using ok by (simp add: tally_ok_def)
  moreover have "sorted_wrt (<) (map RefID (UniqueTechniques r))"
    unfolding u by (rule strict) (use ok in \<open>simp add: tally_ok_def\<close>)
  moreover have "map fst (TechniqueToDecoys r) = map RefID (UniqueTechniques r)"
    unfolding u same r(3) by (simp add: comp_def)
  moreover from this have "length (TechniqueToDecoys r) = length (UniqueTechniques r)" by (metis length_map)
  ultimately show ?thesis unfolding r(1,4) list_all_iff by (simp only: simp_thms)
qed

text \<open>Every documented technique has a name.\<close>

lemma matrix_techniques_named: "\<forall>e \<in> set DecoyMatrixCoverage. \<forall>t \<in> set (Techniques e). RefName t \<noteq> []"
  by (simp add: DecoyMatrixCoverage_def matrix_entry_def refs_def technique_name_def techniqueNames_def)

text \<open>
  The runtime part of the report is incomplete. Its seven samples reach four of the mapper's five
  techniques; lateral movement, which the mapper gives to every other event of the SSH, SMB and telnet
  decoys, is not among them, so the report says less than the running honeynet tags.
\<close>

theorem runtime_mapper_incomplete:
  "map RefID (concat (map Techniques RuntimeMapperCoverage)) = [''T1059'', ''T1110'', ''T1190'', ''T1595'']
   \<and> TechniqueID (MapToMitre ''ssh'' ''CONNECT'' []) = ''T1021''"
  by code_simp

end
