(* ===== verification/Kernel_Filter.thy ===== *)
theory Kernel_Filter
  imports Net_IP Go_Collections
begin

text \<open>
  The kernel filter of \<open>internal/ebpf/filter.go\<close>: a set of blocked addresses and the script rendered from it.
  The map holds only \<open>true\<close>, so it is the set of its keys. \<open>RenderScript\<close> visits the set in an arbitrary
  order, the argument \<open>ks\<close>. The manager only renders text; running it is left to the operator.
\<close>

section \<open>The manager\<close>

type_synonym Driver = string

definition DriverEBPF :: Driver where "DriverEBPF = ''ebpf''"
definition DriverNFTables :: Driver where "DriverNFTables = ''nftables''"
definition DriverIPTables :: Driver where "DriverIPTables = ''iptables''"

record FilterManager =
  driver :: Driver
  interfaceName :: string
  blockedIPs :: "string set"

definition NewFilterManager :: "Driver \<Rightarrow> string \<Rightarrow> FilterManager" where
  "NewFilterManager d iface =
     \<lparr>driver = d, interfaceName = (if iface = [] then ''eth0'' else iface), blockedIPs = {}\<rparr>"

definition FilterBlockIP :: "string \<Rightarrow> FilterManager \<Rightarrow> FilterManager \<times> string option" where
  "FilterBlockIP ip fm =
     (case ParseIP ip of
        None \<Rightarrow> (fm, Some (''invalid IP address: '' @ ip))
      | Some _ \<Rightarrow> (fm\<lparr>blockedIPs := insert ip (blockedIPs fm)\<rparr>, None))"

definition FilterUnblockIP :: "string \<Rightarrow> FilterManager \<Rightarrow> FilterManager \<times> string option" where
  "FilterUnblockIP ip fm = (fm\<lparr>blockedIPs := blockedIPs fm - {ip}\<rparr>, None)"

definition IsBlocked :: "FilterManager \<Rightarrow> string \<Rightarrow> bool" where
  "IsBlocked fm ip \<longleftrightarrow> ip \<in> blockedIPs fm"

definition xdp_line :: "string \<Rightarrow> string" where
  "xdp_line ip = ''// xdp_drop_map_update('' @ quot @ ip @ quot @ '');'' @ nl"

definition drop_line :: "string \<Rightarrow> string" where
  "drop_line ip = ''iptables -I INPUT -s '' @ ip @ '' -j DROP'' @ nl"

definition RenderScript :: "FilterManager \<Rightarrow> string list \<Rightarrow> string" where
  "RenderScript fm ks =
     (if driver fm = DriverEBPF then
        ''// Shinkiro eBPF XDP Packet Filter Map Update'' @ nl
        @ ''// Drops ingress packets before socket allocation (XDP_DROP)'' @ nl
        @ ''#include <linux/bpf.h>'' @ nl @ nl
        @ concat (map xdp_line ks)
      else if driver fm = DriverNFTables then
        ''#!/usr/sbin/nft -f'' @ nl
        @ ''table inet shinkiro_guard {'' @ nl
        @ ''    set blacklist {'' @ nl
        @ ''        type ipv4_addr'' @ nl
        @ ''        elements = { '' @ join '', '' ks @ '' }'' @ nl
        @ ''    }'' @ nl
        @ ''    chain ingress {'' @ nl
        @ ''        type filter hook ingress device '' @ interfaceName fm @ '' priority -500; policy accept;'' @ nl
        @ ''        ip saddr @blacklist counter drop'' @ nl
        @ ''    }'' @ nl
        @ ''}'' @ nl
      else
        ''# Shinkiro iptables auto-mitigation'' @ nl
        @ concat (map drop_line ks))"

section \<open>Any use of the manager\<close>

text \<open>A sequence of the two operations, and the blacklist it stands for.\<close>

datatype filter_op = Block string | Unblock string

fun filter_step :: "filter_op \<Rightarrow> FilterManager \<Rightarrow> FilterManager" where
  "filter_step (Block ip) fm = fst (FilterBlockIP ip fm)"
| "filter_step (Unblock ip) fm = fst (FilterUnblockIP ip fm)"

definition filter_run :: "filter_op list \<Rightarrow> FilterManager \<Rightarrow> FilterManager" where
  "filter_run ops fm = fold filter_step ops fm"

text \<open>The specification: an address is blocked if the last operation that names it is a block of an address.\<close>

definition names_op :: "string \<Rightarrow> filter_op \<Rightarrow> bool" where
  "names_op ip op \<longleftrightarrow> op = Unblock ip \<or> op = Block ip"

definition blacklisted :: "filter_op list \<Rightarrow> string \<Rightarrow> bool" where
  "blacklisted ops ip \<longleftrightarrow>
     ParseIP ip \<noteq> None \<and> (case filter (names_op ip) (rev ops) of [] \<Rightarrow> False | op # _ \<Rightarrow> op = Block ip)"

lemma filter_run_fields [simp]:
  "driver (filter_run ops fm) = driver fm" "interfaceName (filter_run ops fm) = interfaceName fm"
proof -
  have "driver (filter_step op fm) = driver fm \<and> interfaceName (filter_step op fm) = interfaceName fm" for op fm
    by (cases op) (simp_all add: FilterBlockIP_def FilterUnblockIP_def split: option.splits)
  then show "driver (filter_run ops fm) = driver fm" "interfaceName (filter_run ops fm) = interfaceName fm"
    by (induction ops arbitrary: fm) (simp_all add: filter_run_def)
qed

lemma filter_run_blocked: "IsBlocked (filter_run ops (NewFilterManager d i)) ip \<longleftrightarrow> blacklisted ops ip"
proof (induction ops rule: rev_induct)
  case Nil
  show ?case by (simp add: filter_run_def NewFilterManager_def IsBlocked_def blacklisted_def)
next
  case (snoc op ops)
  then show ?case
    by (cases op)
       (auto simp: filter_run_def IsBlocked_def blacklisted_def names_op_def FilterBlockIP_def FilterUnblockIP_def
        split: option.splits list.splits)
qed

text \<open>What can be in a rendered script: the command lines are one per address, each an address literal.\<close>

lemma blacklisted_chars: "blacklisted ops ip \<Longrightarrow> ip \<noteq> [] \<and> (\<forall>c \<in> set ip. addr_char c)"
  by (auto simp: blacklisted_def dest: ParseIP_accepts)

lemma addr_char_graphic: "addr_char c \<Longrightarrow> graphic c"
  by (auto simp: addr_char_def graphic_def hex_val_def Let_def split: if_splits)

lemma addr_char_plain: "addr_char c \<Longrightarrow> c \<notin> {CHR '','', CHR ''{'', CHR ''}'', CHR ''#''}"
  by (auto simp: addr_char_def hex_val_def)

lemma blacklisted_token: "blacklisted ops ip \<Longrightarrow> token ip"
  using blacklisted_chars by (auto simp: token_def intro: addr_char_graphic)

section \<open>The script as the shell and as nft read it\<close>

definition script_commands :: "string \<Rightarrow> string list list" where
  "script_commands s = map str_fields (filter (\<lambda>l. l \<noteq> [] \<and> \<not> has_prefix l ''#'') (split_char (CHR 0x0A) s))"

definition drop_args :: "string \<Rightarrow> string list" where
  "drop_args ip = [''iptables'', ''-I'', ''INPUT'', ''-s'', ip, ''-j'', ''DROP'']"

definition nft_elements :: "string \<Rightarrow> string list" where
  "nft_elements s =
     (let set_line = split_char (CHR 0x0A) s ! 4;
          body = takeWhile (\<lambda>c. c \<noteq> CHR ''}'') (drop 1 (dropWhile (\<lambda>c. c \<noteq> CHR ''{'') set_line))
      in filter (\<lambda>e. e \<noteq> []) (map trim_space (split_char (CHR '','') body)))"

lemma drop_line_parse:
  assumes "token ip"
  shows "split_char (CHR 0x0A) (drop_line ip @ s) = (''iptables -I INPUT -s '' @ ip @ '' -j DROP'') # split_char (CHR 0x0A) s"
    and "str_fields (''iptables -I INPUT -s '' @ ip @ '' -j DROP'') = drop_args ip"
proof -
  have "drop_line ip @ s = (''iptables -I INPUT -s '' @ ip @ '' -j DROP'') @ CHR 0x0A # s" by (simp add: drop_line_def)
  then show "split_char (CHR 0x0A) (drop_line ip @ s) = (''iptables -I INPUT -s '' @ ip @ '' -j DROP'') # split_char (CHR 0x0A) s"
    using token_newline [OF assms]
      split_char_append [of "CHR 0x0A" "''iptables -I INPUT -s '' @ ip @ '' -j DROP''" s] by simp
  have words: "token ''iptables''" "token ''-I''" "token ''INPUT''" "token ''-s''" "token ''-j''" "token ''DROP''"
    by (simp_all add: token_def graphic_def)
  have "''iptables -I INPUT -s '' @ ip @ '' -j DROP'' =
      ''iptables'' @ CHR 0x20 # ''-I'' @ CHR 0x20 # ''INPUT'' @ CHR 0x20 # ''-s'' @ CHR 0x20 # ip @ CHR 0x20 # ''-j'' @ CHR 0x20 # ''DROP''"
    by simp
  then show "str_fields (''iptables -I INPUT -s '' @ ip @ '' -j DROP'') = drop_args ip"
    unfolding drop_args_def by (simp only: token_fields words assms)
qed

lemma drop_lines_commands: "\<forall>ip \<in> set ips. token ip \<Longrightarrow> script_commands (concat (map drop_line ips)) = map drop_args ips"
proof (induction ips)
  case (Cons ip ips)
  then show ?case using drop_line_parse(1) [of ip "concat (map drop_line ips)"] drop_line_parse(2) [of ip] by (simp add: script_commands_def)
qed (simp add: script_commands_def)

lemma element_list_parse:
  assumes "ips \<noteq> []" "\<forall>ip \<in> set ips. token ip \<and> CHR '','' \<notin> set ip"
  shows "map trim_space (split_char (CHR '','') (CHR '' '' # join '', '' ips @ '' '')) = ips"
proof -
  have pad: "trim_space (CHR '' '' # ip @ s) = ip" if "token ip" "s \<in> {[], '' ''}" for ip s
  proof -
    from that(1) obtain c t where ip: "ip = c # t" "graphic c" by (cases ip) (auto simp: token_def)
    from that(1) obtain t' c' where ip': "ip = t' @ [c']" "graphic c'" by (cases ip rule: rev_cases) (auto simp: token_def)
    have "trim_left_space (CHR '' '' # ip @ s) = ip @ s" using ip by simp
    moreover have "trim_rev_space (rev (ip @ s)) = rev ip" using that(2) ip' by auto
    ultimately show ?thesis by (simp add: trim_space_def)
  qed
  show ?thesis
    using assms
  proof (induction ips rule: induct_list012)
    case (2 ip)
    then have "split_char (CHR '','') (CHR '' '' # ip @ '' '') = [CHR '' '' # ip @ '' '']" by (intro split_char_none) auto
    with 2 pad [of ip "'' ''"] show ?case by simp
  next
    case (3 ip ip' ips)
    then have "split_char (CHR '','') ((CHR '' '' # ip) @ CHR '','' # CHR '' '' # join '', '' (ip' # ips) @ '' '') =
        (CHR '' '' # ip) # split_char (CHR '','') (CHR '' '' # join '', '' (ip' # ips) @ '' '')"
      by (intro split_char_append) auto
    with 3 pad [of ip "[]"] show ?case by simp
  qed simp
qed

text \<open>
  C19: The kernel script drops exactly the blacklist, whatever was asked to be blocked. After any blocks and
  unblocks, the rendered set is the addresses whose last operation was a block; every text in it is an
  address literal of hexadecimal digits, dots and colons; with iptables the script reads as one drop
  command for each and nothing else; and with nftables the set line reads as exactly these elements. So a
  text that is not an address can never reach the script.
\<close>

theorem kernel_script_exact:
  assumes "distinct ks" "set ks = blockedIPs (filter_run ops (NewFilterManager d iface))"
  shows "set ks = {ip. blacklisted ops ip} \<and> (\<forall>ip \<in> set ks. \<forall>c \<in> set ip. addr_char c)
   \<and> (d \<noteq> DriverEBPF \<and> d \<noteq> DriverNFTables \<longrightarrow>
        script_commands (RenderScript (filter_run ops (NewFilterManager d iface)) ks) = map drop_args ks)
   \<and> (d = DriverNFTables \<longrightarrow> nft_elements (RenderScript (filter_run ops (NewFilterManager d iface)) ks) = ks)"
proof -
  let ?fm = "filter_run ops (NewFilterManager d iface)"
  have mem: "ip \<in> set ks \<longleftrightarrow> blacklisted ops ip" for ip
    using assms(2) filter_run_blocked [of ops d iface ip] by (simp add: IsBlocked_def)
  have chars: "\<forall>ip \<in> set ks. \<forall>c \<in> set ip. addr_char c" using mem blacklisted_chars by blast
  have tok: "\<forall>ip \<in> set ks. token ip" using mem blacklisted_token by blast
  have plain: "\<forall>ip \<in> set ks. token ip \<and> CHR '','' \<notin> set ip" using tok chars addr_char_plain by blast
  have "script_commands (RenderScript ?fm ks) = map drop_args ks" if "d \<noteq> DriverEBPF" "d \<noteq> DriverNFTables"
  proof -
    have "split_char (CHR 0x0A) (''# Shinkiro iptables auto-mitigation'' @ nl @ s) =
        ''# Shinkiro iptables auto-mitigation'' # split_char (CHR 0x0A) s" for s
      by simp
    then show ?thesis
      using that drop_lines_commands [OF tok]
      by (simp add: RenderScript_def NewFilterManager_def script_commands_def)
  qed
  moreover have "nft_elements (RenderScript ?fm ks) = ks" if d: "d = DriverNFTables"
  proof -
    let ?line = "''        elements = { '' @ join '', '' ks @ '' }''"
    have "set (join '', '' ks) \<subseteq> {CHR '','', CHR '' ''} \<union> \<Union> (set ` set ks)" using set_join [of "'', ''" ks] by simp
    then have free: "CHR 0x0A \<notin> set (join '', '' ks)" "CHR ''}'' \<notin> set (join '', '' ks)"
      using tok token_newline chars addr_char_plain by blast+
    have "\<exists>rest. split_char (CHR 0x0A) (RenderScript ?fm ks) =
        ''#!/usr/sbin/nft -f'' # ''table inet shinkiro_guard {'' # ''    set blacklist {'' # ''        type ipv4_addr''
        # ?line # rest"
      using split_char_append [of "CHR 0x0A" ?line] free(1)
      by (simp add: RenderScript_def d NewFilterManager_def DriverNFTables_def DriverEBPF_def)
    then have line: "split_char (CHR 0x0A) (RenderScript ?fm ks) ! 4 = ?line" by auto
    have "takeWhile (\<lambda>c. c \<noteq> CHR ''}'') (CHR '' '' # join '', '' ks @ '' }'') = CHR '' '' # join '', '' ks @ '' ''"
    proof -
      have "takeWhile (\<lambda>c. c \<noteq> CHR ''}'') (join '', '' ks @ '' }'') = join '', '' ks @ takeWhile (\<lambda>c. c \<noteq> CHR ''}'') '' }''"
        using free(2) by (intro takeWhile_append2) auto
      then show ?thesis by simp
    qed
    then have "nft_elements (RenderScript ?fm ks) =
        filter (\<lambda>e. e \<noteq> []) (map trim_space (split_char (CHR '','') (CHR '' '' # join '', '' ks @ '' '')))"
      by (simp add: nft_elements_def line)
    also have "\<dots> = ks"
    proof (cases "ks = []")
      case False
      with element_list_parse [OF False plain] tok show ?thesis by (auto simp: token_def filter_id_conv)
    qed (simp add: trim_space_def)
    finally show ?thesis .
  qed
  ultimately show ?thesis using mem chars by blast
qed

theorem kernel_script_exact_witness:
  "script_commands (RenderScript (filter_run [Block ''192.0.2.7'', Block ''1.2.3.4; reboot'', Block ''192.0.2.8'', Unblock ''192.0.2.8'']
       (NewFilterManager DriverIPTables [])) [''192.0.2.7'']) = [drop_args ''192.0.2.7'']"
proof -
  let ?ops = "[Block ''192.0.2.7'', Block ''1.2.3.4; reboot'', Block ''192.0.2.8'', Unblock ''192.0.2.8'']"
  have p: "ParseIP ''192.0.2.7'' \<noteq> None" "ParseIP ''1.2.3.4; reboot'' = None" "ParseIP ''192.0.2.8'' \<noteq> None"
    by (simp_all add: ParseIP_def parse_v4_def dec_val_def Let_def)
  have "set [''192.0.2.7''] = blockedIPs (filter_run ?ops (NewFilterManager DriverIPTables []))"
    using p by (auto simp: filter_run_def NewFilterManager_def FilterBlockIP_def FilterUnblockIP_def)
  from kernel_script_exact [OF _ this] show ?thesis
    by (simp add: DriverIPTables_def DriverEBPF_def DriverNFTables_def)
qed

text \<open>
  Two limits of the set of texts: an address blocked under one spelling is neither reported nor removed under
  another, and IPv6 addresses are accepted although the nftables set is declared for IPv4.
\<close>

lemma parse_loopback6: "ParseIP ''::1'' = Some (replicate 15 0 @ [1])" "ParseIP ''::01'' = Some (replicate 15 0 @ [1])"
proof -
  have "v6_loop [] (Some 0) ''1'' = Some ([0, 1], Some 0, [])" "v6_loop [] (Some 0) ''01'' = Some ([0, 1], Some 0, [])"
    by (subst v6_loop.simps, simp add: hex_val_def Let_def)+
  then show "ParseIP ''::1'' = Some (replicate 15 0 @ [1])" "ParseIP ''::01'' = Some (replicate 15 0 @ [1])"
    by (simp_all add: ParseIP_def parse_v6_def v6_expand_def eval_nat_numeral)
qed

lemma filter_spelling:
  "ParseIP ''::01'' = ParseIP ''::1''"
  "blacklisted [Block ''::1'', Unblock ''::01''] ''::1''"
  "\<not> blacklisted [Block ''::1''] ''::01''"
  by (simp_all add: parse_loopback6 blacklisted_def names_op_def)

end
