(* ===== verification/Go_Url.thy ===== *)
theory Go_Url
  imports Go_Strings "HOL-Library.AList" "HOL-Library.List_Lexorder" "HOL-Library.Char_ord"
begin

text \<open>
  The query strings of \<open>net/url\<close>: escaping, parsing and encoding. \<open>url.Values\<close> is an association list
  from keys to value lists; \<open>Encode\<close> writes it sorted by key, in byte order.
\<close>

section \<open>Escaping\<close>

definition unreserved :: "char \<Rightarrow> bool" where
  "unreserved c \<longleftrightarrow>
     (let n = (of_char c :: nat)
      in 48 \<le> n \<and> n \<le> 57 \<or> 65 \<le> n \<and> n \<le> 90 \<or> 97 \<le> n \<and> n \<le> 122 \<or> c \<in> set ''-_.~'')"

definition query_escape_char :: "char \<Rightarrow> string" where
  "query_escape_char c =
     (if unreserved c then [c] else if c = CHR '' '' then ''+'' else CHR ''%'' # hex02 (byte_of c))"

definition query_escape :: "string \<Rightarrow> string" where
  "query_escape s = concat (map query_escape_char s)"

fun query_unescape :: "string \<Rightarrow> string option" where
  "query_unescape [] = Some []"
| "query_unescape (c # s) =
     (if c = CHR ''%'' then
        (case s of
           h # l # r \<Rightarrow>
             (case (hex_val h, hex_val l) of
                (Some x, Some y) \<Rightarrow> map_option (Cons (char_of (16 * x + y))) (query_unescape r)
              | _ \<Rightarrow> None)
         | _ \<Rightarrow> None)
      else map_option (Cons (if c = CHR ''+'' then CHR '' '' else c)) (query_unescape s))"

lemma query_unescape_hex: "query_unescape (CHR ''%'' # hex02 (byte_of c) @ t) = map_option (Cons c) (query_unescape t)"
proof -
  have "char_of (16 * (of_char c div 16) + of_char c mod 16 :: nat) = c" by (simp only: mult_div_mod_eq char_of_char)
  then show ?thesis by (simp add: hex02_def hex_val_hex_digit_upper char_div_16)
qed

lemma query_unescape_char: "query_unescape (query_escape_char c @ t) = map_option (Cons c) (query_unescape t)"
proof -
  have plain: "query_unescape (c # t) = map_option (Cons (if c = CHR ''+'' then CHR '' '' else c)) (query_unescape t)"
    if "c \<noteq> CHR ''%''" for c using that by (subst query_unescape.simps) simp
  have "unreserved c \<Longrightarrow> c \<noteq> CHR ''%'' \<and> c \<noteq> CHR ''+''" by (auto simp: unreserved_def Let_def)
  then show ?thesis
    using plain [of c] plain [of "CHR ''+''"] query_unescape_hex [of c t]
    by (simp add: query_escape_char_def del: query_unescape.simps(2))
qed

lemma query_unescape_escape: "query_unescape (query_escape s) = Some s"
  by (induction s) (simp_all add: query_escape_def query_unescape_char)

lemma query_escape_chars: "c \<in> set (query_escape s) \<Longrightarrow> unreserved c \<or> c = CHR ''+'' \<or> c = CHR ''%''"
proof -
  have hex: "unreserved (hex_digit_upper d)" if "d < 16" for d
    using that by (auto simp: unreserved_def hex_digit_upper_range Let_def)
  assume "c \<in> set (query_escape s)"
  then obtain d where "c \<in> set (query_escape_char d)" by (auto simp: query_escape_def)
  then show ?thesis
    using hex [of "of_char d div 16"] hex [of "of_char d mod 16"] char_div_16 [of d]
    by (auto simp: query_escape_char_def hex02_def split: if_splits)
qed

lemma query_escape_no_separators:
  "CHR ''&'' \<notin> set (query_escape s)" "CHR ''='' \<notin> set (query_escape s)" "CHR '';'' \<notin> set (query_escape s)"
  by (auto dest!: query_escape_chars simp: unreserved_def Let_def)

section \<open>Values\<close>

type_synonym Values = "(string \<times> string list) list"

definition values_get :: "Values \<Rightarrow> string \<Rightarrow> string list" where
  "values_get q k = (case map_of q k of None \<Rightarrow> [] | Some vs \<Rightarrow> vs)"

definition SetQuery :: "string \<Rightarrow> string \<Rightarrow> Values \<Rightarrow> Values" where
  "SetQuery k v q = AList.update k [v] q"

definition cut_equals :: "string \<Rightarrow> string \<times> string" where
  "cut_equals s = (takeWhile (\<lambda>c. c \<noteq> CHR ''='') s, drop 1 (dropWhile (\<lambda>c. c \<noteq> CHR ''='') s))"

text \<open>A piece with a semicolon or a bad escape is skipped.\<close>

definition add_piece :: "string \<Rightarrow> Values \<Rightarrow> Values" where
  "add_piece p q =
     (if p = [] \<or> CHR '';'' \<in> set p then q
      else (case cut_equals p of
              (k, v) \<Rightarrow>
                (case (query_unescape k, query_unescape v) of
                   (Some k, Some v) \<Rightarrow> AList.update k (values_get q k @ [v]) q
                 | _ \<Rightarrow> q)))"

definition ParseQuery :: "string \<Rightarrow> Values" where
  "ParseQuery s = foldl (\<lambda>q p. add_piece p q) [] (split_char CHR ''&'' s)"

definition encode_pieces :: "Values \<Rightarrow> string list" where
  "encode_pieces q =
     concat (map (\<lambda>k. map (\<lambda>v. query_escape k @ ''='' @ query_escape v) (values_get q k)) (sort (map fst q)))"

definition EncodeQuery :: "Values \<Rightarrow> string" where
  "EncodeQuery q = join ''&'' (encode_pieces q)"

section \<open>Encoding is decoded\<close>

lemma cut_equals_append: "CHR ''='' \<notin> set k \<Longrightarrow> cut_equals (k @ CHR ''='' # v) = (k, v)"
  by (induction k) (auto simp: cut_equals_def)

lemma add_piece_encoded:
  "add_piece (query_escape k @ ''='' @ query_escape v) q = AList.update k (values_get q k @ [v]) q"
  using cut_equals_append [OF query_escape_no_separators(2), of k "query_escape v"]
  by (simp add: add_piece_def query_unescape_escape query_escape_no_separators)

lemma ParseQuery_join:
  assumes "ps \<noteq> []" "\<forall>p \<in> set ps. CHR ''&'' \<notin> set p"
  shows "ParseQuery (join ''&'' ps) = foldl (\<lambda>q p. add_piece p q) [] ps"
  using split_char_join [OF assms] by (simp add: ParseQuery_def)

text \<open>A query with one value per key is decoded to the same values.\<close>

lemma fold_singletons:
  assumes "distinct ks"
  shows "map_of (foldl (\<lambda>q p. add_piece p q) q0 (map (\<lambda>k. query_escape k @ ''='' @ query_escape (f k)) ks)) k =
    (if k \<in> set ks then Some (values_get q0 k @ [f k]) else map_of q0 k)"
  using assms
proof (induction ks arbitrary: q0)
  case (Cons a ks)
  then show ?case using add_piece_encoded [of a "f a" q0] by (auto simp: update_conv' values_get_def)
qed simp

lemma ParseQuery_EncodeQuery:
  assumes "q \<noteq> []" "distinct (map fst q)" "\<forall>(k, vs) \<in> set q. \<exists>v. vs = [v]"
  shows "map_of (ParseQuery (EncodeQuery q)) = map_of q"
proof -
  let ?f = "\<lambda>k. hd (values_get q k)" and ?ks = "sort (map fst q)"
  have one: "values_get q k = [?f k]" if k: "k \<in> set (map fst q)" for k
  proof -
    from k obtain vs where vs: "(k, vs) \<in> set q" by auto
    with assms(2) have "map_of q k = Some vs" by simp
    moreover from assms(3) vs obtain v where "vs = [v]" by fast
    ultimately show ?thesis by (simp add: values_get_def)
  qed
  have p: "encode_pieces q = map (\<lambda>k. query_escape k @ ''='' @ query_escape (?f k)) ?ks"
  proof -
    have "concat (map (\<lambda>k. map (\<lambda>v. query_escape k @ ''='' @ query_escape v) (values_get q k)) ks) =
        map (\<lambda>k. query_escape k @ ''='' @ query_escape (?f k)) ks" if "set ks \<subseteq> set (map fst q)" for ks
      using that
    proof (induction ks)
      case (Cons k ks)
      then have "values_get q k = [?f k]" by (intro one) simp
      then obtain v where "values_get q k = [v]" by blast
      with Cons show ?case by simp
    qed simp
    then show ?thesis unfolding encode_pieces_def by simp
  qed
  have ne: "?ks \<noteq> []" using assms(1) by (metis length_0_conv length_map length_sort)
  have "\<forall>s \<in> set (encode_pieces q). CHR ''&'' \<notin> set s"
    unfolding p using query_escape_no_separators(1) by fastforce
  with ParseQuery_join [of "encode_pieces q"] ne
  have dec: "ParseQuery (EncodeQuery q) = foldl (\<lambda>q p. add_piece p q) [] (encode_pieces q)"
    unfolding EncodeQuery_def p by simp
  have "map_of (ParseQuery (EncodeQuery q)) k = map_of q k" for k
  proof (cases "k \<in> set (map fst q)")
    case True
    then obtain vs where "map_of q k = Some vs" by (metis map_of_eq_None_iff not_None_eq list.set_map)
    with True one [OF True] show ?thesis
      unfolding dec p fold_singletons [OF distinct_sort [THEN iffD2, OF assms(2)]] by (simp add: values_get_def)
  next
    case False
    then have "map_of q k = None" by (simp add: map_of_eq_None_iff)
    with False show ?thesis
      unfolding dec p fold_singletons [OF distinct_sort [THEN iffD2, OF assms(2)]] by simp
  qed
  then show ?thesis by blast
qed

end
