(* ===== verification/Feeds.thy ===== *)
theory Feeds
  imports Json Go_Url
begin

text \<open>
  The two reputation clients of \<open>internal/intel/feeds.go\<close>: ThreatFox (a JSON post) and AbuseIPDB (a query).
  An operation returns the request it hands to the HTTP client, if any, and its result: an error or a value.
  The services, the network and the JSON codec are parameters: \<open>send\<close> answers a request, \<open>tf_marshal\<close> and the
  \<open>decode\<close> functions are the codec (an error is its text), \<open>check_url\<close> is the validation of an address by
  \<open>http.NewRequest\<close>, and \<open>parse_url\<close> the parser of \<open>net/url\<close>, which gives the text before the query and
  the query. The environment is a function from names to values.
\<close>

section \<open>Requests, replies, errors\<close>

record HttpRequest =
  Method :: string
  ReqURL :: string
  Headers :: "(string \<times> string) list"
  ReqBody :: "string option"

text \<open>What the client sees: no answer, or a status, a body and perhaps an error while it is read.\<close>

datatype HttpReply = NoReply string | Reply int string "string option"

datatype feed_error =
    ErrMissingAPIKey string string
  | MarshalFailed string
  | BadRequest string
  | RequestFailed string
  | ReadFailed string
  | BadStatus int string
  | DecodeFailed string
  | BadQueryStatus string
  | DataDecodeFailed string
  | AddressRequired

definition EnvThreatFoxAPIKey :: string where "EnvThreatFoxAPIKey = ''THREATFOX_API_KEY''"
definition EnvAbuseIPDBAPIKey :: string where "EnvAbuseIPDBAPIKey = ''ABUSEIPDB_API_KEY''"
definition defaultThreatFoxURL :: string where "defaultThreatFoxURL = ''https://threatfox-api.abuse.ch/api/v1/''"
definition defaultAbuseIPDBURL :: string where "defaultAbuseIPDBURL = ''https://api.abuseipdb.com/api/v2''"

definition truncateBytes :: "string \<Rightarrow> nat \<Rightarrow> string" where
  "truncateBytes s n = (if length s \<le> n then s else take n s @ ''...'')"

text \<open>Sending a request and reading at most \<open>limit\<close> bytes of the answer; only a status 2xx is accepted.\<close>

definition http_exchange :: "(HttpRequest \<Rightarrow> HttpReply) \<Rightarrow> nat \<Rightarrow> HttpRequest \<Rightarrow> feed_error + string" where
  "http_exchange send limit req =
     (case send req of
        NoReply err \<Rightarrow> Inl (RequestFailed err)
      | Reply status body (Some err) \<Rightarrow> Inl (ReadFailed err)
      | Reply status body None \<Rightarrow>
          (let respBody = take limit body
           in if status < 200 \<or> status \<ge> 300 then Inl (BadStatus status (truncateBytes respBody 200))
              else Inr respBody))"

section \<open>ThreatFox\<close>

record ThreatFoxClient =
  TFBaseURL :: string
  TFAPIKey :: string

definition NewThreatFoxClient :: "(string \<Rightarrow> string) \<Rightarrow> string \<Rightarrow> ThreatFoxClient" where
  "NewThreatFoxClient getenv apiKey =
     (let apiKey = (if apiKey = [] then getenv EnvThreatFoxAPIKey else apiKey)
      in \<lparr>TFBaseURL = defaultThreatFoxURL, TFAPIKey = trim_space apiKey\<rparr>)"

record ThreatFoxIOC =
  IocID :: string
  IOC :: string
  IocThreatType :: string
  IOCType :: string
  Malware :: string
  MalwarePrintable :: string
  IocConfidence :: int
  IocFirstSeen :: string
  LastSeen :: string
  IocReporter :: string
  IocTags :: "string list"
  IocReference :: string

text \<open>The envelope; \<open>Data\<close> is the raw text of its field.\<close>

record ThreatFoxResponse =
  QueryStatus :: string
  Data :: string

record TFCodec =
  tf_marshal :: "json \<Rightarrow> string + string"
  decode_envelope :: "string \<Rightarrow> string + ThreatFoxResponse"
  decode_list :: "string \<Rightarrow> string + ThreatFoxIOC list"
  decode_one :: "string \<Rightarrow> string + ThreatFoxIOC"

definition read_iocs :: "TFCodec \<Rightarrow> string \<Rightarrow> feed_error + ThreatFoxIOC list" where
  "read_iocs codec respBody =
     (case decode_envelope codec respBody of
        Inl err \<Rightarrow> Inl (DecodeFailed err)
      | Inr envelope \<Rightarrow>
          (let status = to_lower (QueryStatus envelope) in
           if status \<noteq> [] \<and> status \<noteq> ''ok'' \<and> status \<noteq> ''no_result'' then Inl (BadQueryStatus (QueryStatus envelope))
           else if status = ''no_result'' \<or> Data envelope = [] \<or> Data envelope = ''null'' then Inr []
           else
             (case decode_list codec (Data envelope) of
                Inr iocs \<Rightarrow> Inr iocs
              | Inl err \<Rightarrow>
                  (case decode_one codec (Data envelope) of
                     Inl err2 \<Rightarrow> Inl (DataDecodeFailed err)
                   | Inr one \<Rightarrow> if IOC one \<noteq> [] then Inr [one] else Inr []))))"

definition postIOCs ::
    "TFCodec \<Rightarrow> (string \<Rightarrow> string option) \<Rightarrow> (HttpRequest \<Rightarrow> HttpReply) \<Rightarrow> ThreatFoxClient \<Rightarrow> json \<Rightarrow>
     HttpRequest option \<times> (feed_error + ThreatFoxIOC list)" where
  "postIOCs codec check_url send c payload =
     (case tf_marshal codec payload of
        Inl err \<Rightarrow> (None, Inl (MarshalFailed err))
      | Inr raw \<Rightarrow>
          (let base = (if TFBaseURL c = [] then defaultThreatFoxURL else TFBaseURL c) in
           case check_url base of
             Some err \<Rightarrow> (None, Inl (BadRequest err))
           | None \<Rightarrow>
               (let req = \<lparr>Method = ''POST'', ReqURL = base,
                           Headers = [(''Content-Type'', ''application/json''), (''Auth-Key'', TFAPIKey c)],
                           ReqBody = Some raw\<rparr>
                in (Some req,
                    case http_exchange send (8 * 1024 * 1024) req of
                      Inl err \<Rightarrow> Inl err
                    | Inr respBody \<Rightarrow> read_iocs codec respBody))))"

definition SearchIOC ::
    "TFCodec \<Rightarrow> (string \<Rightarrow> string option) \<Rightarrow> (HttpRequest \<Rightarrow> HttpReply) \<Rightarrow> ThreatFoxClient \<Rightarrow> string \<Rightarrow>
     HttpRequest option \<times> (feed_error + ThreatFoxIOC list)" where
  "SearchIOC codec check_url send c searchTerm =
     (if TFAPIKey c = [] then (None, Inl (ErrMissingAPIKey EnvThreatFoxAPIKey ''ThreatFox''))
      else postIOCs codec check_url send c
             (JObj [(''query'', JStr ''search_ioc''), (''search_term'', JStr searchTerm)]))"

definition RecentIOCs ::
    "TFCodec \<Rightarrow> (string \<Rightarrow> string option) \<Rightarrow> (HttpRequest \<Rightarrow> HttpReply) \<Rightarrow> ThreatFoxClient \<Rightarrow> int \<Rightarrow>
     HttpRequest option \<times> (feed_error + ThreatFoxIOC list)" where
  "RecentIOCs codec check_url send c days =
     (if TFAPIKey c = [] then (None, Inl (ErrMissingAPIKey EnvThreatFoxAPIKey ''ThreatFox''))
      else
        (let days = (if days < 1 then 1 else days);
             days = (if days > 7 then 7 else days)
         in postIOCs codec check_url send c (JObj [(''query'', JStr ''get_iocs''), (''days'', JInt days)])))"

section \<open>AbuseIPDB\<close>

record AbuseIPDBClient =
  AIBaseURL :: string
  AIAPIKey :: string

definition NewAbuseIPDBClient :: "(string \<Rightarrow> string) \<Rightarrow> string \<Rightarrow> AbuseIPDBClient" where
  "NewAbuseIPDBClient getenv apiKey =
     (let apiKey = (if apiKey = [] then getenv EnvAbuseIPDBAPIKey else apiKey)
      in \<lparr>AIBaseURL = defaultAbuseIPDBURL, AIAPIKey = trim_space apiKey\<rparr>)"

record AbuseIPDBCheckData =
  IPAddress :: string
  IsPublic :: bool
  IPVersion :: int
  IsWhitelisted :: bool
  AbuseConfidenceScore :: int
  CountryCode :: string
  UsageType :: string
  ISP :: string
  Domain :: string
  Hostnames :: "string list"
  TotalReports :: int
  NumDistinctUsers :: int
  LastReportedAt :: string

definition check_query :: "string \<Rightarrow> string \<Rightarrow> int \<Rightarrow> Values" where
  "check_query raw ip maxAgeInDays =
     (let q = ParseQuery raw;
          q = SetQuery ''ipAddress'' ip q;
          q = SetQuery ''maxAgeInDays'' (dec maxAgeInDays) q
      in SetQuery ''verbose'' [] q)"

definition CheckIP ::
    "(string \<Rightarrow> string + AbuseIPDBCheckData) \<Rightarrow> (string \<Rightarrow> string + string \<times> string) \<Rightarrow> (string \<Rightarrow> string option) \<Rightarrow>
     (HttpRequest \<Rightarrow> HttpReply) \<Rightarrow> AbuseIPDBClient \<Rightarrow> string \<Rightarrow> int \<Rightarrow>
     HttpRequest option \<times> (feed_error + AbuseIPDBCheckData)" where
  "CheckIP decode parse_url check_url send c ip maxAgeInDays =
     (if AIAPIKey c = [] then (None, Inl (ErrMissingAPIKey EnvAbuseIPDBAPIKey ''AbuseIPDB''))
      else if trim_space ip = [] then (None, Inl AddressRequired)
      else
        (let maxAgeInDays = (if maxAgeInDays \<le> 0 then 90 else maxAgeInDays);
             base = (if AIBaseURL c = [] then defaultAbuseIPDBURL else AIBaseURL c)
         in case parse_url (trim_right base ''/'' @ ''/check'') of
              Inl err \<Rightarrow> (None, Inl (BadRequest err))
            | Inr (addr, raw) \<Rightarrow>
                (let url = addr @ ''?'' @ EncodeQuery (check_query raw ip maxAgeInDays) in
                 case check_url url of
                   Some err \<Rightarrow> (None, Inl (BadRequest err))
                 | None \<Rightarrow>
                     (let req = \<lparr>Method = ''GET'', ReqURL = url,
                                 Headers = [(''Key'', AIAPIKey c), (''Accept'', ''application/json'')], ReqBody = None\<rparr>
                      in (Some req,
                          case http_exchange send (4 * 1024 * 1024) req of
                            Inl err \<Rightarrow> Inl err
                          | Inr respBody \<Rightarrow>
                              (case decode respBody of Inl err \<Rightarrow> Inl (DecodeFailed err) | Inr data \<Rightarrow> Inr data))))))"

section \<open>What every call keeps\<close>

text \<open>
  \<open>call_ok\<close>: a call without a key asks nobody and names the variable to set; a call that asks sends the
  key in its header; and a value comes only from an answer with a status 2xx.
\<close>

definition call_ok :: "(HttpRequest \<Rightarrow> HttpReply) \<Rightarrow> string \<Rightarrow> string \<Rightarrow> string \<Rightarrow> HttpRequest option \<times> (feed_error + 'a) \<Rightarrow> bool" where
  "call_ok send key header env call \<longleftrightarrow>
     (key = [] \<longrightarrow> fst call = None \<and> (\<exists>feed. snd call = Inl (ErrMissingAPIKey env feed)))
   \<and> (\<forall>req. fst call = Some req \<longrightarrow> key \<noteq> [] \<and> map_of (Headers req) header = Some key)
   \<and> (\<forall>v. snd call = Inr v \<longrightarrow>
        (\<exists>req status body. fst call = Some req \<and> send req = Reply status body None \<and> 200 \<le> status \<and> status < 300))"

lemma http_exchange_ok:
  "http_exchange send n req = Inr b \<Longrightarrow> \<exists>status body. send req = Reply status body None \<and> 200 \<le> status \<and> status < 300"
  by (auto simp: http_exchange_def Let_def split: HttpReply.splits option.splits if_splits)

lemma call_ok_none: "key \<noteq> [] \<Longrightarrow> call_ok send key h env (None, Inl e)"
  by (simp add: call_ok_def)

lemma call_ok_exchange:
  "key \<noteq> [] \<Longrightarrow> map_of (Headers req) h = Some key \<Longrightarrow>
   call_ok send key h env (Some req, case http_exchange send n req of Inl err \<Rightarrow> Inl err | Inr b \<Rightarrow> f b)"
  by (auto simp: call_ok_def split: sum.splits dest!: http_exchange_ok)

lemma call_ok_missing: "call_ok send [] h env (None, Inl (ErrMissingAPIKey env feed))"
  by (simp add: call_ok_def)

lemmas call_ok_rules = call_ok_none call_ok_exchange call_ok_missing

lemma postIOCs_ok: "TFAPIKey c \<noteq> [] \<Longrightarrow> call_ok send (TFAPIKey c) ''Auth-Key'' env (postIOCs codec check_url send c payload)"
  by (simp add: postIOCs_def Let_def call_ok_rules split: sum.split option.split)

lemma CheckIP_asked:
  "AIAPIKey a \<noteq> [] \<Longrightarrow> call_ok send (AIAPIKey a) ''Key'' EnvAbuseIPDBAPIKey (CheckIP decode parse_url check_url send a ip age)"
  unfolding CheckIP_def
  apply (simp only: if_False Let_def)
  apply (split if_split, intro conjI impI)
   apply (rule call_ok_none, assumption)
  apply (split sum.split, intro conjI allI impI)
   apply (rule call_ok_none, assumption)
  apply (split prod.split, intro allI impI, split option.split, intro conjI allI impI)
   apply (rule call_ok_exchange, assumption, simp)
  apply (rule call_ok_none, assumption)
  done

lemma CheckIP_ok: "call_ok send (AIAPIKey a) ''Key'' EnvAbuseIPDBAPIKey (CheckIP decode parse_url check_url send a ip age)"
proof (cases "AIAPIKey a = []")
  case True
  then have "CheckIP decode parse_url check_url send a ip age = (None, Inl (ErrMissingAPIKey EnvAbuseIPDBAPIKey ''AbuseIPDB''))"
    unfolding CheckIP_def by (rule if_P)
  then show ?thesis unfolding True by (simp only: call_ok_missing)
qed (rule CheckIP_asked)

text \<open>
  C33: The reputation clients never ask anonymously and never trust a failed answer. For every codec, service
  and argument of the three operations: without an API key no request is made and the error names the
  environment variable; a request always carries the key in its header; and a result is returned only for
  an answer with a status from 200 to 299 that was read to its end. A key of spaces counts as none.
\<close>

theorem feed_calls_authenticated:
  "call_ok send (TFAPIKey c) ''Auth-Key'' EnvThreatFoxAPIKey (SearchIOC codec check_url send c term)
   \<and> call_ok send (TFAPIKey c) ''Auth-Key'' EnvThreatFoxAPIKey (RecentIOCs codec check_url send c days)
   \<and> call_ok send (AIAPIKey a) ''Key'' EnvAbuseIPDBAPIKey (CheckIP decode parse_url check_url send a ip age)
   \<and> TFAPIKey (NewThreatFoxClient getenv key) = trim_space (if key = [] then getenv EnvThreatFoxAPIKey else key)
   \<and> AIAPIKey (NewAbuseIPDBClient getenv key) = trim_space (if key = [] then getenv EnvAbuseIPDBAPIKey else key)"
proof -
  have "call_ok send (TFAPIKey c) ''Auth-Key'' EnvThreatFoxAPIKey (SearchIOC codec check_url send c term)"
    by (cases "TFAPIKey c = []") (simp_all add: SearchIOC_def call_ok_missing postIOCs_ok)
  moreover have "call_ok send (TFAPIKey c) ''Auth-Key'' EnvThreatFoxAPIKey (RecentIOCs codec check_url send c days)"
    by (cases "TFAPIKey c = []") (simp_all add: RecentIOCs_def call_ok_missing postIOCs_ok Let_def)
  ultimately show ?thesis using CheckIP_ok by (simp add: NewThreatFoxClient_def NewAbuseIPDBClient_def Let_def)
qed

text \<open>
  C24: The address asked about is the address given. Whatever text the operator or the TUI passes, with
  ampersands, percent signs or spaces, the query of the request decodes to the parameters that were set
  and no others: the address, the age (90 where none is given) and the verbose flag.
\<close>

theorem check_query_exact:
  assumes "fst (CheckIP decode parse_url check_url send c ip age) = Some req"
    and "parse_url (trim_right (if AIBaseURL c = [] then defaultAbuseIPDBURL else AIBaseURL c) ''/'' @ ''/check'') = Inr (addr, [])"
  shows "\<exists>q. ReqURL req = addr @ ''?'' @ q
     \<and> map_of (ParseQuery q) =
         [''ipAddress'' \<mapsto> [ip], ''maxAgeInDays'' \<mapsto> [dec (if age \<le> 0 then 90 else age)], ''verbose'' \<mapsto> [[]]]"
proof -
  let ?q = "check_query [] ip (if age \<le> 0 then 90 else age)"
  have q: "?q = [(''ipAddress'', [ip]), (''maxAgeInDays'', [dec (if age \<le> 0 then 90 else age)]), (''verbose'', [[]])]"
    by (simp add: check_query_def ParseQuery_def add_piece_def SetQuery_def)
  have "map_of (ParseQuery (EncodeQuery ?q)) = map_of ?q" by (rule ParseQuery_EncodeQuery) (simp_all add: q)
  also have "map_of ?q = [''ipAddress'' \<mapsto> [ip], ''maxAgeInDays'' \<mapsto> [dec (if age \<le> 0 then 90 else age)], ''verbose'' \<mapsto> [[]]]"
    unfolding q by (auto simp: fun_eq_iff)
  finally have "map_of (ParseQuery (EncodeQuery ?q)) =
      [''ipAddress'' \<mapsto> [ip], ''maxAgeInDays'' \<mapsto> [dec (if age \<le> 0 then 90 else age)], ''verbose'' \<mapsto> [[]]]" .
  moreover have "ReqURL req = addr @ ''?'' @ EncodeQuery ?q"
    using assms unfolding CheckIP_def Let_def
    by (simp only: sum.case prod.case if_splits split: if_split_asm option.split_asm) auto
  ultimately show ?thesis by blast
qed

definition demo_check :: "HttpRequest option \<times> (feed_error + AbuseIPDBCheckData)" where
  "demo_check =
     CheckIP (\<lambda>_. Inl ''eof'') (\<lambda>u. Inr (u, [])) (\<lambda>_. None) (\<lambda>_. Reply 503 [] None)
       (NewAbuseIPDBClient (\<lambda>_. ''key'') []) ''1.2.3.4&verbose=1'' 0"

theorem check_query_exact_witness:
  "\<exists>req q. fst demo_check = Some req \<and> ReqURL req = ''https://api.abuseipdb.com/api/v2/check?'' @ q
     \<and> map_of (ParseQuery q) ''ipAddress'' = Some [''1.2.3.4&verbose=1'']"
proof -
  let ?c = "NewAbuseIPDBClient (\<lambda>_. ''key'') []"
  have key: "AIAPIKey ?c = ''key''" by code_simp
  have ip: "trim_space ''1.2.3.4&verbose=1'' \<noteq> []" by code_simp
  have base: "trim_right (if AIBaseURL ?c = [] then defaultAbuseIPDBURL else AIBaseURL ?c) ''/'' @ ''/check''
      = ''https://api.abuseipdb.com/api/v2/check''" by code_simp
  obtain req where req: "fst demo_check = Some req"
    unfolding demo_check_def CheckIP_def Let_def key by (simp only: ip if_False simp_thms list.distinct sum.case prod.case option.case fst_conv option.inject)
  from check_query_exact [OF req [unfolded demo_check_def], of "''https://api.abuseipdb.com/api/v2/check''"] base
  obtain q where "ReqURL req = ''https://api.abuseipdb.com/api/v2/check'' @ ''?'' @ q"
    "map_of (ParseQuery q) ''ipAddress'' = Some [''1.2.3.4&verbose=1'']" by auto
  with req show ?thesis by auto
qed

end
