(* ===== verification/Siem.thy ===== *)
theory Siem
  imports Intel_Event Go_Time
begin

text \<open>
  The SIEM export of \<open>internal/intel/siem/cef.go\<close>: one event as an ArcSight CEF record and as an RFC 5424
  line. The specification is a CEF reader: a backslash protects the next character, the header has seven
  fields that end at an unprotected bar, and the rest is a list of \<open>key=value\<close> pairs in which a value
  extends to the word before the next unprotected equals sign.
\<close>

section \<open>The formatter\<close>

definition escapeCEFValue :: "string \<Rightarrow> string" where
  "escapeCEFValue val =
     (let r = replace_all bslash (bslash @ bslash) val;
          r = replace_all ''='' (bslash @ ''='') r;
          r = replace_all ''|'' (bslash @ ''|'') r
      in r)"

text \<open>\<open>UnixNano\<close> wraps to 64 bits, and the division of Go truncates toward zero.\<close>

definition unix_milli :: "time \<Rightarrow> int" where
  "unix_milli t = (let n = wrap64 t in if n < 0 then - ((- n) div 1000000) else n div 1000000)"

definition cef_severity :: "Severity \<Rightarrow> int" where
  "cef_severity sev =
     (if sev = SeverityCritical then 10
      else if sev = SeverityHigh then 8
      else if sev = SeverityMedium then 5
      else if sev = SeverityLow then 3
      else 1)"

definition cef_mitre :: "Event \<Rightarrow> string \<times> string" where
  "cef_mitre ev =
     (case Mitre ev of
        None \<Rightarrow> (''T1595'', ''Active Scanning'')
      | Some m \<Rightarrow> (TechniqueID m, TechniqueName m))"

definition cef_exts :: "Event \<Rightarrow> string list" where
  "cef_exts ev =
     (let (mitreID, mitreName) = cef_mitre ev;
          exts =
            [''src='' @ RemoteIP ev,
             ''spt='' @ dec (RemotePort ev),
             ''dpt='' @ dec (LocalPort ev),
             ''app='' @ DecoyName ev,
             ''act='' @ escapeCEFValue (Action ev),
             ''rt='' @ dec (unix_milli (Timestamp ev)),
             ''cs1='' @ mitreID,
             ''cs1Label=MitreTechniqueID'',
             ''cs2='' @ escapeCEFValue mitreName,
             ''cs2Label=MitreTechniqueName'',
             ''cn1='' @ dec (ThreatScore ev),
             ''cn1Label=ThreatScore''];
          exts = (if Username ev \<noteq> [] then exts @ [''suser='' @ escapeCEFValue (Username ev)] else exts);
          exts = (if Command ev \<noteq> [] then exts @ [''msg='' @ escapeCEFValue (Command ev)] else exts)
      in exts)"

definition FormatCEF :: "Event \<Rightarrow> string \<Rightarrow> string" where
  "FormatCEF ev deviceHost =
     (let deviceHost = (if deviceHost = [] then ''shinkiro-sensor'' else deviceHost)
      in ''CEF:0|Haiagari|Shinkiro|1.0.0|'' @ DecoyName ev @ ''|'' @ escapeCEFValue (Action ev) @ ''|''
         @ dec (cef_severity (Severity ev)) @ ''|'' @ join '' '' (cef_exts ev))"

definition FormatSyslog :: "Event \<Rightarrow> string \<Rightarrow> string" where
  "FormatSyslog ev hostname =
     (let hostname = (if hostname = [] then ''shinkiro-mesh'' else hostname);
          cef = FormatCEF ev hostname
      in ''<134>1 '' @ rfc3339 (Timestamp ev) @ '' '' @ hostname @ '' shinkiro - - - '' @ cef)"

section \<open>A reader of CEF\<close>

text \<open>The characters of a record, each with whether a backslash protects it.\<close>

type_synonym cef_char = "bool \<times> char"

fun cef_chars :: "string \<Rightarrow> cef_char list" where
  "cef_chars [] = []"
| "cef_chars [c] = [(False, c)]"
| "cef_chars (c # d # s) =
     (if c = CHR 0x5C then (True, d) # cef_chars s else (False, c) # cef_chars (d # s))"

abbreviation bare :: "string \<Rightarrow> cef_char list" where
  "bare \<equiv> map (Pair False)"

fun split_on :: "'a \<Rightarrow> 'a list \<Rightarrow> 'a list list" where
  "split_on x [] = [[]]"
| "split_on x (y # ys) = (if y = x then [] # split_on x ys
     else (case split_on x ys of [] \<Rightarrow> [[y]] | p # ps \<Rightarrow> (y # p) # ps))"

fun header_fields :: "nat \<Rightarrow> cef_char list \<Rightarrow> string list \<times> cef_char list" where
  "header_fields 0 cs = ([], cs)"
| "header_fields (Suc n) cs =
     (let (fs, rest) = header_fields n (drop 1 (dropWhile (\<lambda>c. c \<noteq> (False, CHR ''|'')) cs))
      in (map snd (takeWhile (\<lambda>c. c \<noteq> (False, CHR ''|'')) cs) # fs, rest))"

text \<open>The last word of a segment, and what stands before it.\<close>

definition last_word :: "cef_char list \<Rightarrow> string" where
  "last_word seg = map snd (rev (takeWhile (\<lambda>c. c \<noteq> (False, CHR '' '')) (rev seg)))"

definition before_word :: "cef_char list \<Rightarrow> string" where
  "before_word seg = map snd (rev (drop 1 (dropWhile (\<lambda>c. c \<noteq> (False, CHR '' '')) (rev seg))))"

fun ext_pairs :: "string \<Rightarrow> cef_char list list \<Rightarrow> (string \<times> string) list" where
  "ext_pairs k [] = []"
| "ext_pairs k [seg] = [(k, map snd seg)]"
| "ext_pairs k (seg # seg' # segs) = (k, before_word seg) # ext_pairs (last_word seg) (seg' # segs)"

definition cef_extension :: "cef_char list \<Rightarrow> (string \<times> string) list" where
  "cef_extension cs =
     (case split_on (False, CHR ''='') cs of [] \<Rightarrow> [] | seg # segs \<Rightarrow> ext_pairs (last_word seg) segs)"

definition cef_read :: "string \<Rightarrow> string list \<times> (string \<times> string) list" where
  "cef_read s = (let (fs, rest) = header_fields 7 (cef_chars s) in (fs, cef_extension rest))"

section \<open>Escaped text is read back\<close>

definition cef_special :: "char \<Rightarrow> bool" where
  "cef_special c \<longleftrightarrow> c \<in> {CHR 0x5C, CHR ''='', CHR ''|''}"

definition cef_plain :: "string \<Rightarrow> bool" where
  "cef_plain s \<longleftrightarrow> (\<forall>c \<in> set s. \<not> cef_special c)"

lemma cef_plain_simps [simp]:
  "cef_plain []" "cef_plain (c # s) \<longleftrightarrow> \<not> cef_special c \<and> cef_plain s" "cef_plain (s @ t) \<longleftrightarrow> cef_plain s \<and> cef_plain t"
  by (auto simp: cef_plain_def)

lemma escapeCEFValue_chars:
  "escapeCEFValue val = concat (map (\<lambda>c. if cef_special c then [CHR 0x5C, c] else [c]) val)"
  by (induction val) (auto simp: escapeCEFValue_def replace_all_char cef_special_def Let_def)

abbreviation guarded :: "string \<Rightarrow> cef_char list" where
  "guarded \<equiv> map (\<lambda>c. (cef_special c, c))"

lemma cef_chars_Cons: "c \<noteq> CHR 0x5C \<Longrightarrow> cef_chars (c # s) = (False, c) # cef_chars s"
  by (cases s) auto

lemma cef_chars_plain: "cef_plain s \<Longrightarrow> cef_chars (s @ t) = bare s @ cef_chars t"
  by (induction s) (auto simp: cef_chars_Cons cef_special_def)

lemma cef_chars_escaped: "cef_chars (escapeCEFValue v @ t) = guarded v @ cef_chars t"
  by (induction v) (auto simp: escapeCEFValue_chars cef_chars_Cons cef_special_def)

lemma guarded_plain: "cef_plain s \<Longrightarrow> guarded s = bare s"
  by (induction s) auto

lemma map_snd_marked [simp]: "map snd (guarded v) = v" "map snd (bare v) = v"
  by (simp_all add: comp_def)

lemma split_on_append: "x \<notin> set p \<Longrightarrow> split_on x (p @ x # q) = p # split_on x q"
  by (induction p) auto

lemma split_on_none: "x \<notin> set p \<Longrightarrow> split_on x p = [p]"
  by (induction p) auto

lemma header_fields_step:
  "(False, CHR ''|'') \<notin> set f \<Longrightarrow>
   header_fields (Suc n) (f @ (False, CHR ''|'') # cs) = (let (fs, rest) = header_fields n cs in (map snd f # fs, rest))"
  by (simp add: takeWhile_append dropWhile_append takeWhile_eq_all_conv dropWhile_eq_Nil_conv Let_def
      split: prod.splits)

lemma header_fields_all:
  "\<forall>f \<in> set fs. (False, CHR ''|'') \<notin> set f \<Longrightarrow>
   header_fields (length fs) (concat (map (\<lambda>f. f @ [(False, CHR ''|'')]) fs) @ cs) = (map (map snd) fs, cs)"
proof (induction fs)
  case (Cons f fs)
  then show ?case
    using header_fields_step [of f "length fs" "concat (map (\<lambda>f. f @ [(False, CHR ''|'')]) fs) @ cs"]
    by (simp del: header_fields.simps(2))
qed simp

text \<open>The pairs of an extension as they are written: a key, an equals sign, the guarded value.\<close>

fun ext_tail :: "string \<Rightarrow> (string \<times> string) list \<Rightarrow> cef_char list" where
  "ext_tail v [] = guarded v"
| "ext_tail v ((k, w) # r) = guarded v @ (False, CHR '' '') # bare k @ (False, CHR ''='') # ext_tail w r"

definition ext_key :: "string \<Rightarrow> bool" where
  "ext_key k \<longleftrightarrow> cef_plain k \<and> CHR '' '' \<notin> set k"

lemma no_equals [simp]: "(False, CHR ''='') \<notin> set (guarded v)"
  by (auto simp: cef_special_def)

lemma while_bare:
  "CHR '' '' \<notin> set k \<Longrightarrow> takeWhile (\<lambda>c. c \<noteq> (False, CHR '' '')) (bare k @ (False, CHR '' '') # cs) = bare k"
  "CHR '' '' \<notin> set k \<Longrightarrow> dropWhile (\<lambda>c. c \<noteq> (False, CHR '' '')) (bare k @ (False, CHR '' '') # cs) = (False, CHR '' '') # cs"
  "CHR '' '' \<notin> set k \<Longrightarrow> takeWhile (\<lambda>c. c \<noteq> (False, CHR '' '')) (bare k) = bare k"
  by (induction k) auto

lemma word_after_value:
  assumes "CHR '' '' \<notin> set k"
  shows "last_word (guarded v @ (False, CHR '' '') # bare k) = k" "before_word (guarded v @ (False, CHR '' '') # bare k) = v"
  using while_bare(1,2) [of "rev k" "rev (guarded v)"] assms
  by (simp_all add: last_word_def before_word_def rev_map comp_def)

lemma last_word_key: "CHR '' '' \<notin> set k \<Longrightarrow> last_word (bare k) = k"
proof -
  assume "CHR '' '' \<notin> set k"
  then have "takeWhile (\<lambda>c. c \<noteq> (False, CHR '' '')) (bare (rev k)) = bare (rev k)" by (intro while_bare(3)) simp
  then show ?thesis unfolding last_word_def rev_map by (simp only:) (simp add: rev_map comp_def)
qed

lemma ext_pairs_tail:
  "\<forall>(k, w) \<in> set r. ext_key k \<Longrightarrow> ext_pairs k0 (split_on (False, CHR ''='') (ext_tail v r)) = (k0, v) # r"
proof (induction r arbitrary: k0 v)
  case Nil
  show ?case by (simp add: split_on_none [OF no_equals] comp_def)
next
  case (Cons p r)
  obtain k w where p: "p = (k, w)" by (cases p)
  with Cons.prems have k: "CHR '' '' \<notin> set k" "(False, CHR ''='') \<notin> set (bare k)"
    by (auto simp: ext_key_def cef_plain_def cef_special_def)
  have "split_on (False, CHR ''='') (ext_tail v (p # r)) =
      (guarded v @ (False, CHR '' '') # bare k) # split_on (False, CHR ''='') (ext_tail w r)"
    using split_on_append [of "(False, CHR ''='')" "guarded v @ (False, CHR '' '') # bare k" "ext_tail w r"] k p
    by (simp add: cef_special_def image_iff)
  moreover have "ext_pairs k (split_on (False, CHR ''='') (ext_tail w r)) = (k, w) # r"
    using Cons by (simp add: p)
  ultimately show ?case
    using word_after_value [OF k(1), of v]
    by (cases "split_on (False, CHR ''='') (ext_tail w r)") (simp_all add: p)
qed

lemma cef_extension_pairs:
  assumes "\<forall>(k, w) \<in> set ((k0, v) # r). ext_key k"
  shows "cef_extension (bare k0 @ (False, CHR ''='') # ext_tail v r) = (k0, v) # r"
proof -
  have k: "CHR '' '' \<notin> set k0" "(False, CHR ''='') \<notin> set (bare k0)"
    using assms by (auto simp: ext_key_def cef_plain_def cef_special_def)
  with assms show ?thesis
    by (simp add: cef_extension_def split_on_append ext_pairs_tail last_word_key)
qed

section \<open>Every record is read back\<close>

text \<open>How a value is written: escaped, or as it is where it has nothing to escape.\<close>

definition written :: "string \<Rightarrow> string \<Rightarrow> bool" where
  "written raw v \<longleftrightarrow> raw = escapeCEFValue v \<or> raw = v \<and> cef_plain v"

lemma written_chars: "written raw v \<Longrightarrow> cef_chars (raw @ t) = guarded v @ cef_chars t"
  by (auto simp: written_def cef_chars_escaped cef_chars_plain guarded_plain)

definition ext_text :: "string \<times> string \<times> string \<Rightarrow> string" where
  "ext_text = (\<lambda>(k, raw, v). k @ ''='' @ raw)"

lemma cef_chars_join:
  "\<forall>(k, raw, v) \<in> set ((k0, raw0, v0) # r). cef_plain k \<and> written raw v \<Longrightarrow>
   cef_chars (join '' '' (map ext_text ((k0, raw0, v0) # r))) =
     bare k0 @ (False, CHR ''='') # ext_tail v0 (map (\<lambda>(k, raw, v). (k, v)) r)"
proof (induction r arbitrary: k0 raw0 v0)
  case Nil
  then show ?case
    using written_chars [of raw0 v0 "[]"] by (simp add: ext_text_def cef_chars_plain cef_chars_Cons)
next
  case (Cons p r)
  obtain k raw v where p: "p = (k, raw, v)" by (cases p) auto
  have ih: "cef_chars (join '' '' (map ext_text ((k, raw, v) # r))) =
     bare k @ (False, CHR ''='') # ext_tail v (map (\<lambda>(k, raw, v). (k, v)) r)"
    by (rule Cons.IH) (use Cons.prems p in auto)
  have j: "join '' '' (map ext_text ((k0, raw0, v0) # p # r)) =
      k0 @ CHR ''='' # raw0 @ CHR '' '' # join '' '' (map ext_text ((k, raw, v) # r))"
    by (simp add: ext_text_def p)
  have "cef_plain k0" "written raw0 v0" using Cons.prems by simp_all
  then have c: "cef_chars (k0 @ CHR ''='' # raw0 @ CHR '' '' # t) =
      bare k0 @ (False, CHR ''='') # guarded v0 @ (False, CHR '' '') # cef_chars t" for t
    using written_chars [of raw0 v0 "CHR '' '' # t"] by (simp add: cef_chars_plain cef_chars_Cons)
  show ?case unfolding j c ih by (simp add: p)
qed

lemma dec_plain: "cef_plain (dec i)" "(False, CHR ''|'') \<notin> set (bare (dec i))"
proof -
  have d: "\<not> cef_special c" if "c \<in> set (dec i)" for c
    using dec_chars [OF that] by (auto simp: cef_special_def)
  then show "cef_plain (dec i)" by (simp add: cef_plain_def)
  from d [of "CHR ''|''"] show "(False, CHR ''|'') \<notin> set (bare (dec i))" by (auto simp: cef_special_def)
qed

definition cef_facts :: "Event \<Rightarrow> (string \<times> string) list" where
  "cef_facts ev =
     [(''src'', RemoteIP ev), (''spt'', dec (RemotePort ev)), (''dpt'', dec (LocalPort ev)), (''app'', DecoyName ev),
      (''act'', Action ev), (''rt'', dec (unix_milli (Timestamp ev))), (''cs1'', fst (cef_mitre ev)),
      (''cs1Label'', ''MitreTechniqueID''), (''cs2'', snd (cef_mitre ev)), (''cs2Label'', ''MitreTechniqueName''),
      (''cn1'', dec (ThreatScore ev)), (''cn1Label'', ''ThreatScore'')]
     @ (if Username ev \<noteq> [] then [(''suser'', Username ev)] else [])
     @ (if Command ev \<noteq> [] then [(''msg'', Command ev)] else [])"

definition cef_clean :: "Event \<Rightarrow> bool" where
  "cef_clean ev \<longleftrightarrow> cef_plain (DecoyName ev) \<and> cef_plain (RemoteIP ev) \<and> cef_plain (fst (cef_mitre ev))"

lemma cef_exts_facts:
  assumes "cef_clean ev"
  shows "\<exists>r. cef_exts ev = map ext_text ((''src'', RemoteIP ev, RemoteIP ev) # r)
     \<and> (\<forall>(k, raw, v) \<in> set ((''src'', RemoteIP ev, RemoteIP ev) # r). ext_key k \<and> written raw v)
     \<and> (''src'', RemoteIP ev) # map (\<lambda>(k, raw, v). (k, v)) r = cef_facts ev"
proof -
  let ?plain = "\<lambda>(k, v). (k, v, v)" and ?esc = "\<lambda>(k, v). (k, escapeCEFValue v, v)"
  let ?r = "[?plain (''spt'', dec (RemotePort ev)), ?plain (''dpt'', dec (LocalPort ev)), ?plain (''app'', DecoyName ev),
      ?esc (''act'', Action ev), ?plain (''rt'', dec (unix_milli (Timestamp ev))), ?plain (''cs1'', fst (cef_mitre ev)),
      ?plain (''cs1Label'', ''MitreTechniqueID''), ?esc (''cs2'', snd (cef_mitre ev)),
      ?plain (''cs2Label'', ''MitreTechniqueName''), ?plain (''cn1'', dec (ThreatScore ev)), ?plain (''cn1Label'', ''ThreatScore'')]
     @ (if Username ev \<noteq> [] then [?esc (''suser'', Username ev)] else [])
     @ (if Command ev \<noteq> [] then [?esc (''msg'', Command ev)] else [])"
  have "cef_exts ev = map ext_text ((''src'', RemoteIP ev, RemoteIP ev) # ?r)"
    by (simp add: cef_exts_def ext_text_def Let_def split: prod.splits)
  moreover have "\<forall>(k, raw, v) \<in> set ((''src'', RemoteIP ev, RemoteIP ev) # ?r). ext_key k \<and> written raw v"
    using assms by (auto simp: cef_clean_def written_def dec_plain ext_key_def cef_special_def)
  moreover have "(''src'', RemoteIP ev) # map (\<lambda>(k, raw, v). (k, v)) ?r = cef_facts ev"
    by (simp add: cef_facts_def)
  ultimately show ?thesis by blast
qed

text \<open>
  C14: A CEF record is read back exactly, whatever the attacker sent. For an event whose decoy name, address
  and technique identifier hold no backslash, bar or equals sign, the reader recovers the seven header
  fields and every extension with its value: a user name, command or action full of bars, equals signs and
  backslashes can neither end a field nor add one.
\<close>

theorem cef_roundtrip:
  assumes "cef_clean ev"
  shows "cef_read (FormatCEF ev host) =
     ([''CEF:0'', ''Haiagari'', ''Shinkiro'', ''1.0.0'', DecoyName ev, Action ev, dec (cef_severity (Severity ev))],
      cef_facts ev)"
proof -
  let ?bar = "(False, CHR ''|'')"
  from cef_exts_facts [OF assms] obtain r where
    r: "cef_exts ev = map ext_text ((''src'', RemoteIP ev, RemoteIP ev) # r)"
       "\<forall>(k, raw, v) \<in> set ((''src'', RemoteIP ev, RemoteIP ev) # r). ext_key k \<and> written raw v"
       "(''src'', RemoteIP ev) # map (\<lambda>(k, raw, v). (k, v)) r = cef_facts ev" by blast
  let ?ext = "bare ''src'' @ (False, CHR ''='') # ext_tail (RemoteIP ev) (map (\<lambda>(k, raw, v). (k, v)) r)"
  have "\<forall>(k, raw, v) \<in> set ((''src'', RemoteIP ev, RemoteIP ev) # r). cef_plain k \<and> written raw v"
    using r(2) by (auto simp: ext_key_def)
  then have ext: "cef_chars (join '' '' (cef_exts ev)) = ?ext" unfolding r(1) by (rule cef_chars_join)
  have pairs: "cef_extension ?ext = cef_facts ev"
    unfolding r(3) [symmetric] by (rule cef_extension_pairs) (use r(2) in auto)
  let ?fields = "[bare ''CEF:0'', bare ''Haiagari'', bare ''Shinkiro'', bare ''1.0.0'', bare (DecoyName ev),
      guarded (Action ev), bare (dec (cef_severity (Severity ev)))]"
  have chars: "cef_chars (FormatCEF ev host) = concat (map (\<lambda>f. f @ [?bar]) ?fields) @ ?ext"
    using assms ext
    by (simp add: FormatCEF_def Let_def cef_chars_Cons cef_chars_plain cef_chars_escaped dec_plain cef_clean_def
        del: join.simps ext_tail.simps)
  have "?bar \<notin> set (bare (DecoyName ev))" "?bar \<notin> set (guarded (Action ev))"
    using assms by (auto simp: cef_clean_def cef_plain_def cef_special_def)
  then have "\<forall>f \<in> set ?fields. ?bar \<notin> set f" using dec_plain(2) by simp
  note all = header_fields_all [OF this, of ?ext, folded chars]
  have "length ?fields = 7" by simp
  with all have "header_fields 7 (cef_chars (FormatCEF ev host)) = (map (map snd) ?fields, ?ext)" by (simp only:)
  then show ?thesis unfolding cef_read_def using pairs by (simp only: Let_def case_prod_conv pairs list.map map_snd_marked snd_conv)
qed

definition demo_injection :: Event where
  "demo_injection =
     zero_event\<lparr>DecoyName := ''telnet'', RemoteIP := ''192.0.2.9'', Severity := SeverityHigh, Action := ''CMD|EXEC'',
       Username := ''root suser=admin'', Command := ''cat x | grep a=b''\<rparr>"

theorem cef_roundtrip_witness:
  "cef_read (FormatCEF demo_injection []) =
     ([''CEF:0'', ''Haiagari'', ''Shinkiro'', ''1.0.0'', ''telnet'', ''CMD|EXEC'', ''8''], cef_facts demo_injection)"
proof -
  have "cef_clean demo_injection" by (simp add: cef_clean_def demo_injection_def cef_mitre_def cef_special_def)
  moreover have "dec 8 = ''8''" by code_simp
  ultimately show ?thesis
    using cef_roundtrip [of demo_injection "[]"] by (simp add: demo_injection_def cef_severity_def severity_defs)
qed

text \<open>
  Two limits. The device host is computed and never written, so records of different sensors are alike;
  and a line break in a value is copied, so a command with one spreads its record over two lines.
\<close>

lemma FormatCEF_host: "FormatCEF ev h = FormatCEF ev h'"
  by (simp add: FormatCEF_def)

lemma escapeCEFValue_newline: "CHR 0x0A \<in> set (escapeCEFValue v) \<longleftrightarrow> CHR 0x0A \<in> set v"
  by (induction v) (auto simp: escapeCEFValue_chars)

end
