(* ===== verification/Ecs.thy ===== *)
theory Ecs
  imports Geoip Siem
begin

text \<open>
  The Elastic Common Schema export of \<open>internal/intel/ecs/ecs.go\<close>. A pointer to a struct is an option; the
  omission of empty fields is the encoder's, which is a parameter. The risk score is the integer that is
  converted to a float (exact up to 2 to the 53).
\<close>

section \<open>The schema\<close>

record EventFields =
  EcsID :: string
  Kind :: string
  Category :: "string list"
  EcsType :: "string list"
  Outcome :: string
  EcsAction :: string
  EcsSeverity :: int
  RiskScore :: int

record Geo =
  CountryName :: string
  CityName :: string

record AS =
  Number :: int
  Organization :: string

record EndpointFields =
  IP :: string
  Port :: int
  SourceGeo :: "Geo option"
  SourceAS :: "AS option"

record ServiceFields =
  ServiceName :: string
  ServiceType :: string

record NetworkFields =
  Transport :: string
  NetProtocol :: string

record TacticFields =
  TacID :: string
  TacName :: string
  TacReference :: string

record TechniqueFields =
  TechID :: string
  TechName :: string
  TechReference :: string

record ThreatFields =
  Framework :: string
  Tactic :: "TacticFields option"
  Technique :: "TechniqueFields option"

record ECSEvent =
  EcsTimestamp :: string
  EcsVersion :: string
  EcsEvent :: EventFields
  Source :: EndpointFields
  Hostname :: string
  Service :: ServiceFields
  User :: "string option"
  Network :: NetworkFields
  Threat :: ThreatFields
  EcsLabels :: "string \<rightharpoonup> string"

section \<open>The conversion\<close>

definition severityToInt :: "Severity \<Rightarrow> int" where
  "severityToInt s =
     (if s = SeverityCritical then 10
      else if s = SeverityHigh then 8
      else if s = SeverityMedium then 5
      else if s = SeverityLow then 3
      else 1)"

definition ecs_mitre :: "Event \<Rightarrow> MitreAttack" where
  "ecs_mitre ev =
     (case Mitre ev of
        None \<Rightarrow> MapToMitre (DecoyName ev) (Action ev) (Command ev)
      | Some m \<Rightarrow> m)"

definition ecs_tactic :: "MitreAttack \<Rightarrow> TacticFields" where
  "ecs_tactic m =
     \<lparr>TacID = TacticID m, TacName = TacticName m,
      TacReference = ''https://attack.mitre.org/tactics/'' @ TacticID m @ ''/''\<rparr>"

definition ecs_technique :: "MitreAttack \<Rightarrow> TechniqueFields" where
  "ecs_technique m = \<lparr>TechID = TechniqueID m, TechName = TechniqueName m, TechReference = Reference m\<rparr>"

definition ecs_geo :: "(string \<rightharpoonup> string) \<Rightarrow> Geo option" where
  "ecs_geo meta =
     (let country = map_get meta ''geo_country''; city = map_get meta ''geo_city''
      in if country \<noteq> [] \<or> city \<noteq> [] then Some \<lparr>CountryName = country, CityName = city\<rparr> else None)"

definition ecs_as :: "(string \<rightharpoonup> string) \<Rightarrow> AS option" where
  "ecs_as meta =
     (let asn = map_get meta ''geo_asn''; org = map_get meta ''geo_org''
      in if asn \<noteq> [] \<or> org \<noteq> [] then Some \<lparr>Number = 0, Organization = org\<rparr> else None)"

definition ConvertToECS :: "Event \<Rightarrow> string \<Rightarrow> ECSEvent" where
  "ConvertToECS ev nodeHostname =
     (let nodeHostname = (if nodeHostname = [] then ''shinkiro-sensor'' else nodeHostname)
      in \<lparr>EcsTimestamp = rfc3339_nano (Timestamp ev), EcsVersion = ''8.11.0'',
          EcsEvent =
            \<lparr>EcsID = ID ev, Kind = ''alert'', Category = [''intrusion_detection'', ''threat''],
             EcsType = [''indicator'', ''denied''], Outcome = ''success'', EcsAction = Action ev,
             EcsSeverity = severityToInt (Severity ev), RiskScore = ThreatScore ev\<rparr>,
          Source = \<lparr>IP = RemoteIP ev, Port = RemotePort ev, SourceGeo = ecs_geo (Metadata ev), SourceAS = ecs_as (Metadata ev)\<rparr>,
          Hostname = nodeHostname,
          Service = \<lparr>ServiceName = DecoyName ev, ServiceType = ''honeypot''\<rparr>,
          User = (if Username ev \<noteq> [] then Some (Username ev) else None),
          Network = \<lparr>Transport = ''tcp'', NetProtocol = DecoyName ev\<rparr>,
          Threat =
            \<lparr>Framework = ''MITRE ATT&CK'', Tactic = Some (ecs_tactic (ecs_mitre ev)),
             Technique = Some (ecs_technique (ecs_mitre ev))\<rparr>,
          EcsLabels = Metadata ev\<rparr>)"

definition ConvertBatchToECSJSON :: "(ECSEvent list \<Rightarrow> string option) \<Rightarrow> Event list \<Rightarrow> string \<Rightarrow> string option" where
  "ConvertBatchToECSJSON marshal events hostname = marshal (map (\<lambda>ev. ConvertToECS ev hostname) events)"

section \<open>The two exports side by side\<close>

text \<open>The technique each export reports for an event.\<close>

definition cef_technique :: "Event \<Rightarrow> (string \<times> string) option" where
  "cef_technique ev = Some (cef_mitre ev)"

definition ecs_technique_of :: "Event \<Rightarrow> (string \<times> string) option" where
  "ecs_technique_of ev =
     map_option (\<lambda>t. (TechID t, TechName t)) (Technique (Threat (ConvertToECS ev [])))"

text \<open>
  C29: The CEF and the ECS export rate every event alike, and they name the same technique exactly for the
  events that carry a mapping or map to active scanning: CEF falls back to scanning, ECS to the mapper.
  So an event that has passed the pipeline's score stage is exported consistently, and any other event of
  a login, command, service or platform decoy is not.
\<close>

theorem exports_agree_iff:
  "cef_severity (Severity ev) = EcsSeverity (EcsEvent (ConvertToECS ev host))
   \<and> (cef_technique ev = ecs_technique_of ev \<longleftrightarrow>
        (case Mitre ev of
           Some m \<Rightarrow> True
         | None \<Rightarrow> \<not> credential_action (Action ev) \<and> \<not> execution_action (Action ev) (Command ev)
             \<and> DecoyName ev \<notin> {''ssh'', ''smb'', ''telnet'', ''docker'', ''k8s'', ''aws''}))"
proof -
  have "ecs_technique_of ev = Some (TechniqueID (ecs_mitre ev), TechniqueName (ecs_mitre ev))"
    by (simp add: ecs_technique_of_def ConvertToECS_def ecs_technique_def)
  then show ?thesis
    by (cases "Mitre ev")
       (simp_all add: cef_severity_def severityToInt_def ConvertToECS_def cef_technique_def cef_mitre_def ecs_mitre_def
        MapToMitre_alt mitre_record_defs)
qed

section \<open>Geography\<close>

text \<open>
  What the database said about an address reaches the export: if the sensor has not written the four keys
  itself, the source of an enriched event has the country and city of the lookup, and its autonomous
  system has the organisation. The number stays zero, although the lookup has it.
\<close>

lemma ecs_source_of_lookup:
  assumes "Metadata ev ''geo_country'' = None" "Metadata ev ''geo_city'' = None"
    "Metadata ev ''geo_asn'' = None" "Metadata ev ''geo_org'' = None"
  shows "let g = LookupGeo ro (RemoteIP ev);
             src = Source (ConvertToECS (ev\<lparr>Metadata := EnrichMetadata (Metadata ev) g\<rparr>) host)
         in SourceGeo src = (if Country g = [] \<and> City g = [] then None else Some \<lparr>CountryName = Country g, CityName = City g\<rparr>)
          \<and> SourceAS src = (if ASN g = [] \<and> Org g = [] then None else Some \<lparr>Number = 0, Organization = Org g\<rparr>)"
  using assms by (simp add: ConvertToECS_def ecs_geo_def ecs_as_def EnrichMetadata_def map_get_def Let_def)

end
