(* ===== verification/Indicators.thy ===== *)
theory Indicators
  imports Json Intel_Event Go_Time "HOL-Library.Sublist"
begin

text \<open>
  The two threat-intelligence exports that publish one record per attacking address: the STIX 2.1 bundle of
  \<open>internal/intel/stix/stix.go\<close> and the ThreatFox feed of \<open>internal/intel/threatfox.go\<close>. Both scan the events
  once with a set of addresses seen; the scan is one definition with the threshold as argument. The JSON
  encoder is a parameter; its indentation is part of it.
\<close>

section \<open>The scan shared by both\<close>

text \<open>The loop: skip an event below the threshold or of an address seen, else mark the address and emit.\<close>

fun emit_first :: "int \<Rightarrow> (Event \<Rightarrow> 'a) \<Rightarrow> string set \<Rightarrow> Event list \<Rightarrow> 'a list" where
  "emit_first least mk seen [] = []"
| "emit_first least mk seen (ev # evs) =
     (if ThreatScore ev < least \<or> RemoteIP ev \<in> seen then emit_first least mk seen evs
      else mk ev # emit_first least mk (insert (RemoteIP ev) seen) evs)"

text \<open>What the scan is for: the events that are the first of their address to reach the threshold.\<close>

fun first_hits :: "int \<Rightarrow> Event list \<Rightarrow> Event list" where
  "first_hits least [] = []"
| "first_hits least (ev # evs) =
     (if ThreatScore ev < least then first_hits least evs
      else ev # filter (\<lambda>e. RemoteIP e \<noteq> RemoteIP ev) (first_hits least evs))"

lemma filter_first_hits:
  "filter (\<lambda>e. RemoteIP e \<notin> insert ip seen) xs = filter (\<lambda>e. RemoteIP e \<notin> seen) (filter (\<lambda>e. RemoteIP e \<noteq> ip) xs)"
  by (induction xs) auto

lemma emit_first_hits: "emit_first least mk seen evs = map mk (filter (\<lambda>e. RemoteIP e \<notin> seen) (first_hits least evs))"
  by (induction evs arbitrary: seen) (auto simp: filter_first_hits intro!: arg_cong [where f = "map mk"] filter_cong)

lemma first_hits_ips: "RemoteIP ` set (first_hits least evs) = {RemoteIP ev |ev. ev \<in> set evs \<and> ThreatScore ev \<ge> least}"
proof -
  have "RemoteIP ` set (filter (\<lambda>e. RemoteIP e \<noteq> ip) xs) = RemoteIP ` set xs - {ip}" for ip xs by auto
  note img = this
  show ?thesis
  proof (induction evs)
    case (Cons ev evs)
    have "RemoteIP ` set (first_hits least (ev # evs)) =
        (if ThreatScore ev < least then {} else {RemoteIP ev}) \<union> RemoteIP ` set (first_hits least evs)"
      using img [of "RemoteIP ev" "first_hits least evs"] by (simp del: set_filter)
    with Cons.IH show ?case by auto
  qed simp
qed

lemma first_hits_subseq: "subseq (first_hits least evs) evs"
proof (induction evs)
  case (Cons ev evs)
  then have "subseq (filter (\<lambda>e. RemoteIP e \<noteq> RemoteIP ev) (first_hits least evs)) evs"
    by (rule subseq_order.order_trans [OF subseq_filter_left])
  with Cons show ?case by (simp add: list_emb_Cons)
qed simp

lemma first_hits_distinct: "distinct (map RemoteIP (first_hits least evs))"
proof (induction evs)
  case (Cons ev evs)
  then have "distinct (map RemoteIP (filter (\<lambda>e. RemoteIP e \<noteq> RemoteIP ev) (first_hits least evs)))"
    by (rule distinct_map_filter)
  then show ?case using Cons by auto
qed simp

lemma first_hits_first:
  "ev \<in> set (first_hits least evs) \<Longrightarrow>
   \<exists>us vs. evs = us @ ev # vs \<and> ThreatScore ev \<ge> least \<and> (\<forall>e \<in> set us. RemoteIP e = RemoteIP ev \<longrightarrow> ThreatScore e < least)"
proof (induction evs)
  case (Cons e evs)
  show ?case
  proof (cases "ThreatScore e \<ge> least \<and> ev = e")
    case True
    then show ?thesis by (intro exI [of _ "[]"] exI [of _ evs]) simp
  next
    case False
    with Cons.prems have ev: "ev \<in> set (first_hits least evs)" "RemoteIP e = RemoteIP ev \<longrightarrow> ThreatScore e < least"
      by (auto split: if_splits)
    from Cons.IH [OF ev(1)] obtain us vs where "evs = us @ ev # vs" "ThreatScore ev \<ge> least"
      "\<forall>e \<in> set us. RemoteIP e = RemoteIP ev \<longrightarrow> ThreatScore e < least" by blast
    with ev(2) show ?thesis by (intro exI [of _ "e # us"] exI [of _ vs]) auto
  qed
qed simp

lemmas first_hits_spec = first_hits_subseq first_hits_ips first_hits_distinct first_hits_first

section \<open>STIX\<close>

record Indicator =
  IndType :: string
  IndID :: string
  IndSpecVersion :: string
  Created :: time
  Modified :: time
  IndName :: string
  Description :: string
  Pattern :: string
  PatternType :: string
  ValidFrom :: time
  IndConfidence :: int
  Labels :: "string list"

record STIXBundle =
  BundleType :: string
  BundleID :: string
  BundleSpecVersion :: string
  Objects :: "Indicator list"

definition stix_indicator :: "Event \<Rightarrow> Indicator" where
  "stix_indicator ev =
     \<lparr>IndType = ''indicator'', IndID = ''indicator--'' @ ID ev, IndSpecVersion = ''2.1'',
      Created = Timestamp ev, Modified = Timestamp ev,
      IndName = ''Malicious Honeypot Probe from '' @ RemoteIP ev,
      Description = ''Observed '' @ DecoyName ev @ '' probe on decoy port '' @ dec (LocalPort ev) @ '' ('' @ Action ev
         @ ''). Threat score: '' @ dec (ThreatScore ev),
      Pattern = ''[ipv4-addr:value = '' @ [CHR 0x27] @ RemoteIP ev @ [CHR 0x27] @ '']'', PatternType = ''stix'',
      ValidFrom = Timestamp ev, IndConfidence = ThreatScore ev,
      Labels = [''malicious-activity'', ''honeypot'', ''attacker-ip'']\<rparr>"

definition stix_bundle :: "time \<Rightarrow> Event list \<Rightarrow> STIXBundle" where
  "stix_bundle now evs =
     \<lparr>BundleType = ''bundle'', BundleID = ''bundle--'' @ dec (wrap64 now), BundleSpecVersion = ''2.1'',
      Objects = emit_first 60 stix_indicator {} evs\<rparr>"

definition ConvertEventsToSTIX :: "(STIXBundle \<Rightarrow> string option) \<Rightarrow> time \<Rightarrow> Event list \<Rightarrow> string option" where
  "ConvertEventsToSTIX marshal now evs = marshal (stix_bundle now evs)"

section \<open>ThreatFox\<close>

record ThreatFoxIoC =
  ThreatType :: string
  IoCType :: string
  IoCValue :: string
  Confidence :: int
  FirstSeen :: time
  Reporter :: string
  Tags :: "string list"
  IoCReference :: string

definition threatfox_ioc :: "Event \<Rightarrow> ThreatFoxIoC" where
  "threatfox_ioc ev =
     (let tags = [''honeypot'', ''shinkiro'', DecoyName ev];
          tags = (case Mitre ev of None \<Rightarrow> tags | Some m \<Rightarrow> tags @ [TechniqueID m])
      in \<lparr>ThreatType = ''honeypot_probe'', IoCType = ''ip:port'',
          IoCValue = RemoteIP ev @ '':'' @ dec (LocalPort ev), Confidence = ThreatScore ev,
          FirstSeen = Timestamp ev, Reporter = ''shinkiro-mesh'', Tags = tags,
          IoCReference = ''https://github.com/Haiagari/shinkiro''\<rparr>)"

text \<open>The records; without any the Go slice is nil, which the encoder writes as \<open>null\<close>.\<close>

definition threatfox_iocs :: "Event list \<Rightarrow> int \<Rightarrow> ThreatFoxIoC list option" where
  "threatfox_iocs evs minScore =
     (let minScore = (if minScore \<le> 0 then 75 else minScore);
          iocs = emit_first minScore threatfox_ioc {} evs
      in if iocs = [] then None else Some iocs)"

definition GenerateThreatFoxFeed :: "(ThreatFoxIoC list option \<Rightarrow> string option) \<Rightarrow> Event list \<Rightarrow> int \<Rightarrow> string option" where
  "GenerateThreatFoxFeed marshal evs minScore = marshal (threatfox_iocs evs minScore)"

section \<open>Both publish the same kind of list\<close>

text \<open>
  \<open>one_per_address least mk evs out\<close>: the output lists exactly the addresses with an event at or above the
  threshold, each once, in the order of their first such event, built from that event.
\<close>

definition one_per_address :: "int \<Rightarrow> (Event \<Rightarrow> 'a) \<Rightarrow> Event list \<Rightarrow> 'a list \<Rightarrow> bool" where
  "one_per_address least mk evs out \<longleftrightarrow>
     (\<exists>hits. out = map mk hits \<and> subseq hits evs \<and> distinct (map RemoteIP hits)
        \<and> RemoteIP ` set hits = {RemoteIP ev |ev. ev \<in> set evs \<and> ThreatScore ev \<ge> least}
        \<and> (\<forall>h \<in> set hits. \<exists>us vs. evs = us @ h # vs \<and> ThreatScore h \<ge> least
              \<and> (\<forall>e \<in> set us. RemoteIP e = RemoteIP h \<longrightarrow> ThreatScore e < least)))"

lemma emit_first_one_per_address: "one_per_address least mk evs (emit_first least mk {} evs)"
proof -
  have "emit_first least mk {} evs = map mk (first_hits least evs)" by (simp add: emit_first_hits)
  then show ?thesis unfolding one_per_address_def using first_hits_spec [where least = least and evs = evs] by blast
qed

text \<open>
  C32: Both feeds name every dangerous address once, and no other. The STIX bundle has exactly one indicator
  for each address with an event scored 60 or more, and the ThreatFox feed exactly one record for each
  address at or above its threshold (75 where none is given), made from the first such event of the
  address; the pattern and the record value carry that address.
\<close>

theorem feeds_one_per_address:
  "one_per_address 60 stix_indicator evs (Objects (stix_bundle now evs))
   \<and> one_per_address (if n \<le> 0 then 75 else n) threatfox_ioc evs
       (case threatfox_iocs evs n of None \<Rightarrow> [] | Some iocs \<Rightarrow> iocs)
   \<and> threatfox_iocs evs n \<noteq> Some []"
proof -
  let ?n = "if n \<le> 0 then 75 else n"
  have "threatfox_iocs evs n = (if emit_first ?n threatfox_ioc {} evs = [] then None else Some (emit_first ?n threatfox_ioc {} evs))"
    unfolding threatfox_iocs_def Let_def ..
  then show ?thesis
    using emit_first_one_per_address [of 60 stix_indicator evs] emit_first_one_per_address [of ?n threatfox_ioc evs]
    by (cases "emit_first ?n threatfox_ioc {} evs = []") (simp_all add: stix_bundle_def)
qed

end
