(* ===== verification/Commands.thy ===== *)
theory Commands
  imports Startup Hub Canary Coverage Kernel_Filter Feeds Ecs Indicators
begin

text \<open>
  The subcommands of \<open>cmd/shinkiro\<close>: the values of their flags are arguments (\<open>Cli\<close> parses them), their
  result is what they print and the exit status. Files are the function \<open>fs\<close> of the configuration loader,
  \<open>mkdir\<close> answers the creation of the log's directory, and JSON encoders are parameters.
\<close>

section \<open>Shared\<close>

record CliResult =
  StdOut :: string
  StdErr :: string
  ExitCode :: nat

definition prints :: "string \<Rightarrow> CliResult" where
  "prints s = \<lparr>StdOut = s, StdErr = [], ExitCode = 0\<rparr>"

definition fails_out :: "string \<Rightarrow> CliResult" where
  "fails_out s = \<lparr>StdOut = s, StdErr = [], ExitCode = 1\<rparr>"

definition fails_err :: "string \<Rightarrow> CliResult" where
  "fails_err s = \<lparr>StdOut = [], StdErr = s, ExitCode = 1\<rparr>"

definition cross :: string where "cross = [CHR 0xE2, CHR 0x9D, CHR 0x8C]"

definition auditLogPath :: "(string \<Rightarrow> string) \<Rightarrow> string" where
  "auditLogPath getenv =
     (let p = getenv ''SHINKIRO_AUDIT_LOG_PATH'' in if p \<noteq> [] then p else ''data/events.jsonl'')"

section \<open>Firewall exports\<close>

definition runExport ::
    "(string \<Rightarrow> string) \<Rightarrow> (string \<Rightarrow> string option) \<Rightarrow> (string \<Rightarrow> file_outcome) \<Rightarrow> string \<Rightarrow> int \<Rightarrow> string list \<Rightarrow> CliResult" where
  "runExport getenv mkdir fs format limit ks =
     (case open_engine mkdir fs (auditLogPath getenv) of
        Inl err \<Rightarrow> fails_out (cross @ '' Failed to read intel engine: '' @ err @ nl)
      | Inr e \<Rightarrow>
          (let ips = MaliciousIPs e limit ks
           in if ips = [] then prints (''# No malicious IPs exceeding threat threshold yet.'' @ nl)
              else prints (GenerateRules ips format)))"

definition runEBPF ::
    "(string \<Rightarrow> string option) \<Rightarrow> (string \<Rightarrow> file_outcome) \<Rightarrow> Driver \<Rightarrow> string \<Rightarrow> string list \<Rightarrow> string list \<Rightarrow> CliResult" where
  "runEBPF mkdir fs drv iface ks order =
     (case open_engine mkdir fs ''data/events.jsonl'' of
        Inl err \<Rightarrow> fails_out (''Failed to read intel engine: '' @ err @ nl)
      | Inr e \<Rightarrow>
          (let fm = fold (\<lambda>ip fm. fst (FilterBlockIP ip fm)) (MaliciousIPs e 80 ks) (NewFilterManager drv iface)
           in prints (RenderScript fm order)))"

section \<open>Event exports\<close>

definition parse_log :: "(string \<Rightarrow> Event option) \<Rightarrow> string \<Rightarrow> Event list" where
  "parse_log unmarshal data = List.map_filter unmarshal (filter (\<lambda>l. l \<noteq> []) (splitLines data))"

definition runSTIX ::
    "(STIXBundle \<Rightarrow> string option) \<Rightarrow> (string \<Rightarrow> Event option) \<Rightarrow> (string \<Rightarrow> file_outcome) \<Rightarrow> time \<Rightarrow> CliResult" where
  "runSTIX enc unmarshal fs now =
     (case fs ''data/events.jsonl'' of
        NotExist \<Rightarrow>
          (case ConvertEventsToSTIX enc now [] of None \<Rightarrow> prints nl | Some s \<Rightarrow> prints (s @ nl))
      | ReadError err \<Rightarrow> prints (cross @ '' Failed to read events log: '' @ err @ nl)
      | FileData data \<Rightarrow>
          (case ConvertEventsToSTIX enc now (parse_log unmarshal data) of
             None \<Rightarrow> prints (cross @ '' Failed to generate STIX bundle: json'' @ nl)
           | Some s \<Rightarrow> prints (s @ nl)))"

text \<open>The opening that \<open>ecs\<close>, \<open>cef\<close> and \<open>syslog\<close> share: the configuration, the engine, the last 500 events.\<close>

definition with_events ::
    "(string \<Rightarrow> Config \<Rightarrow> string + Config) \<Rightarrow> (string \<Rightarrow> string option) \<Rightarrow> (string \<Rightarrow> file_outcome) \<Rightarrow>
     (string \<Rightarrow> Event option) \<Rightarrow> (Config \<Rightarrow> Event list \<Rightarrow> CliResult) \<Rightarrow> CliResult" where
  "with_events yaml mkdir fs unmarshal body =
     (case LoadConfig yaml fs ''config.yaml'' of
        Inl err \<Rightarrow> fails_out (''Error: '' @ err @ nl)
      | Inr cfg \<Rightarrow>
          (case open_engine mkdir fs (AuditLogPath cfg) of
             Inl err \<Rightarrow> fails_out (''Error: '' @ err @ nl)
           | Inr e \<Rightarrow> body cfg (RecentEvents unmarshal e 500)))"

definition runECS ::
    "(string \<Rightarrow> Config \<Rightarrow> string + Config) \<Rightarrow> (string \<Rightarrow> string option) \<Rightarrow> (string \<Rightarrow> file_outcome) \<Rightarrow>
     (string \<Rightarrow> Event option) \<Rightarrow> (ECSEvent list \<Rightarrow> string option) \<Rightarrow> CliResult" where
  "runECS yaml mkdir fs unmarshal enc =
     with_events yaml mkdir fs unmarshal (\<lambda>cfg evs.
       (case ConvertBatchToECSJSON enc evs (NodeName cfg) of
          None \<Rightarrow> fails_out (''Error encoding ECS: json'' @ nl)
        | Some s \<Rightarrow> prints (s @ nl)))"

definition runCEF ::
    "(string \<Rightarrow> Config \<Rightarrow> string + Config) \<Rightarrow> (string \<Rightarrow> string option) \<Rightarrow> (string \<Rightarrow> file_outcome) \<Rightarrow>
     (string \<Rightarrow> Event option) \<Rightarrow> CliResult" where
  "runCEF yaml mkdir fs unmarshal =
     with_events yaml mkdir fs unmarshal (\<lambda>cfg evs. prints (concat (map (\<lambda>ev. FormatCEF ev (NodeName cfg) @ nl) evs)))"

definition runSyslog ::
    "(string \<Rightarrow> Config \<Rightarrow> string + Config) \<Rightarrow> (string \<Rightarrow> string option) \<Rightarrow> (string \<Rightarrow> file_outcome) \<Rightarrow>
     (string \<Rightarrow> Event option) \<Rightarrow> CliResult" where
  "runSyslog yaml mkdir fs unmarshal =
     with_events yaml mkdir fs unmarshal (\<lambda>cfg evs. prints (concat (map (\<lambda>ev. FormatSyslog ev (NodeName cfg) @ nl) evs)))"

section \<open>Campaigns\<close>

definition campaigns_path ::
    "(string \<Rightarrow> Config \<Rightarrow> string + Config) \<Rightarrow> (string \<Rightarrow> file_outcome) \<Rightarrow> string \<Rightarrow> string" where
  "campaigns_path yaml fs path =
     (if path = [] then
        (case LoadConfig yaml fs ''config.yaml'' of
           Inr cfg \<Rightarrow> if AuditLogPath cfg \<noteq> [] then AuditLogPath cfg else ''data/events.jsonl''
         | Inl _ \<Rightarrow> ''data/events.jsonl'')
      else path)"

definition rebuild :: "duration \<Rightarrow> Event list \<Rightarrow> Correlator" where
  "rebuild window evs = foldl (\<lambda>c ev. fst (Ingest c (fill_mitre ev))) (NewCorrelator window) evs"

definition runCampaigns ::
    "(string \<Rightarrow> Config \<Rightarrow> string + Config) \<Rightarrow> (string \<Rightarrow> string option) \<Rightarrow> (string \<Rightarrow> file_outcome) \<Rightarrow>
     (string \<Rightarrow> Event option) \<Rightarrow> (Campaign list \<Rightarrow> string + string) \<Rightarrow> string \<Rightarrow> string \<Rightarrow> duration \<Rightarrow> string list \<Rightarrow> CliResult" where
  "runCampaigns yaml mkdir fs unmarshal encode format eventsPath window ks =
     (let path = campaigns_path yaml fs eventsPath in
      case open_engine mkdir fs path of
        Inl err \<Rightarrow> fails_err (''campaigns: failed to open intel store: '' @ err @ nl)
      | Inr e \<Rightarrow>
          (let evs = RecentEvents unmarshal e 0;
               camps = ActiveCampaignsSorted (rebuild window evs) ks
           in if to_lower format = ''json'' then
                (case encode camps of
                   Inl err \<Rightarrow> fails_err (''campaigns: encode: '' @ err @ nl)
                 | Inr s \<Rightarrow> prints s)
              else prints (FormatCampaignsTable camps
                     @ ''# Rebuilt '' @ dec (int (length camps)) @ '' campaign(s) from '' @ dec (int (length evs))
                     @ '' event(s) in '' @ path @ '' (window='' @ duration_string window @ '')'' @ nl)))"

section \<open>Feeds\<close>

definition truncateCLI :: "string \<Rightarrow> int \<Rightarrow> string" where
  "truncateCLI s n =
     (if n \<le> 0 \<or> int (length s) \<le> n then s
      else if n \<le> 3 then take (nat n) s
      else take (nat (n - 3)) s @ ''...'')"

definition bool_text :: "bool \<Rightarrow> string" where "bool_text b = (if b then ''true'' else ''false'')"

text \<open>The errors of the clients as text; \<open>quoted\<close> is the verb \<open>%q\<close>.\<close>

fun feed_error_text :: "(string \<Rightarrow> string) \<Rightarrow> string \<Rightarrow> feed_error \<Rightarrow> string" where
  "feed_error_text quoted feed (ErrMissingAPIKey var name) =
     name @ '': missing API key - set env '' @ var @ '' (see docs / README)''"
| "feed_error_text quoted feed (MarshalFailed err) = err"
| "feed_error_text quoted feed (BadRequest err) = err"
| "feed_error_text quoted feed (RequestFailed err) = feed @ '' request failed: '' @ err"
| "feed_error_text quoted feed (feed_error.ReadFailed err) = err"
| "feed_error_text quoted feed (BadStatus code body) = feed @ '' HTTP '' @ dec code @ '': '' @ body"
| "feed_error_text quoted feed (DecodeFailed err) = feed @ '' decode: '' @ err"
| "feed_error_text quoted feed (BadQueryStatus st) = feed @ '' query_status='' @ quoted st"
| "feed_error_text quoted feed (DataDecodeFailed err) = feed @ '' data decode: '' @ err"
| "feed_error_text quoted feed AddressRequired = feed @ '': ip address required''"

definition ioc_row :: "ThreatFoxIOC \<Rightarrow> string" where
  "ioc_row ioc =
     (let tags = join '','' (IocTags ioc)
      in pad_right 28 (truncateCLI (IOC ioc) 28) @ '' '' @ pad_right 12 (IOCType ioc) @ '' ''
         @ pad_right 8 (dec (IocConfidence ioc)) @ '' '' @ pad_right 20 (truncateCLI (MalwarePrintable ioc) 20) @ '' ''
         @ truncateCLI tags 24 @ nl)"

definition ioc_header :: string where
  "ioc_header =
     pad_right 28 ''IOC'' @ '' '' @ pad_right 12 ''TYPE'' @ '' '' @ pad_right 8 ''CONF'' @ '' ''
     @ pad_right 20 ''MALWARE'' @ '' '' @ ''TAGS'' @ nl @ replicate 90 CHR ''-'' @ nl"

record FeedEnv =
  fe_getenv :: "string \<Rightarrow> string"
  fe_codec :: TFCodec
  fe_check_url :: "string \<Rightarrow> string option"
  fe_send :: "HttpRequest \<Rightarrow> HttpReply"
  fe_quote :: "string \<Rightarrow> string"
  fe_decode :: "string \<Rightarrow> string + AbuseIPDBCheckData"
  fe_parse_url :: "string \<Rightarrow> string + string \<times> string"

definition runThreatFox ::
    "FeedEnv \<Rightarrow> (ThreatFoxIOC list \<Rightarrow> string) \<Rightarrow> string \<Rightarrow> int \<Rightarrow> string \<Rightarrow> HttpRequest option \<times> CliResult" where
  "runThreatFox fe enc search days format =
     (let client = NewThreatFoxClient (fe_getenv fe) [] in
      if days \<le> 0 \<and> search = [] then
        (None, fails_err (''threatfox: require --search <ioc> or --days <1-7>'' @ nl
          @ ''Env: THREATFOX_API_KEY (Auth-Key from https://auth.abuse.ch/)'' @ nl))
      else
        (let (req, res) =
           (if days > 0 then RecentIOCs (fe_codec fe) (fe_check_url fe) (fe_send fe) client days
            else SearchIOC (fe_codec fe) (fe_check_url fe) (fe_send fe) client search)
         in (req,
             case res of
               Inl err \<Rightarrow> fails_err (''threatfox: '' @ feed_error_text (fe_quote fe) ''ThreatFox'' err @ nl)
             | Inr iocs \<Rightarrow>
                 if to_lower format = ''json'' then prints (enc iocs)
                 else if iocs = [] then prints (''(no ThreatFox results)'' @ nl)
                 else prints (ioc_header @ concat (map ioc_row iocs)))))"

definition check_report :: "AbuseIPDBCheckData \<Rightarrow> string" where
  "check_report d =
     ''IP:                 '' @ IPAddress d @ nl
     @ ''Abuse confidence:   '' @ dec (AbuseConfidenceScore d) @ nl
     @ ''Total reports:      '' @ dec (TotalReports d) @ '' (distinct users: '' @ dec (NumDistinctUsers d) @ '')'' @ nl
     @ ''Country:            '' @ CountryCode d @ nl
     @ ''ISP / usage:        '' @ ISP d @ '' / '' @ UsageType d @ nl
     @ ''Domain:             '' @ Domain d @ nl
     @ ''Whitelisted:        '' @ bool_text (IsWhitelisted d) @ nl
     @ ''Last reported:      '' @ LastReportedAt d @ nl"

definition runAbuseIPDB ::
    "FeedEnv \<Rightarrow> (AbuseIPDBCheckData \<Rightarrow> string) \<Rightarrow> string \<Rightarrow> int \<Rightarrow> string \<Rightarrow> HttpRequest option \<times> CliResult" where
  "runAbuseIPDB fe enc ip maxAge format =
     (if trim_space ip = [] then
        (None, fails_err (''abuseipdb: require --ip <address>'' @ nl
          @ ''Env: ABUSEIPDB_API_KEY (https://www.abuseipdb.com/account/api)'' @ nl))
      else
        (let (req, res) = CheckIP (fe_decode fe) (fe_parse_url fe) (fe_check_url fe) (fe_send fe)
                            (NewAbuseIPDBClient (fe_getenv fe) []) ip maxAge
         in (req,
             case res of
               Inl err \<Rightarrow> fails_err (''abuseipdb: '' @ feed_error_text (fe_quote fe) ''AbuseIPDB'' err @ nl)
             | Inr d \<Rightarrow> if to_lower format = ''json'' then prints (enc d) else prints (check_report d))))"

section \<open>Coverage, GeoIP, canaries\<close>

definition runCoverage :: "(CoverageReport \<Rightarrow> string option) \<Rightarrow> string \<Rightarrow> bool \<Rightarrow> CliResult" where
  "runCoverage enc format runtimeMapper =
     (let report = BuildCoverageReport runtimeMapper
      in if to_lower format = ''json'' then
           (case CoverageReportJSON enc report of
              None \<Rightarrow> fails_err (''coverage: json'' @ nl)
            | Some raw \<Rightarrow> prints (raw @ nl))
         else prints (FormatCoverageTable report))"

definition emptyDash :: "string \<Rightarrow> string" where
  "emptyDash s = (if s = [] then ''-'' else s)"

definition geoip_hint :: string where
  "geoip_hint = nl
     @ ''Hint: set SHINKIRO_GEOLITE2_PATH or --geoip-db to a GeoLite2 City/Country/ASN .mmdb'' @ nl
     @ ''      Product works without GeoIP; enrichment is optional.'' @ nl"

definition runGeoIP ::
    "(string \<Rightarrow> string) \<Rightarrow> GeoEnv \<Rightarrow> (json \<Rightarrow> string + string) \<Rightarrow> string \<Rightarrow> string \<Rightarrow> string \<Rightarrow> CliResult" where
  "runGeoIP getenv genv enc ip dbPath format =
     (if trim_space ip = [] then
        fails_err (''geoip: require --ip <address>'' @ nl
          @ ''Optional: --geoip-db <path> or env SHINKIRO_GEOLITE2_PATH'' @ nl
          @ ''Download GeoLite2: https://dev.maxmind.com/geoip/geolite2-free-geolocation-data'' @ nl)
      else
        (let path = ResolvePath (getenv ''SHINKIRO_GEOLITE2_PATH'') dbPath;
             r = NewResolver genv path [WithLogger];
             status = (if geo_log r = [] then [] else last (geo_log r));
             rec = LookupGeo (Some r) ip
         in if to_lower format = ''json'' then
              (case enc (JObj [(''asn'', JStr (ASN rec)), (''city'', JStr (City rec)), (''country'', JStr (Country rec)),
                  (''database'', JStr (DatabaseType (Some r))), (''db_path'', JStr path),
                  (''enabled'', json.JBool (Enabled (Some r))), (''ip'', JStr ip), (''org'', JStr (Org rec)),
                  (''status'', JStr status)]) of
                 Inl err \<Rightarrow> fails_err (''geoip: encode: '' @ err @ nl)
               | Inr s \<Rightarrow> prints s)
            else
              prints ((if status \<noteq> [] then status @ nl else [])
                @ ''IP:       '' @ ip @ nl
                @ ''Enabled:  '' @ bool_text (Enabled (Some r)) @ nl
                @ (if DatabaseType (Some r) \<noteq> [] then ''Database: '' @ DatabaseType (Some r) @ nl else [])
                @ (if path \<noteq> [] then ''Path:     '' @ path @ nl else [])
                @ ''Country:  '' @ emptyDash (Country rec) @ nl
                @ ''City:     '' @ emptyDash (City rec) @ nl
                @ ''ASN:      '' @ emptyDash (ASN rec) @ nl
                @ ''Org:      '' @ emptyDash (Org rec) @ nl
                @ (if \<not> Enabled (Some r) then geoip_hint else []))))"

text \<open>The canary command ignores the error of the encoder and then prints the nil it got.\<close>

definition runCanary :: "(CanaryToken \<Rightarrow> string option) \<Rightarrow> time \<Rightarrow> time \<Rightarrow> string \<Rightarrow> CliResult" where
  "runCanary enc now created label =
     prints ((case enc (GenerateAWSKey now created label) of None \<Rightarrow> [] | Some s \<Rightarrow> s) @ nl)"

section \<open>The cluster hub\<close>

datatype cluster_call = HubWith "string list" | ClusterUsage string

definition runCluster :: "string list \<Rightarrow> cluster_call" where
  "runCluster args =
     (case args of
        [] \<Rightarrow> ClusterUsage (''usage: shinkiro cluster hub [flags]'' @ nl)
      | sub # rest \<Rightarrow>
          if sub = ''hub'' then HubWith rest
          else if has_prefix sub ''-'' then HubWith args
          else ClusterUsage (''unknown cluster subcommand: '' @ sub @ nl @ ''usage: shinkiro cluster hub [flags]'' @ nl))"

definition hub_flags :: "string \<Rightarrow> string \<Rightarrow> string \<Rightarrow> string \<Rightarrow> HubConfig" where
  "hub_flags env_token tok tlsCert tlsKey =
     (let cfg = DefaultHubConfig env_token;
          cfg = (if trim_space tok \<noteq> [] then cfg\<lparr>Token := trim_space tok\<rparr> else cfg)
      in cfg\<lparr>TLSCertFile := trim_space tlsCert, TLSKeyFile := trim_space tlsKey\<rparr>)"

definition runClusterHub :: "string \<Rightarrow> int \<Rightarrow> string \<Rightarrow> string \<Rightarrow> string \<Rightarrow> Hub \<times> (http_server \<times> serve_mode) \<times> string" where
  "runClusterHub env_token port tok tlsCert tlsKey =
     (let cfg = hub_flags env_token tok tlsCert tlsKey;
          hub = NewHubWithConfig (make_chan 500) cfg;
          authMode = (if TokenConfigured hub then ''token (SHINKIRO_CLUSTER_TOKEN / --token)''
                      else ''insecure-lab (empty token)'');
          tlsMode = (if TLSCertFile cfg \<noteq> [] \<and> TLSKeyFile cfg \<noteq> [] then ''HTTPS ('' @ TLSCertFile cfg @ '')''
                     else ''plain HTTP (terminate TLS at reverse proxy if needed)'')
      in (hub, StartHTTP hub port,
          ''Starting Shinkiro cluster hub (hub-and-spoke HTTP, not gossip/mesh) on :'' @ dec port @ nl
          @ ''  auth: '' @ authMode @ nl
          @ ''  tls:  '' @ tlsMode @ nl
          @ ''  endpoints: /healthz /readyz /api/v1/cluster/{join,ingest,nodes}'' @ nl))"

section \<open>The dispatch\<close>

datatype Subcommand =
    CmdUp bool | CmdCanary | CmdExport | CmdSTIX | CmdECS | CmdCEF | CmdSyslog | CmdCluster | CmdKernel | CmdSimulate
  | CmdCampaigns | CmdThreatFox | CmdAbuseIPDB | CmdCoverage | CmdGeoIP | CmdVersion | CmdUsage "string option"

definition command_of :: "string list \<Rightarrow> Subcommand \<times> string list" where
  "command_of args =
     (case args of
        [] \<Rightarrow> (CmdUsage None, [])
      | cmd # rest \<Rightarrow>
          (if cmd = ''up'' then CmdUp False
           else if cmd = ''tui'' then CmdUp True
           else if cmd = ''canary'' then CmdCanary
           else if cmd = ''export'' then CmdExport
           else if cmd = ''stix'' then CmdSTIX
           else if cmd = ''ecs'' then CmdECS
           else if cmd = ''cef'' then CmdCEF
           else if cmd = ''syslog'' then CmdSyslog
           else if cmd = ''cluster'' then CmdCluster
           else if cmd = ''ebpf'' \<or> cmd = ''kernel'' then CmdKernel
           else if cmd = ''simulate'' \<or> cmd = ''attack'' then CmdSimulate
           else if cmd = ''campaigns'' then CmdCampaigns
           else if cmd = ''threatfox'' then CmdThreatFox
           else if cmd = ''abuseipdb'' then CmdAbuseIPDB
           else if cmd = ''coverage'' \<or> cmd = ''attack-coverage'' then CmdCoverage
           else if cmd = ''geoip'' then CmdGeoIP
           else if cmd = ''version'' \<or> cmd = ''-v'' \<or> cmd = ''--version'' then CmdVersion
           else CmdUsage (Some cmd), rest))"

end
