(* ===== verification/Replay.thy ===== *)
theory Replay
  imports Startup Commands
begin

text \<open>
  Commands against a live session. The store keeps scores in memory and events in the log, so a command in
  another process sees the log only: \<open>campaigns\<close> rebuilds the session's campaigns from it, while \<open>export\<close>
  and \<open>kernel\<close> ask the scores, which are empty there. Both are stated here over the pipeline that wrote the log.
\<close>

section \<open>Metadata does not matter to grouping\<close>

text \<open>The sink adds a capture path to an event after it was correlated. Erasing metadata hides the difference.\<close>

definition strip_event :: "Event \<Rightarrow> Event" where
  "strip_event ev = ev\<lparr>Metadata := Map.empty\<rparr>"

definition strip_camp :: "Campaign \<Rightarrow> Campaign" where
  "strip_camp c = c\<lparr>CampMetadata := Map.empty\<rparr>"

definition strip_corr :: "Correlator \<Rightarrow> Correlator" where
  "strip_corr c = c\<lparr>campaigns := map_option strip_camp \<circ> campaigns c\<rparr>"

lemma strip_event_fields [simp]:
  "RemoteIP (strip_event ev) = RemoteIP ev" "Timestamp (strip_event ev) = Timestamp ev"
  "ThreatScore (strip_event ev) = ThreatScore ev" "DecoyName (strip_event ev) = DecoyName ev"
  "ID (strip_event ev) = ID ev" "Action (strip_event ev) = Action ev" "Mitre (strip_event ev) = Mitre ev"
  "Username (strip_event ev) = Username ev" "Command (strip_event ev) = Command ev"
  "strip_event (ev\<lparr>Metadata := m\<rparr>) = strip_event ev"
  by (simp_all add: strip_event_def)

lemma strip_camp_fields [simp]:
  "CampID (strip_camp c) = CampID c" "AttackerIP (strip_camp c) = AttackerIP c" "Campaign.LastSeen (strip_camp c) = Campaign.LastSeen c"
  "Campaign.FirstSeen (strip_camp c) = Campaign.FirstSeen c" "TotalEvents (strip_camp c) = TotalEvents c"
  "MaxThreatScore (strip_camp c) = MaxThreatScore c" "DecoysTargeted (strip_camp c) = DecoysTargeted c"
  "HopPath (strip_camp c) = HopPath c" "TechniqueIDs (strip_camp c) = TechniqueIDs c"
  "strip_camp (strip_camp c) = strip_camp c"
  by (simp_all add: strip_camp_def)

lemma strip_new_campaign: "strip_camp (new_campaign ev) = new_campaign (strip_event ev)"
  by (simp add: strip_camp_def new_campaign_def)

lemma strip_camp_touch: "strip_camp (camp_touch c ev) = camp_touch (strip_camp c) (strip_event ev)"
  by (simp add: strip_camp_def camp_touch_def)

lemma strip_camp_decoy: "strip_camp (camp_decoy c d) = camp_decoy (strip_camp c) d"
  by (simp add: strip_camp_def camp_decoy_def Let_def)

lemma strip_camp_rolls: "strip_camp (camp_rolls c ev) = camp_rolls (strip_camp c) (strip_event ev)"
  by (cases "Mitre ev") (simp_all add: strip_camp_def camp_rolls_def)

lemma strip_camp_meta: "strip_camp (camp_meta w c ev) = strip_camp c"
  by (simp add: strip_camp_def camp_meta_def)

lemma strip_camp_update: "strip_camp (camp_update w c ev) = strip_camp (camp_update w (strip_camp c) (strip_event ev))"
  by (simp add: camp_update_def strip_camp_meta strip_camp_rolls strip_camp_decoy strip_camp_touch)
     (simp add: strip_event_def)

lemma strip_corr_fields [simp]:
  "sessionWindow (strip_corr c) = sessionWindow c" "campaigns (strip_corr c) ip = map_option strip_camp (campaigns c ip)"
  by (simp_all add: strip_corr_def)

lemma strip_camp_expired: "camp_expired w (strip_camp c) (strip_event ev) = camp_expired w c ev"
  by (simp add: camp_expired_def)

lemma strip_Ingest: "strip_corr (fst (Ingest c ev)) = strip_corr (fst (Ingest (strip_corr c) (strip_event ev)))"
proof (rule Correlator.equality)
  let ?old = "\<lambda>c ev. case campaigns c (RemoteIP ev) of None \<Rightarrow> new_campaign ev
     | Some camp \<Rightarrow> if camp_expired (sessionWindow c) camp ev then new_campaign ev else camp"
  have "strip_camp (?old c ev) = ?old (strip_corr c) (strip_event ev)"
    by (simp add: strip_camp_expired strip_new_campaign split: option.split)
  then have "strip_camp (camp_update (sessionWindow c) (?old c ev) ev)
     = strip_camp (camp_update (sessionWindow c) (?old (strip_corr c) (strip_event ev)) (strip_event ev))"
    using strip_camp_update [of "sessionWindow c" "?old c ev" ev] by simp
  then show "campaigns (strip_corr (fst (Ingest c ev))) = campaigns (strip_corr (fst (Ingest (strip_corr c) (strip_event ev))))"
    by (intro ext) (simp add: Ingest_def Let_def fun_upd_def option.map_comp comp_def)
qed (simp_all add: Ingest_def Let_def)

lemma strip_ingest_all:
  "strip_corr c = strip_corr c' \<Longrightarrow> map strip_event evs = map strip_event evs' \<Longrightarrow>
   strip_corr (ingest_all c evs) = strip_corr (ingest_all c' evs')"
proof (induction evs arbitrary: c c' evs')
  case (Cons ev evs)
  then obtain ev' evs'' where e: "evs' = ev' # evs''" "strip_event ev = strip_event ev'"
    "map strip_event evs = map strip_event evs''" by auto
  have "strip_corr (fst (Ingest c ev)) = strip_corr (fst (Ingest c' ev'))"
    using strip_Ingest [of c ev] strip_Ingest [of c' ev'] Cons.prems(1) e(2) by simp
  from Cons.IH [OF this e(3)] e(1) show ?case by simp
qed simp

section \<open>The table does not show metadata\<close>

lemma SliceStable_map:
  assumes "\<And>a b. lt (f a) (f b) = lt a b"
  shows "SliceStable lt (map f xs) = map f (SliceStable lt xs)"
proof -
  have "insert_by lt (f x) (map f ys) = map f (insert_by lt x ys)" for x ys
    by (induction ys) (simp_all add: assms)
  then show ?thesis by (induction xs) (simp_all add: SliceStable_def)
qed

lemma ActiveCampaigns_strip:
  assumes "set ks \<subseteq> dom (campaigns c)"
  shows "ActiveCampaignsSorted (strip_corr c) ks = map strip_camp (ActiveCampaignsSorted c ks)"
proof -
  have "ActiveCampaigns (strip_corr c) ks = map strip_camp (ActiveCampaigns c ks)"
    using assms by (auto simp: ActiveCampaigns_def map_values_def option.map_sel)
  then show ?thesis by (simp add: ActiveCampaignsSorted_def SliceStable_map camp_before_def)
qed

lemma FormatCampaignsTable_strip: "FormatCampaignsTable (map strip_camp cs) = FormatCampaignsTable cs"
proof -
  have "camp_row (strip_camp c) = camp_row c" for c
    by (simp add: camp_row_def camp_hops_def camp_tech_def cong: if_cong)
  then show ?thesis by (simp add: FormatCampaignsTable_def comp_def)
qed

lemma dom_strip_corr: "dom (campaigns (strip_corr c)) = dom (campaigns c)"
  by (auto simp: dom_def)

lemma campaigns_table_cong:
  assumes "strip_corr c = strip_corr c'" "map_order (campaigns c) ks"
  shows "FormatCampaignsTable (ActiveCampaignsSorted c ks) = FormatCampaignsTable (ActiveCampaignsSorted c' ks)"
    "length (ActiveCampaignsSorted c ks) = length (ActiveCampaignsSorted c' ks)"
proof -
  have ks: "set ks \<subseteq> dom (campaigns c)" "set ks \<subseteq> dom (campaigns c')"
    using assms dom_strip_corr [of c] dom_strip_corr [of c'] by (auto simp: map_order_def)
  have same: "map strip_camp (ActiveCampaignsSorted c ks) = map strip_camp (ActiveCampaignsSorted c' ks)"
    using assms(1) ks by (simp flip: ActiveCampaigns_strip)
  from same show "FormatCampaignsTable (ActiveCampaignsSorted c ks) = FormatCampaignsTable (ActiveCampaignsSorted c' ks)"
    by (metis FormatCampaignsTable_strip)
  from same show "length (ActiveCampaignsSorted c ks) = length (ActiveCampaignsSorted c' ks)"
    by (metis length_map)
qed

section \<open>The log of a session\<close>

text \<open>The codec brings back an event of the pipeline, with and without the path of a capture.\<close>

definition loggable :: "(Event \<Rightarrow> string option) \<Rightarrow> (string \<Rightarrow> Event option) \<Rightarrow> Event \<Rightarrow> bool" where
  "loggable marshal unmarshal ev \<longleftrightarrow>
     json_faithful marshal unmarshal ev
   \<and> (\<forall>p. json_faithful marshal unmarshal (ev\<lparr>Metadata := (Metadata ev)(''pcap_path'' \<mapsto> p)\<rparr>))"

lemma sink_persists:
  assumes "pcap_open (pcap w)"
  shows "\<exists>m. (m = Metadata ev \<or> (\<exists>p. m = (Metadata ev)(''pcap_path'' \<mapsto> p)))
     \<and> engine (fst (sink_handler cfg w ev)) =
         fst (Persist (marshal_event cfg) (append_out (step_env cfg (tick w))) (engine w) (ev\<lparr>Metadata := m\<rparr>))"
proof -
  let ?w = "sink_metrics cfg ev (w\<lparr>tick := Suc (tick w)\<rparr>)" and ?env = "step_env cfg (tick w)"
  have "pcap_open (pcap ?w)" using assms by simp
  from MaybeCapture_open [OF this] obtain oc fs res err where
    cap: "MaybeCapture (pcap_env ?env) (marshal_frame cfg) (pcap_now ?env) ev (pcap ?w) (capture_files ?w)
      = Returned (oc, fs, res, err)" by metis
  define ev' where "ev' = (if err = None \<and> Triggered res
     then ev\<lparr>Metadata := (Metadata ev)(''pcap_path'' \<mapsto> TriggerPath res)\<rparr> else ev)"
  have eng: "engine (fst (sink_handler cfg w ev)) = fst (Persist (marshal_event cfg) (append_out ?env) (engine w) ev')"
  proof -
    obtain e failed where p: "Persist (marshal_event cfg) (append_out ?env) (engine ?w) ev' = (e, failed)"
      by (cases "Persist (marshal_event cfg) (append_out ?env) (engine ?w) ev'")
    then have "engine (fst (sink_handler cfg w ev)) = e"
      unfolding sink_handler_def Let_def cap by (simp add: ev'_def)
    with p show ?thesis by simp
  qed
  have "\<exists>m. (m = Metadata ev \<or> (\<exists>p. m = (Metadata ev)(''pcap_path'' \<mapsto> p))) \<and> ev' = ev\<lparr>Metadata := m\<rparr>"
  proof (cases "err = None \<and> Triggered res")
    case True
    then show ?thesis unfolding ev'_def by simp blast
  next
    case False
    then show ?thesis unfolding ev'_def by (intro exI [of _ "Metadata ev"]) auto
  qed
  then obtain m where m: "m = Metadata ev \<or> (\<exists>p. m = (Metadata ev)(''pcap_path'' \<mapsto> p))" "ev' = ev\<lparr>Metadata := m\<rparr>"
    by blast
  from m(1) eng [unfolded m(2)] show ?thesis by (intro exI [of _ m] conjI)
qed

lemma Persist_log:
  assumes "json_faithful marshal unmarshal ev"
  shows "log_text (fst (Persist marshal AppendOk e ev)) = log_text e @ log_of marshal [ev]"
  using assms by (auto simp: json_faithful_def Persist_def persistLocked_def log_text_def log_of_def Let_def)

lemma log_of_append: "log_of marshal (xs @ ys) = log_of marshal xs @ log_of marshal ys"
  by (simp add: log_of_def)

lemma up_step_log:
  assumes "pcap_open (pcap w)" "append_out (step_env cfg (tick w)) = AppendOk"
    "loggable (marshal_event cfg) unmarshal (enriched cfg ev)"
  shows "\<exists>ev'. strip_event ev' = strip_event (enriched cfg ev) \<and> json_faithful (marshal_event cfg) unmarshal ev'
     \<and> log_text (engine (up_step cfg w ev)) = log_text (engine w) @ log_of (marshal_event cfg) [ev']"
proof -
  let ?e = "enriched cfg ev"
  obtain s a out where so: "SoarProcess (soar w) (soar_now (step_env cfg (tick w))) ?e (applier w) = (s, a, out)"
    by (cases "SoarProcess (soar w) (soar_now (step_env cfg (tick w))) ?e (applier w)") auto
  let ?w = "w\<lparr>engine := (engine w)\<lparr>EngCorrelator := fst (Ingest (EngCorrelator (engine w)) ?e)\<rparr>, soar := s, applier := a\<rparr>"
  have "pcap_open (pcap ?w)" using assms(1) by simp
  from sink_persists [OF this, of ?e cfg] obtain m where
    m: "m = Metadata ?e \<or> (\<exists>p. m = (Metadata ?e)(''pcap_path'' \<mapsto> p))"
    and eng: "engine (fst (sink_handler cfg ?w ?e)) =
      fst (Persist (marshal_event cfg) (append_out (step_env cfg (tick ?w))) (engine ?w) (?e\<lparr>Metadata := m\<rparr>))"
    by blast
  from m assms(3) have faith: "json_faithful (marshal_event cfg) unmarshal (?e\<lparr>Metadata := m\<rparr>)"
    by (auto simp: loggable_def)
  have "log_text (engine ?w) = log_text (engine w)" by (simp add: log_text_def)
  then have "log_text (engine (up_step cfg w ev)) = log_text (engine w) @ log_of (marshal_event cfg) [?e\<lparr>Metadata := m\<rparr>]"
    using eng assms(2) Persist_log [OF faith] by (simp add: up_step_sink so Let_def)
  with faith show ?thesis by (intro exI [of _ "?e\<lparr>Metadata := m\<rparr>"]) simp
qed

lemma run_log:
  assumes "fresh_world w0" "\<forall>k. append_out (step_env cfg k) = AppendOk"
    "\<forall>ev \<in> set evs. loggable (marshal_event cfg) unmarshal (enriched cfg ev)"
  shows "\<exists>logged. map strip_event logged = map strip_event (enriched_all cfg evs)
     \<and> (\<forall>ev \<in> set logged. json_faithful (marshal_event cfg) unmarshal ev)
     \<and> log_text (engine (foldl (up_step cfg) w0 evs)) = log_text (engine w0) @ log_of (marshal_event cfg) logged"
  using assms(3)
proof (induction evs rule: rev_induct)
  case Nil
  show ?case by (intro exI [of _ "[]"]) (simp add: log_of_def)
next
  case (snoc ev evs)
  then obtain logged where l: "map strip_event logged = map strip_event (enriched_all cfg evs)"
    "\<forall>ev \<in> set logged. json_faithful (marshal_event cfg) unmarshal ev"
    "log_text (engine (foldl (up_step cfg) w0 evs)) = log_text (engine w0) @ log_of (marshal_event cfg) logged"
    by auto
  have "pcap_open (pcap (foldl (up_step cfg) w0 evs))" using accounted_run [OF assms(1)] by blast
  from up_step_log [OF this _ snoc.prems [rule_format, of ev]] assms(2) obtain ev' where
    "strip_event ev' = strip_event (enriched cfg ev)" "json_faithful (marshal_event cfg) unmarshal ev'"
    "log_text (engine (foldl (up_step cfg) w0 (evs @ [ev])))
       = log_text (engine (foldl (up_step cfg) w0 evs)) @ log_of (marshal_event cfg) [ev']" by auto
  with l show ?case by (intro exI [of _ "logged @ [ev']"]) (auto simp: log_of_append)
qed

lemma rebuild_ingest: "rebuild window evs = ingest_all (NewCorrelator window) (map fill_mitre evs)"
proof -
  have "foldl (\<lambda>c ev. fst (Ingest c (fill_mitre ev))) c evs = ingest_all c (map fill_mitre evs)" for c
    by (induction evs arbitrary: c) simp_all
  then show ?thesis by (simp add: rebuild_def)
qed

lemma fill_mitre_known: "Mitre ev \<noteq> None \<Longrightarrow> fill_mitre ev = ev"
  by (auto simp: fill_mitre_def)

lemma enriched_known: "Mitre (enriched cfg ev) \<noteq> None"
  by (simp add: enriched_def fill_mitre_def Let_def split: option.splits)

lemma fill_mitre_logged:
  assumes "map strip_event logged = map strip_event (enriched_all cfg evs)"
  shows "map fill_mitre logged = logged"
proof (rule map_idI)
  fix ev assume "ev \<in> set logged"
  then have "strip_event ev \<in> strip_event ` set (enriched_all cfg evs)"
    using assms by (metis image_eqI list.set_map)
  then obtain ev0 where "strip_event ev = strip_event (enriched cfg ev0)" by (auto simp: enriched_all_def)
  then have "Mitre ev = Mitre (enriched cfg ev0)" by (metis strip_event_fields(7))
  then show "fill_mitre ev = ev" by (simp add: fill_mitre_known enriched_known)
qed

text \<open>The log rebuilds the correlator, up to the metadata the sink adds later.\<close>

lemma rebuild_agrees:
  assumes "fresh_world w0" "EngCorrelator (engine w0) = NewCorrelator (2 * hour)" "log_text (engine w0) = []"
    "\<forall>k. append_out (step_env cfg k) = AppendOk"
    "\<forall>ev \<in> set evs. loggable (marshal_event cfg) unmarshal (enriched cfg ev)"
  defines "w \<equiv> foldl (up_step cfg) w0 evs"
  shows "strip_corr (rebuild (2 * hour) (RecentEvents unmarshal (engine w) 0)) = strip_corr (EngCorrelator (engine w))"
    "length (RecentEvents unmarshal (engine w) 0) = length evs"
proof -
  from run_log [OF assms(1,4,5)] assms(3) obtain logged where
    l: "map strip_event logged = map strip_event (enriched_all cfg evs)"
      "\<forall>ev \<in> set logged. json_faithful (marshal_event cfg) unmarshal ev"
      "log_text (engine w) = log_of (marshal_event cfg) logged"
    by (auto simp: w_def)
  have recent: "RecentEvents unmarshal (engine w) 0 = logged"
    by (simp add: RecentEvents_unlimited l(3) parse_log_of [OF l(2)])
  have "EngCorrelator (engine w) = ingest_all (NewCorrelator (2 * hour)) (enriched_all cfg evs)"
    using accounted_run [OF assms(1), of cfg evs] assms(2) by (simp add: accounted_def w_def)
  moreover have "rebuild (2 * hour) logged = ingest_all (NewCorrelator (2 * hour)) logged"
    by (simp add: rebuild_ingest fill_mitre_logged [OF l(1)])
  ultimately show "strip_corr (rebuild (2 * hour) (RecentEvents unmarshal (engine w) 0)) = strip_corr (EngCorrelator (engine w))"
    by (simp only: recent strip_ingest_all [OF refl l(1)])
  show "length (RecentEvents unmarshal (engine w) 0) = length evs"
    using arg_cong [OF l(1), of length] by (simp add: recent enriched_all_def)
qed

section \<open>The campaigns command\<close>

text \<open>What another process finds on disk.\<close>

definition disk_file :: "IntelEngine \<Rightarrow> file_outcome" where
  "disk_file e = (case eventsFile e of None \<Rightarrow> NotExist | Some s \<Rightarrow> FileData s)"

definition rebuilt_footer :: "string \<Rightarrow> nat \<Rightarrow> nat \<Rightarrow> string" where
  "rebuilt_footer path camps evs =
     ''# Rebuilt '' @ dec (int camps) @ '' campaign(s) from '' @ dec (int evs) @ '' event(s) in '' @ path
     @ '' (window='' @ duration_string (2 * hour) @ '')'' @ nl"

lemma open_engine_disk:
  assumes "path \<noteq> []" "mkdir path = None" "fs path = disk_file e"
  obtains e' where "open_engine mkdir fs path = Inr e'" "eventsFile e' = eventsFile e"
  using assms by (auto simp: open_engine_def disk_file_def Let_def split: option.splits)

lemma RecentEvents_cong: "eventsFile e' = eventsFile e \<Longrightarrow> RecentEvents u e' n = RecentEvents u e n"
  by (simp add: RecentEvents_def)

lemma session_start:
  assumes "runUp ue up ui args = Inr r" "AuditLogPath (RunCfg r) \<noteq> []" "ue_fs ue (AuditLogPath (RunCfg r)) = NotExist"
  shows "fresh_world (RunWorld r)" "EngCorrelator (engine (RunWorld r)) = NewCorrelator (2 * hour)"
    "log_text (engine (RunWorld r)) = []"
proof -
  obtain e0 where e0: "open_engine (ue_mkdir ue) (ue_fs ue) (AuditLogPath (RunCfg r)) = Inr e0"
    "RunWorld r = start_world ue (RunBus r) args e0"
    using runUp_running [OF assms(1)] by metis
  show "fresh_world (RunWorld r)" using open_engine_fresh(1) [OF e0(1)] start_world_fresh by (simp add: e0(2))
  show "EngCorrelator (engine (RunWorld r)) = NewCorrelator (2 * hour)" "log_text (engine (RunWorld r)) = []"
    using open_engine_fresh(2,3) [OF e0(1)] assms(2,3) by (simp_all add: e0(2) start_world_def log_text_def Let_def)
qed

text \<open>
  C4: The campaigns command shows the campaigns of the session that wrote the log. Let \<open>up\<close> or \<open>tui\<close>
  start on a log that does not exist yet and process any events, every log line being written and the JSON
  codec bringing back what it wrote. Then \<open>campaigns\<close> on that log, in another process and with the default
  window, prints the very table of the live correlator, and counts every event once. The events in the
  log differ from those correlated only in the capture path that the sink adds.
\<close>

theorem campaigns_command_agrees:
  assumes "runUp ue up ui args = Inr r"
    and "AuditLogPath (RunCfg r) \<noteq> []" "ue_fs ue (AuditLogPath (RunCfg r)) = NotExist"
    and "\<forall>k. append_out (step_env (RunBus r) k) = AppendOk"
    and "\<forall>ev \<in> set (received sels). loggable (marshal_event (RunBus r)) unmarshal (enriched (RunBus r) ev)"
  defines "e \<equiv> engine (RunChannel (up_bus (RunBus r)) sels (RunWorld r))"
  assumes "map_order (campaigns (EngCorrelator e)) ks"
    and "mkdir (AuditLogPath (RunCfg r)) = None" "fs (AuditLogPath (RunCfg r)) = disk_file e"
  shows "runCampaigns yaml mkdir fs unmarshal enc ''table'' (AuditLogPath (RunCfg r)) (2 * hour) ks =
     prints (FormatCampaignsTable (ActiveCampaignsSorted (EngCorrelator e) ks)
       @ rebuilt_footer (AuditLogPath (RunCfg r)) (length ks) (length (received sels)))"
proof -
  let ?path = "AuditLogPath (RunCfg r)" and ?w0 = "RunWorld r"
  note w0 = session_start [OF assms(1-3)]
  have e: "e = engine (foldl (up_step (RunBus r)) ?w0 (received sels))"
    unfolding e_def RunChannel_received by simp
  note agrees = rebuild_agrees [OF w0 assms(4,5), folded e]
  have order: "map_order (campaigns (rebuild (2 * hour) (RecentEvents unmarshal e 0))) ks"
    using assms(7) agrees(1) dom_strip_corr by (metis map_order_def)
  obtain e' where e': "open_engine mkdir fs ?path = Inr e'" "eventsFile e' = eventsFile e"
    using open_engine_disk [where mkdir = mkdir and fs = fs, OF assms(2,8,9)] by blast
  have path: "campaigns_path yaml fs ?path = ?path" using assms(2) by (simp add: campaigns_path_def)
  have len: "length (ActiveCampaignsSorted c ks) = length ks" for c
    by (simp add: ActiveCampaignsSorted_def ActiveCampaigns_def map_values_def)
  show ?thesis
    unfolding runCampaigns_def path Let_def e'(1) sum.case RecentEvents_cong [OF e'(2)]
      campaigns_table_cong [OF agrees(1) order] agrees(2) len rebuilt_footer_def
    by (simp add: lower_char_def)
qed

section \<open>The event exports\<close>

lemma RecentEvents_last:
  assumes "RecentEvents u e 0 = evs" "0 < n"
  shows "RecentEvents u e (int n) = drop (length evs - n) evs"
proof -
  let ?evs = "List.map_filter u (filter (\<lambda>l. l \<noteq> []) (splitLines (log_text e)))"
  have "RecentEvents u e (int n) = (if length ?evs > n then drop (length ?evs - n) ?evs else ?evs)"
    using assms(2) by (simp add: RecentEvents_def log_text_def splitLines_def List.map_filter_def Let_def split: option.splits)
  then show ?thesis using assms(1) by (auto simp: RecentEvents_unlimited)
qed

text \<open>
  An export that reads everything of an event but its metadata cannot tell the log from the session: applied
  to the last events of the log it gives what it gives on the last events the pipeline enriched.
\<close>

locale metadata_blind =
  fixes out :: "Event \<Rightarrow> 'a"
  assumes blind: "out (strip_event ev) = out ev"
begin

lemma out_cong: "map strip_event evs = map strip_event evs' \<Longrightarrow> map out evs = map out evs'"
proof -
  have "map out xs = map out (map strip_event xs)" for xs by (simp add: blind)
  then show "map strip_event evs = map strip_event evs' \<Longrightarrow> map out evs = map out evs'" by metis
qed

lemma of_log:
  assumes "fresh_world w0" "log_text (engine w0) = []"
    "\<forall>k. append_out (step_env cfg k) = AppendOk"
    "\<forall>ev \<in> set evs. loggable (marshal_event cfg) unmarshal (enriched cfg ev)" "0 < n"
  shows "map out (RecentEvents unmarshal (engine (foldl (up_step cfg) w0 evs)) (int n)) =
     map (out \<circ> enriched cfg) (drop (length evs - n) evs)"
proof -
  let ?e = "engine (foldl (up_step cfg) w0 evs)"
  from run_log [OF assms(1,3,4)] assms(2) obtain logged where
    l: "map strip_event logged = map strip_event (enriched_all cfg evs)"
      "\<forall>ev \<in> set logged. json_faithful (marshal_event cfg) unmarshal ev"
      "log_text ?e = log_of (marshal_event cfg) logged"
    by auto
  have "RecentEvents unmarshal ?e 0 = logged" by (simp add: RecentEvents_unlimited l(3) parse_log_of [OF l(2)])
  from RecentEvents_last [OF this assms(5)]
  have "map out (RecentEvents unmarshal ?e (int n)) = drop (length logged - n) (map out logged)" by (simp add: drop_map)
  also have "length logged = length evs" using arg_cong [OF l(1), of length] by (simp add: enriched_all_def)
  also have "map out logged = map (out \<circ> enriched cfg) evs"
    using out_cong [OF l(1)] by (simp add: enriched_all_def)
  finally show ?thesis by (simp add: drop_map)
qed

end

interpretation cef: metadata_blind "\<lambda>ev. FormatCEF ev host" for host
  by unfold_locales
     (simp add: FormatCEF_def cef_exts_def cef_mitre_def strip_event_def split: option.split cong: if_cong)

interpretation syslog: metadata_blind "\<lambda>ev. FormatSyslog ev host" for host
proof unfold_locales
  show "FormatSyslog (strip_event ev) host = FormatSyslog ev host" for ev
    unfolding FormatSyslog_def Let_def cef.blind by simp
qed

text \<open>A codec for one event, with and without a capture path, and the session it logs.\<close>

definition base_login :: Event where
  "base_login = fill_mitre (demo_login ''192.0.2.7'')"

definition demo_marshal :: "Event \<Rightarrow> string option" where
  "demo_marshal ev =
     (case Metadata ev ''pcap_path'' of None \<Rightarrow> Some ''-'' | Some p \<Rightarrow> Some (''+'' @ query_escape p))"

definition demo_unmarshal :: "string \<Rightarrow> Event option" where
  "demo_unmarshal s =
     (if s = ''-'' then Some base_login
      else map_option (\<lambda>p. base_login\<lparr>Metadata := (Metadata base_login)(''pcap_path'' \<mapsto> p)\<rparr>) (query_unescape (drop 1 s)))"

lemma query_escape_one_line: "CHR 0x0A \<notin> set (query_escape p)"
  using query_escape_chars [of "CHR 0x0A" p] by (auto simp: unreserved_def)

lemma base_login_metadata: "Metadata base_login = Map.empty"
  by (simp add: base_login_def fill_mitre_def demo_login_def demo_event_def zero_event_def split: option.split)

lemma demo_loggable: "loggable demo_marshal demo_unmarshal base_login"
  using query_escape_one_line
  by (auto simp: loggable_def json_faithful_def demo_marshal_def demo_unmarshal_def base_login_metadata query_unescape_escape)

definition demo_bus :: UpConfig where
  "demo_bus = demo_cfg\<lparr>marshal_event := demo_marshal\<rparr>"

lemma demo_geo: "LookupGeo (Some (geo_start demo_up [])) ip = empty_geo"
  by (simp add: geo_start_def demo_up_def ResolvePath_def PathFromEnv_def NewResolver_def log_once_def LookupGeo_def
      Enabled_def Let_def)

lemma EnrichMetadata_empty: "EnrichMetadata m empty_geo = m"
  by (simp add: EnrichMetadata_def empty_geo_def)

lemma demo_session:
  assumes "runUp demo_up demo_bus False [] = Inr r"
  shows "RunCfg r = DefaultConfig" "marshal_event (RunBus r) = demo_marshal" "append_out (step_env (RunBus r) k) = AppendOk"
    "enriched (RunBus r) (demo_login ''192.0.2.7'') = base_login"
proof -
  obtain cfg :: Config where
    cfg: "LoadConfig (ue_yaml demo_up) (ue_fs demo_up) (config_path demo_up []) = Inr cfg" "RunCfg r = cfg"
    and bus: "RunBus r = demo_bus\<lparr>geo_resolver := Some (geo_start demo_up []),
        dispatcher := NewDispatcher (ue_getenv demo_up ''SHINKIRO_WEBHOOK_URL''), interactive := False\<rparr>"
    using runUp_running [OF assms] by metis
  show "RunCfg r = DefaultConfig" using cfg by (simp add: LoadConfig_def demo_up_def Let_def)
  show "marshal_event (RunBus r) = demo_marshal" "append_out (step_env (RunBus r) k) = AppendOk"
    unfolding bus by (simp_all add: demo_bus_def demo_cfg_def)
  show "enriched (RunBus r) (demo_login ''192.0.2.7'') = base_login"
    unfolding bus enriched_def Let_def by (simp add: demo_geo EnrichMetadata_empty base_login_def)
qed

theorem campaigns_command_agrees_witness:
  "\<exists>r. runUp demo_up demo_bus False [] = Inr r
     \<and> (let e = engine (RunChannel (up_bus (RunBus r)) [Received (demo_login ''192.0.2.7'')] (RunWorld r))
        in runCampaigns (\<lambda>_ c. Inr c) (\<lambda>_. None) (\<lambda>_. disk_file e) demo_unmarshal (\<lambda>_. Inl []) ''table''
             ''data/events.jsonl'' (2 * hour) [''192.0.2.7''] =
           prints (FormatCampaignsTable (ActiveCampaignsSorted (EngCorrelator e) [''192.0.2.7''])
             @ rebuilt_footer ''data/events.jsonl'' 1 1))"
proof -
  obtain r where r: "runUp demo_up demo_bus False [] = Inr r" using demo_up_starts by blast
  let ?sels = "[Received (demo_login ''192.0.2.7'')]"
  let ?e = "engine (RunChannel (up_bus (RunBus r)) ?sels (RunWorld r))"
  note s = demo_session [OF r]
  have path: "AuditLogPath (RunCfg r) = ''data/events.jsonl''" by (simp add: s(1) DefaultConfig_def)
  have absent: "AuditLogPath (RunCfg r) \<noteq> []" "ue_fs demo_up (AuditLogPath (RunCfg r)) = NotExist"
    by (simp_all add: path demo_up_def)
  note start = session_start [OF r absent]
  from accounted_run [OF start(1), of "RunBus r" "[demo_login ''192.0.2.7'']"] start(2)
  have "EngCorrelator ?e = ingest_all (NewCorrelator (2 * hour)) [base_login]"
    by (simp add: RunChannel_received accounted_def enriched_all_def s(4) del: RunChannel.simps)
  then have "map_order (campaigns (EngCorrelator ?e)) [''192.0.2.7'']"
    by (simp add: map_order_def Ingest_def NewCorrelator_def base_login_def demo_login_def Let_def)
  from campaigns_command_agrees [OF r, where sels = ?sels and unmarshal = demo_unmarshal and mkdir = "\<lambda>_. None"
      and fs = "\<lambda>_. disk_file ?e" and yaml = "\<lambda>_ c. Inr c" and enc = "\<lambda>_. Inl []", OF _ _ _ _ this]
  have "runCampaigns (\<lambda>_ c. Inr c) (\<lambda>_. None) (\<lambda>_. disk_file ?e) demo_unmarshal (\<lambda>_. Inl []) ''table''
             ''data/events.jsonl'' (2 * hour) [''192.0.2.7''] =
           prints (FormatCampaignsTable (ActiveCampaignsSorted (EngCorrelator ?e) [''192.0.2.7''])
             @ rebuilt_footer ''data/events.jsonl'' 1 1)"
    unfolding path using s(2-4) demo_loggable by (simp add: demo_up_def del: RunChannel.simps)
  with r show ?thesis unfolding Let_def by blast
qed

section \<open>The export of a session\<close>

text \<open>
  C16: The \<open>cef\<close> and \<open>syslog\<close> commands export what the pipeline processed. After a session on a new log, with
  every line written and a faithful codec, they print one record for each of the last 500 events the
  pipeline received, in order, with the ATT&CK mapping of the score stage, and nothing else.
\<close>

theorem siem_commands_export_session:
  assumes "runUp ue up ui args = Inr r"
    and "AuditLogPath (RunCfg r) \<noteq> []" "ue_fs ue (AuditLogPath (RunCfg r)) = NotExist"
    and "\<forall>k. append_out (step_env (RunBus r) k) = AppendOk"
    and "\<forall>ev \<in> set (received sels). loggable (marshal_event (RunBus r)) unmarshal (enriched (RunBus r) ev)"
  defines "e \<equiv> engine (RunChannel (up_bus (RunBus r)) sels (RunWorld r))"
  assumes "LoadConfig yaml fs ''config.yaml'' = Inr cfg" "AuditLogPath cfg = AuditLogPath (RunCfg r)"
    and "mkdir (AuditLogPath cfg) = None" "fs (AuditLogPath cfg) = disk_file e"
  shows "runCEF yaml mkdir fs unmarshal =
     prints (concat (map (\<lambda>ev. FormatCEF (enriched (RunBus r) ev) (NodeName cfg) @ nl)
       (drop (length (received sels) - 500) (received sels))))
   \<and> runSyslog yaml mkdir fs unmarshal =
     prints (concat (map (\<lambda>ev. FormatSyslog (enriched (RunBus r) ev) (NodeName cfg) @ nl)
       (drop (length (received sels) - 500) (received sels))))"
proof -
  note w0 = session_start [OF assms(1-3)]
  have e: "e = engine (foldl (up_step (RunBus r)) (RunWorld r) (received sels))"
    unfolding e_def RunChannel_received by simp
  obtain e' where e': "open_engine mkdir fs (AuditLogPath cfg) = Inr e'" "eventsFile e' = eventsFile e"
    using open_engine_disk [where mkdir = mkdir and fs = fs, OF assms(2) [folded assms(8)] assms(9,10)] by blast
  have lines: "concat (map (\<lambda>ev. f ev @ nl) xs) = concat (map (\<lambda>l. l @ nl) (map f xs))" for f and xs :: "Event list"
    by (simp add: comp_def)
  let ?host = "NodeName cfg"
  note logs = cef.of_log [OF w0(1,3) assms(4,5), of 500 ?host] syslog.of_log [OF w0(1,3) assms(4,5), of 500 ?host]
  have cef: "map (\<lambda>ev. FormatCEF ev ?host) (RecentEvents unmarshal e 500) =
      map (\<lambda>ev. FormatCEF (enriched (RunBus r) ev) ?host) (drop (length (received sels) - 500) (received sels))"
    using logs(1) by (simp add: e comp_def)
  have syslog: "map (\<lambda>ev. FormatSyslog ev ?host) (RecentEvents unmarshal e 500) =
      map (\<lambda>ev. FormatSyslog (enriched (RunBus r) ev) ?host) (drop (length (received sels) - 500) (received sels))"
    using logs(2) by (simp add: e comp_def)
  show ?thesis
    unfolding runCEF_def runSyslog_def with_events_def assms(7) sum.case e'(1) RecentEvents_cong [OF e'(2)]
    unfolding lines cef syslog by simp
qed

theorem siem_commands_export_session_witness:
  "\<exists>r. runUp demo_up demo_bus False [] = Inr r
     \<and> (let e = engine (RunChannel (up_bus (RunBus r)) [Received (demo_login ''192.0.2.7'')] (RunWorld r))
        in runCEF (\<lambda>_ c. Inr c) (\<lambda>_. None) (\<lambda>p. if p = ''config.yaml'' then NotExist else disk_file e) demo_unmarshal =
           prints (FormatCEF base_login ''shinkiro-decoy-01'' @ nl))"
proof -
  obtain r where r: "runUp demo_up demo_bus False [] = Inr r" using demo_up_starts by blast
  let ?sels = "[Received (demo_login ''192.0.2.7'')]"
  let ?e = "engine (RunChannel (up_bus (RunBus r)) ?sels (RunWorld r))"
  let ?fs = "\<lambda>p. if p = ''config.yaml'' then NotExist else disk_file ?e"
  note s = demo_session [OF r]
  have cfg: "LoadConfig (\<lambda>_ c. Inr c) ?fs ''config.yaml'' = Inr DefaultConfig" by (simp add: LoadConfig_def)
  have path: "AuditLogPath DefaultConfig = ''data/events.jsonl''" "NodeName DefaultConfig = ''shinkiro-decoy-01''"
    by (simp_all add: DefaultConfig_def)
  from siem_commands_export_session [OF r, where sels = ?sels and unmarshal = demo_unmarshal and mkdir = "\<lambda>_. None", OF _ _ _ _ cfg]
  have "runCEF (\<lambda>_ c. Inr c) (\<lambda>_. None) ?fs demo_unmarshal = prints (FormatCEF base_login ''shinkiro-decoy-01'' @ nl)"
    using s demo_loggable by (simp add: demo_up_def path del: RunChannel.simps)
  with r show ?thesis unfolding Let_def by blast
qed

section \<open>The firewall exports\<close>

text \<open>
  The firewall exports never see what a session learned. The scores live in the memory of the process
  that recorded the events and no command rebuilds them from the log, so whatever is on disk and whatever
  the threshold, \<open>export\<close> prints its comment for the empty list and \<open>kernel\<close> renders the
  script of a manager that blocks nothing.
\<close>

theorem export_always_empty:
  assumes "open_engine mkdir fs (auditLogPath getenv) = Inr e" "map_order (blocklist e) ks"
    and "open_engine mkdir fs ''data/events.jsonl'' = Inr e'" "map_order (blocklist e') ks'"
    and "map_order (\<lambda>ip. if IsBlocked (NewFilterManager drv iface) ip then Some () else None) order"
  shows "runExport getenv mkdir fs format limit ks = prints (''# No malicious IPs exceeding threat threshold yet.'' @ nl)
     \<and> runEBPF mkdir fs drv iface ks' order = prints (RenderScript (NewFilterManager drv iface) [])"
proof -
  have ks: "ks = []" "ks' = []"
    using assms(2,4) open_engine_fresh(1) [OF assms(1)] open_engine_fresh(1) [OF assms(3)]
    by (simp_all add: map_order_def)
  have order: "order = []" using assms(5) by (simp add: map_order_def IsBlocked_def NewFilterManager_def)
  show ?thesis by (simp add: runExport_def runEBPF_def assms(1,3) MaliciousIPs_def ks order)
qed

text \<open>A session in which one address reached 150 points, and what \<open>export\<close> makes of its log.\<close>

definition hot_session :: IntelEngine where
  "hot_session = persist_all demo_marshal NewIntelEngine [(base_login, AppendOk), (base_login, AppendOk)]"

theorem export_always_empty_witness:
  "MaliciousIPs hot_session 80 [''192.0.2.7''] = [''192.0.2.7'']
   \<and> runExport (\<lambda>_. []) (\<lambda>_. None) (\<lambda>_. disk_file hot_session) FormatIPTables 80 [] =
       prints (''# No malicious IPs exceeding threat threshold yet.'' @ nl)
   \<and> runEBPF (\<lambda>_. None) (\<lambda>_. disk_file hot_session) DriverIPTables [] [] [] =
       prints (''# Shinkiro iptables auto-mitigation'' @ nl)"
proof -
  let ?fs = "\<lambda>_. disk_file hot_session"
  obtain e where e: "open_engine (\<lambda>_. None) ?fs ''data/events.jsonl'' = Inr e"
    by (simp add: open_engine_def Let_def)
  have path: "auditLogPath (\<lambda>_. []) = ''data/events.jsonl''" by (simp add: auditLogPath_def)
  have "map_order (blocklist e) []" by (simp add: map_order_def open_engine_fresh(1) [OF e])
  moreover have "map_order (\<lambda>ip. if IsBlocked (NewFilterManager DriverIPTables []) ip then Some () else None) []"
    by (simp add: map_order_def IsBlocked_def NewFilterManager_def)
  moreover have "score_of hot_session ''192.0.2.7'' = 150"
    by (simp add: hot_session_def score_of_persist base_login_def demo_login_def)
       (simp add: score_of_def NewIntelEngine_def wrap64_def)
  ultimately show ?thesis
    using export_always_empty [OF e [folded path] _ e, of "[]" "[]" DriverIPTables "[]" "[]" FormatIPTables 80]
    by (simp add: MaliciousIPs_def RenderScript_def NewFilterManager_def DriverIPTables_def DriverEBPF_def DriverNFTables_def)
qed

end
