(* ===== verification/Go_Flag.thy ===== *)
theory Go_Flag
  imports Go_Collections
begin

text \<open>
  The package \<open>flag\<close> of the standard library as the commands use it: a \<open>FlagSet\<close> of string, int, bool and
  duration flags, \<open>parseOne\<close>, the loop of \<open>Parse\<close>, and the \<open>ExitOnError\<close> policy. The values are read by
  \<open>strconv.ParseInt\<close> with base 0, \<open>strconv.ParseBool\<close> and \<open>time.ParseDuration\<close>; the floating-point product
  of a fractional duration (\<open>float64(f) * (float64(unit) / scale)\<close>) is the parameter \<open>frac\<close>. The usage text
  a rejected command line prints is not modelled.
\<close>

section \<open>Numbers\<close>

definition is_digit :: "char \<Rightarrow> bool" where
  "is_digit c \<longleftrightarrow> 48 \<le> (of_char c :: nat) \<and> (of_char c :: nat) \<le> 57"

text \<open>The value of a digit or letter; \<open>lower\<close> of \<open>strconv\<close> merges the two cases.\<close>

definition digit_value :: "char \<Rightarrow> nat option" where
  "digit_value c =
     (let n = of_char c :: nat
      in if 48 \<le> n \<and> n \<le> 57 then Some (n - 48)
         else if 97 \<le> n \<and> n \<le> 122 then Some (n - 87)
         else if 65 \<le> n \<and> n \<le> 90 then Some (n - 55)
         else None)"

fun read_digits :: "nat \<Rightarrow> bool \<Rightarrow> nat \<Rightarrow> string \<Rightarrow> nat option" where
  "read_digits base base0 n [] = Some n"
| "read_digits base base0 n (c # s) =
     (if c = CHR ''_'' \<and> base0 then read_digits base base0 n s
      else (case digit_value c of
              None \<Rightarrow> None
            | Some d \<Rightarrow> if d \<ge> base then None else read_digits base base0 (n * base + d) s))"

text \<open>\<open>underscoreOK\<close>: an underscore stands between digits or after the base prefix.\<close>

datatype seen = SawStart | SawDigit | SawUnderscore | SawOther

fun underscores_from :: "bool \<Rightarrow> seen \<Rightarrow> string \<Rightarrow> bool" where
  "underscores_from hex i [] = (i \<noteq> SawUnderscore)"
| "underscores_from hex i (c # s) =
     (if is_digit c \<or> (hex \<and> (case digit_value c of Some d \<Rightarrow> 10 \<le> d \<and> d < 16 | None \<Rightarrow> False))
      then underscores_from hex SawDigit s
      else if c = CHR ''_'' then (if i = SawDigit then underscores_from hex SawUnderscore s else False)
      else if i = SawUnderscore then False
      else underscores_from hex SawOther s)"

definition base_prefix :: "string \<Rightarrow> nat option" where
  "base_prefix s =
     (case s of
        c # d # _ \<Rightarrow>
          (if c \<noteq> CHR ''0'' then None
           else if d = CHR ''b'' \<or> d = CHR ''B'' then Some 2
           else if d = CHR ''o'' \<or> d = CHR ''O'' then Some 8
           else if d = CHR ''x'' \<or> d = CHR ''X'' then Some 16
           else None)
      | _ \<Rightarrow> None)"

definition underscore_ok :: "string \<Rightarrow> bool" where
  "underscore_ok s =
     (case base_prefix s of
        Some b \<Rightarrow> underscores_from (b = 16) SawDigit (drop 2 s)
      | None \<Rightarrow> underscores_from False SawStart s)"

text \<open>\<open>strconv.ParseUint(s, 0, 64)\<close> and \<open>strconv.ParseInt(s, 0, 64)\<close>; \<open>None\<close> is any error.\<close>

definition parse_uint :: "string \<Rightarrow> nat option" where
  "parse_uint s =
     (if s = [] then None
      else (let (base, body) =
              (case s of
                 c # t \<Rightarrow>
                   (if c \<noteq> CHR ''0'' then (10, s)
                    else (case base_prefix s of
                            Some b \<Rightarrow> if length s \<ge> 3 then (b, drop 2 s) else (8, t)
                          | None \<Rightarrow> (8, t)))
               | [] \<Rightarrow> (10, s))
            in case read_digits base True 0 body of
                 None \<Rightarrow> None
               | Some n \<Rightarrow> if n \<ge> 2 ^ 64 \<or> (CHR ''_'' \<in> set body \<and> \<not> underscore_ok s) then None else Some n))"

definition parse_int :: "string \<Rightarrow> int option" where
  "parse_int s =
     (case s of
        [] \<Rightarrow> None
      | c # t \<Rightarrow>
          (let neg = (c = CHR ''-''); body = (if c = CHR ''-'' \<or> c = CHR ''+'' then t else s)
           in case parse_uint body of
                None \<Rightarrow> None
              | Some un \<Rightarrow>
                  (if \<not> neg \<and> un \<ge> 2 ^ 63 then None
                   else if neg \<and> un > 2 ^ 63 then None
                   else Some (if neg then - int un else int un))))"

definition parse_bool :: "string \<Rightarrow> bool option" where
  "parse_bool s =
     (if s \<in> {''1'', ''t'', ''T'', ''TRUE'', ''true'', ''True''} then Some True
      else if s \<in> {''0'', ''f'', ''F'', ''FALSE'', ''false'', ''False''} then Some False
      else None)"

lemma parse_int_range: "parse_int s = Some i \<Longrightarrow> - (2 ^ 63) \<le> i \<and> i < 2 ^ 63"
  by (auto simp: parse_int_def Let_def split: list.splits option.splits if_splits)

text \<open>What \<open>%d\<close> prints, \<open>ParseInt\<close> reads back.\<close>

lemma read_digits_append:
  "read_digits b u k (s @ t) = Option.bind (read_digits b u k s) (\<lambda>m. read_digits b u m t)"
  by (induction b u k s rule: read_digits.induct) (auto split: option.splits)

lemma digit_value_digit: "d < 10 \<Longrightarrow> digit_value (digit d) = Some d"
  by (simp add: digit_value_def of_char_digit)

lemma digit_not_underscore: "d < 10 \<Longrightarrow> digit d \<noteq> CHR ''_''"
  using of_char_digit [of d] by auto

lemma read_digits_dec: "read_digits 10 True 0 (dec_nat n) = Some n"
proof (induction n rule: dec_nat.induct)
  case (1 n)
  then show ?case
    by (subst dec_nat.simps)
       (auto simp: read_digits_append digit_value_digit digit_not_underscore mult.commute [of _ 10])
qed

lemma dec_nat_head: "n > 0 \<Longrightarrow> \<exists>d s. dec_nat n = digit d # s \<and> 0 < d \<and> d < 10"
proof (induction n rule: dec_nat.induct)
  case (1 n)
  show ?case
  proof (cases "n < 10")
    case False
    then have "0 < n div 10" by (simp add: div_greater_zero_iff)
    with 1(1) False show ?thesis by (fastforce simp: dec_nat.simps [of n])
  qed (use 1(2) in \<open>auto simp: dec_nat.simps [of n]\<close>)
qed

lemma parse_uint_dec: "n < 2 ^ 64 \<Longrightarrow> parse_uint (dec_nat n) = Some n"
proof (cases "n = 0")
  case True
  have "digit 0 = CHR ''0''" by code_simp
  with True show ?thesis by (simp add: parse_uint_def dec_nat.simps [of 0] base_prefix_def)
next
  case False
  assume n: "n < 2 ^ 64"
  from False dec_nat_head [of n] obtain d s where d: "dec_nat n = digit d # s" "0 < d" "d < 10" by auto
  have "digit d \<noteq> CHR ''0''" using of_char_digit [OF d(3)] d(2) by auto
  moreover have "CHR ''_'' \<notin> set (dec_nat n)" using dec_nat_digits [of "CHR ''_''" n] by auto
  ultimately show ?thesis
    using n read_digits_dec [of n] d by (simp add: parse_uint_def)
qed

lemma parse_int_dec:
  assumes "- (2 ^ 63) \<le> i" "i < 2 ^ 63"
  shows "parse_int (dec i) = Some i"
proof (cases "i < 0")
  case True
  with assms show ?thesis
    by (simp add: parse_int_def dec_def parse_uint_dec Let_def)
next
  case False
  have nosign: "c \<noteq> CHR ''-''" "c \<noteq> CHR ''+''" if "dec_nat (nat i) = c # s" for c s
    using dec_nat_digits [of c "nat i"] that by auto
  have "nat i < 2 ^ 63" using assms(2) False by (simp add: nat_less_iff)
  with False nosign show ?thesis
    using parse_uint_dec [of "nat i"]
    by (auto simp: parse_int_def dec_def Let_def split: list.split)
qed

section \<open>Durations\<close>

definition duration_unit :: "string \<Rightarrow> nat option" where
  "duration_unit u =
     (if u = ''ns'' then Some 1
      else if u = ''us'' \<or> u = [CHR 0xC2, CHR 0xB5, CHR ''s''] \<or> u = [CHR 0xCE, CHR 0xBC, CHR ''s''] then Some 1000
      else if u = ''ms'' then Some 1000000
      else if u = ''s'' then Some 1000000000
      else if u = ''m'' then Some 60000000000
      else if u = ''h'' then Some 3600000000000
      else None)"

text \<open>\<open>leadingInt\<close>: the number the digits spell, if no step exceeds \<open>2 ^ 63\<close>.\<close>

definition leading_int :: "string \<Rightarrow> nat option" where
  "leading_int ds = (let n = foldl (\<lambda>n c. n * 10 + (of_char c - 48)) 0 ds in if n \<le> 2 ^ 63 then Some n else None)"

text \<open>\<open>leadingFraction\<close>: digits are taken while they fit; the value, and ten to the digits taken.\<close>

fun leading_fraction :: "nat \<Rightarrow> nat \<Rightarrow> string \<Rightarrow> nat \<times> nat" where
  "leading_fraction x scale [] = (x, scale)"
| "leading_fraction x scale (c # ds) =
     (if x > (2 ^ 63 - 1) div 10 then (x, scale)
      else (let y = x * 10 + (of_char c - 48)
            in if y > 2 ^ 63 then (x, scale) else leading_fraction y (scale * 10) ds))"

type_synonym frac_product = "nat \<Rightarrow> nat \<Rightarrow> nat \<Rightarrow> nat"

text \<open>The digits after a period, if one follows, and the rest.\<close>

definition fraction_part :: "string \<Rightarrow> string \<times> string" where
  "fraction_part s =
     (case s of
        c # t \<Rightarrow> if c = CHR ''.'' then (takeWhile is_digit t, dropWhile is_digit t) else ([], s)
      | [] \<Rightarrow> ([], s))"

lemma fraction_part_le: "length (snd (fraction_part s)) \<le> length s"
  by (cases s) (simp_all add: fraction_part_def le_SucI length_dropWhile_le)

text \<open>One number and unit: its nanoseconds and what follows.\<close>

definition duration_part :: "frac_product \<Rightarrow> string \<Rightarrow> (nat \<times> string) option" where
  "duration_part frac s =
     (let ds = takeWhile is_digit s; s1 = dropWhile is_digit s;
          (fs, s2) = fraction_part s1;
          u = takeWhile (\<lambda>c. c \<noteq> CHR ''.'' \<and> \<not> is_digit c) s2;
          rest = dropWhile (\<lambda>c. c \<noteq> CHR ''.'' \<and> \<not> is_digit c) s2
      in if ds = [] \<and> fs = [] then None
         else (case (leading_int ds, duration_unit u) of
                 (Some v, Some unit) \<Rightarrow>
                   (if v > 2 ^ 63 div unit then None
                    else (let (f, scale) = leading_fraction 0 1 fs;
                              v = v * unit + (if f > 0 then frac f unit scale else 0)
                          in if v > 2 ^ 63 then None else Some (v, rest)))
               | _ \<Rightarrow> None))"

lemma duration_unit_Nil [simp]: "duration_unit [] = None"
  by (simp add: duration_unit_def)

lemma duration_part_shorter:
  assumes "duration_part frac s = Some (v, rest)"
  shows "length rest < length s"
proof -
  let ?unit = "\<lambda>c. c \<noteq> CHR ''.'' \<and> \<not> is_digit c"
  let ?s2 = "snd (fraction_part (dropWhile is_digit s))"
  from assms have "rest = dropWhile ?unit ?s2" "takeWhile ?unit ?s2 \<noteq> []"
    by (auto simp: duration_part_def Let_def simp del: takeWhile_eq_Nil_iff
        split: option.splits if_splits prod.splits)
  moreover have "length (takeWhile ?unit ?s2) + length (dropWhile ?unit ?s2) = length ?s2"
    by (metis length_append takeWhile_dropWhile_id)
  moreover have "length ?s2 \<le> length s"
    using fraction_part_le length_dropWhile_le order_trans by blast
  ultimately show ?thesis by (cases "takeWhile ?unit ?s2") auto
qed

function duration_sum :: "frac_product \<Rightarrow> nat \<Rightarrow> string \<Rightarrow> nat option" where
  "duration_sum frac d s =
     (if s = [] then Some d
      else (case duration_part frac s of
              None \<Rightarrow> None
            | Some (v, rest) \<Rightarrow>
                (let d = (d + v) mod 2 ^ 64 in if d > 2 ^ 63 then None else duration_sum frac d rest)))"
  by pat_completeness auto
termination
  by (relation "measure (\<lambda>(frac, d, s). length s)") (auto dest: duration_part_shorter)

declare duration_sum.simps [simp del]

definition parse_duration :: "frac_product \<Rightarrow> string \<Rightarrow> duration option" where
  "parse_duration frac s =
     (let neg = (s \<noteq> [] \<and> hd s = CHR ''-'');
          body = (if s \<noteq> [] \<and> (hd s = CHR ''-'' \<or> hd s = CHR ''+'') then tl s else s)
      in if body = ''0'' then Some 0
         else if body = [] then None
         else (case duration_sum frac 0 body of
                 None \<Rightarrow> None
               | Some d \<Rightarrow> if neg then Some (- int d) else if d > 2 ^ 63 - 1 then None else Some (int d)))"

lemma duration_sum_le: "d \<le> 2 ^ 63 \<Longrightarrow> duration_sum frac d s = Some n \<Longrightarrow> n \<le> 2 ^ 63"
proof (induction frac d s rule: duration_sum.induct)
  case (1 frac d s)
  show ?case
  proof (cases "s = []")
    case True
    with 1 show ?thesis by (simp add: duration_sum.simps)
  next
    case False
    with 1(3) obtain v rest where part: "duration_part frac s = Some (v, rest)"
      and le: "(d + v) mod 2 ^ 64 \<le> 2 ^ 63" and sum: "duration_sum frac ((d + v) mod 2 ^ 64) rest = Some n"
      by (subst (asm) duration_sum.simps) (auto simp: Let_def not_less split: option.splits if_splits)
    from 1(1) [OF False part refl refl _ le sum] le show ?thesis by (simp add: not_less)
  qed
qed

lemma parse_duration_range: "parse_duration frac s = Some i \<Longrightarrow> - (2 ^ 63) \<le> i \<and> i < 2 ^ 63"
  using duration_sum_le [of 0 frac]
  by (auto simp: parse_duration_def Let_def split: option.splits if_splits)

section \<open>Flag sets\<close>

datatype flag_value = FString string | FInt int | FBool bool | FDuration duration

type_synonym flag_set = "(string \<times> flag_value) list"

text \<open>The kind of a flag: its value with the payload forgotten.\<close>

datatype flag_kind = KString | KInt | KBool | KDuration

fun kind_of :: "flag_value \<Rightarrow> flag_kind" where
  "kind_of (FString _) = KString"
| "kind_of (FInt _) = KInt"
| "kind_of (FBool _) = KBool"
| "kind_of (FDuration _) = KDuration"

text \<open>A value a variable of that Go type can hold.\<close>

fun in_range :: "flag_value \<Rightarrow> bool" where
  "in_range (FInt i) = (- (2 ^ 63) \<le> i \<and> i < 2 ^ 63)"
| "in_range (FDuration i) = (- (2 ^ 63) \<le> i \<and> i < 2 ^ 63)"
| "in_range _ = True"

fun set_value :: "frac_product \<Rightarrow> flag_value \<Rightarrow> string \<Rightarrow> flag_value option" where
  "set_value frac (FString _) s = Some (FString s)"
| "set_value frac (FInt _) s = map_option FInt (parse_int s)"
| "set_value frac (FBool _) s = map_option FBool (parse_bool s)"
| "set_value frac (FDuration _) s = map_option FDuration (parse_duration frac s)"

datatype flag_error =
    HelpRequested | BadSyntax string | NotDefined string | NeedsArgument string
  | InvalidBool string string | InvalidValue string string

text \<open>\<open>ExitOnError\<close>: asking for help is a success, everything else ends with status 2.\<close>

definition flag_exit :: "flag_error \<Rightarrow> nat" where
  "flag_exit e = (if e = HelpRequested then 0 else 2)"

definition put_flag :: "string \<Rightarrow> flag_value \<Rightarrow> flag_set \<Rightarrow> flag_set" where
  "put_flag n v fs = map (\<lambda>(m, w). (m, if m = n then v else w)) fs"

text \<open>The name and the value of \<open>name=value\<close>; an equals sign at the front is no separator.\<close>

definition split_setting :: "string \<Rightarrow> string \<times> string option" where
  "split_setting s =
     (let name = takeWhile (\<lambda>c. c \<noteq> CHR ''='') s
      in if name = s then (s, None) else (name, Some (drop (Suc (length name)) s)))"

datatype flag_step = StopAt "string list" | Failed flag_error | Continue flag_set "string list"

definition set_flag :: "frac_product \<Rightarrow> flag_set \<Rightarrow> string \<Rightarrow> string option \<Rightarrow> string list \<Rightarrow> flag_step" where
  "set_flag frac fs name val args =
     (case map_of fs name of
        None \<Rightarrow> Failed (if name = ''help'' \<or> name = ''h'' then HelpRequested else NotDefined name)
      | Some old \<Rightarrow>
          (if kind_of old = KBool then
             (let v = (case val of Some v \<Rightarrow> v | None \<Rightarrow> ''true'')
              in case set_value frac old v of
                   None \<Rightarrow> Failed (InvalidBool v name) | Some new \<Rightarrow> Continue (put_flag name new fs) args)
           else
             (let (val, args) =
                (case (val, args) of (None, a # as) \<Rightarrow> (Some a, as) | _ \<Rightarrow> (val, args))
              in case val of
                   None \<Rightarrow> Failed (NeedsArgument name)
                 | Some v \<Rightarrow>
                     (case set_value frac old v of
                        None \<Rightarrow> Failed (InvalidValue v name) | Some new \<Rightarrow> Continue (put_flag name new fs) args))))"

definition parse_one :: "frac_product \<Rightarrow> flag_set \<Rightarrow> string \<Rightarrow> string list \<Rightarrow> flag_step" where
  "parse_one frac fs s args =
     (if length s < 2 \<or> hd s \<noteq> CHR ''-'' then StopAt (s # args)
      else if s = ''--'' then StopAt args
      else (let name = (if s ! 1 = CHR ''-'' then drop 2 s else drop 1 s)
            in if name = [] \<or> hd name = CHR ''-'' \<or> hd name = CHR ''='' then Failed (BadSyntax s)
               else (case split_setting name of (name, val) \<Rightarrow> set_flag frac fs name val args)))"

lemma set_flag_shorter: "set_flag frac fs n v args = Continue fs' args' \<Longrightarrow> length args' \<le> length args"
  by (auto simp: set_flag_def Let_def split: option.splits list.splits if_splits)

lemma parse_one_shorter: "parse_one frac fs s args = Continue fs' args' \<Longrightarrow> length args' \<le> length args"
  by (auto simp: parse_one_def Let_def split: if_splits prod.splits dest: set_flag_shorter)

type_synonym parsed = "flag_error + flag_set \<times> string list"

function parse_args :: "frac_product \<Rightarrow> flag_set \<Rightarrow> string list \<Rightarrow> parsed" where
  "parse_args frac fs [] = Inr (fs, [])"
| "parse_args frac fs (s # args) =
     (case parse_one frac fs s args of
        StopAt rest \<Rightarrow> Inr (fs, rest)
      | Failed e \<Rightarrow> Inl e
      | Continue fs rest \<Rightarrow> parse_args frac fs rest)"
  by pat_completeness auto
termination
  by (relation "measure (\<lambda>(frac, fs, args). length args)") (auto dest: parse_one_shorter)

text \<open>Dereferencing the pointer the declaration returned.\<close>

definition flag_string :: "flag_set \<Rightarrow> string \<Rightarrow> string" where
  "flag_string fs n = (case map_of fs n of Some (FString s) \<Rightarrow> s | _ \<Rightarrow> [])"

definition flag_int :: "flag_set \<Rightarrow> string \<Rightarrow> int" where
  "flag_int fs n = (case map_of fs n of Some (FInt i) \<Rightarrow> i | _ \<Rightarrow> 0)"

definition flag_bool :: "flag_set \<Rightarrow> string \<Rightarrow> bool" where
  "flag_bool fs n = (case map_of fs n of Some (FBool b) \<Rightarrow> b | _ \<Rightarrow> False)"

definition flag_duration :: "flag_set \<Rightarrow> string \<Rightarrow> duration" where
  "flag_duration fs n = (case map_of fs n of Some (FDuration d) \<Rightarrow> d | _ \<Rightarrow> 0)"

lemmas flag_getters = flag_string_def flag_int_def flag_bool_def flag_duration_def

section \<open>Parsing keeps the declarations\<close>

definition typed_like :: "flag_set \<Rightarrow> flag_set \<Rightarrow> bool" where
  "typed_like decl fs \<longleftrightarrow>
     map fst fs = map fst decl \<and> map (kind_of \<circ> snd) fs = map (kind_of \<circ> snd) decl \<and> list_all (in_range \<circ> snd) fs"

fun_cases set_valueE: "set_value frac old s = Some new"

lemma set_value_typed: "set_value frac old s = Some new \<Longrightarrow> kind_of new = kind_of old \<and> in_range new"
  by (elim set_valueE) (auto simp: map_option_eq_Some eq_commute [of "Some _"] dest: parse_int_range parse_duration_range)

lemma put_flag_names [simp]: "map fst (put_flag n v fs) = map fst fs"
  by (simp add: put_flag_def case_prod_beta comp_def)

lemma map_of_put_flag: "map_of (put_flag n v fs) m = (if m = n then map_option (\<lambda>_. v) (map_of fs m) else map_of fs m)"
  by (induction fs) (auto simp: put_flag_def)

lemma put_flag_typed:
  assumes "typed_like decl fs" "map_of fs n = Some old" "distinct (map fst fs)" "kind_of new = kind_of old" "in_range new"
  shows "typed_like decl (put_flag n new fs)"
proof -
  have "kind_of w = kind_of old" if "(n, w) \<in> set fs" for w
    using that assms(2,3) by simp
  then have "map (kind_of \<circ> snd) (put_flag n new fs) = map (kind_of \<circ> snd) fs"
    using assms(4) by (auto simp: put_flag_def)
  moreover have "list_all (in_range \<circ> snd) (put_flag n new fs)"
    using assms(1,5) by (auto simp: typed_like_def put_flag_def list_all_iff)
  ultimately show ?thesis using assms(1) by (simp add: typed_like_def)
qed

lemma set_flag_typed:
  assumes "typed_like decl fs" "distinct (map fst decl)" "set_flag frac fs n v args = Continue fs' args'"
  shows "typed_like decl fs'"
proof -
  from assms(3) obtain old new s where "map_of fs n = Some old" "set_value frac old s = Some new" "fs' = put_flag n new fs"
    by (auto simp: set_flag_def Let_def split: option.splits list.splits if_splits)
  with assms(1,2) set_value_typed put_flag_typed show ?thesis by (metis typed_like_def)
qed

lemma parse_args_typed:
  "typed_like decl fs \<Longrightarrow> distinct (map fst decl) \<Longrightarrow> parse_args frac fs args = Inr (fs', rest) \<Longrightarrow> typed_like decl fs'"
proof (induction frac fs args rule: parse_args.induct)
  case (2 frac fs s args)
  show ?case
  proof (cases "parse_one frac fs s args")
    case (Continue fs1 rest1)
    then have "typed_like decl fs1"
      using 2(2,3) by (auto simp: parse_one_def Let_def split: if_splits prod.splits dest: set_flag_typed)
    with 2(1,3,4) Continue show ?thesis by simp
  qed (use 2 in auto)
qed simp

section \<open>Settings\<close>

text \<open>
  A setting written \<open>--name=value\<close>, or for flags that are not boolean as two arguments, is applied to the
  flag set; parsing goes on behind it. Words that are no flags end the parsing.
\<close>

definition flag_name :: "string \<Rightarrow> bool" where
  "flag_name n \<longleftrightarrow> n \<noteq> [] \<and> hd n \<noteq> CHR ''-'' \<and> CHR ''='' \<notin> set n"

definition setting :: "string \<times> string \<Rightarrow> string" where
  "setting nv = ''--'' @ fst nv @ ''='' @ snd nv"

lemma flag_name_not_Nil [dest]: "flag_name n \<Longrightarrow> n \<noteq> []"
  by (simp add: flag_name_def)

lemma split_setting_eq: "flag_name n \<Longrightarrow> split_setting (n @ CHR ''='' # v) = (n, Some v)"
proof -
  assume "flag_name n"
  then have "takeWhile (\<lambda>c. c \<noteq> CHR ''='') (n @ CHR ''='' # v) = n"
    by (subst takeWhile_append2) (auto simp: flag_name_def)
  then show ?thesis by (simp add: split_setting_def)
qed

lemma split_setting_bare: "flag_name n \<Longrightarrow> split_setting n = (n, None)"
  by (auto simp: split_setting_def flag_name_def takeWhile_eq_all_conv Let_def)

lemma parse_one_eq: "flag_name n \<Longrightarrow> parse_one frac fs (setting (n, v)) args = set_flag frac fs n (Some v) args"
  using split_setting_eq [of n v]
  by (cases n) (auto simp: parse_one_def setting_def flag_name_def Let_def)

lemma parse_one_bare: "flag_name n \<Longrightarrow> parse_one frac fs (''--'' @ n) args = set_flag frac fs n None args"
  using split_setting_bare [of n]
  by (cases n) (auto simp: parse_one_def flag_name_def Let_def)

lemma parse_setting:
  assumes "flag_name n" "map_of fs n = Some old" "set_value frac old v = Some new"
  shows "parse_args frac fs (setting (n, v) # args) = parse_args frac (put_flag n new fs) args"
    "kind_of old \<noteq> KBool \<Longrightarrow> parse_args frac fs ((''--'' @ n) # v # args) = parse_args frac (put_flag n new fs) args"
  using parse_one_eq [OF assms(1), of frac fs v args] parse_one_bare [OF assms(1), of frac fs "v # args"] assms(2,3)
  by (simp_all add: set_flag_def)

lemma parse_word: "s = [] \<or> hd s \<noteq> CHR ''-'' \<or> s = ''-'' \<Longrightarrow> parse_args frac fs (s # args) = Inr (fs, s # args)"
  by (auto simp: parse_one_def)

text \<open>A sequence of valid settings gives each flag its last value, and leaves the others at their defaults.\<close>

fun settings_valid :: "frac_product \<Rightarrow> flag_set \<Rightarrow> (string \<times> string) list \<Rightarrow> bool" where
  "settings_valid frac fs [] = True"
| "settings_valid frac fs ((n, v) # ss) =
     (flag_name n \<and> (case map_of fs n of None \<Rightarrow> False | Some old \<Rightarrow> set_value frac old v \<noteq> None)
      \<and> settings_valid frac fs ss)"

definition last_setting :: "(string \<times> string) list \<Rightarrow> string \<Rightarrow> string option" where
  "last_setting ss n = map_of (rev ss) n"

lemma set_value_kind: "kind_of old = kind_of old' \<Longrightarrow> set_value frac old v = set_value frac old' v"
  by (cases old; cases old') simp_all

lemma settings_valid_put:
  assumes "map_of fs n = Some old" "kind_of new = kind_of old"
  shows "settings_valid frac (put_flag n new fs) ss = settings_valid frac fs ss"
proof -
  have "set_value frac new v = set_value frac old v" for v using assms(2) by (rule set_value_kind)
  then show ?thesis
    using assms(1) by (induction ss) (auto simp: map_of_put_flag split: option.splits if_splits)
qed

lemma parse_settings:
  "settings_valid frac fs ss \<Longrightarrow>
   \<exists>fs'. parse_args frac fs (map setting ss) = Inr (fs', []) \<and>
     (\<forall>n old. map_of fs n = Some old \<longrightarrow>
        map_of fs' n = (case last_setting ss n of None \<Rightarrow> Some old | Some v \<Rightarrow> set_value frac old v))"
proof (induction ss arbitrary: fs)
  case Nil
  then show ?case by (simp add: last_setting_def)
next
  case (Cons s ss)
  obtain n v where s: "s = (n, v)" by (cases s)
  from Cons.prems s obtain old new where n: "flag_name n" "map_of fs n = Some old" "set_value frac old v = Some new"
    and valid: "settings_valid frac fs ss" by (auto split: option.splits)
  have kind: "kind_of new = kind_of old" using set_value_typed [OF n(3)] by simp
  from Cons.IH [of "put_flag n new fs"] valid settings_valid_put [OF n(2) kind]
  obtain fs' where fs': "parse_args frac (put_flag n new fs) (map setting ss) = Inr (fs', [])"
    "\<And>m o1. map_of (put_flag n new fs) m = Some o1 \<Longrightarrow>
       map_of fs' m = (case last_setting ss m of None \<Rightarrow> Some o1 | Some v \<Rightarrow> set_value frac o1 v)"
    by auto
  have "map_of fs' m = (case last_setting (s # ss) m of None \<Rightarrow> Some o1 | Some v \<Rightarrow> set_value frac o1 v)"
    if m: "map_of fs m = Some o1" for m o1
  proof (cases "m = n")
    case True
    with m n have "map_of (put_flag n new fs) m = Some new" "o1 = old" by (simp_all add: map_of_put_flag)
    with fs'(2) [of m new] True n(3) set_value_kind [OF kind] s show ?thesis
      by (auto simp: last_setting_def map_add_def split: option.splits)
  next
    case False
    with m have "map_of (put_flag n new fs) m = Some o1" by (simp add: map_of_put_flag)
    with fs'(2) [of m o1] False s show ?thesis by (auto simp: last_setting_def map_add_def split: option.splits)
  qed
  with fs'(1) parse_setting(1) [OF n, of "map setting ss"] s show ?case by auto
qed

end
