(* ===== verification/Cli.thy ===== *)
theory Cli
  imports Commands Go_Flag
begin

text \<open>
  The whole command line of \<open>cmd/shinkiro\<close>: \<open>main\<close> from \<open>os.Args\<close> to the command that runs, with the flag
  sets the commands declare, parsed by the model of the package \<open>flag\<close> in \<open>Go_Flag\<close>, and the usage text.
  \<open>CliEnv\<close> extends the environment of \<open>shinkiro up\<close> by the encoders, the network, the clock and the map orders
  the commands need. A run ends with an output and a status, or hands over to the hub or to the pipeline.
\<close>

section \<open>The usage text\<close>

definition banner_lines :: "string list" where
  "banner_lines =
     [[],
      ''   _____ __    _       __   _             '',
      ''  / ___// /_  (_)___  / /__(_)________  __'',
      ''  '' @ [CHR 0x5C] @ ''__ '' @ [CHR 0x5C] @ ''/ __ '' @ [CHR 0x5C] @ ''/ / __ '' @ [CHR 0x5C] @ ''/ //_/ / ___/ __ '' @ [CHR 0x5C] @ ''/ /'',
      '' ___/ / / / / / / / / ,< / / /  / /_/ / / '',
      ''/____/_/ /_/_/_/ /_/_/|_/_/_/   '' @ [CHR 0x5C] @ ''____/_/  '',
      ''   '' @ [CHR 0xE8, CHR 0x9C, CHR 0x83, CHR 0xE6, CHR 0xB0, CHR 0x97, CHR 0xE6, CHR 0xA5, CHR 0xBC] @ '' '' @ [CHR 0xE2, CHR 0x80, CHR 0x94] @ '' Ephemeral Deception & Attacker Intelligence Mesh'']"

definition usage_lines :: "string list" where
  "usage_lines =
     [[],
      ''USAGE:'',
      ''  shinkiro up [--apply] [--geoip-db PATH]'',
      ''                                  Start decoy listeners; SOAR block_ip dry-run unless --apply'',
      ''  shinkiro tui [--apply] [--geoip-db PATH]'',
      ''                                  Live TUI dashboard (same pipeline / SOAR / GeoIP flags)'',
      ''  shinkiro canary generate        Generate synthetic HMAC-signed AWS/DB honeytokens'',
      ''  shinkiro campaigns              List correlator v2 campaigns (rebuild from events JSONL)'',
      ''  shinkiro threatfox              Query ThreatFox IOCs (--search or --days; needs THREATFOX_API_KEY)'',
      ''  shinkiro abuseipdb              Check IP reputation (--ip; needs ABUSEIPDB_API_KEY)'',
      ''  shinkiro coverage               ATT&CK coverage report from decoy-matrix + optional MapToMitre'',
      ''  shinkiro geoip --ip <addr>      Lookup IP via optional MaxMind GeoLite2 .mmdb (ops test)'',
      ''  shinkiro export blocklist       Export malicious IPs to firewall format'',
      ''  shinkiro stix                   Export threat intelligence in STIX 2.1 JSON bundle'',
      ''  shinkiro ecs                    Export telemetry in Elastic Common Schema (ECS v8.x) format'',
      ''  shinkiro cef                    Export telemetry in ArcSight Common Event Format (CEF)'',
      ''  shinkiro syslog                 Export telemetry as RFC5424 Syslog stream'',
      ''  shinkiro cluster hub            Start hub-and-spoke HTTP cluster hub (not gossip/mesh)'',
      ''  shinkiro kernel [rules]         Generate kernel-level XDP/eBPF / nftables drop rules'',
      ''  shinkiro simulate               Execute red-team adversarial probe suite against decoys'',
      ''  shinkiro version                Display engine version'',
      [],
      ''OPTIONS:'',
      ''  --apply                         Live-execute SOAR block_ip firewall commands (default: dry-run)'',
      ''  --geoip-db <path>               MaxMind GeoLite2/GeoIP2 .mmdb for up/tui/geoip (overrides ce)'',
      ''  --config <path>                 Path to configuration YAML (default: config.yaml)'',
      ''  --format <iptables|nftables|cidr> Firewall syntax (default: iptables)'',
      ''  --threshold <score>             Minimum threat score to trigger mitigation (default: 80)'',
      ''  --port <n>                      cluster hub listen port (default: 9090)'',
      ''  --token <secret>                cluster hub shared secret (overrides SHINKIRO_CLUSTER_TOKEN)'',
      ''  --tls-cert <path>               optional hub TLS certificate (with --tls-key)'',
      ''  --tls-key <path>                optional hub TLS private key (with --tls-cert)'',
      [],
      ''ENV:'',
      ''  SHINKIRO_SOAR_APPLY=1           Same as --apply (live firewall exec / webhook POST)'',
      ''  SHINKIRO_SOAR_BLOCK_FORMAT      nftables (default) | iptables | cidr'',
      ''  SHINKIRO_SOAR_BLOCK_WEBHOOK     Optional URL for block_ip JSON POST when applying'',
      ''  SHINKIRO_PCAP_THRESHOLD         On-demand PCAP score gate (default: 80)'',
      ''  SHINKIRO_PCAP_DIR               On-demand PCAP directory (default: data/pcap)'',
      ''  SHINKIRO_WEBHOOK_URL            Slack/Discord alert webhook for critical events'',
      ''  SHINKIRO_GEOLITE2_PATH          Optional path to GeoLite2/GeoIP2 .mmdb (City/Country/ASN)'',
      ''  SHINKIRO_CLUSTER_TOKEN          Shared secret for cluster join/ingest (empty = lab-only insecure)'',
      ''  THREATFOX_API_KEY               ThreatFox Auth-Key (https://auth.abuse.ch/) for threatfox CLI'',
      ''  ABUSEIPDB_API_KEY               AbuseIPDB API key for abuseipdb CLI'']"

definition usage_text :: string where
  "usage_text = concat (map (\<lambda>l. l @ nl) (banner_lines @ usage_lines))"

section \<open>The declared flags\<close>

definition export_flags :: flag_set where
  "export_flags = [(''format'', FString ''iptables''), (''threshold'', FInt 80)]"

definition kernel_flags :: flag_set where
  "kernel_flags = [(''driver'', FString ''nftables''), (''iface'', FString ''eth0'')]"

definition hub_flag_set :: flag_set where
  "hub_flag_set =
     [(''port'', FInt 9090), (''token'', FString []), (''tls-cert'', FString []), (''tls-key'', FString [])]"

definition simulate_flags :: flag_set where
  "simulate_flags = [(''host'', FString ''127.0.0.1'')]"

definition canary_flags :: flag_set where
  "canary_flags = [(''label'', FString ''canary-prod-seed'')]"

definition campaigns_flags :: flag_set where
  "campaigns_flags =
     [(''format'', FString ''table''), (''events'', FString []), (''window'', FDuration (2 * hour))]"

definition threatfox_flags :: flag_set where
  "threatfox_flags = [(''search'', FString []), (''days'', FInt 0), (''format'', FString ''table'')]"

definition abuseipdb_flags :: flag_set where
  "abuseipdb_flags = [(''ip'', FString []), (''max-age'', FInt 90), (''format'', FString ''table'')]"

definition coverage_flags :: flag_set where
  "coverage_flags = [(''format'', FString ''table''), (''runtime-mapper'', FBool False)]"

definition geoip_flags :: flag_set where
  "geoip_flags = [(''ip'', FString []), (''geoip-db'', FString []), (''format'', FString ''table'')]"

lemmas flag_set_defs =
  export_flags_def kernel_flags_def hub_flag_set_def simulate_flags_def canary_flags_def campaigns_flags_def
  threatfox_flags_def abuseipdb_flags_def coverage_flags_def geoip_flags_def

definition declared_flags :: "flag_set list" where
  "declared_flags =
     [export_flags, kernel_flags, hub_flag_set, simulate_flags, canary_flags, campaigns_flags, threatfox_flags,
      abuseipdb_flags, coverage_flags, geoip_flags]"

section \<open>Commands from their arguments\<close>

record CliEnv = UpEnv +
  ce_bus :: UpConfig
  ce_unmarshal :: "string \<Rightarrow> Event option"
  ce_stix :: "STIXBundle \<Rightarrow> string option"
  ce_ecs :: "ECSEvent list \<Rightarrow> string option"
  ce_campaigns :: "Campaign list \<Rightarrow> string + string"
  ce_iocs :: "ThreatFoxIOC list \<Rightarrow> string"
  ce_check :: "AbuseIPDBCheckData \<Rightarrow> string"
  ce_coverage :: "CoverageReport \<Rightarrow> string option"
  ce_geo_json :: "json \<Rightarrow> string + string"
  ce_canary :: "CanaryToken \<Rightarrow> string option"
  ce_feeds :: FeedEnv
  ce_net :: SimNet
  ce_frac :: frac_product
  ce_now :: time
  ce_created :: time
  ce_ks :: "string list"
  ce_ips :: "string list"
  ce_version :: "string \<times> string \<times> string"

datatype cli_run =
    Ran "HttpRequest option" CliResult
  | Rejected flag_error
  | Serving Hub "http_server \<times> serve_mode" string
  | Pipeline "string + Running"

definition with_flags :: "CliEnv \<Rightarrow> flag_set \<Rightarrow> string list \<Rightarrow> (flag_set \<Rightarrow> cli_run) \<Rightarrow> cli_run" where
  "with_flags ce decl args body =
     (case parse_args (ce_frac ce) decl args of Inl e \<Rightarrow> Rejected e | Inr (fs, _) \<Rightarrow> body fs)"

definition export_main :: "CliEnv \<Rightarrow> string list \<Rightarrow> cli_run" where
  "export_main ce args =
     with_flags ce export_flags args (\<lambda>fs. Ran None (runExport (ue_getenv ce) (ue_mkdir ce) (ue_fs ce)
       (flag_string fs ''format'') (flag_int fs ''threshold'') (ce_ks ce)))"

definition kernel_main :: "CliEnv \<Rightarrow> string list \<Rightarrow> cli_run" where
  "kernel_main ce args =
     with_flags ce kernel_flags args (\<lambda>fs. Ran None (runEBPF (ue_mkdir ce) (ue_fs ce)
       (flag_string fs ''driver'') (flag_string fs ''iface'') (ce_ks ce) (ce_ips ce)))"

definition hub_main :: "CliEnv \<Rightarrow> string list \<Rightarrow> cli_run" where
  "hub_main ce args =
     with_flags ce hub_flag_set args (\<lambda>fs.
       case runClusterHub (ue_getenv ce ''SHINKIRO_CLUSTER_TOKEN'') (flag_int fs ''port'') (flag_string fs ''token'')
              (flag_string fs ''tls-cert'') (flag_string fs ''tls-key'') of
         (hub, server, banner) \<Rightarrow> Serving hub server banner)"

definition cluster_main :: "CliEnv \<Rightarrow> string list \<Rightarrow> cli_run" where
  "cluster_main ce args =
     (case runCluster args of HubWith rest \<Rightarrow> hub_main ce rest | ClusterUsage text \<Rightarrow> Ran None (fails_err text))"

definition simulate_main :: "CliEnv \<Rightarrow> string list \<Rightarrow> cli_run" where
  "simulate_main ce args =
     with_flags ce simulate_flags args (\<lambda>fs. Ran None (prints (runSimulate (ce_net ce) (flag_string fs ''host''))))"

definition canary_main :: "CliEnv \<Rightarrow> string list \<Rightarrow> cli_run" where
  "canary_main ce args =
     (let args = (case args of a # as \<Rightarrow> if a = ''generate'' then as else args | [] \<Rightarrow> args)
      in with_flags ce canary_flags args (\<lambda>fs.
           Ran None (runCanary (ce_canary ce) (ce_now ce) (ce_created ce) (flag_string fs ''label''))))"

definition campaigns_main :: "CliEnv \<Rightarrow> string list \<Rightarrow> cli_run" where
  "campaigns_main ce args =
     with_flags ce campaigns_flags args (\<lambda>fs. Ran None (runCampaigns (ue_yaml ce) (ue_mkdir ce) (ue_fs ce)
       (ce_unmarshal ce) (ce_campaigns ce) (flag_string fs ''format'') (flag_string fs ''events'')
       (flag_duration fs ''window'') (ce_ks ce)))"

definition threatfox_main :: "CliEnv \<Rightarrow> string list \<Rightarrow> cli_run" where
  "threatfox_main ce args =
     with_flags ce threatfox_flags args (\<lambda>fs. case runThreatFox (ce_feeds ce) (ce_iocs ce)
       (flag_string fs ''search'') (flag_int fs ''days'') (flag_string fs ''format'') of (req, res) \<Rightarrow> Ran req res)"

definition abuseipdb_main :: "CliEnv \<Rightarrow> string list \<Rightarrow> cli_run" where
  "abuseipdb_main ce args =
     with_flags ce abuseipdb_flags args (\<lambda>fs. case runAbuseIPDB (ce_feeds ce) (ce_check ce)
       (flag_string fs ''ip'') (flag_int fs ''max-age'') (flag_string fs ''format'') of (req, res) \<Rightarrow> Ran req res)"

definition coverage_main :: "CliEnv \<Rightarrow> string list \<Rightarrow> cli_run" where
  "coverage_main ce args =
     with_flags ce coverage_flags args (\<lambda>fs. Ran None
       (runCoverage (ce_coverage ce) (flag_string fs ''format'') (flag_bool fs ''runtime-mapper'')))"

definition geoip_main :: "CliEnv \<Rightarrow> string list \<Rightarrow> cli_run" where
  "geoip_main ce args =
     with_flags ce geoip_flags args (\<lambda>fs. Ran None (runGeoIP (ue_getenv ce) (ue_geo ce) (ce_geo_json ce)
       (flag_string fs ''ip'') (flag_string fs ''geoip-db'') (flag_string fs ''format'')))"

definition version_line :: "string \<times> string \<times> string \<Rightarrow> string" where
  "version_line = (\<lambda>(version, commit, date).
     ''Shinkiro '' @ version @ '' (commit='' @ commit @ '' date='' @ date @ '') '' @ [CHR 0xE2, CHR 0x80, CHR 0x94]
     @ '' High-Interaction Deception Engine (Haiagari Security)'' @ nl)"

definition main :: "CliEnv \<Rightarrow> string list \<Rightarrow> cli_run" where
  "main ce args =
     (case command_of args of
        (CmdUp ui, rest) \<Rightarrow> Pipeline (runUp (UpEnv.truncate ce) (ce_bus ce) ui rest)
      | (CmdCanary, rest) \<Rightarrow> canary_main ce rest
      | (CmdExport, rest) \<Rightarrow> export_main ce rest
      | (CmdSTIX, rest) \<Rightarrow> Ran None (runSTIX (ce_stix ce) (ce_unmarshal ce) (ue_fs ce) (ce_now ce))
      | (CmdECS, rest) \<Rightarrow> Ran None (runECS (ue_yaml ce) (ue_mkdir ce) (ue_fs ce) (ce_unmarshal ce) (ce_ecs ce))
      | (CmdCEF, rest) \<Rightarrow> Ran None (runCEF (ue_yaml ce) (ue_mkdir ce) (ue_fs ce) (ce_unmarshal ce))
      | (CmdSyslog, rest) \<Rightarrow> Ran None (runSyslog (ue_yaml ce) (ue_mkdir ce) (ue_fs ce) (ce_unmarshal ce))
      | (CmdCluster, rest) \<Rightarrow> cluster_main ce rest
      | (CmdKernel, rest) \<Rightarrow> kernel_main ce rest
      | (CmdSimulate, rest) \<Rightarrow> simulate_main ce rest
      | (CmdCampaigns, rest) \<Rightarrow> campaigns_main ce rest
      | (CmdThreatFox, rest) \<Rightarrow> threatfox_main ce rest
      | (CmdAbuseIPDB, rest) \<Rightarrow> abuseipdb_main ce rest
      | (CmdCoverage, rest) \<Rightarrow> coverage_main ce rest
      | (CmdGeoIP, rest) \<Rightarrow> geoip_main ce rest
      | (CmdVersion, rest) \<Rightarrow> Ran None (prints (version_line (ce_version ce)))
      | (CmdUsage None, rest) \<Rightarrow> Ran None (fails_out usage_text)
      | (CmdUsage (Some cmd), rest) \<Rightarrow>
          Ran None \<lparr>StdOut = usage_text, StdErr = ''unknown command: '' @ cmd @ nl @ nl, ExitCode = 1\<rparr>)"

lemmas main_defs =
  export_main_def kernel_main_def hub_main_def cluster_main_def simulate_main_def canary_main_def campaigns_main_def
  threatfox_main_def abuseipdb_main_def coverage_main_def geoip_main_def

section \<open>The usage text and the dispatch\<close>

definition usage_words :: "string list" where
  "usage_words =
     map (\<lambda>l. takeWhile (\<lambda>c. c \<noteq> CHR '' '') (drop 11 l)) (filter (\<lambda>l. has_prefix l ''  shinkiro '') usage_lines)"

lemma usage_words_eq:
  "usage_words =
     [''up'', ''tui'', ''canary'', ''campaigns'', ''threatfox'', ''abuseipdb'', ''coverage'', ''geoip'', ''export'',
      ''stix'', ''ecs'', ''cef'', ''syslog'', ''cluster'', ''kernel'', ''simulate'', ''version'']"
  by code_simp

text \<open>
  The usage lists every command of the dispatch, each once, and no word the dispatch does not know.
\<close>

theorem usage_lists_commands:
  "map (\<lambda>w. fst (command_of [w])) usage_words =
     [CmdUp False, CmdUp True, CmdCanary, CmdCampaigns, CmdThreatFox, CmdAbuseIPDB, CmdCoverage, CmdGeoIP, CmdExport,
      CmdSTIX, CmdECS, CmdCEF, CmdSyslog, CmdCluster, CmdKernel, CmdSimulate, CmdVersion]
   \<and> set (map (\<lambda>w. fst (command_of [w])) usage_words) = - range CmdUsage"
proof -
  have 1: "map (\<lambda>w. fst (command_of [w])) usage_words =
     [CmdUp False, CmdUp True, CmdCanary, CmdCampaigns, CmdThreatFox, CmdAbuseIPDB, CmdCoverage, CmdGeoIP, CmdExport,
      CmdSTIX, CmdECS, CmdCEF, CmdSyslog, CmdCluster, CmdKernel, CmdSimulate, CmdVersion]"
    by (simp add: usage_words_eq command_of_def)
  have "c \<in> set (map (\<lambda>w. fst (command_of [w])) usage_words) \<longleftrightarrow> c \<in> - range CmdUsage" for c
    unfolding 1 by (cases c) auto
  with 1 show ?thesis by blast
qed

section \<open>What the flags guarantee\<close>

text \<open>The declarations themselves: distinct names, and defaults a variable of their type can hold.\<close>

lemma declared_ok: "list_all (\<lambda>decl. typed_like decl decl \<and> distinct (map fst decl)) declared_flags"
  by (simp add: declared_flags_def flag_set_defs typed_like_def hour_def second_def)


text \<open>
  The words the usage puts behind a command. \<open>generate\<close> and \<open>hub\<close> are taken off before the flags are read;
  \<open>blocklist\<close> and \<open>rules\<close> are not, they end the parsing, and the command runs with its defaults
  whatever follows them.
\<close>

theorem subcommand_words:
  "main ce ([''export'', ''blocklist''] @ args) = main ce [''export'']
   \<and> main ce ([''kernel'', ''rules''] @ args) = main ce [''kernel'']
   \<and> main ce (''canary'' # ''generate'' # ''--label'' # l # args) = main ce (''canary'' # ''--label'' # l # args)
   \<and> main ce (''cluster'' # ''hub'' # ''--port'' # p # args) = main ce (''cluster'' # ''--port'' # p # args)"
  by (simp add: main_def command_of_def main_defs with_flags_def parse_word runCluster_def del: parse_args.simps(2))

text \<open>The variables of the hub command after valid settings: the last value given, or the default.\<close>

lemma hub_main_settings:
  assumes "settings_valid (ce_frac ce) hub_flag_set ss"
  obtains fs where "parse_args (ce_frac ce) hub_flag_set (map setting ss) = Inr (fs, [])"
    "flag_string fs ''token'' = (case last_setting ss ''token'' of None \<Rightarrow> [] | Some t \<Rightarrow> t)"
    "Some (flag_int fs ''port'') = (case last_setting ss ''port'' of None \<Rightarrow> Some 9090 | Some p \<Rightarrow> parse_int p)"
proof -
  from parse_settings [OF assms] obtain fs where fs: "parse_args (ce_frac ce) hub_flag_set (map setting ss) = Inr (fs, [])"
    and vals: "\<And>n old. map_of hub_flag_set n = Some old \<Longrightarrow>
      map_of fs n = (case last_setting ss n of None \<Rightarrow> Some old | Some v \<Rightarrow> set_value (ce_frac ce) old v)" by blast
  have typed: "typed_like hub_flag_set fs"
    using parse_args_typed [OF _ _ fs, of hub_flag_set] declared_ok by (simp add: declared_flags_def)
  have "map_of fs ''token'' = Some (FString (case last_setting ss ''token'' of None \<Rightarrow> [] | Some t \<Rightarrow> t))"
    using vals [of "''token''" "FString []"] by (simp add: hub_flag_set_def split: option.splits)
  moreover have "map_of fs ''port'' = (case last_setting ss ''port'' of None \<Rightarrow> Some (FInt 9090) | Some v \<Rightarrow> map_option FInt (parse_int v))"
    using vals [of "''port''" "FInt 9090"] by (simp add: hub_flag_set_def split: option.splits)
  moreover have "map_of fs ''port'' \<noteq> None"
    using typed by (auto simp: typed_like_def hub_flag_set_def map_of_eq_None_iff)
  ultimately show ?thesis
    using fs that by (force simp: flag_getters split: option.splits)
qed

text \<open>
  C11: A hub started with a secret is closed to everyone without it. For any valid settings of
  \<open>shinkiro cluster hub\<close>, in any order and with repetitions, whose last \<open>--token\<close> is not blank: the command
  parses them, listens on the last port given (9090 if none), enforces that token without its surrounding white
  space whatever the environment variable says, and every request to a protected route with another token gets
  status 401 and leaves the hub as it was.
\<close>

theorem hub_command_secures:
  assumes "settings_valid (ce_frac ce) hub_flag_set ss" "last_setting ss ''token'' = Some t" "trim_space t \<noteq> []"
  shows "\<exists>hub server banner. main ce (''cluster'' # ''hub'' # map setting ss) = Serving hub server banner
     \<and> Some (ServerAddr (fst server)) =
         map_option (\<lambda>p. '':'' @ dec p) (case last_setting ss ''port'' of None \<Rightarrow> Some 9090 | Some p \<Rightarrow> parse_int p)
     \<and> Token (HubCfg hub) = trim_space t
     \<and> (\<forall>codec now r. Path r \<in> set protected_paths \<and> extractToken r \<noteq> trim_space t \<longrightarrow>
          fst (HubHandler codec now hub r) = hub \<and> StatusCode (snd (HubHandler codec now hub r)) = 401)"
proof -
  from hub_main_settings [OF assms(1)] obtain fs where fs:
    "parse_args (ce_frac ce) hub_flag_set (map setting ss) = Inr (fs, [])" "flag_string fs ''token'' = t"
    "Some (flag_int fs ''port'') = (case last_setting ss ''port'' of None \<Rightarrow> Some 9090 | Some p \<Rightarrow> parse_int p)"
    using assms(2) by auto
  obtain hub server banner where run: "runClusterHub (ue_getenv ce ''SHINKIRO_CLUSTER_TOKEN'') (flag_int fs ''port'')
      (flag_string fs ''token'') (flag_string fs ''tls-cert'') (flag_string fs ''tls-key'') = (hub, server, banner)"
    using prod_cases3 by blast
  have main: "main ce (''cluster'' # ''hub'' # map setting ss) = Serving hub server banner"
    using fs(1) run by (simp add: main_def command_of_def cluster_main_def runCluster_def hub_main_def with_flags_def)
  have tok: "Token (HubCfg hub) = trim_space t"
    using run fs(2) assms(3) by (auto simp: runClusterHub_def hub_flags_def Let_def)
  have addr: "ServerAddr (fst server) = '':'' @ dec (flag_int fs ''port'')"
    using run by (auto simp: runClusterHub_def StartHTTP_def Let_def)
  have refused: "fst (HubHandler codec now hub r) = hub \<and> StatusCode (snd (HubHandler codec now hub r)) = 401"
    if "Path r \<in> set protected_paths" "extractToken r \<noteq> trim_space t" for codec now r
    using that tok assms(3)
    by (auto simp: HubHandler_def RequireToken_def protected_paths_def path_defs writeJSONError_def Let_def)
  show ?thesis using main tok addr refused fs(3) [symmetric] by auto
qed

definition demo_cli :: CliEnv where
  "demo_cli =
     UpEnv.extend demo_up (CliEnv.fields demo_cfg (\<lambda>_. None) (\<lambda>_. None) (\<lambda>_. None) (\<lambda>_. Inr []) (\<lambda>_. []) (\<lambda>_. [])
       (\<lambda>_. None) (\<lambda>_. Inr []) (\<lambda>_. None)
       \<lparr>fe_getenv = (\<lambda>_. []),
        fe_codec = \<lparr>tf_marshal = (\<lambda>_. Inr []), decode_envelope = (\<lambda>_. Inl []), decode_list = (\<lambda>_. Inr []),
                    decode_one = (\<lambda>_. Inl [])\<rparr>,
        fe_check_url = (\<lambda>_. None), fe_send = (\<lambda>_. NoReply ''refused''), fe_quote = (\<lambda>s. s),
        fe_decode = (\<lambda>_. Inl []), fe_parse_url = (\<lambda>_. Inl [])\<rparr>
       \<lparr>dial = (\<lambda>_. Some ''refused''), send = (\<lambda>_ _. None), receive = (\<lambda>_ _. ([], ReadEOF)), http_get = (\<lambda>_. BadURL [])\<rparr>
       (\<lambda>_ _ _. 0) 5 5 [] [] (''dev'', ''none'', ''unknown''))"

definition demo_hub_settings :: "(string \<times> string) list" where
  "demo_hub_settings = [(''token'', ''old''), (''port'', ''0x24E3''), (''token'', ''s3cret'')]"

theorem hub_command_secures_witness:
  "\<exists>hub server banner. main demo_cli [''cluster'', ''hub'', ''--token=old'', ''--port=0x24E3'', ''--token=s3cret''] = Serving hub server banner
     \<and> ServerAddr (fst server) = '':9443'' \<and> Token (HubCfg hub) = ''s3cret''"
proof -
  have t: "trim_space ''s3cret'' = ''s3cret''" by (rule trim_space_graphic; simp add: graphic_def)
  have p: "parse_int ''0x24E3'' = Some 9443"
    by (simp add: parse_int_def parse_uint_def base_prefix_def digit_value_def)
  have "map char_of [57, 52, 51 :: nat] = ''943''" by code_simp
  then have d: "dec 9443 = ''9443''" by (simp add: dec_def dec_nat.simps digit_def)
  have args: "map setting demo_hub_settings = [''--token=old'', ''--port=0x24E3'', ''--token=s3cret'']"
    by (simp add: demo_hub_settings_def setting_def)
  have v: "settings_valid (ce_frac demo_cli) hub_flag_set demo_hub_settings"
    using p by (simp add: demo_hub_settings_def hub_flag_set_def flag_name_def)
  have l: "last_setting demo_hub_settings ''token'' = Some ''s3cret''" "last_setting demo_hub_settings ''port'' = Some ''0x24E3''"
    by (simp_all add: demo_hub_settings_def last_setting_def)
  have "trim_space ''s3cret'' \<noteq> []" by (simp add: t)
  from hub_command_secures [OF v l(1) this] obtain hub server banner where
    "main demo_cli (''cluster'' # ''hub'' # map setting demo_hub_settings) = Serving hub server banner"
    "Some (ServerAddr (fst server)) = Some ('':'' @ dec 9443)" "Token (HubCfg hub) = ''s3cret''"
    unfolding l(2) t option.case p option.map by blast
  then show ?thesis unfolding args d by auto
qed

end
