(* ===== verification/Session.thy ===== *)
theory Session
  imports Cli
begin

text \<open>
  The life of \<open>shinkiro up\<close> and \<open>tui\<close> around the pipeline (\<open>cmd/shinkiro/up.go\<close>): what is printed before the
  start, the address of the metrics server, the console lines the stage handlers print for each event, and
  what the end does to multiplexer, capture hook and GeoIP reader. A console line is a value; \<open>console_text\<close>
  renders it. The lines of the block applier are its \<open>LogLine\<close> effects.
\<close>

section \<open>Around the pipeline\<close>

definition globe :: string where "globe = [CHR 0xF0, CHR 0x9F, CHR 0x8C, CHR 0x90]"

definition up_opening :: "bool \<Rightarrow> Resolver \<Rightarrow> string" where
  "up_opening interactiveUI geo =
     (if \<not> interactiveUI then concat (map (\<lambda>l. l @ nl) banner_lines) else [])
     @ concat (map (\<lambda>msg. globe @ ''  '' @ msg @ nl) (geo_log geo))"

definition metrics_server :: "Config \<Rightarrow> string option" where
  "metrics_server cfg = (if MetricsPort cfg > 0 then Some ('':'' @ dec (MetricsPort cfg)) else None)"

text \<open>
  The end: the multiplexer stops, then the deferred calls close the capture hook and the GeoIP reader. The
  goroutine of the bus is told to stop and not waited for.
\<close>

definition up_stop :: "Running \<Rightarrow> World \<Rightarrow> Running" where
  "up_stop r w =
     r\<lparr>RunMux := Stop (RunMux r),
       RunBus := (RunBus r)\<lparr>geo_resolver := CloseGeo (geo_resolver (RunBus r))\<rparr>,
       RunWorld := w\<lparr>pcap := ClosePcap (pcap w)\<rparr>\<rparr>"

definition up_closing :: string where
  "up_closing =
     nl @ [CHR 0xF0, CHR 0x9F, CHR 0x9B, CHR 0x91] @ '' Gracefully stopping Shinkiro honeynet...'' @ nl
     @ [CHR 0xE2, CHR 0x9C, CHR 0x85] @ '' Shutdown complete.'' @ nl"

section \<open>The console\<close>

datatype console_line =
    ApplierLine string | SoarLine string | CaptureError string | CaptureLine int int string | ProbeLine Event

definition dash_if_empty :: "string option \<Rightarrow> string" where
  "dash_if_empty v = (case v of None \<Rightarrow> ''-'' | Some s \<Rightarrow> if s = [] then ''-'' else s)"

fun console_text :: "console_line \<Rightarrow> string" where
  "console_text (ApplierLine msg) = msg @ nl"
| "console_text (SoarLine act) =
     [CHR 0xF0, CHR 0x9F, CHR 0x9B, CHR 0xA1, CHR 0xEF, CHR 0xB8, CHR 0x8F] @ ''  [SOAR] '' @ act @ nl"
| "console_text (CaptureError err) =
     [CHR 0xE2, CHR 0x9A, CHR 0xA0, CHR 0xEF, CHR 0xB8, CHR 0x8F] @ ''  [PCAP] on-demand capture error: '' @ err @ nl"
| "console_text (CaptureLine score limit path) =
     [CHR 0xF0, CHR 0x9F, CHR 0x93, CHR 0xA6] @ '' [PCAP] high-score ('' @ dec score
     @ [CHR 0xE2, CHR 0x89, CHR 0xA5] @ dec limit @ '') capture '' @ arrow_text @ '' '' @ path @ nl"
| "console_text (ProbeLine ev) =
     [CHR 0xF0, CHR 0x9F, CHR 0x9A, CHR 0xA8] @ '' ['' @ Severity ev @ ''] '' @ pad_right 8 (DecoyName ev)
     @ '' probe from '' @ RemoteIP ev @ '' ['' @ dash_if_empty (Metadata ev ''geo_country'') @ ''/''
     @ dash_if_empty (Metadata ev ''geo_asn'') @ ''] on port '' @ dec (LocalPort ev) @ '' -> '' @ Action ev
     @ '' (Threat: '' @ dec (ThreatScore ev) @ '')'' @ nl"

definition applier_lines :: "effect list \<Rightarrow> console_line list" where
  "applier_lines es = List.map_filter (\<lambda>e. case e of LogLine msg \<Rightarrow> Some (ApplierLine msg) | _ \<Rightarrow> None) es"

definition playbook_lines :: "UpConfig \<Rightarrow> World \<Rightarrow> Event \<Rightarrow> console_line list" where
  "playbook_lines cfg w ev =
     (let (_, a, actions) = SoarProcess (soar w) (soar_now (step_env cfg (tick w))) ev (applier w)
      in applier_lines (drop (length (effects (applier w))) (effects a)) @ map SoarLine actions)"

definition sink_lines :: "UpConfig \<Rightarrow> World \<Rightarrow> Event \<Rightarrow> console_line list" where
  "sink_lines cfg w ev =
     (let env = step_env cfg (tick w) in
      case MaybeCapture (pcap_env env) (marshal_frame cfg) (pcap_now env) ev (pcap w) (capture_files w) of
        Panicked \<Rightarrow> []
      | Returned (oc, fs, res, err) \<Rightarrow>
          (let ev = (if err = None \<and> Triggered res
                     then ev\<lparr>Metadata := (Metadata ev)(''pcap_path'' \<mapsto> TriggerPath res)\<rparr> else ev)
           in (case err of
                 Some e \<Rightarrow> [CaptureError e]
               | None \<Rightarrow> if Triggered res then [CaptureLine (Score res) (TriggerThreshold res) (TriggerPath res)] else [])
              @ (if snd (Persist (marshal_event cfg) (append_out env) (engine w) ev) \<or> interactive cfg then []
                 else [ProbeLine ev])))"

text \<open>All lines of one event; the sink sees the engine the correlate stage left, and the same hook and clock.\<close>

definition step_lines :: "UpConfig \<Rightarrow> World \<Rightarrow> Event \<Rightarrow> console_line list" where
  "step_lines cfg w ev = playbook_lines cfg w (enriched cfg ev) @ sink_lines cfg w (enriched cfg ev)"

fun transcript :: "UpConfig \<Rightarrow> World \<Rightarrow> Event list \<Rightarrow> console_line list" where
  "transcript cfg w [] = []"
| "transcript cfg w (ev # evs) = step_lines cfg w ev @ transcript cfg (up_step cfg w ev) evs"

definition up_console :: "UpConfig \<Rightarrow> World \<Rightarrow> selection list \<Rightarrow> string" where
  "up_console cfg w sels = concat (map console_text (transcript cfg w (received sels)))"

section \<open>The console and the log\<close>

text \<open>The probes a transcript shows.\<close>

definition shown :: "console_line list \<Rightarrow> Event list" where
  "shown ls = List.map_filter (\<lambda>l. case l of ProbeLine ev \<Rightarrow> Some ev | _ \<Rightarrow> None) ls"

lemma shown_simps [simp]:
  "shown [] = []" "shown (xs @ ys) = shown xs @ shown ys"
  "shown (ProbeLine ev # ls) = ev # shown ls" "shown (CaptureError e # ls) = shown ls"
  "shown (CaptureLine a b p # ls) = shown ls"
  by (simp_all add: shown_def map_filter_def)

lemma shown_playbook [simp]: "shown (playbook_lines cfg w ev) = []"
  by (auto simp: playbook_lines_def shown_def map_filter_def applier_lines_def filter_empty_conv
      split: prod.splits effect.splits)

definition clean_append :: "append_outcome \<Rightarrow> bool" where
  "clean_append out \<longleftrightarrow> out = AppendOk \<or> out = OpenError \<or> out = WriteError 0"

definition log_line :: "UpConfig \<Rightarrow> Event \<Rightarrow> string" where
  "log_line cfg ev = (case marshal_event cfg ev of None \<Rightarrow> [] | Some data \<Rightarrow> data @ nl)"

lemma Persist_clean:
  assumes "clean_append out"
  shows "log_text (fst (Persist marshal out e ev)) =
     log_text e @ (if snd (Persist marshal out e ev) then [] else the (marshal ev) @ nl)"
    and "\<not> snd (Persist marshal out e ev) \<Longrightarrow> marshal ev \<noteq> None"
  using assms
  by (auto simp: clean_append_def Persist_def persistLocked_def log_text_def Let_def
      split: option.splits append_outcome.splits)

lemma sink_log:
  assumes "clean_append (append_out (step_env cfg (tick w)))" "\<not> interactive cfg"
  shows "log_text (engine (fst (sink_handler cfg w ev))) =
     log_text (engine w) @ concat (map (log_line cfg) (shown (sink_lines cfg w ev)))"
proof -
  let ?w = "sink_metrics cfg ev (w\<lparr>tick := Suc (tick w)\<rparr>)" and ?env = "step_env cfg (tick w)"
  show ?thesis
  proof (cases "MaybeCapture (pcap_env ?env) (marshal_frame cfg) (pcap_now ?env) ev (pcap w) (capture_files w)")
    case Panicked
    then show ?thesis by (simp add: sink_handler_def sink_lines_def Let_def)
  next
    case (Returned out)
    then obtain oc fs res err where cap: "MaybeCapture (pcap_env ?env) (marshal_frame cfg) (pcap_now ?env) ev (pcap w)
        (capture_files w) = Returned (oc, fs, res, err)" by (cases out) auto
    define ev' where "ev' = (if err = None \<and> Triggered res
       then ev\<lparr>Metadata := (Metadata ev)(''pcap_path'' \<mapsto> TriggerPath res)\<rparr> else ev)"
    obtain e failed where p: "Persist (marshal_event cfg) (append_out ?env) (engine w) ev' = (e, failed)"
      by (cases "Persist (marshal_event cfg) (append_out ?env) (engine w) ev'")
    have "engine (fst (sink_handler cfg w ev)) = e"
      unfolding sink_handler_def Let_def using cap p by (simp add: ev'_def)
    moreover have "shown (sink_lines cfg w ev) = (if failed then [] else [ev'])"
      unfolding sink_lines_def Let_def cap using p assms(2) by (auto simp: ev'_def split: option.splits)
    ultimately show ?thesis
      using Persist_clean [OF assms(1), of "marshal_event cfg" "engine w" ev'] p
      by (cases failed) (auto simp: log_line_def)
  qed
qed

lemma step_log:
  assumes "clean_append (append_out (step_env cfg (tick w)))" "\<not> interactive cfg"
  shows "log_text (engine (up_step cfg w ev)) =
     log_text (engine w) @ concat (map (log_line cfg) (shown (step_lines cfg w ev)))"
proof -
  let ?e = "enriched cfg ev"
  obtain s a out where so: "SoarProcess (soar w) (soar_now (step_env cfg (tick w))) ?e (applier w) = (s, a, out)"
    by (cases "SoarProcess (soar w) (soar_now (step_env cfg (tick w))) ?e (applier w)") auto
  let ?w = "w\<lparr>engine := (engine w)\<lparr>EngCorrelator := fst (Ingest (EngCorrelator (engine w)) ?e)\<rparr>, soar := s, applier := a\<rparr>"
  have persist: "snd (Persist m o1 (e\<lparr>EngCorrelator := c\<rparr>) x) = snd (Persist m o1 e x)" for m o1 e c x
    by (simp add: Persist_def persistLocked_def Let_def split: option.splits append_outcome.splits)
  have lines: "sink_lines cfg ?w ?e = sink_lines cfg w ?e"
    by (simp add: sink_lines_def persist Let_def split: outcome.split)
  have "log_text (engine ?w) = log_text (engine w)" by (simp add: log_text_def)
  with sink_log [of cfg ?w ?e] assms lines show ?thesis
    by (simp add: up_step_sink so step_lines_def Let_def)
qed

text \<open>
  C17: What the operator sees is what is on disk. In a session of \<open>shinkiro up\<close> in which some appends to the
  audit log may fail without writing anything, whatever the captures, playbooks and databases do, the log
  grows by exactly the lines of the events shown as probes on the console, in the order shown; an event whose
  append failed is not shown.
\<close>

theorem console_matches_log:
  assumes "fresh_world w" "\<not> interactive cfg" "\<forall>k. clean_append (append_out (step_env cfg k))"
  shows "log_text (engine (RunChannel (up_bus cfg) sels w)) =
     log_text (engine w) @ concat (map (log_line cfg) (shown (transcript cfg w (received sels))))"
proof -
  have "log_text (engine (foldl (up_step cfg) w evs)) =
      log_text (engine w) @ concat (map (log_line cfg) (shown (transcript cfg w evs)))" for evs
    using assms(2,3) step_log by (induction evs arbitrary: w) simp_all
  then show ?thesis unfolding RunChannel_received .
qed

section \<open>After the end\<close>

text \<open>
  An event the bus still processes after the capture hook is closed can kill the process: if its address was
  captured before and its score reaches the threshold, the sink dereferences the closed file. The order of
  the deferred calls makes this possible, since nobody waits for the goroutine of the bus.
\<close>

theorem late_event_panics:
  assumes "paths (pcap w) (capture_key ev) \<noteq> None" "threshold (pcap w) \<le> ThreatScore ev"
    and "mkdir_err (pcap_env (step_env (RunBus r) (tick w))) = None"
    and "\<forall>e. marshal_frame (RunBus r) e False \<noteq> None"
  shows "panicked (up_step (RunBus (up_stop r w)) (RunWorld (up_stop r w)) ev)"
proof -
  let ?cfg = "RunBus (up_stop r w)" and ?w = "RunWorld (up_stop r w)"
  let ?e = "enriched ?cfg ev"
  obtain s a out where so: "SoarProcess (soar ?w) (soar_now (step_env ?cfg (tick ?w))) ?e (applier ?w) = (s, a, out)"
    by (cases "SoarProcess (soar ?w) (soar_now (step_env ?cfg (tick ?w))) ?e (applier ?w)") auto
  have key: "capture_key ?e = capture_key ev" by (simp add: capture_key_def)
  have cap: "MaybeCapture (pcap_env (step_env (RunBus r) (tick w))) (marshal_frame (RunBus r)) now ?e
      (ClosePcap (pcap w)) fs = Panicked" for now fs
    using assms key by (intro closed_hook_panics) simp_all
  show ?thesis
    using so cap by (simp add: up_step_sink up_stop_def sink_handler_def Let_def)
qed

section \<open>Witnesses\<close>

text \<open>A disk that fails on every second append, and two probes.\<close>

definition flaky_bus :: UpConfig where
  "flaky_bus = demo_cfg\<lparr>step_env := (\<lambda>k. (step_env demo_cfg k)\<lparr>append_out := (if even k then AppendOk else OpenError)\<rparr>)\<rparr>"

theorem console_matches_log_witness:
  "log_text (engine (RunChannel (up_bus flaky_bus) [Received hot_event, Received hot_event, CtxDone]
      (init_world flaky_bus [] ApplyDryRun FormatNFTables [] 80 ''d''))) =
   concat (map (log_line flaky_bus) (shown (transcript flaky_bus
      (init_world flaky_bus [] ApplyDryRun FormatNFTables [] 80 ''d'') [hot_event, hot_event])))"
proof -
  let ?w = "init_world flaky_bus [] ApplyDryRun FormatNFTables [] 80 ''d''"
  have "fresh_world ?w" by (rule fresh_init_world)
  moreover have "\<not> interactive flaky_bus" "\<forall>k. clean_append (append_out (step_env flaky_bus k))"
    by (simp_all add: flaky_bus_def demo_cfg_def clean_append_def)
  moreover have "log_text (engine ?w) = []" by (simp add: init_world_def NewIntelEngine_def log_text_def)
  ultimately show ?thesis
    using console_matches_log [of ?w flaky_bus "[Received hot_event, Received hot_event, CtxDone]"] by simp
qed

theorem late_event_panics_witness:
  "\<exists>r. runUp demo_up demo_cfg False [] = Inr r \<and>
     (let w = (RunWorld r)\<lparr>pcap := (NewOnDemandCapture 80 ''d'')\<lparr>paths := [capture_key hot_event \<mapsto> ''d/f'']\<rparr>\<rparr>
      in panicked (up_step (RunBus (up_stop r w)) (RunWorld (up_stop r w)) hot_event))"
proof -
  obtain r where r: "runUp demo_up demo_cfg False [] = Inr r" using demo_up_starts by blast
  have bus: "step_env (RunBus r) = step_env demo_cfg" "marshal_frame (RunBus r) = marshal_frame demo_cfg"
    by (rule runUp_running [OF r]; simp)+
  let ?w = "(RunWorld r)\<lparr>pcap := (NewOnDemandCapture 80 ''d'')\<lparr>paths := [capture_key hot_event \<mapsto> ''d/f'']\<rparr>\<rparr>"
  have "panicked (up_step (RunBus (up_stop r ?w)) (RunWorld (up_stop r ?w)) hot_event)"
    by (rule late_event_panics) (simp_all add: bus demo_cfg_def ok_env_def NewOnDemandCapture_def hot_event_def)
  with r show ?thesis unfolding Let_def by blast
qed

end
