(* ===== verification/Spec2Isabelle.thy ===== *)
theory Spec2Isabelle
  imports Replay Session
begin

text \<open>
  Shinkiro: a verification library for the deception honeynet of this repository.

  \<^bold>\<open>The program.\<close> Fifteen protocol decoys (\<open>internal/decoys\<close>) listen behind a multiplexer (\<open>internal/core\<close>). A
  handler answers its client and sends telemetry events to one bounded channel. A bus (\<open>internal/pipeline\<close>)
  takes each event through four stages, wired in \<open>cmd/shinkiro/up.go\<close>: score (ATT&CK mapping and GeoIP),
  correlate (campaigns), playbook (rules that may block an address) and sink (metrics, alert webhook,
  packet capture, the store with its JSONL log, the dashboard). Sensors can forward events to a hub
  (\<open>internal/cluster\<close>). Other commands read the log again: campaigns, SIEM exports, firewall exports, and a
  simulator attacks a running mesh.

  \<^bold>\<open>Theories and sources.\<close> A definition carries the name of the Go function, type or constant it models.

  \<^item> Prelude: \<open>Go_Base\<close> (bytes, 64-bit wrap-around, time, decimal and hexadecimal text), \<open>Go_Strings\<close>
    (\<open>strings\<close>, \<open>strconv\<close>, \<open>net.SplitHostPort\<close>), \<open>Go_Collections\<close> (map order, \<open>sort.SliceStable\<close>, padding,
    durations), \<open>Go_Time\<close> (formats), \<open>Go_Hash\<close> (SHA-256, HMAC), \<open>Go_Url\<close> (query strings), \<open>Net_IP\<close>
    (\<open>net.ParseIP\<close>), \<open>Json\<close> (values handed to the encoder), \<open>Go_Flag\<close> (\<open>flag\<close>, with \<open>strconv.ParseInt\<close>
    and \<open>time.ParseDuration\<close>).
  \<^item> Events: \<open>Intel_Event\<close> (\<open>intel/event.go\<close>, \<open>mitre.go\<close>).
  \<^item> Decoys: \<open>Decoy_Iface\<close> (the contract, a locale), \<open>Decoys_Text\<close> (redis, smtp, telnet), \<open>Decoys_Binary\<close>
    (modbus, mqtt, postgres, mongo, smb, dns), \<open>Decoys_Http\<close> (docker, http, k8s, elastic, aws), \<open>Ssh_Shell\<close> and
    \<open>Ssh_Decoy\<close>; \<open>Decoy_Props\<close> has the results about single protocols.
  \<^item> Mesh: \<open>Channel\<close> (a bounded channel), \<open>Multiplexer\<close> (\<open>core/multiplexer.go\<close>, \<open>config/config.go\<close>): start and
    stop as functions, the goroutines as a step relation.
  \<^item> Intelligence: \<open>Correlator\<close>, \<open>Intel_Engine\<close> (store and log), \<open>Geoip\<close>, \<open>Feeds\<close> (ThreatFox and AbuseIPDB
    clients), \<open>Coverage\<close>, \<open>Siem\<close> (CEF, syslog), \<open>Ecs\<close>, \<open>Indicators\<close> (STIX, ThreatFox feed).
  \<^item> Response: \<open>Pipeline\<close>, \<open>Soar\<close> (\<open>soar/playbook.go\<close>), \<open>Block_Applier\<close> (\<open>soar/apply.go\<close>, \<open>defense\<close>),
    \<open>Kernel_Filter\<close> (\<open>ebpf\<close>), \<open>Pcap\<close>, \<open>Metrics\<close>, \<open>Webhook\<close>, \<open>Canary\<close>, \<open>Hub\<close> (\<open>cluster/node.go\<close>, \<open>agent.go\<close>).
  \<^item> Assembly: \<open>Up\<close> (the stage handlers over one \<open>World\<close>), \<open>Startup\<close> (\<open>runUp\<close>: arguments, assembly, report),
    \<open>Simulator\<close>, \<open>Tui\<close> (dashboard), \<open>Commands\<close> (the other subcommands), \<open>Cli\<close> (\<open>main\<close>: dispatch, flag sets,
    usage), \<open>Session\<close> (console and end of a session), \<open>Replay\<close> (commands against the log of a session).

  \<^bold>\<open>State.\<close> A struct is a record, an enumeration or a set of messages a datatype; methods are functions from
  state to state and result. A Go map is a partial map; where the code ranges over one, the order is an
  argument and results hold for every order. Slices that are only appended are lists. Errors are \<open>Some\<close> text
  or \<open>Inl\<close>; a panic is a value of its own (\<open>outcome\<close>, \<open>Panic\<close>, \<open>panicked\<close>), never undefined. 64-bit counters
  wrap (\<open>wrap64\<close>, \<open>64 word\<close>). Times are nanoseconds since the epoch as integers.

  \<^bold>\<open>What is outside.\<close> The network, the file system, clocks, the HTTP stack, \<open>encoding/json\<close>, YAML, the MaxMind
  reader, \<open>golang.org/x/crypto/ssh\<close>, Bubble Tea and Lip Gloss are arguments of the definitions (records
  such as \<open>BlockEnv\<close>, \<open>PcapEnv\<close>, \<open>GeoEnv\<close>, \<open>StepEnv\<close>, \<open>UpEnv\<close>, \<open>CliEnv\<close>, \<open>FeedEnv\<close>, \<open>TuiEnv\<close>, \<open>agent_env\<close>) that
  answer each request, failures included. Theorems quantify over them; where one needs a law (the JSON
  codec brings back an event, the request parser reads a GET) it is a named hypothesis
  (\<open>json_faithful\<close>, \<open>loggable\<close>, \<open>sendable\<close>, \<open>parses_gets\<close>) with a concrete instance in the witness.

  \<^bold>\<open>Interfaces.\<close> Locales: \<open>decoy\<close> (no panic, every event well formed; interpreted fifteen times), \<open>mesh\<close> (its
  client), \<open>bounded_queue\<close> (the channel), \<open>sort_less\<close> (stable sorting; campaigns and events), \<open>bus_contract\<close>
  (what handlers keep, the bus keeps; the assembled pipeline), \<open>metadata_blind\<close> (exports that read the log as
  if it were the session; CEF and syslog).

  \<^bold>\<open>Results.\<close> Safety and liveness of the mesh (no panic, bounded channel, every event from its connection;
  shutdown drains and ends). Exact accounting of the pipeline, and no firewall command unless it was
  asked for, from the arguments on. Refinement of the correlator to sessions, of rate limits to windows
  over the whole past, of the hub to a bounded queue. Round trips of captures, the log, CEF records,
  query strings, firewall scripts, MQTT lengths. What the commands print against the session that wrote
  the log, and what the console shows against what is logged. The command line: typed flags, and a hub
  that is closed whenever its settings end in a token; sensors and hub together lose and invent nothing. Invariants of the shell and the dashboard. Exact behaviour of single decoys on whole sessions.

  \<^bold>\<open>Bounds and termination.\<close> No definition runs on fuel. Parsers and handlers recurse on the input, so all of
  them are total; loops over sockets recurse on what the client sends. The mesh has no bound on connections
  (nor has the code); \<open>work\<close> bounds the steps after a stop. Buffer sizes, truncations and limits are those of
  the source.

  \<^bold>\<open>Not modelled.\<close> Data races: each method that holds its mutex is one step; the campaign pointers the
  dashboard reads without a lock are values here. Terminal styles, the metrics server's socket, signals, and
  the listing of flags that the \<open>flag\<close> package prints after a rejected command line (the rejection and its
  status are modelled). The splitting of a log into lines is on bytes; the
  code goes through runes, which differs only on invalid UTF-8, where the JSON decoder makes the same
  replacement. The floating-point product in a fractional \<open>--window\<close> is a parameter (\<open>frac_product\<close>).
\<close>

section \<open>The report and the honeynet\<close>


end
